(* ===== verification/Prelude.thy ===== *)
theory Prelude
  imports Main
begin

section \<open>Prelude: effectful programs, strings and tables\<close>

text \<open>
  Shared vocabulary of the development.

  \<^item> A Python coroutine that may raise and that changes state is a function from the state to
    the pair of its outcome (\<open>Inl\<close> the exception, \<open>Inr\<close> the value) and the new state. The state
    survives an exception, as it does in the source: only the unit of work undoes anything.
  \<^item> The locale \<open>state_preorder\<close> is the interface of every "all the code only ever moves the
    state along R" argument. An invariant, a frame condition, the purchase life cycle and
    "is a sequence of atomic steps" are four instances of it.
  \<^item> Strings are \<open>char list\<close>: one \<open>char\<close> is one code point of the Latin-1 range.
  \<^item> A database table is the list of its rows.
\<close>

named_theorems prog_simps \<open>evaluation of the program combinators\<close>

subsection \<open>Programs with state and exceptions\<close>

type_synonym ('e, 's, 'a) prog = "'s \<Rightarrow> ('e + 'a) \<times> 's"

definition ret :: "'a \<Rightarrow> ('e, 's, 'a) prog" where
  "ret x = (\<lambda>s. (Inr x, s))"

definition throw :: "'e \<Rightarrow> ('e, 's, 'a) prog" where
  "throw e = (\<lambda>s. (Inl e, s))"

definition bindM :: "('e, 's, 'a) prog \<Rightarrow> ('a \<Rightarrow> ('e, 's, 'b) prog) \<Rightarrow> ('e, 's, 'b) prog" where
  "bindM m f = (\<lambda>s. case m s of (r, s') \<Rightarrow> (case r of Inl e \<Rightarrow> (Inl e, s') | Inr x \<Rightarrow> f x s'))"

definition thenM :: "('e, 's, 'a) prog \<Rightarrow> ('e, 's, 'b) prog \<Rightarrow> ('e, 's, 'b) prog" where
  "thenM m k = bindM m (\<lambda>_. k)"

definition getsM :: "('s \<Rightarrow> 'a) \<Rightarrow> ('e, 's, 'a) prog" where
  "getsM f = (\<lambda>s. (Inr (f s), s))"

definition modifyM :: "('s \<Rightarrow> 's) \<Rightarrow> ('e, 's, unit) prog" where
  "modifyM f = (\<lambda>s. (Inr (), f s))"

definition catchM :: "('e, 's, 'a) prog \<Rightarrow> ('e \<Rightarrow> ('e, 's, 'a) prog option) \<Rightarrow> ('e, 's, 'a) prog" where
  \<comment> \<open>\<open>try: m except ...\<close>: the handler answers \<open>None\<close> for an exception it does not catch.\<close>
  "catchM m h = (\<lambda>s. case m s of (r, s') \<Rightarrow>
     (case r of
        Inl e \<Rightarrow> (case h e of None \<Rightarrow> (Inl e, s') | Some k \<Rightarrow> k s')
      | Inr x \<Rightarrow> (Inr x, s')))"

definition finallyM :: "('e, 's, 'a) prog \<Rightarrow> ('e, 's, unit) prog \<Rightarrow> ('e, 's, 'a) prog" where
  \<comment> \<open>\<open>try: m finally: k\<close>: an exception of \<open>k\<close> replaces the outcome of \<open>m\<close>.\<close>
  "finallyM m k = (\<lambda>s. case m s of (r, s') \<Rightarrow>
     (case k s' of (r', s'') \<Rightarrow> (case r' of Inl e \<Rightarrow> (Inl e, s'') | Inr _ \<Rightarrow> (r, s''))))"

definition whenM :: "bool \<Rightarrow> ('e, 's, unit) prog \<Rightarrow> ('e, 's, unit) prog" where
  "whenM b m = (if b then m else ret ())"

definition liftE :: "'e + 'a \<Rightarrow> ('e, 's, 'a) prog" where
  \<comment> \<open>A pure Python function that may raise, called from a coroutine.\<close>
  "liftE r = (\<lambda>s. (r, s))"

lemma ret_run [simp, prog_simps]: "ret x s = (Inr x, s)"
  by (simp add: ret_def)

lemma throw_run [simp, prog_simps]: "throw e s = (Inl e, s)"
  by (simp add: throw_def)

lemma getsM_run [simp, prog_simps]: "getsM f s = (Inr (f s), s)"
  by (simp add: getsM_def)

lemma modifyM_run [simp, prog_simps]: "modifyM f s = (Inr (), f s)"
  by (simp add: modifyM_def)

lemma liftE_run [simp, prog_simps]: "liftE r s = (r, s)"
  by (simp add: liftE_def)

lemma bindM_run [prog_simps]:
  "bindM m f s = (case m s of (Inl e, s') \<Rightarrow> (Inl e, s') | (Inr x, s') \<Rightarrow> f x s')"
  by (simp add: bindM_def split: prod.split)

lemma thenM_run [prog_simps]:
  "thenM m k s = (case m s of (Inl e, s') \<Rightarrow> (Inl e, s') | (Inr x, s') \<Rightarrow> k s')"
  by (simp add: thenM_def bindM_run)

lemma catchM_run [prog_simps]:
  "catchM m h s = (case m s of
      (Inl e, s') \<Rightarrow> (case h e of None \<Rightarrow> (Inl e, s') | Some k \<Rightarrow> k s')
    | (Inr x, s') \<Rightarrow> (Inr x, s'))"
  by (simp add: catchM_def split: prod.split)

lemma finallyM_run [prog_simps]:
  "finallyM m k s = (case m s of (r, s') \<Rightarrow>
     (case k s' of (Inl e, s'') \<Rightarrow> (Inl e, s'') | (Inr _, s'') \<Rightarrow> (r, s'')))"
  by (simp add: finallyM_def split: prod.split)

lemma whenM_run [prog_simps]: "whenM b m s = (if b then m s else (Inr (), s))"
  by (simp add: whenM_def)

lemma thenM_ret_snd [simp]: "snd (thenM m (ret x) d) = snd (m d)"
  by (simp add: thenM_run split: prod.split sum.split)

lemma bindM_ret [simp]: "bindM (ret x) f = f x"
  by (simp add: fun_eq_iff bindM_run)

lemma bindM_assoc: "bindM (bindM m f) g = bindM m (\<lambda>x. bindM (f x) g)"
  by (simp add: fun_eq_iff bindM_run split: prod.split sum.split)

subsection \<open>Moving the state along a preorder\<close>

definition along :: "('s \<Rightarrow> 's \<Rightarrow> bool) \<Rightarrow> ('e, 's, 'a) prog \<Rightarrow> bool" where
  "along R m \<longleftrightarrow> (\<forall>s. R s (snd (m s)))"

lemma alongI: "(\<And>s. R s (snd (m s))) \<Longrightarrow> along R m"
  by (simp add: along_def)

lemma alongD: "along R m \<Longrightarrow> R s (snd (m s))"
  by (simp add: along_def)

lemma alongD_eq: "along R m \<Longrightarrow> m s = (r, s') \<Longrightarrow> R s s'"
  by (metis alongD snd_conv)

lemma along_mono: "along R m \<Longrightarrow> (\<And>s t. R s t \<Longrightarrow> Q s t) \<Longrightarrow> along Q m"
  by (simp add: along_def)

locale state_preorder =
  fixes R :: "'s \<Rightarrow> 's \<Rightarrow> bool"
  assumes R_refl: "R s s"
    and R_trans: "R s t \<Longrightarrow> R t u \<Longrightarrow> R s u"
begin

lemma along_ret: "along R (ret x)"
  by (simp add: along_def R_refl)

lemma along_throw: "along R (throw e)"
  by (simp add: along_def R_refl)

lemma along_getsM: "along R (getsM f)"
  by (simp add: along_def R_refl)

lemma along_liftE: "along R (liftE r)"
  by (simp add: along_def R_refl)

lemma along_modifyM: "(\<And>s. R s (f s)) \<Longrightarrow> along R (modifyM f)"
  by (simp add: along_def)

lemma along_bindM:
  assumes "along R m" and "\<And>x. along R (f x)"
  shows "along R (bindM m f)"
proof (rule alongI)
  fix s
  obtain r s' where m: "m s = (r, s')" by (cases "m s")
  have "R s s'" using assms(1) m by (rule alongD_eq)
  moreover have "R s' (snd (f x s'))" for x using assms(2) by (rule alongD)
  ultimately show "R s (snd (bindM m f s))"
    using m by (auto simp: bindM_run split: sum.split intro: R_trans)
qed

lemma along_thenM: "along R m \<Longrightarrow> along R k \<Longrightarrow> along R (thenM m k)"
  unfolding thenM_def by (rule along_bindM)

lemma along_catchM:
  assumes "along R m" and "\<And>e k. h e = Some k \<Longrightarrow> along R k"
  shows "along R (catchM m h)"
proof (rule alongI)
  fix s
  obtain r s' where m: "m s = (r, s')" by (cases "m s")
  have "R s s'" using assms(1) m by (rule alongD_eq)
  moreover have "R s' (snd (k s'))" if "h e = Some k" for e k
    using assms(2) [OF that] by (rule alongD)
  ultimately show "R s (snd (catchM m h s))"
    using m by (auto simp: catchM_run split: sum.split option.split intro: R_trans)
qed

lemma along_finallyM:
  assumes "along R m" and "along R k"
  shows "along R (finallyM m k)"
proof (rule alongI)
  fix s
  obtain r s' where m: "m s = (r, s')" by (cases "m s")
  obtain r' s'' where k: "k s' = (r', s'')" by (cases "k s'")
  have "R s s'" using assms(1) m by (rule alongD_eq)
  moreover have "R s' s''" using assms(2) k by (rule alongD_eq)
  ultimately show "R s (snd (finallyM m k s))"
    using m k by (auto simp: finallyM_run split: sum.split intro: R_trans)
qed

lemma along_whenM: "along R m \<Longrightarrow> along R (whenM b m)"
  by (simp add: whenM_def along_ret)

lemma along_if: "along R m \<Longrightarrow> along R k \<Longrightarrow> along R (if b then m else k)"
  by simp

lemma along_case_option:
  "along R m \<Longrightarrow> (\<And>x. along R (f x)) \<Longrightarrow> along R (case x of None \<Rightarrow> m | Some y \<Rightarrow> f y)"
  by (simp split: option.split)

lemma along_case_sum:
  "(\<And>x. along R (f x)) \<Longrightarrow> (\<And>y. along R (g y)) \<Longrightarrow> along R (case r of Inl x \<Rightarrow> f x | Inr y \<Rightarrow> g y)"
  by (simp split: sum.split)

lemma along_case_prod:
  "(\<And>x y. along R (f x y)) \<Longrightarrow> along R (case p of (x, y) \<Rightarrow> f x y)"
  by (simp split: prod.split)

lemma along_Let: "(\<And>x. along R (f x)) \<Longrightarrow> along R (Let x f)"
  by simp

lemmas along_rules =
  along_ret along_throw along_getsM along_liftE along_bindM along_thenM along_finallyM
  along_whenM along_if along_case_option along_case_sum along_case_prod along_Let

end

text \<open>The instances every theory uses: equality of a view (frames) and keeping a predicate.\<close>

interpretation frame: state_preorder "\<lambda>s t. f s = f t" for f :: "'s \<Rightarrow> 'v"
  by unfold_locales auto

interpretation keeps: state_preorder "\<lambda>s t. I s \<longrightarrow> I t" for I :: "'s \<Rightarrow> bool"
  by unfold_locales auto

subsection \<open>Tables\<close>

text \<open>A query without ORDER BY over a table that is the list of its rows.\<close>

definition update_rows :: "('r \<Rightarrow> bool) \<Rightarrow> ('r \<Rightarrow> 'r) \<Rightarrow> 'r list \<Rightarrow> 'r list" where
  \<comment> \<open>UPDATE ... SET ... WHERE\<close>
  "update_rows P f rows = map (\<lambda>r. if P r then f r else r) rows"

lemma update_rows_simps [simp]:
  "update_rows P f [] = []"
  "update_rows P f (r # rows) = (if P r then f r else r) # update_rows P f rows"
  by (simp_all add: update_rows_def)

lemma length_update_rows [simp]: "length (update_rows P f rows) = length rows"
  by (simp add: update_rows_def)

lemma in_update_rows:
  "r \<in> set (update_rows P f rows) \<longleftrightarrow> (\<exists>q\<in>set rows. r = (if P q then f q else q))"
  by (auto simp: update_rows_def)

lemma map_update_rows [simp]:
  "(\<And>r. g (f r) = g r) \<Longrightarrow> map g (update_rows P f rows) = map g rows"
  by (simp add: update_rows_def)

lemma find_eq_Some_iff:
  "distinct (map k rows) \<Longrightarrow>
     List.find (\<lambda>r. k r = x) rows = Some r \<longleftrightarrow> r \<in> set rows \<and> k r = x"
proof (induction rows)
  case (Cons a rows)
  then show ?case by (auto simp: image_iff)
qed simp

lemma find_SomeD: "List.find P rows = Some r \<Longrightarrow> r \<in> set rows \<and> P r"
  by (induction rows) (auto split: if_splits)

lemma find_NoneD: "List.find P rows = None \<Longrightarrow> r \<in> set rows \<Longrightarrow> \<not> P r"
  by (induction rows) (auto split: if_splits)

lemma find_append:
  "List.find P (xs @ ys) = (case List.find P xs of None \<Rightarrow> List.find P ys | Some x \<Rightarrow> Some x)"
  by (induction xs) auto

end
