(* ===== verification/PyValues.thy ===== *)
theory PyValues
  imports Prelude Complex_Main "HOL-Library.Word"
begin

section \<open>Python values: strings, decimal numerals, UUIDs, JSON\<close>

text \<open>
  The fragment of the language and its standard library the program uses: \<open>str.strip\<close>,
  \<open>str.lower\<close>, \<open>str.isdigit\<close>, \<open>str.replace\<close> by a single character, \<open>str(int)\<close>, \<open>UUID.hex\<close>,
  \<open>str(UUID)\<close> and parsed JSON. A \<open>char\<close> is a code point below 256; the character classes are
  those of CPython on that range. A UUID is its 128-bit value. Floats and decimals are exact
  rationals.
\<close>

subsection \<open>Characters and strings\<close>

abbreviation ord :: "char \<Rightarrow> nat" where
  "ord c \<equiv> of_char c"

definition py_isspace :: "char \<Rightarrow> bool" where
  "py_isspace c = (let n = ord c in
     (9 \<le> n \<and> n \<le> 13) \<or> (28 \<le> n \<and> n \<le> 32) \<or> n = 133 \<or> n = 160)"

definition py_lstrip :: "string \<Rightarrow> string" where
  "py_lstrip s = dropWhile py_isspace s"

definition py_rstrip :: "string \<Rightarrow> string" where
  "py_rstrip s = rev (dropWhile py_isspace (rev s))"

definition py_strip :: "string \<Rightarrow> string" where
  "py_strip s = py_rstrip (py_lstrip s)"

definition py_lower_char :: "char \<Rightarrow> char" where
  "py_lower_char c = (let n = ord c in
     if (65 \<le> n \<and> n \<le> 90) \<or> (192 \<le> n \<and> n \<le> 222 \<and> n \<noteq> 215) then char_of (n + 32) else c)"

definition py_lower :: "string \<Rightarrow> string" where
  "py_lower s = map py_lower_char s"

definition is_ascii_digit :: "char \<Rightarrow> bool" where
  "is_ascii_digit c = (48 \<le> ord c \<and> ord c \<le> 57)"

definition is_ascii_letter :: "char \<Rightarrow> bool" where
  "is_ascii_letter c = ((65 \<le> ord c \<and> ord c \<le> 90) \<or> (97 \<le> ord c \<and> ord c \<le> 122))"

definition py_isdigit :: "string \<Rightarrow> bool" where
  \<comment> \<open>\<open>str.isdigit\<close>: non-empty, and every character has the Digit property, which the
      superscripts two, three and one (178, 179, 185) have as well.\<close>
  "py_isdigit s = (s \<noteq> [] \<and> list_all (\<lambda>c. is_ascii_digit c \<or> ord c \<in> {178, 179, 185}) s)"

definition replace_char :: "char \<Rightarrow> string \<Rightarrow> string \<Rightarrow> string" where
  \<comment> \<open>\<open>s.replace(c, r)\<close> for a pattern of length one\<close>
  "replace_char c r s = concat (map (\<lambda>x. if x = c then r else [x]) s)"

definition starts_with :: "string \<Rightarrow> string \<Rightarrow> bool" where
  "starts_with p s = (take (length p) s = p)"

lemma replace_char_Nil [simp]: "replace_char c r [] = []"
  by (simp add: replace_char_def)

lemma replace_char_Cons [simp]:
  "replace_char c r (x # s) = (if x = c then r else [x]) @ replace_char c r s"
  by (simp add: replace_char_def)

lemma replace_char_append [simp]:
  "replace_char c r (s @ t) = replace_char c r s @ replace_char c r t"
  by (simp add: replace_char_def)

lemma py_lstrip_idem: "py_lstrip (py_lstrip s) = py_lstrip s"
  by (simp add: py_lstrip_def)

lemma py_rstrip_idem: "py_rstrip (py_rstrip s) = py_rstrip s"
  by (simp add: py_rstrip_def)

lemma dropWhile_id_iff: "dropWhile P s = s \<longleftrightarrow> s = [] \<or> \<not> P (hd s)"
proof (cases s)
  case (Cons x xs)
  have "length (dropWhile P xs) < length s" using Cons by (simp add: le_imp_less_Suc length_dropWhile_le)
  then have "dropWhile P xs \<noteq> s" by auto
  with Cons show ?thesis by auto
qed simp

lemma rev_dropWhile_rev_prefix: "\<exists>t. s = rev (dropWhile P (rev s)) @ t"
  by (metis rev_append rev_rev_ident takeWhile_dropWhile_id)

lemma py_strip_idem: "py_strip (py_strip s) = py_strip s"
proof -
  let ?l = "py_lstrip s"
  obtain t where t: "?l = py_rstrip ?l @ t"
    unfolding py_rstrip_def using rev_dropWhile_rev_prefix by blast
  have "py_lstrip (py_rstrip ?l) = py_rstrip ?l"
  proof (cases "py_rstrip ?l = []")
    case True
    then show ?thesis by (simp add: py_lstrip_def)
  next
    case False
    then have "hd ?l = hd (py_rstrip ?l)" and "?l \<noteq> []"
      using t by (metis hd_append2, force)
    moreover have "\<not> py_isspace (hd ?l)"
      using \<open>?l \<noteq> []\<close> unfolding py_lstrip_def by (metis dropWhile_eq_Nil_conv hd_dropWhile)
    ultimately show ?thesis using False
      unfolding py_lstrip_def [of "py_rstrip ?l"] by (simp add: dropWhile_id_iff)
  qed
  then show ?thesis by (simp add: py_strip_def py_rstrip_idem)
qed

lemma py_lower_length [simp]: "length (py_lower s) = length s"
  by (simp add: py_lower_def)

lemma py_lower_append [simp]: "py_lower (s @ t) = py_lower s @ py_lower t"
  by (simp add: py_lower_def)

subsection \<open>Decimal numerals\<close>

definition digit_char :: "nat \<Rightarrow> char" where
  "digit_char d = char_of (48 + d)"

definition char_digit :: "char \<Rightarrow> nat" where
  "char_digit c = ord c - 48"

fun nat_str :: "nat \<Rightarrow> string" where
  "nat_str n = (if n < 10 then [digit_char n] else nat_str (n div 10) @ [digit_char (n mod 10)])"

declare nat_str.simps [simp del]

definition int_str :: "int \<Rightarrow> string" where
  "int_str i = (if i < 0 then CHR ''-'' # nat_str (nat (- i)) else nat_str (nat i))"

definition str_nat :: "string \<Rightarrow> nat" where
  \<comment> \<open>\<open>int(s)\<close> for a string of ASCII digits\<close>
  "str_nat s = foldl (\<lambda>n c. 10 * n + char_digit c) 0 s"

lemma ord_digit_char [simp]: "d < 10 \<Longrightarrow> ord (digit_char d) = 48 + d"
  by (simp add: digit_char_def)

lemma char_digit_digit_char [simp]: "d < 10 \<Longrightarrow> char_digit (digit_char d) = d"
  by (simp add: char_digit_def)

lemma str_nat_snoc [simp]: "str_nat (s @ [c]) = 10 * str_nat s + char_digit c"
  by (simp add: str_nat_def)

lemma str_nat_nat_str [simp]: "str_nat (nat_str n) = n"
proof (induction n rule: nat_str.induct)
  case (1 n)
  show ?case
  proof (cases "n < 10")
    case True
    then show ?thesis by (simp add: nat_str.simps [of n] str_nat_def)
  next
    case False
    with "1.IH" show ?thesis by (simp add: nat_str.simps [of n])
  qed
qed

lemma nat_str_digits: "c \<in> set (nat_str n) \<Longrightarrow> is_ascii_digit c"
proof (induction n rule: nat_str.induct)
  case (1 n)
  then show ?case
    by (cases "n < 10") (auto simp: nat_str.simps [of n] is_ascii_digit_def)
qed

lemma nat_str_inject [simp]: "nat_str m = nat_str n \<longleftrightarrow> m = n"
  by (metis str_nat_nat_str)

lemma nat_str_nonempty [simp]: "nat_str n \<noteq> []"
  by (simp add: nat_str.simps [of n])

lemma minus_not_digit [simp]: "\<not> is_ascii_digit (CHR ''-'')"
  by (simp add: is_ascii_digit_def)

lemma colon_not_digit [simp]: "\<not> is_ascii_digit (CHR '':'')"
  by (simp add: is_ascii_digit_def)

lemma nat_str_no_minus: "CHR ''-'' \<notin> set (nat_str n)"
  using nat_str_digits minus_not_digit by blast

lemma int_str_inject [simp]: "int_str i = int_str j \<longleftrightarrow> i = j"
proof
  assume eq: "int_str i = int_str j"
  have "nat_str n \<noteq> CHR ''-'' # s" for n s
    using nat_str_no_minus [of n] by (metis list.set_intros(1))
  with eq show "i = j"
    by (auto simp: int_str_def split: if_splits) (metis)+
qed simp

lemma int_str_no_colon: "CHR '':'' \<notin> set (int_str i)"
  by (auto simp: int_str_def dest: nat_str_digits)

text \<open>Two texts joined by a separator the left one never contains determine their parts.\<close>

lemma sep_inject:
  assumes "c \<notin> set s" and "c \<notin> set t"
  shows "s @ c # u = t @ c # v \<longleftrightarrow> s = t \<and> u = v"
  using assms
proof (induction s arbitrary: t)
  case Nil
  then show ?case by (cases t) auto
next
  case (Cons a s)
  then show ?case by (cases t) auto
qed

subsection \<open>UUIDs\<close>

type_synonym uuid = "128 word"

definition hex_char :: "nat \<Rightarrow> char" where
  "hex_char n = char_of (if n < 10 then 48 + n else 87 + n)"

definition nibble :: "uuid \<Rightarrow> nat \<Rightarrow> nat" where
  "nibble u i = unat (take_bit 4 (drop_bit (4 * i) u))"

definition uuid_hex :: "uuid \<Rightarrow> string" where
  "uuid_hex u = map (\<lambda>i. hex_char (nibble u i)) (rev [0..<32])"

definition uuid_str :: "uuid \<Rightarrow> string" where
  "uuid_str u = (let h = uuid_hex u in
     take 8 h @ ''-'' @ take 4 (drop 8 h) @ ''-'' @ take 4 (drop 12 h) @ ''-''
       @ take 4 (drop 16 h) @ ''-'' @ drop 20 h)"

lemma nibble_less: "nibble u i < 16"
proof -
  have "nibble u i = take_bit 4 (unat (drop_bit (4 * i) u))"
    by (simp add: nibble_def unsigned_take_bit_eq)
  then show ?thesis
    using take_bit_nat_less_exp [of 4 "unat (drop_bit (4 * i) u)"] by simp
qed

definition hex_digit :: "char \<Rightarrow> nat" where
  "hex_digit c = (if ord c < 58 then ord c - 48 else ord c - 87)"

lemma hex_digit_hex_char: "n < 16 \<Longrightarrow> hex_digit (hex_char n) = n"
  by (auto simp: hex_char_def hex_digit_def)

lemma hex_char_inject: "m < 16 \<Longrightarrow> n < 16 \<Longrightarrow> hex_char m = hex_char n \<Longrightarrow> m = n"
  by (metis hex_digit_hex_char)

lemma bit_nibble: "i < 128 \<Longrightarrow> bit u i = bit (nibble u (i div 4)) (i mod 4)" for u :: uuid
proof -
  assume "i < 128"
  have "bit (take_bit 4 (drop_bit (4 * (i div 4)) u)) (i mod 4) = bit u i"
    by (simp add: bit_take_bit_iff bit_drop_bit_eq)
  then show ?thesis
    by (simp add: nibble_def bit_unsigned_iff)
qed

lemma uuid_hex_inject [simp]: "uuid_hex u = uuid_hex v \<longleftrightarrow> u = v"
proof
  assume "uuid_hex u = uuid_hex v"
  then have "hex_char (nibble u i) = hex_char (nibble v i)" if "i < 32" for i
    using that by (simp add: uuid_hex_def)
  then have nib: "nibble u i = nibble v i" if "i < 32" for i
    using that by (intro hex_char_inject nibble_less) auto
  show "u = v"
  proof (rule bit_word_eqI)
    fix n assume "n < LENGTH(128)"
    then have n: "n < 128" by simp
    then have "n div 4 < 32" by auto
    with n show "bit u n = bit v n" by (simp add: bit_nibble [of n] nib)
  qed
qed simp

lemma length_uuid_hex [simp]: "length (uuid_hex u) = 32"
  by (simp add: uuid_hex_def)

lemma uuid_str_inject [simp]: "uuid_str u = uuid_str v \<longleftrightarrow> u = v"
proof
  assume eq: "uuid_str u = uuid_str v"
  let ?h = "uuid_hex u" and ?k = "uuid_hex v"
  have "take 8 ?h = take 8 ?k" and "take 4 (drop 8 ?h) = take 4 (drop 8 ?k)"
    and "take 4 (drop 12 ?h) = take 4 (drop 12 ?k)"
    and "take 4 (drop 16 ?h) = take 4 (drop 16 ?k)" and last: "drop 20 ?h = drop 20 ?k"
    using eq by (simp_all add: uuid_str_def Let_def)
  moreover have "x = take 8 x @ take 4 (drop 8 x) @ take 4 (drop 12 x) @ take 4 (drop 16 x)
      @ drop 20 x" for x :: string
  proof -
    have split_at: "drop m x = take 4 (drop m x) @ drop (m + 4) x" for m
      by (metis add.commute append_take_drop_id drop_drop)
    show ?thesis
      using split_at [of 8] split_at [of 12] split_at [of 16] append_take_drop_id [of 8 x] by simp
  qed
  ultimately have "?h = ?k" by metis
  then show "u = v" by simp
qed simp

subsection \<open>JSON and keyword details\<close>

datatype json =
  JNull | JBool bool | JInt int | JStr string | JList "json list" | JObj "(string \<times> json) list"

definition json_get :: "(string \<times> json) list \<Rightarrow> string \<Rightarrow> json" where
  \<comment> \<open>\<open>dict.get(key)\<close>: \<open>None\<close> for a missing key\<close>
  "json_get obj k = (case map_of obj k of None \<Rightarrow> JNull | Some v \<Rightarrow> v)"

end
