(* ===== verification/Exceptions.thy ===== *)
theory Exceptions
  imports PyValues
begin

section \<open>The exception hierarchy\<close>

text \<open>
  \<^verbatim>\<open>backend/app/core/exceptions.py\<close> (and the login endpoint's \<open>TooManyLoginAttemptsError\<close>):
  the class tree, the class attributes \<open>status_code\<close>, \<open>code\<close> and \<open>message\<close> with Python's attribute
  lookup along the method resolution order, and the constructor. The exceptions of Python, of
  SQLAlchemy and of aiogram the program meets are classes outside \<open>AppError\<close>.
\<close>

named_theorems exn_simps \<open>evaluation of exception classes\<close>

datatype exn_class =
  ExceptionC
| AppError
| ServiceUnavailableError
| NotFoundError
| ConflictError
| ValidationError
| ProductNotFoundError
| PurchaseNotFoundError
| UserNotFoundError
| SlugAlreadyExistsError
| DuplicatePurchaseError
| InvalidSlugError
| InvalidPriceError
| LockBusyError
| ProductInactiveError
| ProviderNotSupportedError
| InvalidDeliveryUrlError
| DeliveryError
| DeliveryTransientError
| DeliveryPermanentError
| DeliveryExhaustedError
| AuthenticationError
| InvalidTokenError
| PaymentGatewayError
| InvalidWebhookSignatureError
| TooManyLoginAttemptsError
| ValueError
| RuntimeError
| OSError
| SQLAlchemyError
| RedisError
| IntegrityError
| DataError
| MultipleResultsFound
| TelegramAPIError
| TelegramNetworkError
| TelegramRetryAfter
| TelegramBadRequest
| TelegramForbiddenError
| TelegramServerError

fun base_class :: "exn_class \<Rightarrow> exn_class option" where
  "base_class ExceptionC = None"
| "base_class AppError = Some ExceptionC"
| "base_class ServiceUnavailableError = Some AppError"
| "base_class NotFoundError = Some AppError"
| "base_class ConflictError = Some AppError"
| "base_class ValidationError = Some AppError"
| "base_class ProductNotFoundError = Some NotFoundError"
| "base_class PurchaseNotFoundError = Some NotFoundError"
| "base_class UserNotFoundError = Some NotFoundError"
| "base_class SlugAlreadyExistsError = Some ConflictError"
| "base_class DuplicatePurchaseError = Some ConflictError"
| "base_class InvalidSlugError = Some ValidationError"
| "base_class InvalidPriceError = Some ValidationError"
| "base_class LockBusyError = Some ConflictError"
| "base_class ProductInactiveError = Some ConflictError"
| "base_class ProviderNotSupportedError = Some ValidationError"
| "base_class InvalidDeliveryUrlError = Some ValidationError"
| "base_class DeliveryError = Some AppError"
| "base_class DeliveryTransientError = Some DeliveryError"
| "base_class DeliveryPermanentError = Some DeliveryError"
| "base_class DeliveryExhaustedError = Some DeliveryError"
| "base_class AuthenticationError = Some AppError"
| "base_class InvalidTokenError = Some AppError"
| "base_class PaymentGatewayError = Some AppError"
| "base_class InvalidWebhookSignatureError = Some AppError"
| "base_class TooManyLoginAttemptsError = Some AppError"
| "base_class ValueError = Some ExceptionC"
| "base_class RuntimeError = Some ExceptionC"
| "base_class OSError = Some ExceptionC"
| "base_class SQLAlchemyError = Some ExceptionC"
| "base_class RedisError = Some ExceptionC"
| "base_class IntegrityError = Some SQLAlchemyError"
| "base_class DataError = Some SQLAlchemyError"
| "base_class MultipleResultsFound = Some SQLAlchemyError"
| "base_class TelegramAPIError = Some ExceptionC"
| "base_class TelegramNetworkError = Some TelegramAPIError"
| "base_class TelegramRetryAfter = Some TelegramAPIError"
| "base_class TelegramBadRequest = Some TelegramAPIError"
| "base_class TelegramForbiddenError = Some TelegramAPIError"
| "base_class TelegramServerError = Some TelegramAPIError"

text \<open>Inheritance is a tree of depth three below \<open>Exception\<close>, so looking bases up terminates.\<close>

fun class_depth :: "exn_class \<Rightarrow> nat" where
  "class_depth ExceptionC = 0"
| "class_depth AppError = 1"
| "class_depth ValueError = 1"
| "class_depth RuntimeError = 1"
| "class_depth OSError = 1"
| "class_depth SQLAlchemyError = 1"
| "class_depth RedisError = 1"
| "class_depth TelegramAPIError = 1"
| "class_depth c = (if base_class c = Some AppError then 2 else 3)"

lemma base_class_depth: "base_class c = Some b \<Longrightarrow> class_depth b < class_depth c"
  by (cases c) auto

function mro :: "exn_class \<Rightarrow> exn_class list" where
  "mro c = c # (case base_class c of None \<Rightarrow> [] | Some b \<Rightarrow> mro b)"
  by pat_completeness auto
termination
  by (relation "measure class_depth") (auto intro: base_class_depth)

declare mro.simps [simp del]

definition is_subclass :: "exn_class \<Rightarrow> exn_class \<Rightarrow> bool" where
  "is_subclass c d = (d \<in> set (mro c))"

lemma is_subclass_step:
  "is_subclass c d = (c = d \<or> (case base_class c of None \<Rightarrow> False | Some b \<Rightarrow> is_subclass b d))"
  unfolding is_subclass_def by (subst mro.simps) (auto split: option.split)

text \<open>The subclass relation as a table the simplifier reads off.\<close>

lemma is_subclass_simps [simp, exn_simps]:
  "is_subclass ExceptionC d = (d = ExceptionC)"
  "is_subclass AppError d = (d \<in> {AppError, ExceptionC})"
  "is_subclass ServiceUnavailableError d = (d \<in> {ServiceUnavailableError, AppError, ExceptionC})"
  "is_subclass NotFoundError d = (d \<in> {NotFoundError, AppError, ExceptionC})"
  "is_subclass ConflictError d = (d \<in> {ConflictError, AppError, ExceptionC})"
  "is_subclass ValidationError d = (d \<in> {ValidationError, AppError, ExceptionC})"
  "is_subclass ProductNotFoundError d =
     (d \<in> {ProductNotFoundError, NotFoundError, AppError, ExceptionC})"
  "is_subclass PurchaseNotFoundError d =
     (d \<in> {PurchaseNotFoundError, NotFoundError, AppError, ExceptionC})"
  "is_subclass UserNotFoundError d = (d \<in> {UserNotFoundError, NotFoundError, AppError, ExceptionC})"
  "is_subclass SlugAlreadyExistsError d =
     (d \<in> {SlugAlreadyExistsError, ConflictError, AppError, ExceptionC})"
  "is_subclass DuplicatePurchaseError d =
     (d \<in> {DuplicatePurchaseError, ConflictError, AppError, ExceptionC})"
  "is_subclass InvalidSlugError d = (d \<in> {InvalidSlugError, ValidationError, AppError, ExceptionC})"
  "is_subclass InvalidPriceError d =
     (d \<in> {InvalidPriceError, ValidationError, AppError, ExceptionC})"
  "is_subclass LockBusyError d = (d \<in> {LockBusyError, ConflictError, AppError, ExceptionC})"
  "is_subclass ProductInactiveError d =
     (d \<in> {ProductInactiveError, ConflictError, AppError, ExceptionC})"
  "is_subclass ProviderNotSupportedError d =
     (d \<in> {ProviderNotSupportedError, ValidationError, AppError, ExceptionC})"
  "is_subclass InvalidDeliveryUrlError d =
     (d \<in> {InvalidDeliveryUrlError, ValidationError, AppError, ExceptionC})"
  "is_subclass DeliveryError d = (d \<in> {DeliveryError, AppError, ExceptionC})"
  "is_subclass DeliveryTransientError d =
     (d \<in> {DeliveryTransientError, DeliveryError, AppError, ExceptionC})"
  "is_subclass DeliveryPermanentError d =
     (d \<in> {DeliveryPermanentError, DeliveryError, AppError, ExceptionC})"
  "is_subclass DeliveryExhaustedError d =
     (d \<in> {DeliveryExhaustedError, DeliveryError, AppError, ExceptionC})"
  "is_subclass AuthenticationError d = (d \<in> {AuthenticationError, AppError, ExceptionC})"
  "is_subclass InvalidTokenError d = (d \<in> {InvalidTokenError, AppError, ExceptionC})"
  "is_subclass PaymentGatewayError d = (d \<in> {PaymentGatewayError, AppError, ExceptionC})"
  "is_subclass InvalidWebhookSignatureError d =
     (d \<in> {InvalidWebhookSignatureError, AppError, ExceptionC})"
  "is_subclass TooManyLoginAttemptsError d =
     (d \<in> {TooManyLoginAttemptsError, AppError, ExceptionC})"
  "is_subclass ValueError d = (d \<in> {ValueError, ExceptionC})"
  "is_subclass RuntimeError d = (d \<in> {RuntimeError, ExceptionC})"
  "is_subclass OSError d = (d \<in> {OSError, ExceptionC})"
  "is_subclass SQLAlchemyError d = (d \<in> {SQLAlchemyError, ExceptionC})"
  "is_subclass RedisError d = (d \<in> {RedisError, ExceptionC})"
  "is_subclass IntegrityError d = (d \<in> {IntegrityError, SQLAlchemyError, ExceptionC})"
  "is_subclass DataError d = (d \<in> {DataError, SQLAlchemyError, ExceptionC})"
  "is_subclass MultipleResultsFound d = (d \<in> {MultipleResultsFound, SQLAlchemyError, ExceptionC})"
  "is_subclass TelegramAPIError d = (d \<in> {TelegramAPIError, ExceptionC})"
  "is_subclass TelegramNetworkError d = (d \<in> {TelegramNetworkError, TelegramAPIError, ExceptionC})"
  "is_subclass TelegramRetryAfter d = (d \<in> {TelegramRetryAfter, TelegramAPIError, ExceptionC})"
  "is_subclass TelegramBadRequest d = (d \<in> {TelegramBadRequest, TelegramAPIError, ExceptionC})"
  "is_subclass TelegramForbiddenError d =
     (d \<in> {TelegramForbiddenError, TelegramAPIError, ExceptionC})"
  "is_subclass TelegramServerError d = (d \<in> {TelegramServerError, TelegramAPIError, ExceptionC})"
  by (simp_all add: is_subclass_def mro.simps)

subsection \<open>Class attributes\<close>

fun own_status :: "exn_class \<Rightarrow> nat option" where
  "own_status AppError = Some 500"
| "own_status ServiceUnavailableError = Some 503"
| "own_status NotFoundError = Some 404"
| "own_status ConflictError = Some 409"
| "own_status ValidationError = Some 422"
| "own_status DeliveryError = Some 502"
| "own_status AuthenticationError = Some 401"
| "own_status InvalidTokenError = Some 401"
| "own_status PaymentGatewayError = Some 502"
| "own_status InvalidWebhookSignatureError = Some 401"
| "own_status TooManyLoginAttemptsError = Some 429"
| "own_status _ = None"

fun own_code :: "exn_class \<Rightarrow> string option" where
  "own_code AppError = Some ''internal_error''"
| "own_code ServiceUnavailableError = Some ''service_unavailable''"
| "own_code NotFoundError = Some ''not_found''"
| "own_code ConflictError = Some ''conflict''"
| "own_code ValidationError = Some ''validation_error''"
| "own_code ProductNotFoundError = Some ''product_not_found''"
| "own_code PurchaseNotFoundError = Some ''purchase_not_found''"
| "own_code UserNotFoundError = Some ''user_not_found''"
| "own_code SlugAlreadyExistsError = Some ''slug_already_exists''"
| "own_code DuplicatePurchaseError = Some ''duplicate_purchase''"
| "own_code InvalidSlugError = Some ''invalid_slug''"
| "own_code InvalidPriceError = Some ''invalid_price''"
| "own_code LockBusyError = Some ''lock_busy''"
| "own_code ProductInactiveError = Some ''product_inactive''"
| "own_code ProviderNotSupportedError = Some ''provider_not_supported''"
| "own_code InvalidDeliveryUrlError = Some ''invalid_delivery_url''"
| "own_code DeliveryError = Some ''delivery_failed''"
| "own_code DeliveryTransientError = Some ''delivery_transient_error''"
| "own_code DeliveryPermanentError = Some ''delivery_permanent_error''"
| "own_code DeliveryExhaustedError = Some ''delivery_exhausted''"
| "own_code AuthenticationError = Some ''invalid_credentials''"
| "own_code InvalidTokenError = Some ''invalid_token''"
| "own_code PaymentGatewayError = Some ''payment_gateway_error''"
| "own_code InvalidWebhookSignatureError = Some ''invalid_webhook_signature''"
| "own_code TooManyLoginAttemptsError = Some ''too_many_attempts''"
| "own_code _ = None"

fun own_message :: "exn_class \<Rightarrow> string option" where
  "own_message AppError = Some ''Internal server error''"
| "own_message ServiceUnavailableError = Some ''Service temporarily unavailable''"
| "own_message NotFoundError = Some ''Entity not found''"
| "own_message ConflictError = Some ''Conflicting state''"
| "own_message ValidationError = Some ''Invalid input''"
| "own_message ProductNotFoundError = Some ''Product not found''"
| "own_message PurchaseNotFoundError = Some ''Purchase not found''"
| "own_message UserNotFoundError = Some ''User not found''"
| "own_message SlugAlreadyExistsError = Some ''A product with this slug already exists''"
| "own_message DuplicatePurchaseError =
     Some ''This product has already been purchased by the user''"
| "own_message InvalidSlugError = Some ''Invalid deep-link slug''"
| "own_message InvalidPriceError = Some ''At least one price (Stars or USDT) must be set''"
| "own_message LockBusyError =
     Some ''This operation is already in progress, please try again shortly''"
| "own_message ProductInactiveError = Some ''This product is not available''"
| "own_message ProviderNotSupportedError =
     Some ''This payment method is not available for this product''"
| "own_message InvalidDeliveryUrlError =
     Some ''Delivery URL must start with http:// or https://''"
| "own_message DeliveryError = Some ''Could not deliver the purchase''"
| "own_message DeliveryTransientError = Some ''Temporary delivery failure''"
| "own_message DeliveryPermanentError =
     Some ''The buyer cannot receive messages from the bot''"
| "own_message DeliveryExhaustedError = Some ''Delivery failed after all retries''"
| "own_message AuthenticationError = Some ''Invalid username or password''"
| "own_message InvalidTokenError = Some ''Invalid or expired token''"
| "own_message PaymentGatewayError = Some ''Payment provider is unavailable''"
| "own_message InvalidWebhookSignatureError = Some ''Invalid webhook signature''"
| "own_message TooManyLoginAttemptsError =
     Some ''Too many login attempts, please wait and try again''"
| "own_message _ = None"

definition class_attr :: "(exn_class \<Rightarrow> 'v option) \<Rightarrow> exn_class \<Rightarrow> 'v option" where
  \<comment> \<open>Python's attribute lookup: the first class of the MRO that defines it\<close>
  "class_attr own c = (case List.find (\<lambda>d. own d \<noteq> None) (mro c) of None \<Rightarrow> None | Some d \<Rightarrow> own d)"

lemma class_attr_step:
  "class_attr own c = (case own c of Some v \<Rightarrow> Some v | None \<Rightarrow>
     (case base_class c of None \<Rightarrow> None | Some b \<Rightarrow> class_attr own b))"
  unfolding class_attr_def by (subst mro.simps) (auto split: option.split)

subsection \<open>Exception objects\<close>

record exn =
  exn_cls :: exn_class
  exn_message :: string
  exn_details :: "(string \<times> json) list"
  exn_retry_after :: "rat option"

definition class_message :: "exn_class \<Rightarrow> string" where
  "class_message c = (case class_attr own_message c of Some m \<Rightarrow> m | None \<Rightarrow> [])"

definition app_error :: "exn_class \<Rightarrow> string option \<Rightarrow> (string \<times> json) list \<Rightarrow> exn" where
  \<comment> \<open>\<open>AppError.__init__\<close>: \<open>message or self.message\<close>, so an empty message falls back as well\<close>
  "app_error c message details =
     \<lparr>exn_cls = c,
      exn_message = (case message of
          Some m \<Rightarrow> (if m \<noteq> [] then m else class_message c)
        | None \<Rightarrow> class_message c),
      exn_details = details,
      exn_retry_after = None\<rparr>"

definition transient_error :: "string \<Rightarrow> rat option \<Rightarrow> exn" where
  \<comment> \<open>\<open>DeliveryTransientError.__init__\<close>\<close>
  "transient_error message retry_after =
     (app_error DeliveryTransientError (Some message) [])\<lparr>exn_retry_after := retry_after\<rparr>"

definition err :: "exn_class \<Rightarrow> (string \<times> json) list \<Rightarrow> exn" where
  "err c details = app_error c None details"

definition err_msg :: "exn_class \<Rightarrow> string \<Rightarrow> (string \<times> json) list \<Rightarrow> exn" where
  "err_msg c message details = app_error c (Some message) details"

definition other_exn :: "exn_class \<Rightarrow> string \<Rightarrow> exn" where
  \<comment> \<open>an exception raised by the language or a library, outside \<open>AppError\<close>\<close>
  "other_exn c message =
     \<lparr>exn_cls = c, exn_message = message, exn_details = [], exn_retry_after = None\<rparr>"

definition isinstance :: "exn \<Rightarrow> exn_class \<Rightarrow> bool" where
  "isinstance e c = is_subclass (exn_cls e) c"

text \<open>Every exception object the program handles descends from \<open>Exception\<close>.\<close>

lemma is_subclass_Exception [simp]: "is_subclass c ExceptionC"
  by (cases c) simp_all

lemma isinstance_Exception [simp]: "isinstance e ExceptionC"
  by (simp add: isinstance_def)

definition on_class :: "exn_class list \<Rightarrow> (exn \<Rightarrow> 'h) \<Rightarrow> exn \<Rightarrow> 'h option" where
  \<comment> \<open>one \<open>except (c1, c2, ...) as e\<close> clause\<close>
  "on_class cs h e = (if list_ex (isinstance e) cs then Some (h e) else None)"

definition or_else :: "('e \<Rightarrow> 'h option) \<Rightarrow> ('e \<Rightarrow> 'h option) \<Rightarrow> 'e \<Rightarrow> 'h option" where
  \<comment> \<open>a second clause, tried when the first one does not match\<close>
  "or_else h k e = (case h e of Some r \<Rightarrow> Some r | None \<Rightarrow> k e)"

lemma exn_cls_simps [simp]:
  "exn_cls (app_error c m d) = c"
  "exn_cls (err c d) = c"
  "exn_cls (err_msg c m' d) = c"
  "exn_cls (other_exn c m') = c"
  "exn_cls (transient_error m' r) = DeliveryTransientError"
  by (simp_all add: app_error_def err_def err_msg_def other_exn_def transient_error_def)

lemma exn_details_simps [simp]:
  "exn_details (app_error c m d) = d"
  "exn_details (err c d) = d"
  "exn_details (err_msg c m' d) = d"
  "exn_details (other_exn c m') = []"
  by (simp_all add: app_error_def err_def err_msg_def other_exn_def)

lemma exn_retry_after_simps [simp]:
  "exn_retry_after (transient_error m r) = r"
  "exn_retry_after (err_msg c m d) = None"
  "exn_retry_after (err c d) = None"
  by (simp_all add: transient_error_def err_msg_def app_error_def err_def)

lemma isinstance_simps [simp]:
  "isinstance (app_error c m d) k = is_subclass c k"
  "isinstance (err c d) k = is_subclass c k"
  "isinstance (err_msg c m' d) k = is_subclass c k"
  "isinstance (other_exn c m') k = is_subclass c k"
  "isinstance (transient_error m' r) k = is_subclass DeliveryTransientError k"
  by (simp_all add: isinstance_def del: is_subclass_simps)

lemma on_class_Some [simp]:
  "on_class cs h e = Some k \<longleftrightarrow> list_ex (isinstance e) cs \<and> k = h e"
  by (auto simp: on_class_def)

lemma or_else_Some:
  "or_else h k e = Some r \<longleftrightarrow> h e = Some r \<or> (h e = None \<and> k e = Some r)"
  by (auto simp: or_else_def split: option.split)

subsection \<open>The error table\<close>

definition status_code :: "exn \<Rightarrow> nat" where
  "status_code e = (case class_attr own_status (exn_cls e) of Some n \<Rightarrow> n | None \<Rightarrow> 500)"

definition exn_code :: "exn \<Rightarrow> string" where
  "exn_code e = (case class_attr own_code (exn_cls e) of Some n \<Rightarrow> n | None \<Rightarrow> [])"

lemma class_attr_AppError_defined:
  assumes "own AppError \<noteq> None" and "is_subclass c AppError"
  shows "class_attr own c \<noteq> None"
proof (cases "List.find (\<lambda>d. own d \<noteq> None) (mro c)")
  case None
  have "AppError \<in> set (mro c)" using assms(2) unfolding is_subclass_def .
  from find_NoneD [OF None this] assms(1) show ?thesis by blast
next
  case (Some d)
  have "own d \<noteq> None" using find_SomeD [OF Some] by blast
  with Some show ?thesis by (simp add: class_attr_def)
qed

lemma app_error_message_nonempty:
  assumes "is_subclass c AppError"
  shows "class_message c \<noteq> []"
  using assms
  by (cases c) (simp_all add: class_message_def class_attr_step)

end
