(* ===== verification/Domain.thy ===== *)
theory Domain
  imports Exceptions
begin

section \<open>Domain: enumerations, entities, commands\<close>

text \<open>
  \<^verbatim>\<open>backend/app/domain/\<close>: \<open>enums.py\<close>, \<open>entities.py\<close>, \<open>patch.py\<close>, \<open>commands.py\<close>, \<open>cards.py\<close>,
  \<open>payments.py\<close>, \<open>delivery.py\<close>, \<open>verification.py\<close>. A database row and its entity have the same
  fields (\<open>mappers.py\<close> copies them one by one), so one record stands for both. A \<open>datetime\<close> is
  the number of microseconds since the epoch, in UTC.
\<close>

type_synonym datetime = int

subsection \<open>Enumerations\<close>

datatype currency_t = XTR | USDT

fun currency_value :: "currency_t \<Rightarrow> string" where
  "currency_value XTR = ''XTR''"
| "currency_value USDT = ''USDT''"

datatype payment_provider = STARS | CRYPTO

fun provider_value :: "payment_provider \<Rightarrow> string" where
  "provider_value STARS = ''stars''"
| "provider_value CRYPTO = ''crypto''"

definition provider_currency :: "payment_provider \<Rightarrow> currency_t" where
  "provider_currency p = (if p = STARS then XTR else USDT)"

definition payment_providers :: "payment_provider list" where
  \<comment> \<open>iteration order of the enumeration class\<close>
  "payment_providers = [STARS, CRYPTO]"

datatype purchase_status = PENDING | PAID | DELIVERED | REFUNDED | EXPIRED

fun status_value :: "purchase_status \<Rightarrow> string" where
  "status_value PENDING = ''pending''"
| "status_value PAID = ''paid''"
| "status_value DELIVERED = ''delivered''"
| "status_value REFUNDED = ''refunded''"
| "status_value EXPIRED = ''expired''"

definition access_granting_statuses :: "purchase_status list" where
  "access_granting_statuses = [PAID, DELIVERED]"

definition status_grants_access :: "purchase_status \<Rightarrow> bool" where
  "status_grants_access s = (s \<in> set access_granting_statuses)"

lemma status_grants_access_iff [simp]: "status_grants_access s \<longleftrightarrow> s = PAID \<or> s = DELIVERED"
  by (auto simp: status_grants_access_def access_granting_statuses_def)

lemma in_access_granting_statuses [simp]:
  "s \<in> set access_granting_statuses \<longleftrightarrow> s = PAID \<or> s = DELIVERED"
  by (auto simp: access_granting_statuses_def)

lemma provider_currency_simps [simp]:
  "provider_currency STARS = XTR" "provider_currency CRYPTO = USDT"
  by (simp_all add: provider_currency_def)

lemma provider_value_inject [simp]: "provider_value p = provider_value q \<longleftrightarrow> p = q"
  by (cases p; cases q) simp_all

lemma provider_value_no_colon: "CHR '':'' \<notin> set (provider_value p)"
  by (cases p) simp_all

subsection \<open>Entities\<close>

record product =
  pr_id :: uuid
  pr_slug :: string
  pr_title :: string
  pr_description :: string
  pr_photo_file_id :: "string option"
  pr_delivery_url :: string
  pr_price_stars :: "int option"
  pr_price_usdt :: "rat option"
  pr_is_active :: bool
  pr_created_at :: datetime
  pr_updated_at :: datetime

record user =
  us_telegram_id :: int
  us_username :: "string option"
  us_first_name :: "string option"
  us_language_code :: "string option"
  us_created_at :: datetime
  us_last_seen_at :: datetime

record purchase =
  pu_id :: uuid
  pu_user_id :: int
  pu_product_id :: uuid
  pu_provider :: payment_provider
  pu_status :: purchase_status
  pu_amount :: rat
  pu_currency :: currency_t
  pu_external_id :: string
  pu_telegram_charge_id :: "string option"
  pu_delivered_url :: "string option"
  pu_created_at :: datetime
  pu_paid_at :: "datetime option"
  pu_delivered_at :: "datetime option"

record purchase_record =
  rec_purchase :: purchase
  rec_user :: user
  rec_product :: product

definition price_for :: "product \<Rightarrow> payment_provider \<Rightarrow> rat option" where
  "price_for p provider =
     (if provider = STARS then map_option of_int (pr_price_stars p) else pr_price_usdt p)"

definition supports :: "product \<Rightarrow> payment_provider \<Rightarrow> bool" where
  "supports p provider = (price_for p provider \<noteq> None)"

definition available_providers :: "product \<Rightarrow> payment_provider list" where
  "available_providers p = filter (supports p) payment_providers"

definition grants_access :: "purchase \<Rightarrow> bool" where
  "grants_access p = status_grants_access (pu_status p)"

lemma grants_access_iff [simp]: "grants_access p \<longleftrightarrow> pu_status p = PAID \<or> pu_status p = DELIVERED"
  by (simp add: grants_access_def)

definition truthy :: "string option \<Rightarrow> bool" where
  \<comment> \<open>\<open>bool(x)\<close> of an optional string\<close>
  "truthy x = (case x of None \<Rightarrow> False | Some s \<Rightarrow> s \<noteq> [])"

definition display_name :: "user \<Rightarrow> string" where
  "display_name u =
     (if truthy (us_username u) then CHR ''@'' # the (us_username u)
      else if truthy (us_first_name u) then the (us_first_name u)
      else int_str (us_telegram_id u))"

subsection \<open>Partial updates\<close>

datatype 'v maybe = UNSET | Supplied 'v

fun is_set :: "'v maybe \<Rightarrow> bool" where
  "is_set UNSET = False"
| "is_set (Supplied _) = True"

fun maybe_or :: "'v maybe \<Rightarrow> 'v \<Rightarrow> 'v" where
  \<comment> \<open>\<open>x if is_set(x) else current\<close>\<close>
  "maybe_or UNSET current = current"
| "maybe_or (Supplied v) current = v"

datatype field_value =
  VStr string | VOptStr "string option" | VOptInt "int option" | VOptDec "rat option" | VBool bool

subsection \<open>Commands\<close>

record product_draft =
  pd_slug :: string
  pd_title :: string
  pd_description :: string
  pd_delivery_url :: string
  pd_photo_file_id :: "string option"
  pd_price_stars :: "int option"
  pd_price_usdt :: "rat option"
  pd_is_active :: bool

definition mk_product_draft :: "product_draft \<Rightarrow> exn + product_draft" where
  \<comment> \<open>\<open>ProductDraft.__post_init__\<close>; \<open>dataclasses.replace\<close> runs it again\<close>
  "mk_product_draft d =
     (if pd_price_stars d = None \<and> pd_price_usdt d = None then Inl (err InvalidPriceError [])
      else Inr d)"

record product_update =
  up_slug :: "string maybe"
  up_title :: "string maybe"
  up_description :: "string maybe"
  up_delivery_url :: "string maybe"
  up_photo_file_id :: "string option maybe"
  up_price_stars :: "int option maybe"
  up_price_usdt :: "rat option maybe"
  up_is_active :: "bool maybe"

fun candidate :: "string \<Rightarrow> ('v \<Rightarrow> field_value) \<Rightarrow> 'v maybe \<Rightarrow> (string \<times> field_value) list" where
  "candidate name tag UNSET = []"
| "candidate name tag (Supplied v) = [(name, tag v)]"

definition changes :: "product_update \<Rightarrow> (string \<times> field_value) list" where
  "changes u =
     candidate ''slug'' VStr (up_slug u)
     @ candidate ''title'' VStr (up_title u)
     @ candidate ''description'' VStr (up_description u)
     @ candidate ''delivery_url'' VStr (up_delivery_url u)
     @ candidate ''photo_file_id'' VOptStr (up_photo_file_id u)
     @ candidate ''price_stars'' VOptInt (up_price_stars u)
     @ candidate ''price_usdt'' VOptDec (up_price_usdt u)
     @ candidate ''is_active'' VBool (up_is_active u)"

definition update_is_empty :: "product_update \<Rightarrow> bool" where
  "update_is_empty u = (changes u = [])"

record user_draft =
  ud_telegram_id :: int
  ud_username :: "string option"
  ud_first_name :: "string option"
  ud_language_code :: "string option"

record purchase_draft =
  dr_user_id :: int
  dr_product_id :: uuid
  dr_provider :: payment_provider
  dr_amount :: rat
  dr_currency :: currency_t
  dr_external_id :: string
  dr_status :: "purchase_status option"

subsection \<open>Cards, payments, delivery and verification reports\<close>

record payment_option =
  opt_provider :: payment_provider
  opt_amount :: rat
  opt_currency :: currency_t

record product_card =
  card_product :: product
  card_options :: "payment_option list"
  card_owned_purchase :: "purchase option"

definition is_owned :: "product_card \<Rightarrow> bool" where
  "is_owned c = (card_owned_purchase c \<noteq> None)"

record invoice_request =
  inv_user_id :: int
  inv_product_id :: uuid
  inv_title :: string
  inv_description :: string
  inv_amount :: rat
  inv_currency :: currency_t
  inv_payload :: string

record invoice =
  invoice_external_id :: string
  invoice_pay_url :: "string option"

datatype payment_state = PS_PENDING | PS_PAID | PS_EXPIRED

record delivery_message =
  dm_chat_id :: int
  dm_purchase_id :: uuid
  dm_product_title :: string
  dm_delivery_url :: string
  dm_is_repeat :: bool

datatype delivery_status = SENT | ALREADY_DELIVERED | FAILED

record delivery_result =
  res_status :: delivery_status
  res_purchase_id :: uuid
  res_attempts :: nat
  res_error :: "string option"

definition succeeded :: "delivery_result \<Rightarrow> bool" where
  "succeeded r = (res_status r \<in> {SENT, ALREADY_DELIVERED})"

lemma succeeded_iff [simp]: "succeeded r \<longleftrightarrow> res_status r \<noteq> FAILED"
  by (cases "res_status r") (simp_all add: succeeded_def)

datatype verification_outcome =
  VO_ALREADY_DELIVERED | VO_DELIVERED_NOW | VO_SETTLED_AND_DELIVERED | VO_DELIVERY_FAILED
| VO_STILL_UNPAID | VO_EXPIRED_UNPAID | VO_NO_PROVIDER_EVIDENCE | VO_REFUNDED
| VO_PROVIDER_UNAVAILABLE

definition is_resolved :: "verification_outcome \<Rightarrow> bool" where
  "is_resolved out =
     (out \<in> {VO_ALREADY_DELIVERED, VO_DELIVERED_NOW, VO_SETTLED_AND_DELIVERED})"

record verification_report =
  vr_purchase_id :: uuid
  vr_provider :: payment_provider
  vr_outcome :: verification_outcome
  vr_status_before :: purchase_status
  vr_status_after :: purchase_status
  vr_provider_state :: "payment_state option"
  vr_delivery :: "delivery_result option"
  vr_detail :: "string option"

end
