(* ===== verification/Slug.thy ===== *)
theory Slug
  imports Domain
begin

section \<open>Deep-link slugs\<close>

text \<open>
  \<^verbatim>\<open>backend/app/domain/slug.py\<close>. \<open>re.match\<close> with a pattern that ends in a dollar sign accepts a
  string that ends right there, and also one that has a single line feed after that point; the
  CHECK constraint of the database and the request schemas use engines where the dollar sign is
  the end of the string.
\<close>

definition newline :: char where
  "newline = char_of (10::nat)"

definition slug_char :: "char \<Rightarrow> bool" where
  "slug_char c = (is_ascii_letter c \<or> is_ascii_digit c \<or> c = CHR ''_'' \<or> c = CHR ''-'')"

definition slug_max_length :: nat where
  "slug_max_length = 64"

definition slug_body :: "string \<Rightarrow> bool" where
  "slug_body s = (1 \<le> length s \<and> length s \<le> slug_max_length \<and> list_all slug_char s)"

definition re_dollar :: "(string \<Rightarrow> bool) \<Rightarrow> string \<Rightarrow> bool" where
  \<comment> \<open>\<open>^body$\<close> of the \<open>re\<close> module\<close>
  "re_dollar body s = (body s \<or> (s \<noteq> [] \<and> last s = newline \<and> body (butlast s)))"

definition is_valid_slug :: "string \<Rightarrow> bool" where
  "is_valid_slug value = re_dollar slug_body value"

definition slug_message :: string where
  "slug_message = ''Slug must match ^[A-Za-z0-9_-]{1,64}$: 1-64 characters from A-Z, a-z, 0-9, underscore and hyphen''"

definition normalise_slug :: "string \<Rightarrow> exn + string" where
  "normalise_slug value =
     (let candidate = py_strip value in
      if \<not> is_valid_slug candidate
      then Inl (err_msg InvalidSlugError slug_message [(''slug'', JStr value)])
      else Inr candidate)"

lemma ord_newline [simp]: "ord newline = 10"
  by (simp add: newline_def)

lemma newline_space [simp]: "py_isspace newline"
  by (simp add: py_isspace_def)

lemma newline_not_slug_char [simp]: "\<not> slug_char newline"
proof -
  have "newline \<noteq> CHR ''_''" and "newline \<noteq> CHR ''-''"
    by (auto dest: arg_cong [where f = ord])
  then show ?thesis
    by (auto simp: slug_char_def is_ascii_letter_def is_ascii_digit_def)
qed

lemma slug_char_not_space: "slug_char c \<Longrightarrow> \<not> py_isspace c"
  by (auto simp: slug_char_def is_ascii_letter_def is_ascii_digit_def py_isspace_def Let_def)

lemma py_strip_last: "py_strip s \<noteq> [] \<Longrightarrow> \<not> py_isspace (last (py_strip s))"
  unfolding py_strip_def py_rstrip_def
  by (metis dropWhile_eq_Nil_conv hd_dropWhile last_rev rev_is_Nil_conv)

lemma stripped_slug: "is_valid_slug (py_strip s) \<longleftrightarrow> slug_body (py_strip s)"
  using py_strip_last [of s] newline_space by (auto simp: is_valid_slug_def re_dollar_def)

lemma py_lstrip_no_space: "list_all (\<lambda>c. \<not> py_isspace c) s \<Longrightarrow> py_lstrip s = s"
  by (cases s) (auto simp: py_lstrip_def)

lemma py_strip_no_space: "list_all (\<lambda>c. \<not> py_isspace c) s \<Longrightarrow> py_strip s = s"
  using py_lstrip_no_space [of s] py_lstrip_no_space [of "rev s"]
  by (simp add: py_strip_def py_rstrip_def py_lstrip_def list_all_iff)

lemma py_strip_slug_body: "slug_body s \<Longrightarrow> py_strip s = s"
  by (rule py_strip_no_space) (auto simp: slug_body_def list_all_iff slug_char_not_space)

lemma normalise_slug_cases:
  "normalise_slug value =
     (if slug_body (py_strip value) then Inr (py_strip value)
      else Inl (err_msg InvalidSlugError slug_message [(''slug'', JStr value)]))"
  by (simp add: normalise_slug_def Let_def stripped_slug)

lemma normalise_slug_ok: "normalise_slug value = Inr s \<Longrightarrow> slug_body s"
  by (simp add: normalise_slug_cases split: if_splits)

text \<open>
  Slug normalisation is exact: \<open>normalise_slug\<close> returns the stripped text precisely when that
  text is 1 to 64 characters of the Telegram payload alphabet (so the line-feed tolerance of
  \<open>re.match\<close> never gets through), raises \<open>InvalidSlugError\<close> otherwise, and normalising a
  result again changes nothing.
\<close>

theorem normalise_slug_exact:
  "(case normalise_slug value of
      Inr s \<Rightarrow> s = py_strip value \<and> 1 \<le> length s \<and> length s \<le> 64 \<and> list_all slug_char s
        \<and> normalise_slug s = Inr s
    | Inl e \<Rightarrow> exn_cls e = InvalidSlugError
        \<and> \<not> (1 \<le> length (py_strip value) \<and> length (py_strip value) \<le> 64
             \<and> list_all slug_char (py_strip value)))"
  by (auto simp: normalise_slug_cases slug_body_def slug_max_length_def py_strip_idem)

text \<open>
  The bare \<open>is_valid_slug\<close> accepts more: a valid slug followed by one line feed.
\<close>

lemma is_valid_slug_newline: "slug_body s \<Longrightarrow> is_valid_slug (s @ [newline])"
  by (simp add: is_valid_slug_def re_dollar_def)

end
