(* ===== verification/Schema.thy ===== *)
theory Schema
  imports Slug
begin

section \<open>The database schema\<close>

text \<open>
  \<^verbatim>\<open>backend/app/infrastructure/db/models.py\<close>, the migration
  \<^verbatim>\<open>backend/alembic/versions/0001_initial_schema.py\<close> and \<^verbatim>\<open>errors.py\<close>: the three tables,
  the declared column types, and every declared constraint as a check made by the flush of one
  row. A value that does not fit its column type is a \<open>DataError\<close>; a violated constraint is an
  \<open>IntegrityError\<close> that carries the constraint's name. Several violations at once are reported in
  the order column types, CHECK constraints by name, unique indexes as the migration creates
  them, foreign keys.
\<close>

record database =
  products :: "product list"
  users :: "user list"
  purchases :: "purchase list"

definition empty_database :: database where
  "empty_database = \<lparr>products = [], users = [], purchases = []\<rparr>"

subsection \<open>Column types\<close>

definition numeric_round :: "nat \<Rightarrow> rat \<Rightarrow> rat" where
  \<comment> \<open>NUMERIC(_, s): half away from zero\<close>
  "numeric_round s x = sgn x * of_int \<lfloor>\<bar>x\<bar> * 10 ^ s + 1 / 2\<rfloor> / 10 ^ s"

definition fits_numeric :: "nat \<Rightarrow> nat \<Rightarrow> rat \<Rightarrow> bool" where
  "fits_numeric p s x = (\<bar>numeric_round s x\<bar> < 10 ^ (p - s))"

definition fits_string :: "nat \<Rightarrow> string option \<Rightarrow> bool" where
  "fits_string n x = (case x of None \<Rightarrow> True | Some s \<Rightarrow> length s \<le> n)"

definition fits_int :: "nat \<Rightarrow> int \<Rightarrow> bool" where
  \<comment> \<open>a signed integer of \<open>w\<close> bits\<close>
  "fits_int w i = (- (2 ^ (w - 1)) \<le> i \<and> i < 2 ^ (w - 1))"

definition product_fits :: "product \<Rightarrow> bool" where
  "product_fits p =
     (length (pr_slug p) \<le> slug_max_length \<and> length (pr_title p) \<le> 255
      \<and> fits_string 255 (pr_photo_file_id p)
      \<and> (case pr_price_stars p of None \<Rightarrow> True | Some n \<Rightarrow> fits_int 32 n)
      \<and> (case pr_price_usdt p of None \<Rightarrow> True | Some x \<Rightarrow> fits_numeric 12 2 x))"

definition product_stored :: "product \<Rightarrow> product" where
  "product_stored p = p\<lparr>pr_price_usdt := map_option (numeric_round 2) (pr_price_usdt p)\<rparr>"

definition user_fits :: "user \<Rightarrow> bool" where
  "user_fits u =
     (fits_int 64 (us_telegram_id u) \<and> fits_string 32 (us_username u)
      \<and> fits_string 255 (us_first_name u) \<and> fits_string 16 (us_language_code u))"

definition purchase_fits :: "purchase \<Rightarrow> bool" where
  "purchase_fits p =
     (fits_int 64 (pu_user_id p) \<and> fits_numeric 18 6 (pu_amount p)
      \<and> length (pu_external_id p) \<le> 128 \<and> fits_string 128 (pu_telegram_charge_id p))"

definition purchase_stored :: "purchase \<Rightarrow> purchase" where
  "purchase_stored p = p\<lparr>pu_amount := numeric_round 6 (pu_amount p)\<rparr>"

subsection \<open>Constraints\<close>

definition first_violation :: "(string \<times> bool) list \<Rightarrow> string option" where
  "first_violation cs = map_option fst (List.find (\<lambda>c. \<not> snd c) cs)"

definition key_free :: "('r \<Rightarrow> bool) \<Rightarrow> ('r \<Rightarrow> 'k) \<Rightarrow> 'r \<Rightarrow> 'r list \<Rightarrow> bool" where
  \<comment> \<open>unique index on \<open>k\<close> over the rows with \<open>P\<close>, seen from the row being written\<close>
  "key_free P k r others = (\<not> P r \<or> list_all (\<lambda>q. \<not> P q \<or> k q \<noteq> k r) others)"

definition product_violation :: "product list \<Rightarrow> product \<Rightarrow> string option" where
  "product_violation others p = first_violation
     [(''ck_products_price_present'', pr_price_stars p \<noteq> None \<or> pr_price_usdt p \<noteq> None),
      (''ck_products_price_stars_positive'',
         case pr_price_stars p of None \<Rightarrow> True | Some n \<Rightarrow> 0 < n),
      (''ck_products_price_usdt_positive'',
         case pr_price_usdt p of None \<Rightarrow> True | Some x \<Rightarrow> 0 < x),
      (''ck_products_slug_format'', slug_body (pr_slug p)),
      (''pk_products'', key_free (\<lambda>_. True) pr_id p others),
      (''uq_products_slug'', key_free (\<lambda>_. True) pr_slug p others)]"

definition user_violation :: "user \<Rightarrow> string option" where
  "user_violation u = first_violation
     [(''ck_users_telegram_id_positive'', 0 < us_telegram_id u)]"

definition paid_at_present :: "purchase \<Rightarrow> bool" where
  "paid_at_present p = (pu_status p \<in> {PENDING, EXPIRED} \<or> pu_paid_at p \<noteq> None)"

definition delivery_complete :: "purchase \<Rightarrow> bool" where
  "delivery_complete p =
     (pu_status p \<noteq> DELIVERED \<or> (pu_delivered_at p \<noteq> None \<and> pu_delivered_url p \<noteq> None))"

definition purchase_violation :: "database \<Rightarrow> purchase list \<Rightarrow> purchase \<Rightarrow> string option" where
  "purchase_violation d others p = first_violation
     [(''ck_purchases_amount_positive'', 0 < pu_amount p),
      (''ck_purchases_delivery_complete'', delivery_complete p),
      (''ck_purchases_paid_at_present'', paid_at_present p),
      (''pk_purchases'', key_free (\<lambda>_. True) pu_id p others),
      (''uq_purchases_provider_external_id'',
         key_free (\<lambda>_. True) (\<lambda>q. (pu_provider q, pu_external_id q)) p others),
      (''uq_purchases_telegram_charge_id'',
         key_free (\<lambda>q. pu_telegram_charge_id q \<noteq> None) pu_telegram_charge_id p others),
      (''uq_purchases_user_product_paid'',
         key_free grants_access (\<lambda>q. (pu_user_id q, pu_product_id q)) p others),
      (''fk_purchases_product_id_products'',
         list_ex (\<lambda>q. pr_id q = pu_product_id p) (products d)),
      (''fk_purchases_user_id_users'',
         list_ex (\<lambda>u. us_telegram_id u = pu_user_id p) (users d))]"

subsection \<open>Integrity errors\<close>

definition integrity_error :: "string \<Rightarrow> exn" where
  "integrity_error constraint =
     (other_exn IntegrityError constraint)\<lparr>exn_details := [(''constraint_name'', JStr constraint)]\<rparr>"

definition data_error :: exn where
  "data_error = other_exn DataError ''value does not fit its column''"

definition violated_constraint :: "exn \<Rightarrow> string option" where
  "violated_constraint e = (case json_get (exn_details e) ''constraint_name'' of
      JStr name \<Rightarrow> (if name \<noteq> [] then Some name else None)
    | _ \<Rightarrow> None)"

lemma exn_cls_integrity_error [simp]: "exn_cls (integrity_error c) = IntegrityError"
  by (simp add: integrity_error_def)

lemma isinstance_integrity_error [simp]:
  "isinstance (integrity_error c) k = is_subclass IntegrityError k"
  by (simp add: isinstance_def)

lemma violated_integrity_error [simp]: "c \<noteq> [] \<Longrightarrow> violated_constraint (integrity_error c) = Some c"
  by (simp add: violated_constraint_def integrity_error_def json_get_def)

subsection \<open>Flushing one row\<close>

definition rows_but :: "('r \<Rightarrow> 'k) \<Rightarrow> 'r \<Rightarrow> 'r list \<Rightarrow> 'r list" where
  "rows_but k r rows = filter (\<lambda>q. k q \<noteq> k r) rows"

definition replace_row :: "('r \<Rightarrow> 'k) \<Rightarrow> 'r \<Rightarrow> 'r list \<Rightarrow> 'r list" where
  "replace_row k r rows = update_rows (\<lambda>q. k q = k r) (\<lambda>_. r) rows"

definition flush_row :: "bool \<Rightarrow> string option \<Rightarrow> database \<Rightarrow> exn + database" where
  "flush_row fits violation d' =
     (if \<not> fits then Inl data_error
      else (case violation of Some c \<Rightarrow> Inl (integrity_error c) | None \<Rightarrow> Inr d'))"

definition insert_product :: "product \<Rightarrow> database \<Rightarrow> exn + database" where
  "insert_product p d = (let r = product_stored p in
     flush_row (product_fits p) (product_violation (products d) r)
       (d\<lparr>products := products d @ [r]\<rparr>))"

definition write_product :: "product \<Rightarrow> database \<Rightarrow> exn + database" where
  "write_product p d = (let r = product_stored p in
     flush_row (product_fits p) (product_violation (rows_but pr_id r (products d)) r)
       (d\<lparr>products := replace_row pr_id r (products d)\<rparr>))"

definition delete_product_row :: "uuid \<Rightarrow> database \<Rightarrow> exn + database" where
  \<comment> \<open>ON DELETE RESTRICT\<close>
  "delete_product_row product_id d =
     (if list_ex (\<lambda>p. pu_product_id p = product_id) (purchases d)
      then Inl (integrity_error ''fk_purchases_product_id_products'')
      else Inr (d\<lparr>products := filter (\<lambda>p. pr_id p \<noteq> product_id) (products d)\<rparr>))"

definition insert_user :: "user \<Rightarrow> database \<Rightarrow> exn + database" where
  "insert_user u d = flush_row (user_fits u) (user_violation u) (d\<lparr>users := users d @ [u]\<rparr>)"

definition write_user :: "user \<Rightarrow> database \<Rightarrow> exn + database" where
  "write_user u d = flush_row (user_fits u) (user_violation u)
     (d\<lparr>users := replace_row us_telegram_id u (users d)\<rparr>)"

definition insert_purchase :: "purchase \<Rightarrow> database \<Rightarrow> exn + database" where
  "insert_purchase p d = (let r = purchase_stored p in
     flush_row (purchase_fits p) (purchase_violation d (purchases d) r)
       (d\<lparr>purchases := purchases d @ [r]\<rparr>))"

definition write_purchase :: "purchase \<Rightarrow> database \<Rightarrow> exn + database" where
  "write_purchase p d = (let r = purchase_stored p in
     flush_row (purchase_fits p) (purchase_violation d (rows_but pu_id r (purchases d)) r)
       (d\<lparr>purchases := replace_row pu_id r (purchases d)\<rparr>))"

definition flush :: "(database \<Rightarrow> exn + database) \<Rightarrow> (exn, database, unit) prog" where
  \<comment> \<open>a rejected statement leaves the rows alone: it was wrapped in a SAVEPOINT or its
      transaction is rolled back\<close>
  "flush f = (\<lambda>d. case f d of Inl e \<Rightarrow> (Inl e, d) | Inr d' \<Rightarrow> (Inr (), d'))"

subsection \<open>Facts about single rows\<close>

definition unique_on :: "('r \<Rightarrow> bool) \<Rightarrow> ('r \<Rightarrow> 'k) \<Rightarrow> 'r list \<Rightarrow> bool" where
  "unique_on P k rows = distinct (map k (filter P rows))"

lemma first_violation_None [simp]:
  "first_violation cs = None \<longleftrightarrow> list_all snd cs"
  by (induction cs) (auto simp: first_violation_def)

lemma unique_on_append:
  "unique_on P k (rows @ [r]) \<longleftrightarrow> unique_on P k rows \<and> key_free P k r rows"
  by (auto simp: unique_on_def key_free_def list_all_iff image_iff)

lemma unique_on_replace:
  assumes "distinct (map i rows)" and "unique_on P k rows" and "key_free P k r (rows_but i r rows)"
  shows "unique_on P k (replace_row i r rows)"
  using assms
proof (induction rows)
  case (Cons a rows)
  have "replace_row i r rows = rows" if "i a = i r"
  proof -
    have "i q \<noteq> i r" if "q \<in> set rows" for q
      using Cons.prems(1) \<open>i a = i r\<close> that by (auto simp: image_iff)
    then show ?thesis by (simp add: replace_row_def update_rows_def map_idI)
  qed
  with Cons show ?case
    by (auto simp: unique_on_def key_free_def rows_but_def replace_row_def list_all_iff
        in_update_rows image_iff split: if_splits)
qed (simp add: unique_on_def replace_row_def)

lemma replace_row_ids [simp]: "map i (replace_row i r rows) = map i rows"
  by (auto simp: replace_row_def update_rows_def)

lemma set_replace_rowD: "q \<in> set (replace_row i r rows) \<Longrightarrow> q = r \<or> q \<in> set rows"
  by (auto simp: replace_row_def in_update_rows split: if_splits)

lemma set_replace_row:
  "distinct (map i rows) \<Longrightarrow> r' \<in> set rows \<Longrightarrow> i r' = i r \<Longrightarrow>
     set (replace_row i r rows) = insert r (set rows - {r'})"
  by (auto simp: replace_row_def in_update_rows image_iff split: if_splits)
    (metis distinct_map inj_on_eq_iff)+

lemma find_replace_row:
  "List.find (\<lambda>q. i q = x) (replace_row i r rows) =
     (if x = i r \<and> List.find (\<lambda>q. i q = x) rows \<noteq> None then Some r
      else List.find (\<lambda>q. i q = x) rows)"
  by (induction rows) (auto simp: replace_row_def)

lemma flush_row_Inr [simp]:
  "flush_row fits v d' = Inr d'' \<longleftrightarrow> fits \<and> v = None \<and> d'' = d'"
  by (auto simp: flush_row_def split: option.split)

lemma flush_run [prog_simps]:
  "flush f d = (case f d of Inl e \<Rightarrow> (Inl e, d) | Inr d' \<Rightarrow> (Inr (), d'))"
  by (simp add: flush_def)

end
