(* ===== verification/History.thy ===== *)
theory History
  imports Schema
begin

section \<open>The life of a purchase: invariant and history order\<close>

text \<open>
  The abstract contract of the persistence layer. \<open>schema_ok\<close> is what the constraints of
  \<^verbatim>\<open>models.py\<close> promise about whole tables. \<open>db_ok\<close> adds what only the program guarantees: the
  payment fields of a purchase are empty until it is paid and the delivery fields until it is
  delivered. \<open>history_le\<close> orders databases by what may happen to a purchase: its identity, price
  and parties never change, its status moves along \<open>life_step\<close> (the life cycle of
  \<^verbatim>\<open>domain/enums.py\<close> and the README), and a recorded payment or delivery is never rewritten.
  Every repository operation is shown to move along \<open>evolves\<close>.
\<close>

subsection \<open>The life cycle\<close>

inductive life_step :: "purchase_status \<Rightarrow> purchase_status \<Rightarrow> bool" where
  confirm: "life_step PENDING PAID"
| honour: "life_step EXPIRED PAID"
| expire: "life_step PENDING EXPIRED"
| deliver: "life_step PAID DELIVERED"
| refund_paid: "life_step PAID REFUNDED"
| refund_delivered: "life_step DELIVERED REFUNDED"

code_pred life_step .

inductive_simps life_step_simps [simp]:
  "life_step PENDING s" "life_step PAID s" "life_step DELIVERED s" "life_step REFUNDED s"
  "life_step EXPIRED s"

inductive_cases life_step_to_PENDING [elim!]: "life_step s PENDING"

abbreviation life_path :: "purchase_status \<Rightarrow> purchase_status \<Rightarrow> bool" where
  "life_path \<equiv> life_step\<^sup>*\<^sup>*"

text \<open>The reachable part of the life cycle from each status, as a table.\<close>

fun life_after :: "purchase_status \<Rightarrow> purchase_status list" where
  "life_after PENDING = [PENDING, EXPIRED, PAID, DELIVERED, REFUNDED]"
| "life_after EXPIRED = [EXPIRED, PAID, DELIVERED, REFUNDED]"
| "life_after PAID = [PAID, DELIVERED, REFUNDED]"
| "life_after DELIVERED = [DELIVERED, REFUNDED]"
| "life_after REFUNDED = [REFUNDED]"

lemma life_path_in_after: "life_path s t \<Longrightarrow> t \<in> set (life_after s)"
proof (induction rule: rtranclp_induct)
  case base
  show ?case by (cases s) simp_all
next
  case (step t u)
  then show ?case by (cases s; cases t) auto
qed

lemma life_path_iff: "life_path s t \<longleftrightarrow> t \<in> set (life_after s)"
proof
  have steps: "life_path PENDING EXPIRED" "life_path EXPIRED PAID" "life_path PAID DELIVERED"
    "life_path DELIVERED REFUNDED"
    by (auto intro: r_into_rtranclp)
  assume "t \<in> set (life_after s)"
  with steps show "life_path s t"
    by (cases s) (auto intro: rtranclp_trans)
qed (rule life_path_in_after)

text \<open>
  Paths of the life cycle order the statuses: PENDING, EXPIRED, PAID, DELIVERED, REFUNDED.
\<close>

instantiation purchase_status :: linorder
begin

definition less_eq_purchase_status :: "purchase_status \<Rightarrow> purchase_status \<Rightarrow> bool" where
  "less_eq_purchase_status s t = (t \<in> set (life_after s))"

definition less_purchase_status :: "purchase_status \<Rightarrow> purchase_status \<Rightarrow> bool" where
  "less_purchase_status s t = (s \<le> t \<and> s \<noteq> (t::purchase_status))"

instance
proof
  fix s t u :: purchase_status
  show "s < t \<longleftrightarrow> s \<le> t \<and> \<not> t \<le> s"
    by (cases s; cases t) (simp_all add: less_purchase_status_def less_eq_purchase_status_def)
  show "s \<le> s" by (cases s) (simp_all add: less_eq_purchase_status_def)
  show "s \<le> t \<Longrightarrow> t \<le> u \<Longrightarrow> s \<le> u"
    by (cases s; cases t; cases u) (simp_all add: less_eq_purchase_status_def)
  show "s \<le> t \<Longrightarrow> t \<le> s \<Longrightarrow> s = t"
    by (cases s; cases t) (simp_all add: less_eq_purchase_status_def)
  show "s \<le> t \<or> t \<le> s"
    by (cases s; cases t) (simp_all add: less_eq_purchase_status_def)
qed

end

lemma life_path_le: "life_path s t \<longleftrightarrow> s \<le> t"
  by (simp add: life_path_iff less_eq_purchase_status_def)

subsection \<open>What the schema promises\<close>

definition product_row_ok :: "product \<Rightarrow> bool" where
  "product_row_ok p =
     (product_fits p \<and> product_stored p = p
      \<and> (pr_price_stars p \<noteq> None \<or> pr_price_usdt p \<noteq> None)
      \<and> (case pr_price_stars p of None \<Rightarrow> True | Some n \<Rightarrow> 0 < n)
      \<and> (case pr_price_usdt p of None \<Rightarrow> True | Some x \<Rightarrow> 0 < x)
      \<and> slug_body (pr_slug p))"

definition user_row_ok :: "user \<Rightarrow> bool" where
  "user_row_ok u = (user_fits u \<and> 0 < us_telegram_id u)"

definition purchase_row_ok :: "database \<Rightarrow> purchase \<Rightarrow> bool" where
  "purchase_row_ok d p =
     (purchase_fits p \<and> purchase_stored p = p \<and> 0 < pu_amount p
      \<and> delivery_complete p \<and> paid_at_present p
      \<and> list_ex (\<lambda>q. pr_id q = pu_product_id p) (products d)
      \<and> list_ex (\<lambda>u. us_telegram_id u = pu_user_id p) (users d))"

definition purchases_unique :: "purchase list \<Rightarrow> bool" where
  "purchases_unique ps =
     (distinct (map pu_id ps)
      \<and> unique_on (\<lambda>_. True) (\<lambda>q. (pu_provider q, pu_external_id q)) ps
      \<and> unique_on (\<lambda>q. pu_telegram_charge_id q \<noteq> None) pu_telegram_charge_id ps
      \<and> unique_on grants_access (\<lambda>q. (pu_user_id q, pu_product_id q)) ps)"

definition schema_ok :: "database \<Rightarrow> bool" where
  "schema_ok d =
     (distinct (map pr_id (products d)) \<and> distinct (map pr_slug (products d))
      \<and> list_all product_row_ok (products d)
      \<and> distinct (map us_telegram_id (users d)) \<and> list_all user_row_ok (users d)
      \<and> purchases_unique (purchases d) \<and> list_all (purchase_row_ok d) (purchases d))"

subsection \<open>What the program adds\<close>

definition fields_follow_status :: "purchase \<Rightarrow> bool" where
  "fields_follow_status p =
     ((pu_status p \<notin> {PENDING, EXPIRED} \<or> (pu_paid_at p = None \<and> pu_telegram_charge_id p = None))
      \<and> (pu_status p \<notin> {PENDING, EXPIRED, PAID}
          \<or> (pu_delivered_url p = None \<and> pu_delivered_at p = None)))"

definition db_ok :: "database \<Rightarrow> bool" where
  "db_ok d = (schema_ok d \<and> list_all fields_follow_status (purchases d))"

definition kept :: "'a option \<Rightarrow> 'a option \<Rightarrow> bool" where
  \<comment> \<open>a field that is written once\<close>
  "kept x y = (x = None \<or> y = x)"

definition row_le :: "purchase \<Rightarrow> purchase \<Rightarrow> bool" where
  "row_le p q =
     (pu_id q = pu_id p \<and> pu_user_id q = pu_user_id p \<and> pu_product_id q = pu_product_id p
      \<and> pu_provider q = pu_provider p \<and> pu_amount q = pu_amount p
      \<and> pu_currency q = pu_currency p \<and> pu_external_id q = pu_external_id p
      \<and> pu_created_at q = pu_created_at p
      \<and> pu_status q \<in> set (life_after (pu_status p))
      \<and> kept (pu_paid_at p) (pu_paid_at q)
      \<and> kept (pu_telegram_charge_id p) (pu_telegram_charge_id q)
      \<and> kept (pu_delivered_url p) (pu_delivered_url q)
      \<and> kept (pu_delivered_at p) (pu_delivered_at q))"

definition history_le :: "database \<Rightarrow> database \<Rightarrow> bool" where
  "history_le d e = list_all (\<lambda>p. list_ex (row_le p) (purchases e)) (purchases d)"

definition evolves :: "database \<Rightarrow> database \<Rightarrow> bool" where
  "evolves d e = (\<not> db_ok d \<or> (db_ok e \<and> history_le d e))"

lemma kept_refl [simp]: "kept x x"
  by (simp add: kept_def)

lemma kept_None [simp]: "kept None y"
  by (simp add: kept_def)

lemma kept_Some [simp]: "kept (Some x) y \<longleftrightarrow> y = Some x"
  by (simp add: kept_def)

lemma life_after_refl [simp]: "s \<in> set (life_after s)"
  by (cases s) simp_all

lemma life_after_trans:
  "t \<in> set (life_after s) \<Longrightarrow> u \<in> set (life_after t) \<Longrightarrow> u \<in> set (life_after s)"
  unfolding life_path_iff [symmetric] by (rule rtranclp_trans)

lemma row_le_refl [simp]: "row_le p p"
  by (simp add: row_le_def)

lemma kept_trans: "kept x y \<Longrightarrow> kept y z \<Longrightarrow> kept x z"
  by (cases x) simp_all

lemma row_le_trans:
  assumes "row_le p q" and "row_le q r"
  shows "row_le p r"
proof -
  have "pu_status r \<in> set (life_after (pu_status p))"
    using assms life_after_trans unfolding row_le_def by blast
  moreover have "kept (pu_paid_at p) (pu_paid_at r)"
    and "kept (pu_telegram_charge_id p) (pu_telegram_charge_id r)"
    and "kept (pu_delivered_url p) (pu_delivered_url r)"
    and "kept (pu_delivered_at p) (pu_delivered_at r)"
    using assms kept_trans unfolding row_le_def by blast+
  ultimately show ?thesis using assms by (simp add: row_le_def)
qed

lemma history_le_refl: "history_le d d"
  unfolding history_le_def list_all_iff list_ex_iff by (blast intro: row_le_refl)

lemma history_le_trans: "history_le d e \<Longrightarrow> history_le e f \<Longrightarrow> history_le d f"
  unfolding history_le_def list_all_iff list_ex_iff by (meson row_le_trans)

lemma history_le_same: "purchases e = purchases d \<Longrightarrow> history_le d e"
  using history_le_refl by (simp add: history_le_def)

interpretation evolves: state_preorder evolves
  by unfold_locales (auto simp: evolves_def intro: history_le_refl history_le_trans)

subsection \<open>Stored values are stable\<close>

lemma numeric_round_idem [simp]: "numeric_round s (numeric_round s x) = numeric_round s x"
proof -
  define n where "n = \<lfloor>\<bar>x\<bar> * 10 ^ s + 1 / 2\<rfloor>"
  have "0 \<le> \<bar>x\<bar> * 10 ^ s + 1 / 2" by simp
  then have n: "0 \<le> n" by (simp add: n_def)
  have y: "numeric_round s x = sgn x * of_int n / 10 ^ s"
    by (simp add: numeric_round_def n_def)
  show ?thesis
  proof (cases "x = 0 \<or> n = 0")
    case True
    then have "numeric_round s x = 0" unfolding y by auto
    then show ?thesis by (simp add: numeric_round_def [of s 0])
  next
    case False
    with n have "0 < n" by simp
    then have "\<bar>numeric_round s x\<bar> * 10 ^ s = of_int n"
      using False by (simp add: y abs_mult abs_sgn_eq)
    moreover have "sgn (numeric_round s x) = sgn x"
      using False \<open>0 < n\<close> by (auto simp: y sgn_mult sgn_if divide_less_0_iff)
    moreover have "\<lfloor>(of_int n :: rat) + 1 / 2\<rfloor> = n" by linarith
    ultimately show ?thesis
      unfolding numeric_round_def [of s "numeric_round s x"] by (simp add: y)
  qed
qed

lemma purchase_stored_idem [simp]: "purchase_stored (purchase_stored p) = purchase_stored p"
  by (simp add: purchase_stored_def)

lemma product_stored_idem [simp]: "product_stored (product_stored p) = product_stored p"
  by (simp add: product_stored_def option.map_comp o_def)

lemma purchase_fits_stored [simp]: "purchase_fits (purchase_stored p) = purchase_fits p"
  by (simp add: purchase_fits_def purchase_stored_def fits_numeric_def)

lemma product_fits_stored [simp]: "product_fits (product_stored p) = product_fits p"
  by (auto simp: product_fits_def product_stored_def fits_numeric_def split: option.splits)

lemma purchase_stored_sel [simp]:
  "pu_id (purchase_stored p) = pu_id p" "pu_user_id (purchase_stored p) = pu_user_id p"
  "pu_product_id (purchase_stored p) = pu_product_id p"
  "pu_provider (purchase_stored p) = pu_provider p"
  "pu_status (purchase_stored p) = pu_status p"
  "pu_currency (purchase_stored p) = pu_currency p"
  "pu_external_id (purchase_stored p) = pu_external_id p"
  "pu_telegram_charge_id (purchase_stored p) = pu_telegram_charge_id p"
  "pu_delivered_url (purchase_stored p) = pu_delivered_url p"
  "pu_created_at (purchase_stored p) = pu_created_at p"
  "pu_paid_at (purchase_stored p) = pu_paid_at p"
  "pu_delivered_at (purchase_stored p) = pu_delivered_at p"
  by (simp_all add: purchase_stored_def)

lemma fields_follow_status_stored [simp]:
  "fields_follow_status (purchase_stored p) = fields_follow_status p"
  by (simp add: fields_follow_status_def)

subsection \<open>Every accepted statement evolves the database\<close>

lemma purchase_row_ok_stored:
  assumes "purchase_fits p" and "purchase_violation d others (purchase_stored p) = None"
  shows "purchase_row_ok d (purchase_stored p)"
  using assms by (simp add: purchase_row_ok_def purchase_violation_def)

lemma purchase_row_ok_mono:
  "purchase_row_ok d p \<Longrightarrow> pr_id ` set (products d) \<subseteq> pr_id ` set (products e) \<Longrightarrow>
     us_telegram_id ` set (users d) \<subseteq> us_telegram_id ` set (users e) \<Longrightarrow> purchase_row_ok e p"
  by (auto simp: purchase_row_ok_def list_ex_iff image_subset_iff) (metis imageE)+

lemma purchase_row_ok_only [simp]:
  "purchase_row_ok (d\<lparr>purchases := ps\<rparr>) = purchase_row_ok d"
  by (simp add: purchase_row_ok_def fun_eq_iff)

lemma distinct_as_unique: "distinct (map k rows) = unique_on (\<lambda>_. True) k rows"
  by (simp add: unique_on_def)

lemma distinct_append_key:
  "distinct (map k (rows @ [r])) \<longleftrightarrow> distinct (map k rows) \<and> key_free (\<lambda>_. True) k r rows"
  unfolding distinct_as_unique by (rule unique_on_append)

lemma distinct_replace_key:
  assumes "distinct (map i rows)" and "distinct (map k rows)"
    and "key_free (\<lambda>_. True) k r (rows_but i r rows)"
  shows "distinct (map k (replace_row i r rows))"
  using assms(2,3) unfolding distinct_as_unique [of k] by (rule unique_on_replace [OF assms(1)])

lemma purchases_unique_append:
  assumes "purchases_unique ps" and "purchase_violation d ps r = None"
  shows "purchases_unique (ps @ [r])"
  using assms unfolding purchases_unique_def distinct_append_key unique_on_append purchase_violation_def
  by simp

lemma purchases_unique_replace:
  assumes "purchases_unique ps" and "purchase_violation d (rows_but pu_id r ps) r = None"
  shows "purchases_unique (replace_row pu_id r ps)"
proof -
  have ids: "distinct (map pu_id ps)" using assms(1) by (simp add: purchases_unique_def)
  show ?thesis
    using assms unfolding purchases_unique_def purchase_violation_def
    by (intro conjI unique_on_replace [OF ids] distinct_replace_key [OF ids]) simp_all
qed

lemma db_okD:
  assumes "db_ok d"
  shows "distinct (map pr_id (products d))" "distinct (map pr_slug (products d))"
    "list_all product_row_ok (products d)" "distinct (map us_telegram_id (users d))"
    "list_all user_row_ok (users d)" "purchases_unique (purchases d)"
    "list_all (purchase_row_ok d) (purchases d)" "list_all fields_follow_status (purchases d)"
    "distinct (map pu_id (purchases d))"
  using assms by (simp_all add: db_ok_def schema_ok_def purchases_unique_def)

lemma db_okI:
  assumes "distinct (map pr_id (products d))" "distinct (map pr_slug (products d))"
    "list_all product_row_ok (products d)" "distinct (map us_telegram_id (users d))"
    "list_all user_row_ok (users d)" "purchases_unique (purchases d)"
    "list_all (purchase_row_ok d) (purchases d)" "list_all fields_follow_status (purchases d)"
  shows "db_ok d"
  using assms by (simp add: db_ok_def schema_ok_def)

lemma purchase_row_ok_tables:
  assumes "list_all (purchase_row_ok d) ps"
    and "pr_id ` set (products d) \<subseteq> pr_id ` set (products e)"
    and "us_telegram_id ` set (users d) \<subseteq> us_telegram_id ` set (users e)"
  shows "list_all (purchase_row_ok e) ps"
  using assms purchase_row_ok_mono unfolding list_all_iff by blast

lemma list_all_replace:
  "list_all P rows \<Longrightarrow> P r \<Longrightarrow> list_all P (replace_row i r rows)"
  unfolding list_all_iff using set_replace_rowD by metis

lemma insert_purchase_evolves:
  assumes "insert_purchase p d = Inr e" and "fields_follow_status p"
  shows "evolves d e"
proof (cases "db_ok d")
  case True
  let ?r = "purchase_stored p"
  from assms(1) have fits: "purchase_fits p"
    and viol: "purchase_violation d (purchases d) ?r = None"
    and e: "e = d\<lparr>purchases := purchases d @ [?r]\<rparr>"
    by (simp_all add: insert_purchase_def Let_def)
  note ok = db_okD [OF True]
  have "purchases_unique (purchases e)"
    using purchases_unique_append [OF ok(6) viol] by (simp add: e)
  moreover have "purchase_row_ok d ?r" using fits viol by (rule purchase_row_ok_stored)
  ultimately have "db_ok e"
    using ok assms(2) by (intro db_okI) (simp_all add: e)
  moreover have "history_le d e"
    using history_le_refl [of d] by (auto simp: e history_le_def list_all_iff)
  ultimately show ?thesis by (simp add: evolves_def)
qed (simp add: evolves_def)

lemma write_purchase_evolves:
  assumes "write_purchase q d = Inr e" and "p \<in> set (purchases d)"
    and "row_le p (purchase_stored q)" and "fields_follow_status q"
  shows "evolves d e"
proof (cases "db_ok d")
  case True
  let ?r = "purchase_stored q"
  from assms(1) have fits: "purchase_fits q"
    and viol: "purchase_violation d (rows_but pu_id ?r (purchases d)) ?r = None"
    and e: "e = d\<lparr>purchases := replace_row pu_id ?r (purchases d)\<rparr>"
    by (simp_all add: write_purchase_def Let_def)
  note ok = db_okD [OF True]
  have rows: "set (purchases e) = insert ?r (set (purchases d) - {p})"
    using set_replace_row [OF ok(9) assms(2), of ?r] assms(3) by (simp add: e row_le_def)
  have "purchase_row_ok d ?r" using fits viol by (rule purchase_row_ok_stored)
  then have "db_ok e"
    using ok assms(4) purchases_unique_replace [OF ok(6) viol]
    by (intro db_okI) (simp_all add: e list_all_replace)
  moreover have "history_le d e"
    unfolding history_le_def list_all_iff list_ex_iff rows
    using assms(3) row_le_refl by (metis Diff_iff insert_iff singletonD)
  ultimately show ?thesis by (simp add: evolves_def)
qed (simp add: evolves_def)

lemma evolves_other_tables:
  assumes "purchases e = purchases d" and "db_ok d \<Longrightarrow> db_ok e"
  shows "evolves d e"
  using assms by (auto simp: evolves_def intro: history_le_same)

lemma product_row_ok_stored:
  assumes "product_fits p" and "product_violation others (product_stored p) = None"
  shows "product_row_ok (product_stored p)"
  using assms by (simp add: product_row_ok_def product_violation_def)

lemma ids_image: "map i rows = map i rows' \<Longrightarrow> i ` set rows = i ` set rows'"
  by (metis set_map)

lemma product_violation_keys:
  assumes "product_violation others r = None"
  shows "key_free (\<lambda>_. True) pr_id r others" and "key_free (\<lambda>_. True) pr_slug r others"
  using assms by (simp_all add: product_violation_def)

lemma insert_product_evolves:
  assumes "insert_product p d = Inr e"
  shows "evolves d e"
proof (rule evolves_other_tables)
  let ?r = "product_stored p"
  from assms have fits: "product_fits p" and viol: "product_violation (products d) ?r = None"
    and e: "e = d\<lparr>products := products d @ [?r]\<rparr>"
    by (simp_all add: insert_product_def Let_def)
  then show "purchases e = purchases d" by simp
  assume "db_ok d"
  note ok = db_okD [OF this]
  have "distinct (map pr_id (products d @ [?r]))" and "distinct (map pr_slug (products d @ [?r]))"
    using ok product_violation_keys [OF viol] unfolding distinct_append_key by blast+
  moreover have "product_row_ok ?r" using fits viol by (rule product_row_ok_stored)
  moreover have "list_all (purchase_row_ok e) (purchases d)"
    by (rule purchase_row_ok_tables [OF ok(7)]) (auto simp: e)
  ultimately show "db_ok e"
    using ok by (intro db_okI) (simp_all add: e del: map_append)
qed

lemma write_product_evolves:
  assumes "write_product p d = Inr e"
  shows "evolves d e"
proof (rule evolves_other_tables)
  let ?r = "product_stored p"
  from assms have fits: "product_fits p"
    and viol: "product_violation (rows_but pr_id ?r (products d)) ?r = None"
    and e: "e = d\<lparr>products := replace_row pr_id ?r (products d)\<rparr>"
    by (simp_all add: write_product_def Let_def)
  then show "purchases e = purchases d" by simp
  assume "db_ok d"
  note ok = db_okD [OF this]
  have "distinct (map pr_slug (products e))"
    using distinct_replace_key [OF ok(1,2) product_violation_keys(2) [OF viol]] by (simp add: e)
  moreover have "product_row_ok ?r" using fits viol by (rule product_row_ok_stored)
  moreover have "list_all (purchase_row_ok e) (purchases d)"
    using ids_image [of pr_id "products d" "products e"]
    by (intro purchase_row_ok_tables [OF ok(7)]) (simp_all add: e)
  ultimately show "db_ok e"
    using ok by (intro db_okI) (simp_all add: e list_all_replace)
qed

lemma delete_product_evolves:
  assumes "delete_product_row i d = Inr e"
  shows "evolves d e"
proof (rule evolves_other_tables)
  from assms have unsold: "\<And>p. p \<in> set (purchases d) \<Longrightarrow> pu_product_id p \<noteq> i"
    and e: "e = d\<lparr>products := filter (\<lambda>p. pr_id p \<noteq> i) (products d)\<rparr>"
    by (auto simp: delete_product_row_def list_ex_iff split: if_splits)
  then show "purchases e = purchases d" by simp
  assume "db_ok d"
  note ok = db_okD [OF this]
  have "purchase_row_ok e p" if "p \<in> set (purchases d)" and "purchase_row_ok d p" for p
    using unsold [OF that(1)] that(2) by (auto simp: e purchase_row_ok_def list_ex_iff)
  then have "list_all (purchase_row_ok e) (purchases d)"
    using ok(7) by (simp add: list_all_iff)
  with ok show "db_ok e"
    by (intro db_okI) (simp_all add: e list_all_iff distinct_map_filter)
qed

lemma insert_user_evolves:
  assumes "insert_user u d = Inr e"
    and "List.find (\<lambda>v. us_telegram_id v = us_telegram_id u) (users d) = None"
  shows "evolves d e"
proof (rule evolves_other_tables)
  from assms(1) have fits: "user_fits u" and viol: "user_violation u = None"
    and e: "e = d\<lparr>users := users d @ [u]\<rparr>"
    by (simp_all add: insert_user_def)
  then show "purchases e = purchases d" by simp
  assume "db_ok d"
  note ok = db_okD [OF this]
  have "user_row_ok u" using fits viol by (simp add: user_row_ok_def user_violation_def)
  moreover have "distinct (map us_telegram_id (users d @ [u]))"
    using ok(4) find_NoneD [OF assms(2)] unfolding distinct_append_key key_free_def list_all_iff
    by blast
  moreover have "list_all (purchase_row_ok e) (purchases d)"
    by (rule purchase_row_ok_tables [OF ok(7)]) (auto simp: e)
  ultimately show "db_ok e"
    using ok by (intro db_okI) (simp_all add: e del: map_append)
qed

lemma write_user_evolves:
  assumes "write_user u d = Inr e"
  shows "evolves d e"
proof (rule evolves_other_tables)
  from assms have fits: "user_fits u" and viol: "user_violation u = None"
    and e: "e = d\<lparr>users := replace_row us_telegram_id u (users d)\<rparr>"
    by (simp_all add: write_user_def)
  then show "purchases e = purchases d" by simp
  assume "db_ok d"
  note ok = db_okD [OF this]
  have "user_row_ok u" using fits viol by (simp add: user_row_ok_def user_violation_def)
  moreover have "list_all (purchase_row_ok e) (purchases d)"
    using ids_image [of us_telegram_id "users d" "users e"]
    by (intro purchase_row_ok_tables [OF ok(7)]) (simp_all add: e)
  ultimately show "db_ok e"
    using ok by (intro db_okI) (simp_all add: e list_all_replace)
qed

lemmas statements_evolve =
  insert_purchase_evolves write_purchase_evolves insert_product_evolves write_product_evolves
  delete_product_evolves insert_user_evolves write_user_evolves

end
