(* ===== verification/Queries.thy ===== *)
theory Queries
  imports History "HOL-Library.Sublist" "HOL-Library.Product_Lexorder"
begin

section \<open>Queries: single rows, pages, LIKE patterns\<close>

text \<open>
  What every repository query is made of: \<open>scalar_one_or_none\<close>, LIMIT and OFFSET with the
  pagination types of \<^verbatim>\<open>domain/pagination.py\<close>, ORDER BY, and the ILIKE search of
  \<^verbatim>\<open>infrastructure/db/errors.py\<close>. A page of a query is a slice of the ordered list of its rows.
\<close>

subsection \<open>Single rows\<close>

definition scalar_one_or_none :: "'r list \<Rightarrow> exn + 'r option" where
  "scalar_one_or_none rows = (case rows of
      [] \<Rightarrow> Inr None
    | [r] \<Rightarrow> Inr (Some r)
    | _ \<Rightarrow> Inl (other_exn MultipleResultsFound ''Multiple rows were found when one or none was required''))"

definition select_one :: "(database \<Rightarrow> 'r list) \<Rightarrow> ('r \<Rightarrow> bool) \<Rightarrow> (exn, database, 'r option) prog" where
  "select_one table P = (\<lambda>d. (scalar_one_or_none (filter P (table d)), d))"

definition get_by_key :: "(database \<Rightarrow> 'r list) \<Rightarrow> ('r \<Rightarrow> 'k) \<Rightarrow> 'k \<Rightarrow> (exn, database, 'r option) prog" where
  \<comment> \<open>\<open>session.get(Model, key)\<close>\<close>
  "get_by_key table k x = getsM (\<lambda>d. List.find (\<lambda>r. k r = x) (table d))"

text \<open>A unique key leaves at most one row to a query, so it never fails.\<close>

lemma filter_unique_on:
  assumes "unique_on P k rows"
  shows "length (filter (\<lambda>r. P r \<and> k r = x) rows) \<le> 1"
  using assms
proof (induction rows)
  case (Cons a rows)
  have "filter (\<lambda>r. P r \<and> k r = x) rows = []" if "P a" "k a = x"
    using Cons.prems that by (auto simp: unique_on_def filter_empty_conv image_iff)
  with Cons show ?case by (auto simp: unique_on_def split: if_splits)
qed simp

lemma scalar_unique:
  assumes "length (filter P rows) \<le> 1"
  shows "scalar_one_or_none (filter P rows) = Inr (List.find P rows)"
  using assms
proof (induction rows)
  case (Cons a rows)
  then show ?case by (cases "P a") (simp_all add: scalar_one_or_none_def)
qed (simp add: scalar_one_or_none_def)

lemma scalar_unique_on:
  assumes "unique_on P k rows"
  shows "scalar_one_or_none (filter (\<lambda>r. P r \<and> k r = x) rows)
     = Inr (List.find (\<lambda>r. P r \<and> k r = x) rows)"
  using filter_unique_on [OF assms] by (rule scalar_unique)

lemma scalar_SomeD:
  "scalar_one_or_none (filter P rows) = Inr (Some r) \<Longrightarrow> r \<in> set rows \<and> P r"
proof -
  assume "scalar_one_or_none (filter P rows) = Inr (Some r)"
  then have "filter P rows = [r]" by (auto simp: scalar_one_or_none_def split: list.splits)
  then have "r \<in> set (filter P rows)" by simp
  then show ?thesis by simp
qed

subsection \<open>Pages\<close>

definition max_page_size :: int where "max_page_size = 100"

record page_request =
  pq_limit :: int
  pq_offset :: int

definition mk_page_request :: "int \<Rightarrow> int \<Rightarrow> exn + page_request" where
  \<comment> \<open>\<open>PageRequest.__post_init__\<close>\<close>
  "mk_page_request limit offset =
     (if \<not> (1 \<le> limit \<and> limit \<le> max_page_size)
      then Inl (other_exn ValueError (''limit must be between 1 and '' @ int_str max_page_size
                  @ '', got '' @ int_str limit))
      else if offset < 0
      then Inl (other_exn ValueError (''offset must not be negative, got '' @ int_str offset))
      else Inr \<lparr>pq_limit = limit, pq_offset = offset\<rparr>)"

record 'i page =
  page_items :: "'i list"
  page_total :: int
  page_limit :: int
  page_offset :: int

definition has_more :: "'i page \<Rightarrow> bool" where
  "has_more p = (page_offset p + int (length (page_items p)) < page_total p)"

record product_filters =
  pf_search :: "string option"
  pf_is_active :: "bool option"

record purchase_filters =
  uf_search :: "string option"
  uf_statuses :: "purchase_status list"

definition slice :: "page_request \<Rightarrow> 'r list \<Rightarrow> 'r list" where
  \<comment> \<open>OFFSET, then LIMIT\<close>
  "slice pq rows = take (nat (pq_limit pq)) (drop (nat (pq_offset pq)) rows)"

definition page_of :: "page_request \<Rightarrow> 'r list \<Rightarrow> 'r page" where
  "page_of pq rows = \<lparr>page_items = slice pq rows, page_total = int (length rows),
     page_limit = pq_limit pq, page_offset = pq_offset pq\<rparr>"

definition newest_first :: "('r \<Rightarrow> datetime) \<Rightarrow> ('r \<Rightarrow> uuid) \<Rightarrow> 'r list \<Rightarrow> 'r list" where
  \<comment> \<open>ORDER BY created_at DESC, id DESC\<close>
  "newest_first created i rows = sort_key (\<lambda>r. (- created r, - uint (i r))) rows"

lemma set_newest_first [simp]: "set (newest_first c i rows) = set rows"
  by (simp add: newest_first_def)

lemma length_newest_first [simp]: "length (newest_first c i rows) = length rows"
  by (simp add: newest_first_def)

lemma distinct_newest_first [simp]: "distinct (newest_first c i rows) = distinct rows"
  by (simp add: newest_first_def distinct_sort)

lemma sorted_newest_first:
  "sorted (map (\<lambda>r. (- c r, - uint (i r))) (newest_first c i rows))"
  by (simp add: newest_first_def)

text \<open>Walking the pages with a fixed limit: the offsets a client asks for one after the other.\<close>

fun walk :: "nat \<Rightarrow> int \<Rightarrow> int \<Rightarrow> 'r list \<Rightarrow> 'r list" where
  "walk 0 limit offset rows = []"
| "walk (Suc fuel) limit offset rows =
     (let p = page_of \<lparr>pq_limit = limit, pq_offset = offset\<rparr> rows in
      page_items p @ (if has_more p then walk fuel limit (offset + limit) rows else []))"

lemma has_more_page_of:
  assumes "1 \<le> limit" and "0 \<le> offset"
  shows "has_more (page_of \<lparr>pq_limit = limit, pq_offset = offset\<rparr> rows)
     \<longleftrightarrow> offset + limit < int (length rows)"
  using assms by (auto simp: has_more_def page_of_def slice_def)

lemma page_items_page_of:
  "page_items (page_of \<lparr>pq_limit = limit, pq_offset = offset\<rparr> rows)
     = take (nat limit) (drop (nat offset) rows)"
  by (simp add: page_of_def slice_def)

lemma walk_all:
  assumes "1 \<le> limit" and "0 \<le> offset" and "int (length rows) < offset + int fuel"
  shows "walk fuel limit offset rows = drop (nat offset) rows"
  using assms
proof (induction fuel arbitrary: offset)
  case 0
  then show ?case by simp
next
  case (Suc fuel)
  have step: "walk (Suc fuel) limit offset rows = take (nat limit) (drop (nat offset) rows)
      @ (if offset + limit < int (length rows) then walk fuel limit (offset + limit) rows else [])"
    using Suc.prems by (simp add: Let_def page_items_page_of has_more_page_of)
  show ?case
  proof (cases "offset + limit < int (length rows)")
    case True
    have "walk fuel limit (offset + limit) rows = drop (nat (offset + limit)) rows"
      using Suc.prems by (intro Suc.IH) auto
    moreover have "nat (offset + limit) = nat limit + nat offset"
      using Suc.prems by (simp add: nat_add_distrib)
    ultimately have "walk fuel limit (offset + limit) rows
        = drop (nat limit) (drop (nat offset) rows)" by (simp only: drop_drop)
    with True step show ?thesis
      using append_take_drop_id [of "nat limit" "drop (nat offset) rows"] by metis
  next
    case False
    then have "length (drop (nat offset) rows) \<le> nat limit" using Suc.prems by simp
    with False step show ?thesis by (simp del: walk.simps)
  qed
qed

subsection \<open>LIKE\<close>

definition like_escape :: char where "like_escape = CHR 0x5C"

definition like_pattern :: "string \<Rightarrow> string" where
  "like_pattern term =
     (let escaped = replace_char (CHR ''_'') [like_escape, CHR ''_'']
            (replace_char (CHR ''%'') [like_escape, CHR ''%'']
              (replace_char like_escape [like_escape, like_escape] term))
      in ''%'' @ escaped @ ''%'')"

fun like_match :: "string \<Rightarrow> string \<Rightarrow> bool" where
  \<comment> \<open>SQL's LIKE with the backslash as its ESCAPE character\<close>
  "like_match [] s = (s = [])"
| "like_match (c # p) s =
     (if c = like_escape then
        (case p of [] \<Rightarrow> False
         | d # q \<Rightarrow> (case s of [] \<Rightarrow> False | x # t \<Rightarrow> x = d \<and> like_match q t))
      else if c = CHR ''%'' then list_ex (\<lambda>n. like_match p (drop n s)) [0..<Suc (length s)]
      else (case s of [] \<Rightarrow> False | x # t \<Rightarrow> (c = CHR ''_'' \<or> x = c) \<and> like_match p t))"

definition ilike :: "string \<Rightarrow> string \<Rightarrow> bool" where
  \<comment> \<open>ILIKE folds the case of both sides\<close>
  "ilike s pat = like_match (py_lower pat) (py_lower s)"

definition ilike_opt :: "string option \<Rightarrow> string \<Rightarrow> bool" where
  \<comment> \<open>a NULL column matches nothing\<close>
  "ilike_opt x pat = (case x of None \<Rightarrow> False | Some s \<Rightarrow> ilike s pat)"

text \<open>The three replacements together escape each special character once.\<close>

definition like_quote :: "char \<Rightarrow> string" where
  "like_quote c = (if c = like_escape \<or> c = CHR ''%'' \<or> c = CHR ''_'' then [like_escape, c] else [c])"

lemma like_pattern_concat: "like_pattern term = ''%'' @ concat (map like_quote term) @ ''%''"
proof -
  have "replace_char (CHR ''_'') [like_escape, CHR ''_'']
          (replace_char (CHR ''%'') [like_escape, CHR ''%'']
            (replace_char like_escape [like_escape, like_escape] t))
      = concat (map like_quote t)" for t
    by (induction t) (auto simp: like_quote_def like_escape_def)
  then show ?thesis by (simp add: like_pattern_def Let_def)
qed

lemma ord_py_lower_char: "ord (py_lower_char c) =
     (if (65 \<le> ord c \<and> ord c \<le> 90) \<or> (192 \<le> ord c \<and> ord c \<le> 222 \<and> ord c \<noteq> 215)
      then ord c + 32 else ord c)"
  by (auto simp: py_lower_char_def Let_def)

lemma char_eq_ord: "c = d \<longleftrightarrow> ord c = ord d"
  by (simp add: of_char_eq_iff)

lemma py_lower_special [simp]:
  "py_lower_char c = like_escape \<longleftrightarrow> c = like_escape"
  "py_lower_char c = CHR ''%'' \<longleftrightarrow> c = CHR ''%''"
  "py_lower_char c = CHR ''_'' \<longleftrightarrow> c = CHR ''_''"
  by (auto simp: char_eq_ord [of "py_lower_char c"] char_eq_ord [of c] ord_py_lower_char
      like_escape_def split: if_splits)

lemma py_lower_specials [simp]:
  "py_lower_char like_escape = like_escape" "py_lower_char (CHR ''%'') = CHR ''%''"
  by simp_all

lemma py_lower_concat: "py_lower (concat xs) = concat (map py_lower xs)"
  by (induction xs) (simp_all add: py_lower_def)

lemma py_lower_like_quote: "py_lower (like_quote c) = like_quote (py_lower_char c)"
  by (auto simp: like_quote_def py_lower_def)

lemma py_lower_pattern: "py_lower (like_pattern term) = like_pattern (py_lower term)"
proof -
  have "map (py_lower \<circ> like_quote) term = map like_quote (py_lower term)"
    using py_lower_like_quote by (simp add: py_lower_def)
  moreover have "py_lower ''%'' = ''%''" by (simp add: py_lower_def)
  ultimately show ?thesis
    unfolding like_pattern_concat py_lower_append py_lower_concat by simp
qed

lemma like_match_quoted:
  "like_match (concat (map like_quote t) @ p) s \<longleftrightarrow> (\<exists>u. s = t @ u \<and> like_match p u)"
proof (induction t arbitrary: s)
  case (Cons c t)
  then show ?case
    by (cases s) (auto simp: like_quote_def like_escape_def)
qed simp

lemma like_match_percent: "like_match (CHR ''%'' # p) s \<longleftrightarrow> (\<exists>u v. s = u @ v \<and> like_match p v)"
proof -
  have "like_match (CHR ''%'' # p) s \<longleftrightarrow> (\<exists>n\<le>length s. like_match p (drop n s))"
    by (auto simp: like_escape_def list_ex_iff less_Suc_eq_le simp del: upt_Suc)
  also have "\<dots> \<longleftrightarrow> (\<exists>u v. s = u @ v \<and> like_match p v)"
    by (metis append_eq_conv_conj append_take_drop_id length_append le_add1)
  finally show ?thesis .
qed

lemma like_pattern_substring: "like_match (like_pattern t) s \<longleftrightarrow> sublist t s"
proof -
  have "like_match ''%'' v" for v
    using like_match_percent [of "[]" v] by simp
  then have "like_match (like_pattern t) s \<longleftrightarrow> (\<exists>u v. s = u @ t @ v)"
    by (auto simp: like_pattern_concat like_match_percent like_match_quoted
        simp del: like_match.simps)
  then show ?thesis by (auto simp: sublist_def)
qed

lemma ilike_pattern: "ilike s (like_pattern t) \<longleftrightarrow> sublist (py_lower t) (py_lower s)"
  by (simp add: ilike_def py_lower_pattern like_pattern_substring)

subsection \<open>Properties\<close>

text \<open>
  Whatever a user types into a search box, wildcards and backslashes included, the ILIKE
  pattern built from it matches exactly the columns that contain it, ignoring case.
\<close>

theorem search_is_substring:
  "ilike s (like_pattern t) \<longleftrightarrow> sublist (py_lower t) (py_lower s)"
  by (rule ilike_pattern)



end
