(* ===== verification/Config.thy ===== *)
theory Config
  imports Slug
begin

section \<open>Configuration\<close>

text \<open>
  \<^verbatim>\<open>backend/app/core/config.py\<close>: one record per settings group, and for each group a function
  from the raw values to the validated group or the error that stops the process: the declared
  field bounds, the field validators (some of which normalise their value) and the model
  validators, in this order. Reading the environment and the \<open>.env\<close> file is left to
  pydantic-settings. A \<open>SecretStr\<close> is its text.
\<close>

definition config_error :: "string \<Rightarrow> exn" where
  "config_error msg = other_exn ValueError msg"

definition in_quotes :: "string \<Rightarrow> string" where
  "in_quotes s = CHR 0x27 # s @ [CHR 0x27]"

definition rstrip_char :: "char \<Rightarrow> string \<Rightarrow> string" where
  "rstrip_char c s = rev (dropWhile (\<lambda>x. x = c) (rev s))"

definition absolute_path :: "string \<Rightarrow> string \<Rightarrow> exn + string" where
  \<comment> \<open>the validators \<open>_validate_api_prefix\<close> and \<open>_validate_webhook_path\<close>\<close>
  "absolute_path msg value =
     (if \<not> starts_with ''/'' value then Inl (config_error msg)
      else Inr (rstrip_char (CHR ''/'') value))"

subsection \<open>Process-wide settings\<close>

datatype environment = LOCAL | TESTING | PRODUCTION

definition is_production :: "environment \<Rightarrow> bool" where
  "is_production e = (e = PRODUCTION)"

datatype log_level = DEBUG | INFO | WARNING | ERROR | CRITICAL

datatype log_format = JSON_FORMAT | CONSOLE_FORMAT

record app_settings =
  app_name :: string
  app_environment :: environment
  app_debug :: bool
  app_log_level :: log_level
  app_log_format :: log_format
  app_api_prefix :: string
  app_docs_enabled :: bool
  app_host :: string
  app_port :: int

definition port_ok :: "int \<Rightarrow> bool" where
  "port_ok n = (1 \<le> n \<and> n \<le> 65535)"

definition harden_production :: "app_settings \<Rightarrow> exn + app_settings" where
  "harden_production s =
     (if is_production (app_environment s) \<and> app_debug s
      then Inl (config_error ''debug must be disabled in the production environment'')
      else Inr s)"

definition load_app :: "app_settings \<Rightarrow> exn + app_settings" where
  "load_app s =
     (if \<not> port_ok (app_port s) then Inl (config_error ''port'')
      else (case absolute_path (''api_prefix must start with '' @ in_quotes ''/'') (app_api_prefix s) of
          Inl e \<Rightarrow> Inl e
        | Inr prefix \<Rightarrow> harden_production (s\<lparr>app_api_prefix := prefix\<rparr>)))"

subsection \<open>PostgreSQL and Redis\<close>

definition utf8 :: "char \<Rightarrow> nat list" where
  "utf8 c = (let n = ord c in if n < 128 then [n] else [192 + n div 64, 128 + n mod 64])"

definition unreserved :: "char \<Rightarrow> bool" where
  "unreserved c = (is_ascii_letter c \<or> is_ascii_digit c \<or> c \<in> set ''_.-~'')"

definition hex_upper :: "nat \<Rightarrow> char" where
  "hex_upper n = char_of (if n < 10 then 48 + n else 55 + n)"

definition percent :: "nat \<Rightarrow> string" where
  "percent b = [CHR ''%'', hex_upper (b div 16), hex_upper (b mod 16)]"

definition quote :: "string \<Rightarrow> string" where
  \<comment> \<open>\<open>urllib.parse.quote(s, safe="")\<close>\<close>
  "quote s = concat (map (\<lambda>c. if unreserved c then [c] else concat (map percent (utf8 c))) s)"

record postgres_settings =
  pg_host :: string
  pg_port :: int
  pg_user :: string
  pg_password :: string
  pg_db :: string
  pg_pool_size :: int
  pg_max_overflow :: int
  pg_pool_timeout :: rat
  pg_pool_recycle :: int
  pg_echo :: bool

definition load_postgres :: "postgres_settings \<Rightarrow> exn + postgres_settings" where
  "load_postgres s =
     (if port_ok (pg_port s) \<and> 1 \<le> pg_pool_size s \<and> pg_pool_size s \<le> 100
         \<and> 0 \<le> pg_max_overflow s \<and> pg_max_overflow s \<le> 100
         \<and> 0 < pg_pool_timeout s \<and> 0 < pg_pool_recycle s
      then Inr s else Inl (config_error ''postgres''))"

definition postgres_dsn :: "postgres_settings \<Rightarrow> string" where
  "postgres_dsn s = ''postgresql+asyncpg://'' @ quote (pg_user s) @ '':'' @ quote (pg_password s)
     @ ''@'' @ pg_host s @ '':'' @ int_str (pg_port s) @ ''/'' @ quote (pg_db s)"

record redis_settings =
  rs_host :: string
  rs_port :: int
  rs_db :: int
  rs_password :: "string option"
  rs_max_connections :: int
  rs_socket_timeout :: rat
  rs_lock_ttl_seconds :: rat
  rs_lock_wait_seconds :: rat

definition blank_password_means_none :: "string option \<Rightarrow> string option" where
  "blank_password_means_none value = (case value of
      Some s \<Rightarrow> (if py_strip s = [] then None else Some s) | None \<Rightarrow> None)"

definition load_redis :: "redis_settings \<Rightarrow> exn + redis_settings" where
  "load_redis s =
     (if port_ok (rs_port s) \<and> 0 \<le> rs_db s \<and> rs_db s \<le> 15
         \<and> 1 \<le> rs_max_connections s \<and> rs_max_connections s \<le> 500
         \<and> 0 < rs_socket_timeout s
         \<and> 5 \<le> rs_lock_ttl_seconds s \<and> rs_lock_ttl_seconds s \<le> 300
         \<and> 0 \<le> rs_lock_wait_seconds s \<and> rs_lock_wait_seconds s \<le> 30
      then Inr (s\<lparr>rs_password := blank_password_means_none (rs_password s)\<rparr>)
      else Inl (config_error ''redis''))"

definition redis_dsn :: "redis_settings \<Rightarrow> string" where
  "redis_dsn s =
     (let credentials = (case rs_password s of None \<Rightarrow> [] | Some p \<Rightarrow> '':'' @ quote p @ ''@'')
      in ''redis://'' @ credentials @ rs_host s @ '':'' @ int_str (rs_port s) @ ''/''
           @ int_str (rs_db s))"

subsection \<open>Telegram\<close>

record telegram_settings =
  tg_bot_token :: string
  tg_bot_username :: string
  tg_use_webhook :: bool
  tg_webhook_base_url :: "string option"
  tg_webhook_path :: string
  tg_webhook_secret :: string
  tg_drop_pending_updates :: bool

definition bot_username_body :: "string \<Rightarrow> bool" where
  "bot_username_body s = (5 \<le> length s \<and> length s \<le> 32 \<and> is_ascii_letter (hd s)
     \<and> list_all (\<lambda>c. is_ascii_letter c \<or> is_ascii_digit c \<or> c = CHR ''_'') (tl s))"

definition bot_token_body :: "string \<Rightarrow> bool" where
  "bot_token_body s =
     (let ident = takeWhile is_ascii_digit s; rest = dropWhile is_ascii_digit s in
      5 \<le> length ident \<and> rest \<noteq> [] \<and> hd rest = CHR '':''
      \<and> 30 \<le> length (tl rest) \<and> list_all slug_char (tl rest))"

definition removeprefix_at :: "string \<Rightarrow> string" where
  "removeprefix_at s = (if starts_with ''@'' s then tl s else s)"

definition normalise_username :: "string \<Rightarrow> exn + string" where
  "normalise_username value =
     (let candidate = removeprefix_at (py_strip value) in
      if \<not> re_dollar bot_username_body candidate
      then Inl (config_error (''bot_username must be a valid Telegram username without '' @ in_quotes ''@''))
      else Inr candidate)"

definition min_webhook_secret_length :: nat where
  "min_webhook_secret_length = 16"

definition load_telegram :: "telegram_settings \<Rightarrow> exn + telegram_settings" where
  "load_telegram s =
     (if \<not> re_dollar bot_token_body (tg_bot_token s)
      then Inl (config_error ''bot_token does not look like a Telegram bot token (<id>:<secret>)'')
      else (case normalise_username (tg_bot_username s) of
        Inl e \<Rightarrow> Inl e
      | Inr username \<Rightarrow>
          (case absolute_path (''webhook_path must start with '' @ in_quotes ''/'') (tg_webhook_path s) of
             Inl e \<Rightarrow> Inl e
           | Inr path \<Rightarrow>
               if length (tg_webhook_secret s) < min_webhook_secret_length
               then Inl (config_error ''webhook_secret must be at least 16 characters long'')
               else if tg_use_webhook s \<and> \<not> truthy (tg_webhook_base_url s)
               then Inl (config_error ''webhook_base_url is required when use_webhook is enabled'')
               else Inr (s\<lparr>tg_bot_username := username, tg_webhook_path := path\<rparr>))))"

definition webhook_url :: "telegram_settings \<Rightarrow> exn + string" where
  "webhook_url s = (case tg_webhook_base_url s of
      None \<Rightarrow> Inl (other_exn RuntimeError
        ''webhook_url is only available when webhook mode is configured'')
    | Some base \<Rightarrow> Inr (rstrip_char (CHR ''/'') base @ tg_webhook_path s))"

definition deep_link :: "telegram_settings \<Rightarrow> string \<Rightarrow> string" where
  "deep_link s slug = ''https://t.me/'' @ tg_bot_username s @ ''?start='' @ slug"

subsection \<open>CryptoBot, bot runtime, delivery\<close>

datatype crypto_network = MAINNET | TESTNET

record cryptobot_settings =
  cb_api_token :: string
  cb_network :: crypto_network
  cb_asset :: string
  cb_invoice_ttl_seconds :: int
  cb_request_timeout :: rat
  cb_webhook_path :: string

definition load_cryptobot :: "cryptobot_settings \<Rightarrow> exn + cryptobot_settings" where
  "load_cryptobot s =
     (if \<not> (60 \<le> cb_invoice_ttl_seconds s \<and> cb_invoice_ttl_seconds s \<le> 86400
            \<and> 0 < cb_request_timeout s)
      then Inl (config_error ''cryptobot'')
      else (case absolute_path (''webhook_path must start with '' @ in_quotes ''/'') (cb_webhook_path s) of
          Inl e \<Rightarrow> Inl e | Inr path \<Rightarrow> Inr (s\<lparr>cb_webhook_path := path\<rparr>)))"

definition api_base_url :: "cryptobot_settings \<Rightarrow> string" where
  "api_base_url s = (if cb_network s = TESTNET then ''https://testnet-pay.crypt.bot/api''
     else ''https://pay.crypt.bot/api'')"

record bot_settings =
  bot_webhook_host :: string
  bot_webhook_port :: int
  bot_throttle_seconds :: rat
  bot_reconciliation_interval_seconds :: rat
  bot_reconciliation_batch_size :: int
  bot_housekeeping_interval_seconds :: rat

definition load_bot :: "bot_settings \<Rightarrow> exn + bot_settings" where
  "load_bot s =
     (if port_ok (bot_webhook_port s)
         \<and> 0 \<le> bot_throttle_seconds s \<and> bot_throttle_seconds s \<le> 30
         \<and> 5 \<le> bot_reconciliation_interval_seconds s
         \<and> bot_reconciliation_interval_seconds s \<le> 3600
         \<and> 1 \<le> bot_reconciliation_batch_size s \<and> bot_reconciliation_batch_size s \<le> 200
         \<and> 10 \<le> bot_housekeeping_interval_seconds s
         \<and> bot_housekeeping_interval_seconds s \<le> 86400
      then Inr s else Inl (config_error ''bot''))"

record delivery_settings =
  dl_max_attempts :: nat
  dl_initial_backoff_seconds :: rat
  dl_max_backoff_seconds :: rat
  dl_backoff_multiplier :: rat
  dl_jitter_ratio :: rat

definition check_backoff_bounds :: "delivery_settings \<Rightarrow> exn + delivery_settings" where
  "check_backoff_bounds s =
     (if dl_max_backoff_seconds s < dl_initial_backoff_seconds s
      then Inl (config_error
        ''max_backoff_seconds must not be smaller than initial_backoff_seconds'')
      else Inr s)"

definition load_delivery :: "delivery_settings \<Rightarrow> exn + delivery_settings" where
  "load_delivery s =
     (if 1 \<le> dl_max_attempts s \<and> dl_max_attempts s \<le> 10
         \<and> 0 < dl_initial_backoff_seconds s \<and> dl_initial_backoff_seconds s \<le> 60
         \<and> 0 < dl_max_backoff_seconds s \<and> dl_max_backoff_seconds s \<le> 300
         \<and> 1 \<le> dl_backoff_multiplier s \<and> dl_backoff_multiplier s \<le> 10
         \<and> 0 \<le> dl_jitter_ratio s \<and> dl_jitter_ratio s \<le> 1
      then check_backoff_bounds s else Inl (config_error ''delivery''))"

definition default_delivery :: delivery_settings where
  "default_delivery = \<lparr>dl_max_attempts = 4, dl_initial_backoff_seconds = 1,
     dl_max_backoff_seconds = 20, dl_backoff_multiplier = 2, dl_jitter_ratio = 1 / 4\<rparr>"

subsection \<open>Security\<close>

record security_settings =
  sec_jwt_secret :: string
  sec_access_token_ttl_minutes :: int
  sec_refresh_token_ttl_days :: int
  sec_admin_username :: string
  sec_admin_password :: string
  sec_login_rate_limit :: int
  sec_login_rate_window_seconds :: rat
  sec_cookie_secure :: bool
  sec_cookie_name :: string
  sec_cors_origins :: "string list"

fun split_on :: "char \<Rightarrow> string \<Rightarrow> string list" where
  \<comment> \<open>\<open>s.split(c)\<close>\<close>
  "split_on c [] = [[]]"
| "split_on c (x # s) = (if x = c then [] # split_on c s
     else (case split_on c s of [] \<Rightarrow> [[x]] | p # ps \<Rightarrow> (x # p) # ps))"

definition split_origins :: "string \<Rightarrow> string list" where
  "split_origins value = map py_strip (filter (\<lambda>part. py_strip part \<noteq> []) (split_on (CHR '','') value))"

definition load_security :: "security_settings \<Rightarrow> exn + security_settings" where
  "load_security s =
     (if length (sec_jwt_secret s) < 32
      then Inl (config_error ''jwt_secret must be at least 32 characters long'')
      else if \<not> (1 \<le> sec_access_token_ttl_minutes s \<and> sec_access_token_ttl_minutes s \<le> 1440
               \<and> 1 \<le> sec_refresh_token_ttl_days s \<and> sec_refresh_token_ttl_days s \<le> 90
               \<and> 3 \<le> length (sec_admin_username s) \<and> length (sec_admin_username s) \<le> 64
               \<and> 1 \<le> sec_login_rate_limit s \<and> sec_login_rate_limit s \<le> 1000
               \<and> 1 \<le> sec_login_rate_window_seconds s \<and> sec_login_rate_window_seconds s \<le> 3600)
      then Inl (config_error ''security'')
      else if length (sec_admin_password s) < 12
      then Inl (config_error ''admin_password must be at least 12 characters long'')
      else Inr s)"

record settings =
  cfg_app :: app_settings
  cfg_postgres :: postgres_settings
  cfg_redis :: redis_settings
  cfg_telegram :: telegram_settings
  cfg_cryptobot :: cryptobot_settings
  cfg_bot :: bot_settings
  cfg_delivery :: delivery_settings
  cfg_security :: security_settings

end
