(* ===== verification/World.thy ===== *)
theory World
  imports Schema Config
begin

section \<open>The world of one process: database, Redis, clock, external services\<close>

text \<open>
  The state every service runs in, and the parameters that stand for what is outside \<^verbatim>\<open>src/\<close>.

  \<^item> \<open>env\<close> holds the settings and the unknown functions: what \<open>uuid4()\<close> returns, how long the
    n-th request takes, what Telegram answers to it, what Crypto Pay answers to it, the jitter,
    which bracketed or non-ASCII network locations \<open>urllib.parse\<close> accepts, the Crypto Pay
    signature of a body under a token (\<open>hmac\<close> and \<open>hashlib\<close>), \<open>json.loads\<close>, PyJWT under a
    secret (decoding also reads the clock) and argon2's verification of a password.
    Nothing is assumed of them; a theorem that needs more says so in a hypothesis.
  \<^item> \<open>world\<close> is the database, the Redis key space, the clock (microseconds), the number of UUIDs
    drawn and of requests made, and the list of the effects on the outside with their success.
  \<^item> \<open>in_uow\<close> is \<^verbatim>\<open>infrastructure/db/uow.py\<close>: one transaction per use case, committed when the
    block ends normally and rolled back on any exception.
\<close>

subsection \<open>What the bot says\<close>

text \<open>The user-facing texts of \<^verbatim>\<open>bot/texts.py\<close> by the name of their constant.\<close>

datatype bot_text =
  CARD_NOT_FOUND | CARD_UNAVAILABLE | NO_DEEP_LINK | ALREADY_PURCHASED | PAYMENT_IN_PROGRESS
| TOO_FAST | PAYMENT_UNAVAILABLE | TXT_DELIVERY_FAILED | CRYPTO_INVOICE_CREATED
| PRE_CHECKOUT_UNAVAILABLE | PRE_CHECKOUT_ALREADY_OWNED | PRE_CHECKOUT_UNKNOWN | REFUND_NOTICE

text \<open>The requests the program makes to the outside.\<close>

datatype effect =
  SendDelivery delivery_message
| SendStarsInvoice invoice_request
| CallCryptoPay string "(string \<times> json) list"
| Answer int bot_text
| AnswerPayKeyboard int string
| AnswerCard int product_card
| AnswerCallback int "bot_text option"
| AnswerPreCheckout "bot_text option"
| Slept rat

datatype http_outcome =
  HttpFailure string
| HttpResponse nat "json option"

record env =
  env_settings :: settings
  env_uuid4 :: "nat \<Rightarrow> uuid"
  env_latency :: "nat \<Rightarrow> nat"
  env_telegram :: "nat \<Rightarrow> effect \<Rightarrow> exn option"
  env_crypto_pay :: "nat \<Rightarrow> string \<Rightarrow> (string \<times> json) list \<Rightarrow> http_outcome"
  env_jitter :: "nat \<Rightarrow> rat"
  env_netloc_ok :: "string \<Rightarrow> bool"
  env_signature :: "string \<Rightarrow> string \<Rightarrow> string"
  env_json_loads :: "string \<Rightarrow> json option"
  env_jwt_encode :: "string \<Rightarrow> (string \<times> json) list \<Rightarrow> string"
  env_jwt_decode :: "string \<Rightarrow> int \<Rightarrow> string \<Rightarrow> string + (string \<times> json) list"
  env_argon2_verify :: "string \<Rightarrow> string \<Rightarrow> bool"

datatype redis_value = RStr string | RInt int

record redis_entry =
  r_value :: redis_value
  r_expires_at :: "int option"

type_synonym keyspace = "string \<Rightarrow> redis_entry option"

record world =
  db :: database
  redis :: keyspace
  clock :: int
  uuids_drawn :: nat
  requests :: nat
  effects :: "(effect \<times> bool) list"

type_synonym 'a action = "(exn, world, 'a) prog"

subsection \<open>Time, randomness, requests\<close>

definition utc_now :: "datetime action" where
  "utc_now = getsM clock"

definition microseconds :: "rat \<Rightarrow> int" where
  "microseconds secs = \<lfloor>secs * 1000000\<rfloor>"

definition new_uuid :: "env \<Rightarrow> uuid action" where
  "new_uuid E = (\<lambda>w. (Inr (env_uuid4 E (uuids_drawn w)), w\<lparr>uuids_drawn := Suc (uuids_drawn w)\<rparr>))"

definition sleep_for :: "rat \<Rightarrow> unit action" where
  "sleep_for secs = modifyM (\<lambda>w. w\<lparr>clock := clock w + max 0 (microseconds secs),
     effects := effects w @ [(Slept secs, True)]\<rparr>)"

definition after_request :: "env \<Rightarrow> effect \<Rightarrow> bool \<Rightarrow> world \<Rightarrow> world" where
  "after_request E eff ok w = w\<lparr>clock := clock w + int (env_latency E (requests w)),
     requests := Suc (requests w), effects := effects w @ [(eff, ok)]\<rparr>"

definition telegram_request :: "env \<Rightarrow> effect \<Rightarrow> unit action" where
  \<comment> \<open>one awaited Bot API call: it succeeds or raises what aiogram raises\<close>
  "telegram_request E eff = (\<lambda>w. case env_telegram E (requests w) eff of
      None \<Rightarrow> (Inr (), after_request E eff True w)
    | Some e \<Rightarrow> (Inl e, after_request E eff False w))"

definition crypto_pay_request :: "env \<Rightarrow> string \<Rightarrow> (string \<times> json) list \<Rightarrow> http_outcome action" where
  "crypto_pay_request E meth payload = (\<lambda>w.
     (Inr (env_crypto_pay E (requests w) meth payload),
      after_request E (CallCryptoPay meth payload) True w))"

subsection \<open>The unit of work\<close>

definition in_uow :: "(datetime \<Rightarrow> (exn, database, 'a) prog) \<Rightarrow> 'a action" where
  "in_uow body = (\<lambda>w. case body (clock w) (db w) of
      (Inl e, _) \<Rightarrow> (Inl e, w)
    | (Inr x, d) \<Rightarrow> (Inr x, w\<lparr>db := d\<rparr>))"

lemma in_uow_run [prog_simps]:
  "in_uow body w = (case body (clock w) (db w) of
      (Inl e, _) \<Rightarrow> (Inl e, w) | (Inr x, d) \<Rightarrow> (Inr x, w\<lparr>db := d\<rparr>))"
  by (simp add: in_uow_def)

text \<open>A failed unit of work changes nothing at all.\<close>

lemma in_uow_rollback: "in_uow body w = (Inl e, w') \<Longrightarrow> w' = w"
  by (auto simp: in_uow_def split: prod.splits sum.splits)

lemma in_uow_commit:
  "in_uow body w = (Inr x, w') \<longleftrightarrow>
     (\<exists>d. body (clock w) (db w) = (Inr x, d) \<and> w' = w\<lparr>db := d\<rparr>)"
  by (auto simp: in_uow_def split: prod.splits sum.splits)

lemma in_uow_fails:
  "in_uow body w = (Inl e, w') \<longleftrightarrow> (\<exists>d. body (clock w) (db w) = (Inl e, d)) \<and> w' = w"
  by (auto simp: in_uow_def split: prod.splits sum.splits)

subsection \<open>Which part of the world an action touches\<close>

text \<open>
  The interface of a property of the database (an invariant, a life cycle) that the services use:
  a preorder on databases, lifted to worlds. An action that leaves the database alone moves along
  it trivially, and a unit of work moves along it when its body does.
\<close>

locale db_preorder = state_preorder R for R :: "database \<Rightarrow> database \<Rightarrow> bool"
begin

sublocale w: state_preorder "\<lambda>(v::world) w. R (db v) (db w)"
  by unfold_locales (auto intro: R_refl R_trans)

lemma along_in_uow:
  assumes "\<And>now. along R (body now)"
  shows "along (\<lambda>(v::world) w. R (db v) (db w)) (in_uow body)"
proof (rule alongI)
  fix w :: world
  obtain r d where run: "body (clock w) (db w) = (r, d)" by (cases "body (clock w) (db w)")
  then have "R (db w) d" using assms alongD_eq by metis
  then show "R (db w) (db (snd (in_uow body w)))"
    using run by (auto simp: in_uow_def R_refl split: sum.split)
qed

lemma along_same_db: "along (\<lambda>v w. db v = db w) m \<Longrightarrow> along (\<lambda>(v::world) w. R (db v) (db w)) m"
  by (erule along_mono) (simp add: R_refl)

lemma along_sleep_for: "along (\<lambda>(v::world) w. R (db v) (db w)) (sleep_for s)"
  by (simp add: along_def sleep_for_def R_refl)

lemma along_new_uuid: "along (\<lambda>(v::world) w. R (db v) (db w)) (new_uuid E)"
  by (simp add: along_def new_uuid_def R_refl)

lemma along_utc_now: "along (\<lambda>(v::world) w. R (db v) (db w)) utc_now"
  by (simp add: along_def utc_now_def R_refl)

lemma along_telegram_request: "along (\<lambda>(v::world) w. R (db v) (db w)) (telegram_request E eff)"
  by (simp add: along_def telegram_request_def after_request_def R_refl split: option.split)

lemma along_crypto_pay_request: "along (\<lambda>(v::world) w. R (db v) (db w)) (crypto_pay_request E meth payload)"
  by (simp add: along_def crypto_pay_request_def after_request_def R_refl)

lemmas along_actions =
  w.along_rules along_in_uow along_sleep_for along_new_uuid along_utc_now along_telegram_request
  along_crypto_pay_request

end

interpretation same_db: db_preorder "(=)"
  by unfold_locales auto

interpretation db_frame: db_preorder "\<lambda>d e. f d = f e" for f :: "database \<Rightarrow> 'v"
  by unfold_locales auto

interpretation db_keeps: db_preorder "\<lambda>d e. I d \<longrightarrow> I e" for I :: "database \<Rightarrow> bool"
  by unfold_locales auto

end
