(* ===== verification/LockKeys.thy ===== *)
theory LockKeys
  imports Domain
begin

section \<open>Names of the distributed locks\<close>

text \<open>
  \<^verbatim>\<open>backend/app/domain/locks.py\<close> and the throttle key of \<^verbatim>\<open>backend/app/bot/middlewares.py\<close>.
  All four families share one Redis key space, so two different resources must never get the
  same name: a collision would make unrelated buyers block each other.
\<close>

definition purchase_lock_key :: "int \<Rightarrow> uuid \<Rightarrow> string" where
  "purchase_lock_key user_id product_id =
     ''purchase:'' @ int_str user_id @ '':'' @ uuid_str product_id"

definition delivery_lock_key :: "uuid \<Rightarrow> string" where
  "delivery_lock_key purchase_id = ''delivery:'' @ uuid_str purchase_id"

definition payment_lock_key :: "payment_provider \<Rightarrow> string \<Rightarrow> string" where
  "payment_lock_key provider external_id =
     ''payment:'' @ provider_value provider @ '':'' @ external_id"

definition throttle_key :: "int \<Rightarrow> string" where
  "throttle_key user_id = ''throttle:'' @ int_str user_id"

text \<open>The resources the four families name, as one type.\<close>

datatype lock_resource =
  PurchaseOf int uuid | DeliveryOf uuid | PaymentOf payment_provider string | ThrottleOf int

fun resource_key :: "lock_resource \<Rightarrow> string" where
  "resource_key (PurchaseOf u p) = purchase_lock_key u p"
| "resource_key (DeliveryOf p) = delivery_lock_key p"
| "resource_key (PaymentOf pr e) = payment_lock_key pr e"
| "resource_key (ThrottleOf u) = throttle_key u"

lemma purchase_lock_key_inject:
  "purchase_lock_key u p = purchase_lock_key v q \<longleftrightarrow> u = v \<and> p = q"
  using sep_inject [OF int_str_no_colon [of u] int_str_no_colon [of v], of "uuid_str p" "uuid_str q"]
  by (simp add: purchase_lock_key_def)

lemma payment_lock_key_inject:
  "payment_lock_key a x = payment_lock_key b y \<longleftrightarrow> a = b \<and> x = y"
  using sep_inject [OF provider_value_no_colon [of a] provider_value_no_colon [of b], of x y]
  by (simp add: payment_lock_key_def)

lemma delivery_lock_key_inject: "delivery_lock_key p = delivery_lock_key q \<longleftrightarrow> p = q"
  by (simp add: delivery_lock_key_def)

lemma throttle_key_inject: "throttle_key u = throttle_key v \<longleftrightarrow> u = v"
  by (simp add: throttle_key_def)

lemmas lock_key_injects =
  purchase_lock_key_inject payment_lock_key_inject delivery_lock_key_inject throttle_key_inject

text \<open>
  Two lock names are equal only if they name the same resource: the key functions are
  injective and the four families are disjoint, so buyers, purchases and invoices never block
  one another.
\<close>

theorem resource_key_injective: "resource_key r = resource_key r' \<longleftrightarrow> r = r'"
proof (cases r; cases r')
  show ?thesis if "r = PurchaseOf u p" "r' = PurchaseOf v q" for u p v q
    using that by (simp add: lock_key_injects)
  show ?thesis if "r = DeliveryOf p" "r' = DeliveryOf q" for p q
    using that by (simp add: lock_key_injects)
  show ?thesis if "r = PaymentOf a x" "r' = PaymentOf b y" for a x b y
    using that by (simp add: lock_key_injects)
  show ?thesis if "r = ThrottleOf u" "r' = ThrottleOf v" for u v
    using that by (simp add: lock_key_injects)
qed (simp_all add: purchase_lock_key_def delivery_lock_key_def payment_lock_key_def
      throttle_key_def)

end
