(* ===== verification/RedisStore.thy ===== *)
theory RedisStore
  imports World LockKeys
begin

section \<open>Redis: key space, distributed locks, rate limiter, revocation list\<close>

text \<open>
  \<^verbatim>\<open>backend/app/infrastructure/cache/\<close>: \<open>locks.py\<close>, \<open>rate_limit.py\<close>, \<open>revocation.py\<close>. The
  commands the program sends (SET with NX and PX, GET, DEL, EXISTS, INCR, PTTL, PEXPIRE and the
  compare-and-delete script) act on a key space whose entries vanish at their expiry. Redis
  counts milliseconds; the clock of the world counts microseconds.
\<close>

subsection \<open>Commands\<close>

definition now_ms :: "int \<Rightarrow> int" where
  "now_ms t = t div 1000"

definition entry_live :: "int \<Rightarrow> redis_entry \<Rightarrow> bool" where
  "entry_live ms e = (case r_expires_at e of None \<Rightarrow> True | Some t \<Rightarrow> ms < t)"

definition r_get :: "int \<Rightarrow> string \<Rightarrow> keyspace \<Rightarrow> redis_entry option" where
  "r_get ms k R = (case R k of None \<Rightarrow> None | Some e \<Rightarrow> if entry_live ms e then Some e else None)"

definition r_set_nx_px :: "int \<Rightarrow> string \<Rightarrow> string \<Rightarrow> int \<Rightarrow> keyspace \<Rightarrow> bool \<times> keyspace" where
  "r_set_nx_px ms k v px R = (case r_get ms k R of
      Some _ \<Rightarrow> (False, R)
    | None \<Rightarrow> (True, R(k \<mapsto> \<lparr>r_value = RStr v, r_expires_at = Some (ms + px)\<rparr>)))"

definition r_set_px :: "int \<Rightarrow> string \<Rightarrow> string \<Rightarrow> int \<Rightarrow> keyspace \<Rightarrow> keyspace" where
  "r_set_px ms k v px R = R(k \<mapsto> \<lparr>r_value = RStr v, r_expires_at = Some (ms + px)\<rparr>)"

definition r_del :: "string \<Rightarrow> keyspace \<Rightarrow> keyspace" where
  "r_del k R = R(k := None)"

definition r_exists :: "int \<Rightarrow> string \<Rightarrow> keyspace \<Rightarrow> bool" where
  "r_exists ms k R = (r_get ms k R \<noteq> None)"

definition r_release_script :: "int \<Rightarrow> string \<Rightarrow> string \<Rightarrow> keyspace \<Rightarrow> bool \<times> keyspace" where
  \<comment> \<open>\<open>_RELEASE_SCRIPT\<close>: delete the key only when it still holds our token\<close>
  "r_release_script ms k token R =
     (if (case r_get ms k R of None \<Rightarrow> False | Some e \<Rightarrow> r_value e = RStr token)
      then (True, r_del k R) else (False, R))"

definition r_incr :: "int \<Rightarrow> string \<Rightarrow> keyspace \<Rightarrow> (int \<times> keyspace) option" where
  \<comment> \<open>INCR keeps the expiry of a live counter; \<open>None\<close> is the error on a value that is no integer\<close>
  "r_incr ms k R = (case r_get ms k R of
      None \<Rightarrow> Some (1, R(k \<mapsto> \<lparr>r_value = RInt 1, r_expires_at = None\<rparr>))
    | Some e \<Rightarrow> (case r_value e of
        RStr _ \<Rightarrow> None
      | RInt n \<Rightarrow> Some (n + 1, R(k \<mapsto> e\<lparr>r_value := RInt (n + 1)\<rparr>))))"

definition r_pttl :: "int \<Rightarrow> string \<Rightarrow> keyspace \<Rightarrow> int" where
  \<comment> \<open>-2 for a missing key, -1 for a key without an expiry\<close>
  "r_pttl ms k R = (case r_get ms k R of None \<Rightarrow> - 2
    | Some e \<Rightarrow> (case r_expires_at e of None \<Rightarrow> - 1 | Some t \<Rightarrow> t - ms))"

definition r_pexpire :: "int \<Rightarrow> string \<Rightarrow> int \<Rightarrow> keyspace \<Rightarrow> keyspace" where
  "r_pexpire ms k px R = (case r_get ms k R of None \<Rightarrow> R
    | Some e \<Rightarrow> R(k \<mapsto> e\<lparr>r_expires_at := Some (ms + px)\<rparr>))"

definition millis :: "rat \<Rightarrow> int" where
  \<comment> \<open>\<open>max(1, int(seconds * 1000))\<close>; \<open>int\<close> truncates towards zero\<close>
  "millis secs = max 1 (if 0 \<le> secs then \<lfloor>secs * 1000\<rfloor> else \<lceil>secs * 1000\<rceil>)"

lemma millis_pos [simp]: "1 \<le> millis secs" "0 < millis secs"
  by (simp_all add: millis_def)

subsection \<open>Locks\<close>

definition lock_name :: "string \<Rightarrow> string" where
  "lock_name key = ''lock:'' @ key"

definition retry_delay :: int where
  \<comment> \<open>\<open>_RETRY_DELAY_SECONDS\<close> in microseconds\<close>
  "retry_delay = 50000"

function acquire :: "string \<Rightarrow> string \<Rightarrow> int \<Rightarrow> int \<Rightarrow> world \<Rightarrow> bool \<times> world" where
  \<comment> \<open>the loop of \<open>_acquire\<close>: the deadline is in microseconds, \<open>px\<close> in milliseconds\<close>
  "acquire name token px deadline w =
     (case r_set_nx_px (now_ms (clock w)) name token px (redis w) of
        (True, R) \<Rightarrow> (True, w\<lparr>redis := R\<rparr>)
      | (False, _) \<Rightarrow>
          if deadline \<le> clock w then (False, w)
          else acquire name token px deadline (w\<lparr>clock := clock w + retry_delay\<rparr>))"
  by pat_completeness auto
termination
  by (relation "measure (\<lambda>(_, _, _, deadline, w). nat (deadline - clock w))")
    (auto simp: retry_delay_def)

declare acquire.simps [simp del]

definition release_safely :: "string \<Rightarrow> string \<Rightarrow> unit action" where
  "release_safely name token =
     modifyM (\<lambda>w. w\<lparr>redis := snd (r_release_script (now_ms (clock w)) name token (redis w))\<rparr>)"

definition lock_ttl :: "env \<Rightarrow> rat option \<Rightarrow> rat" where
  "lock_ttl E ttl = (case ttl of Some t \<Rightarrow> t | None \<Rightarrow> rs_lock_ttl_seconds (cfg_redis (env_settings E)))"

definition lock_wait :: "env \<Rightarrow> rat option \<Rightarrow> rat" where
  "lock_wait E wait = (case wait of Some t \<Rightarrow> t | None \<Rightarrow> rs_lock_wait_seconds (cfg_redis (env_settings E)))"

definition try_lock :: "env \<Rightarrow> string \<Rightarrow> string \<Rightarrow> rat option \<Rightarrow> rat option \<Rightarrow> bool action" where
  "try_lock E name token ttl wait = (\<lambda>w.
     (case acquire name token (millis (lock_ttl E ttl))
             (clock w + microseconds (lock_wait E wait)) w of
        (ok, w') \<Rightarrow> (Inr ok, w')))"

definition with_lock :: "env \<Rightarrow> string \<Rightarrow> rat option \<Rightarrow> rat option \<Rightarrow> 'a action \<Rightarrow> 'a action" where
  \<comment> \<open>\<open>async with locks.lock(key, ttl_seconds=..., wait_seconds=...)\<close>\<close>
  "with_lock E key ttl wait body =
     bindM (new_uuid E) (\<lambda>u.
       let token = uuid_hex u; name = lock_name key in
       bindM (try_lock E name token ttl wait) (\<lambda>acquired.
         if \<not> acquired then throw (err LockBusyError [(''lock_key'', JStr key)])
         else finallyM body (release_safely name token)))"

definition holder :: "int \<Rightarrow> string \<Rightarrow> keyspace \<Rightarrow> string option" where
  \<comment> \<open>whose token a lock carries right now\<close>
  "holder ms name R = (case r_get ms name R of
      Some e \<Rightarrow> (case r_value e of RStr t \<Rightarrow> Some t | RInt _ \<Rightarrow> None) | None \<Rightarrow> None)"

subsection \<open>Fixed-window rate limiter\<close>

definition rate_name :: "string \<Rightarrow> string" where
  "rate_name key = ''rate:'' @ key"

definition rate_hit :: "string \<Rightarrow> int \<Rightarrow> rat \<Rightarrow> bool action" where
  \<comment> \<open>the INCR and the PTTL travel in one pipeline\<close>
  "rate_hit key limit window_seconds = (\<lambda>w.
     let name = rate_name key; ms = now_ms (clock w) in
     case r_incr ms name (redis w) of
       None \<Rightarrow> (Inl (other_exn ExceptionC ''value is not an integer''), w)
     | Some (attempts, R) \<Rightarrow>
         let ttl = r_pttl ms name R;
             R' = (if ttl < 0 then r_pexpire ms name (millis window_seconds) R else R)
         in (Inr (attempts \<le> limit), w\<lparr>redis := R'\<rparr>))"

definition rate_reset :: "string \<Rightarrow> unit action" where
  "rate_reset key = modifyM (\<lambda>w. w\<lparr>redis := r_del (rate_name key) (redis w)\<rparr>)"

subsection \<open>Token revocation list\<close>

definition revoked_name :: "string \<Rightarrow> string" where
  "revoked_name token_id = ''revoked-token:'' @ token_id"

definition revoke :: "string \<Rightarrow> rat \<Rightarrow> unit action" where
  "revoke token_id ttl_seconds = modifyM (\<lambda>w. w\<lparr>redis :=
     r_set_px (now_ms (clock w)) (revoked_name token_id) ''1'' (millis ttl_seconds) (redis w)\<rparr>)"

definition is_revoked :: "string \<Rightarrow> bool action" where
  "is_revoked token_id = getsM (\<lambda>w. r_exists (now_ms (clock w)) (revoked_name token_id) (redis w))"

subsection \<open>What the commands do\<close>

lemma now_ms_mono: "s \<le> t \<Longrightarrow> now_ms s \<le> now_ms t"
  by (simp add: now_ms_def zdiv_mono1)

lemma acquire_db [simp]: "db (snd (acquire name token px deadline w)) = db w"
  and acquire_uuids [simp]: "uuids_drawn (snd (acquire name token px deadline w)) = uuids_drawn w"
  and acquire_requests [simp]: "requests (snd (acquire name token px deadline w)) = requests w"
  and acquire_effects [simp]: "effects (snd (acquire name token px deadline w)) = effects w"
  and acquire_other_keys: "k \<noteq> name \<Longrightarrow> redis (snd (acquire name token px deadline w)) k = redis w k"
  by (induction name token px deadline w rule: acquire.induct;
      subst acquire.simps; simp split: prod.split bool.split add: r_set_nx_px_def split: option.splits)+

lemma acquire_clock_mono: "clock w \<le> clock (snd (acquire name token px deadline w))"
proof (induction name token px deadline w rule: acquire.induct)
  case (1 name token px deadline w)
  show ?case
  proof (cases "r_get (now_ms (clock w)) name (redis w)")
    case None
    then show ?thesis by (simp add: acquire.simps [of name] r_set_nx_px_def)
  next
    case (Some e)
    then have set: "r_set_nx_px (now_ms (clock w)) name token px (redis w) = (False, redis w)"
      by (simp add: r_set_nx_px_def)
    show ?thesis
      using "1.IH" [OF set [symmetric] refl]
      by (cases "deadline \<le> clock w")
        (simp_all add: acquire.simps [of name _ _ _ w] set retry_delay_def)
  qed
qed

text \<open>
  Waiting is bounded: the loop gives up at the first look at or after the deadline, which is at
  most one retry delay late.
\<close>

lemma acquire_clock_bound:
  "clock (snd (acquire name token px deadline w)) \<le> max (clock w) (deadline + retry_delay)"
proof (induction name token px deadline w rule: acquire.induct)
  case (1 name token px deadline w)
  show ?case
  proof (cases "fst (r_set_nx_px (now_ms (clock w)) name token px (redis w)) \<or> deadline \<le> clock w")
    case True
    then show ?thesis
      by (subst acquire.simps) (auto split: prod.split bool.split)
  next
    case False
    then obtain R where "r_set_nx_px (now_ms (clock w)) name token px (redis w) = (False, R)"
      by (metis fst_conv prod.collapse)
    with False "1" show ?thesis
      by (subst acquire.simps) (auto simp: retry_delay_def max_def split: if_splits)
  qed
qed

lemma acquire_refused:
  "fst (acquire name token px deadline w) = False \<Longrightarrow>
     deadline \<le> clock (snd (acquire name token px deadline w))"
proof (induction name token px deadline w rule: acquire.induct)
  case (1 name token px deadline w)
  then show ?case
    by (subst acquire.simps, subst (asm) (2) acquire.simps)
      (auto simp: r_set_nx_px_def split: option.splits prod.splits bool.splits if_splits)
qed

text \<open>What a successful acquisition leaves behind.\<close>

lemma acquire_holds:
  assumes "acquire name token px deadline w = (True, w')"
  shows "r_get (now_ms (clock w')) name (redis w) = None
     \<and> w' = w\<lparr>clock := clock w', redis := (redis w)(name \<mapsto>
          \<lparr>r_value = RStr token, r_expires_at = Some (now_ms (clock w') + px)\<rparr>)\<rparr>"
  using assms
proof (induction name token px deadline w rule: acquire.induct)
  case (1 name token px deadline w)
  show ?case
  proof (cases "r_get (now_ms (clock w)) name (redis w)")
    case None
    with "1.prems" show ?thesis
      by (cases w) (auto simp: acquire.simps [of name] r_set_nx_px_def)
  next
    case (Some e)
    then have set: "r_set_nx_px (now_ms (clock w)) name token px (redis w) = (False, redis w)"
      by (simp add: r_set_nx_px_def)
    with "1.prems" have "\<not> deadline \<le> clock w"
      and "acquire name token px deadline (w\<lparr>clock := clock w + retry_delay\<rparr>) = (True, w')"
      by (simp_all add: acquire.simps [of name _ _ _ w] split: if_splits)
    from "1.IH" [OF set [symmetric] refl this] show ?thesis by simp
  qed
qed

context db_preorder
begin

lemma along_try_lock: "along (\<lambda>(v::world) w. R (db v) (db w)) (try_lock E name token ttl wait)"
  by (simp add: along_def try_lock_def split_def R_refl)

lemma along_release: "along (\<lambda>(v::world) w. R (db v) (db w)) (release_safely name token)"
  by (simp add: along_def release_safely_def R_refl)

lemma along_with_lock:
  "along (\<lambda>(v::world) w. R (db v) (db w)) body \<Longrightarrow>
     along (\<lambda>(v::world) w. R (db v) (db w)) (with_lock E key ttl wait body)"
  unfolding with_lock_def Let_def
  by (intro along_actions along_try_lock along_release)

lemma along_rate_hit: "along (\<lambda>(v::world) w. R (db v) (db w)) (rate_hit key limit window)"
  by (auto simp: along_def rate_hit_def R_refl Let_def split: option.split)

lemma along_rate_reset: "along (\<lambda>(v::world) w. R (db v) (db w)) (rate_reset key)"
  by (simp add: along_def rate_reset_def R_refl)

lemma along_revoke: "along (\<lambda>(v::world) w. R (db v) (db w)) (revoke token ttl)"
  by (simp add: along_def revoke_def R_refl)

lemma along_is_revoked: "along (\<lambda>(v::world) w. R (db v) (db w)) (is_revoked token)"
  by (simp add: along_def is_revoked_def R_refl)

lemmas along_redis =
  along_with_lock along_rate_hit along_rate_reset along_revoke along_is_revoked

end

subsection \<open>The lease contract\<close>

text \<open>
  What the clients of a lock rely on: a lease is granted only when no live lease exists, nobody
  but its owner can end it early, and it ends by itself at its expiry.
\<close>

datatype lock_op = TryLock string int | Unlock string | Tick nat

locale lease_store =
  fixes invar :: "'s \<Rightarrow> bool"
    and time :: "'s \<Rightarrow> int"
    and lease :: "'s \<Rightarrow> (string \<times> int) option"
    and grab :: "string \<Rightarrow> int \<Rightarrow> 's \<Rightarrow> bool \<times> 's"
    and drop_lease :: "string \<Rightarrow> 's \<Rightarrow> bool \<times> 's"
    and tick :: "nat \<Rightarrow> 's \<Rightarrow> 's"
  assumes invar_grab: "invar s \<Longrightarrow> invar (snd (grab t px s))"
    and invar_drop: "invar s \<Longrightarrow> invar (snd (drop_lease t s))"
    and invar_tick: "invar s \<Longrightarrow> invar (tick d s)"
    and grab_busy: "invar s \<Longrightarrow> lease s = Some l \<Longrightarrow> grab t px s = (False, s)"
    and grab_free: "invar s \<Longrightarrow> lease s = None \<Longrightarrow> 0 < px \<Longrightarrow>
          fst (grab t px s) \<and> lease (snd (grab t px s)) = Some (t, time s + px)
          \<and> time (snd (grab t px s)) = time s"
    and drop_own: "invar s \<Longrightarrow> lease s = Some (t, e) \<Longrightarrow>
          fst (drop_lease t s) \<and> lease (snd (drop_lease t s)) = None"
    and drop_foreign: "invar s \<Longrightarrow> \<forall>e. lease s \<noteq> Some (t, e) \<Longrightarrow> drop_lease t s = (False, s)"
    and tick_time: "time s \<le> time (tick d s)"
    and tick_lease: "invar s \<Longrightarrow> lease (tick d s) =
          (case lease s of Some (t, e) \<Rightarrow> if time (tick d s) < e then Some (t, e) else None
           | None \<Rightarrow> None)"
begin

fun perform :: "lock_op \<Rightarrow> 's \<Rightarrow> bool \<times> 's" where
  "perform (TryLock t px) s = grab t px s"
| "perform (Unlock t) s = drop_lease t s"
| "perform (Tick d) s = (True, tick d s)"

fun run_ops :: "lock_op list \<Rightarrow> 's \<Rightarrow> 's" where
  "run_ops [] s = s"
| "run_ops (op # ops) s = run_ops ops (snd (perform op s))"

fun grants :: "lock_op list \<Rightarrow> 's \<Rightarrow> string list" where
  "grants [] s = []"
| "grants (op # ops) s =
     (case op of
        TryLock t px \<Rightarrow> (if fst (grab t px s) then [t] else [])
      | _ \<Rightarrow> []) @ grants ops (snd (perform op s))"

lemma invar_perform: "invar s \<Longrightarrow> invar (snd (perform op s))"
  by (cases op) (auto intro: invar_grab invar_drop invar_tick)

text \<open>While a lease is alive, whatever anybody else does, it stays and no other is granted.\<close>

lemma exclusive:
  assumes "invar s" and "lease s = Some (t, e)" and "Unlock t \<notin> set ops"
    and "\<And>pre. time (run_ops (take pre ops) s) < e"
  shows "grants ops s = [] \<and> lease (run_ops ops s) = Some (t, e)"
  using assms
proof (induction ops arbitrary: s)
  case Nil
  then show ?case by simp
next
  case (Cons op ops)
  have keep: "lease (snd (perform op s)) = Some (t, e)"
  proof (cases op)
    case (TryLock u px)
    with Cons.prems grab_busy show ?thesis by simp
  next
    case (Unlock u)
    with Cons.prems have "u \<noteq> t" by auto
    with Unlock Cons.prems drop_foreign [of s u] show ?thesis by simp
  next
    case (Tick d)
    with Cons.prems(4) [of 1] have "time (tick d s) < e" by simp
    with Tick Cons.prems tick_lease show ?thesis by simp
  qed
  have "time (run_ops (take pre ops) (snd (perform op s))) < e" for pre
    using Cons.prems(4) [of "Suc pre"] by simp
  with Cons keep have rest: "grants ops (snd (perform op s)) = []
      \<and> lease (run_ops ops (snd (perform op s))) = Some (t, e)"
    by (simp add: invar_perform)
  moreover have "\<not> fst (grab u px s)" if "op = TryLock u px" for u px
    using Cons.prems grab_busy by simp
  ultimately show ?case by (auto split: lock_op.split)
qed

text \<open>A holder that died blocks nobody once its lease has run out.\<close>

lemma self_heals:
  assumes "invar s" and "lease s = Some (t, e)" and "e \<le> time (tick d s)" and "0 < px"
  shows "fst (grab u px (tick d s))"
  using assms tick_lease [of s d] grab_free [of "tick d s" px u] invar_tick by simp

text \<open>A holder whose lease was taken over cannot free the new one.\<close>

lemma late_release:
  assumes "invar s" and "lease s = Some (u, e)" and "u \<noteq> t"
  shows "drop_lease t s = (False, s)"
  using assms drop_foreign by auto

end

definition lock_wf :: "string \<Rightarrow> world \<Rightarrow> bool" where
  \<comment> \<open>a key of the lock family holds a token and has an expiry\<close>
  "lock_wf name w = (case redis w name of None \<Rightarrow> True
     | Some e \<Rightarrow> (case r_value e of RStr _ \<Rightarrow> r_expires_at e \<noteq> None | RInt _ \<Rightarrow> False))"

definition lock_lease :: "string \<Rightarrow> world \<Rightarrow> (string \<times> int) option" where
  "lock_lease name w = (case r_get (now_ms (clock w)) name (redis w) of
      Some e \<Rightarrow> (case (r_value e, r_expires_at e) of (RStr t, Some x) \<Rightarrow> Some (t, x) | _ \<Rightarrow> None)
    | None \<Rightarrow> None)"

definition set_nx :: "string \<Rightarrow> string \<Rightarrow> int \<Rightarrow> world \<Rightarrow> bool \<times> world" where
  \<comment> \<open>one turn of the acquisition loop\<close>
  "set_nx name token px w =
     (case r_set_nx_px (now_ms (clock w)) name token px (redis w) of
        (ok, R) \<Rightarrow> (ok, w\<lparr>redis := R\<rparr>))"

definition release :: "string \<Rightarrow> string \<Rightarrow> world \<Rightarrow> bool \<times> world" where
  "release name token w =
     (case r_release_script (now_ms (clock w)) name token (redis w) of
        (ok, R) \<Rightarrow> (ok, w\<lparr>redis := R\<rparr>))"

definition advance :: "nat \<Rightarrow> world \<Rightarrow> world" where
  "advance d w = w\<lparr>clock := clock w + int d\<rparr>"

lemma world_redis_id [simp]: "w\<lparr>redis := redis w\<rparr> = (w::world)"
  by (cases w) simp

lemma lock_lease_None:
  "lock_wf name w \<Longrightarrow> lock_lease name w = None \<longleftrightarrow> r_get (now_ms (clock w)) name (redis w) = None"
  by (auto simp: lock_wf_def lock_lease_def r_get_def split: option.splits redis_value.splits)

interpretation lock: lease_store "lock_wf name" "\<lambda>w. now_ms (clock w)" "lock_lease name"
  "set_nx name" "release name" advance for name
proof unfold_locales
  fix s :: world and t u :: string and px e :: int and d :: nat and l
  show "lock_wf name s \<Longrightarrow> lock_wf name (snd (set_nx name t px s))"
    by (auto simp: lock_wf_def set_nx_def r_set_nx_px_def split: option.splits)
  show "lock_wf name s \<Longrightarrow> lock_wf name (snd (release name t s))"
    by (auto simp: lock_wf_def release_def r_release_script_def r_del_def)
  show "lock_wf name s \<Longrightarrow> lock_wf name (advance d s)"
    by (simp add: lock_wf_def advance_def)
  show "lock_lease name s = Some l \<Longrightarrow> set_nx name t px s = (False, s)"
    by (auto simp: lock_lease_def set_nx_def r_set_nx_px_def split: option.splits)
  show "lock_wf name s \<Longrightarrow> lock_lease name s = None \<Longrightarrow> 0 < px \<Longrightarrow>
      fst (set_nx name t px s)
      \<and> lock_lease name (snd (set_nx name t px s)) = Some (t, now_ms (clock s) + px)
      \<and> now_ms (clock (snd (set_nx name t px s))) = now_ms (clock s)"
    by (simp add: lock_lease_None)
      (simp add: lock_lease_def set_nx_def r_set_nx_px_def r_get_def entry_live_def)
  show "lock_lease name s = Some (t, e) \<Longrightarrow>
      fst (release name t s) \<and> lock_lease name (snd (release name t s)) = None"
    by (auto simp: lock_lease_def release_def r_release_script_def r_del_def r_get_def
        split: option.splits redis_value.splits if_splits)
  show "lock_wf name s \<Longrightarrow> \<forall>e. lock_lease name s \<noteq> Some (t, e) \<Longrightarrow> release name t s = (False, s)"
    by (auto simp: lock_lease_def release_def r_release_script_def lock_wf_def r_get_def
        split: option.splits redis_value.splits if_splits)
  show "now_ms (clock s) \<le> now_ms (clock (advance d s))"
    by (simp add: advance_def now_ms_mono)
  then have "now_ms (clock s) < x" if "now_ms (clock (advance d s)) < x" for x
    using that by linarith
  then show "lock_wf name s \<Longrightarrow> lock_lease name (advance d s) =
      (case lock_lease name s of
         Some (t, e) \<Rightarrow> if now_ms (clock (advance d s)) < e then Some (t, e) else None
       | None \<Rightarrow> None)"
    by (auto simp: lock_lease_def lock_wf_def r_get_def entry_live_def advance_def
        split: option.splits redis_value.splits if_splits)
qed

subsection \<open>Holding a lock around a block\<close>

lemma acquire_busy:
  assumes "lock_wf name w" and "lock_lease name w = Some (t, e)"
    and "now_ms (max (clock w) (deadline + retry_delay)) < e"
  shows "\<exists>c. acquire name token px deadline w = (False, w\<lparr>clock := c\<rparr>) \<and> clock w \<le> c"
  using assms
proof (induction name token px deadline w rule: acquire.induct)
  case (1 name token px deadline w)
  have set: "r_set_nx_px (now_ms (clock w)) name token px (redis w) = (False, redis w)"
    using "1.prems"(2) by (auto simp: lock_lease_def r_set_nx_px_def split: option.splits)
  show ?case
  proof (cases "deadline \<le> clock w")
    case True
    then have "acquire name token px deadline w = (False, w\<lparr>clock := clock w\<rparr>)"
      by (simp add: acquire.simps [of name _ _ _ w] set)
    then show ?thesis by blast
  next
    case False
    let ?w = "w\<lparr>clock := clock w + retry_delay\<rparr>"
    have adv: "?w = advance 50000 w" by (simp add: advance_def retry_delay_def)
    have "now_ms (clock ?w) < e"
      using "1.prems"(3) False now_ms_mono [of "clock ?w" "max (clock w) (deadline + retry_delay)"]
      by (simp add: retry_delay_def)
    then have "lock_lease name ?w = Some (t, e)"
      using lock.tick_lease [OF "1.prems"(1), of 50000] "1.prems"(2) by (simp add: adv)
    moreover have "lock_wf name ?w" using "1.prems"(1) by (simp add: lock_wf_def)
    moreover have "now_ms (max (clock ?w) (deadline + retry_delay)) < e"
      using "1.prems"(3) False by (simp add: max_def retry_delay_def split: if_splits)
    ultimately obtain c where c: "acquire name token px deadline ?w = (False, ?w\<lparr>clock := c\<rparr>)"
        "clock ?w \<le> c"
      using "1.IH" [OF set [symmetric] refl False] by blast
    then have "acquire name token px deadline w = (False, w\<lparr>clock := c\<rparr>)"
      by (simp add: acquire.simps [of name _ _ _ w] set False)
    with c(2) show ?thesis by (auto simp: retry_delay_def)
  qed
qed

lemma with_lock_run:
  "with_lock E key ttl wait body w =
     (let token = uuid_hex (env_uuid4 E (uuids_drawn w)); name = lock_name key;
          (ok, w1) = acquire name token (millis (lock_ttl E ttl))
             (clock w + microseconds (lock_wait E wait)) (w\<lparr>uuids_drawn := Suc (uuids_drawn w)\<rparr>)
      in if ok then (case body w1 of (r, w2) \<Rightarrow>
             (r, w2\<lparr>redis := snd (r_release_script (now_ms (clock w2)) name token (redis w2))\<rparr>))
         else (Inl (err LockBusyError [(''lock_key'', JStr key)]), w1))"
  by (auto simp: with_lock_def new_uuid_def bindM_run try_lock_def finallyM_run release_safely_def
      Let_def split: prod.split)

lemma with_lock_cases:
  assumes "with_lock E key ttl wait body w = (r, w')"
  obtains (busy) "r = Inl (err LockBusyError [(''lock_key'', JStr key)])" "db w' = db w"
      "effects w' = effects w" "requests w' = requests w"
  | (held) w1 w2 where "db w1 = db w" "effects w1 = effects w" "requests w1 = requests w"
      "clock w \<le> clock w1" "uuids_drawn w1 = Suc (uuids_drawn w)"
      "lock_lease (lock_name key) w1 =
         Some (uuid_hex (env_uuid4 E (uuids_drawn w)), now_ms (clock w1) + millis (lock_ttl E ttl))"
      "body w1 = (r, w2)" "db w' = db w2" "effects w' = effects w2" "requests w' = requests w2"
      "clock w' = clock w2"
proof -
  let ?w = "w\<lparr>uuids_drawn := Suc (uuids_drawn w)\<rparr>"
  let ?token = "uuid_hex (env_uuid4 E (uuids_drawn w))"
  let ?px = "millis (lock_ttl E ttl)"
  let ?dl = "clock w + microseconds (lock_wait E wait)"
  obtain ok w1 where acq: "acquire (lock_name key) ?token ?px ?dl ?w = (ok, w1)"
    by (cases "acquire (lock_name key) ?token ?px ?dl ?w")
  have same: "db w1 = db w" "effects w1 = effects w" "requests w1 = requests w"
      "uuids_drawn w1 = Suc (uuids_drawn w)" "clock w \<le> clock w1"
    using acquire_db [of "lock_name key" ?token ?px ?dl ?w]
      acquire_effects [of "lock_name key" ?token ?px ?dl ?w]
      acquire_requests [of "lock_name key" ?token ?px ?dl ?w]
      acquire_uuids [of "lock_name key" ?token ?px ?dl ?w]
      acquire_clock_mono [of ?w "lock_name key" ?token ?px ?dl] acq by simp_all
  show thesis
  proof (cases ok)
    case False
    with assms acq same show thesis by (intro busy) (auto simp: with_lock_run Let_def)
  next
    case True
    obtain r2 w2 where body: "body w1 = (r2, w2)" by (cases "body w1")
    have "redis w1 (lock_name key) =
        Some \<lparr>r_value = RStr ?token, r_expires_at = Some (now_ms (clock w1) + ?px)\<rparr>"
      using acquire_holds [of "lock_name key" ?token ?px ?dl ?w w1] acq True
      by (auto dest: arg_cong [where f = redis])
    then have "lock_lease (lock_name key) w1 = Some (?token, now_ms (clock w1) + ?px)"
      by (simp add: lock_lease_def r_get_def entry_live_def)
    with assms acq True same body show thesis
      by (intro held [of w1 w2]) (auto simp: with_lock_run Let_def)
  qed
qed


text \<open>
  No lock is for ever: a holder that died blocks nobody once the clock has reached the
  expiry, and a holder that outlived its lease cannot release the lock of its successor.
\<close>

theorem lock_self_heals:
  assumes "lock_wf name w" and "lock_lease name w = Some (t, e)" and "0 < px"
    and "e \<le> now_ms (clock (advance d w))" and "u \<noteq> t"
  shows "fst (set_nx name u px (advance d w))
     \<and> release name t (snd (set_nx name u px (advance d w)))
        = (False, snd (set_nx name u px (advance d w)))"
proof -
  let ?v = "advance d w"
  have wf: "lock_wf name ?v" using assms(1) by (rule lock.invar_tick)
  have free: "lock_lease name ?v = None"
    using lock.tick_lease [OF assms(1), of d] assms(2,4) by simp
  with wf assms(3) have "lock_lease name (snd (set_nx name u px ?v)) = Some (u, now_ms (clock ?v) + px)"
    using lock.grab_free by blast
  with wf assms(5) have "release name t (snd (set_nx name u px ?v)) = (False, snd (set_nx name u px ?v))"
    by (meson lock.invar_grab lock.late_release)
  with assms show ?thesis using lock.self_heals by blast
qed

lemma with_lock_busy:
  assumes "lock_wf (lock_name key) w" and "lock_lease (lock_name key) w = Some (t, e)"
    and "now_ms (max (clock w) (clock w + microseconds (lock_wait E wait) + retry_delay)) < e"
  shows "fst (with_lock E key ttl wait body w) = Inl (err LockBusyError [(''lock_key'', JStr key)])
     \<and> db (snd (with_lock E key ttl wait body w)) = db w
     \<and> redis (snd (with_lock E key ttl wait body w)) = redis w
     \<and> effects (snd (with_lock E key ttl wait body w)) = effects w"
proof -
  let ?w = "w\<lparr>uuids_drawn := Suc (uuids_drawn w)\<rparr>"
  have "lock_wf (lock_name key) ?w" and "lock_lease (lock_name key) ?w = Some (t, e)"
    using assms(1,2) by (simp_all add: lock_wf_def lock_lease_def)
  from acquire_busy [OF this, of "clock w + microseconds (lock_wait E wait)"] assms(3)
  obtain c where "acquire (lock_name key) (uuid_hex (env_uuid4 E (uuids_drawn w)))
      (millis (lock_ttl E ttl)) (clock w + microseconds (lock_wait E wait)) ?w
      = (False, ?w\<lparr>clock := c\<rparr>)"
    by auto
  then show ?thesis by (simp add: with_lock_run Let_def)
qed

text \<open>
  A block guarded by a lock somebody else holds past the waiting window is not entered: the
  answer is \<open>LockBusyError\<close>, and database, key space and outside are untouched.
\<close>

theorem with_lock_excludes:
  assumes "lock_wf (lock_name key) w" and "lock_lease (lock_name key) w = Some (t, e)"
    and "now_ms (max (clock w) (clock w + microseconds (lock_wait E wait) + retry_delay)) < e"
  shows "fst (with_lock E key ttl wait body w) = Inl (err LockBusyError [(''lock_key'', JStr key)])
     \<and> db (snd (with_lock E key ttl wait body w)) = db w
     \<and> redis (snd (with_lock E key ttl wait body w)) = redis w
     \<and> effects (snd (with_lock E key ttl wait body w)) = effects w"
  by (rule with_lock_busy [OF assms])

subsection \<open>The rate limiter counts\<close>

definition counter_at :: "string \<Rightarrow> int \<Rightarrow> int \<Rightarrow> world \<Rightarrow> bool" where
  "counter_at name n e w =
     (redis w name = Some \<lparr>r_value = RInt n, r_expires_at = Some e\<rparr> \<and> now_ms (clock w) < e)"

fun hits :: "string \<Rightarrow> int \<Rightarrow> rat \<Rightarrow> nat list \<Rightarrow> world \<Rightarrow> (exn + bool) list" where
  \<comment> \<open>the answers to a series of attempts, with the time that passes before each\<close>
  "hits key limit window [] w = []"
| "hits key limit window (d # ds) w =
     (case rate_hit key limit window (advance d w) of
        (r, w') \<Rightarrow> r # hits key limit window ds w')"

lemma rate_hit_live:
  "counter_at (rate_name key) n e w \<Longrightarrow> rate_hit key limit window w =
     (Inr (n + 1 \<le> limit), w\<lparr>redis := (redis w)(rate_name key \<mapsto>
         \<lparr>r_value = RInt (n + 1), r_expires_at = Some e\<rparr>)\<rparr>)"
  by (simp add: counter_at_def rate_hit_def r_incr_def r_pttl_def r_get_def entry_live_def Let_def)

lemma rate_hit_fresh:
  "r_get (now_ms (clock w)) (rate_name key) (redis w) = None \<Longrightarrow> rate_hit key limit window w =
     (Inr (1 \<le> limit), w\<lparr>redis := (redis w)(rate_name key \<mapsto>
         \<lparr>r_value = RInt 1, r_expires_at = Some (now_ms (clock w) + millis window)\<rparr>)\<rparr>)"
  by (simp add: rate_hit_def r_incr_def r_pttl_def r_pexpire_def r_get_def entry_live_def Let_def)

lemma advance_clock [simp]: "clock (advance d w) = clock w + int d"
  and advance_redis [simp]: "redis (advance d w) = redis w"
  and advance_db [simp]: "db (advance d w) = db w"
  by (simp_all add: advance_def)

lemma hits_live:
  assumes "counter_at (rate_name key) n e w" and "now_ms (clock w + int (sum_list ds)) < e"
  shows "hits key limit window ds w = map (\<lambda>i. Inr (n + 1 + int i \<le> limit)) [0..<length ds]"
  using assms
proof (induction ds arbitrary: n w)
  case (Cons d ds)
  have "now_ms (clock w + int d) < e"
    using Cons.prems(2) now_ms_mono [of "clock w + int d" "clock w + int (sum_list (d # ds))"]
    by simp
  then have live: "counter_at (rate_name key) n e (advance d w)"
    using Cons.prems(1) by (simp add: counter_at_def)
  let ?w = "(advance d w)\<lparr>redis := (redis w)(rate_name key \<mapsto>
         \<lparr>r_value = RInt (n + 1), r_expires_at = Some e\<rparr>)\<rparr>"
  have next_counter: "counter_at (rate_name key) (n + 1) e ?w"
    using live by (simp add: counter_at_def)
  have window: "now_ms (clock ?w + int (sum_list ds)) < e"
    using Cons.prems(2) by (simp add: add.assoc)
  have "hits key limit window (d # ds) w
      = Inr (n + 1 \<le> limit) # map (\<lambda>i. Inr (n + 1 + 1 + int i \<le> limit)) [0..<length ds]"
    using Cons.IH [OF next_counter window] by (simp add: rate_hit_live [OF live])
  also have "\<dots> = map (\<lambda>i. Inr (n + 1 + int i \<le> limit)) [0..<length (d # ds)]"
    by (simp add: upt_conv_Cons map_Suc_upt [symmetric] o_def add.assoc del: upt_Suc)
  finally show ?case .
qed simp

text \<open>
  Fixed-window rate limit: in a window that starts with no counter, however the attempts are
  spread, exactly the first \<open>limit\<close> of them are allowed and every later one is refused.
\<close>

theorem rate_limit_window:
  assumes "r_get (now_ms (clock w + int d)) (rate_name key) (redis w) = None"
    and "now_ms (clock w + int d + int (sum_list ds)) < now_ms (clock w + int d) + millis window"
  shows "hits key limit window (d # ds) w
     = map (\<lambda>i. Inr (int i < limit)) [0..<Suc (length ds)]"
proof -
  let ?e = "now_ms (clock w + int d) + millis window"
  let ?w = "(advance d w)\<lparr>redis := (redis w)(rate_name key \<mapsto>
         \<lparr>r_value = RInt 1, r_expires_at = Some ?e\<rparr>)\<rparr>"
  have hit: "rate_hit key limit window (advance d w) = (Inr (1 \<le> limit), ?w)"
    using rate_hit_fresh [of "advance d w"] assms(1) by simp
  have "counter_at (rate_name key) 1 ?e ?w" by (simp add: counter_at_def)
  from hits_live [OF this] assms(2)
  have "hits key limit window (d # ds) w
      = Inr (1 \<le> limit) # map (\<lambda>i. Inr (1 + 1 + int i \<le> limit)) [0..<length ds]"
    by (simp add: hit)
  also have "\<dots> = map (\<lambda>i. Inr (int i < limit)) [0..<Suc (length ds)]"
    by (simp add: upt_conv_Cons map_Suc_upt [symmetric] o_def del: upt_Suc)
      (auto simp: int_one_le_iff_zero_less)
  finally show ?thesis .
qed

subsection \<open>The revocation list remembers\<close>

lemma revoke_run: "revoke token ttl w = (Inr (), w\<lparr>redis :=
     r_set_px (now_ms (clock w)) (revoked_name token) ''1'' (millis ttl) (redis w)\<rparr>)"
  by (simp add: revoke_def)

lemma is_revoked_run: "is_revoked token w =
     (Inr (r_get (now_ms (clock w)) (revoked_name token) (redis w) \<noteq> None), w)"
  by (simp add: is_revoked_def r_exists_def)

lemma revoked_until:
  assumes "redis v (revoked_name token) = redis (snd (revoke token ttl w)) (revoked_name token)"
    and "now_ms (clock v) < now_ms (clock w) + millis ttl"
  shows "is_revoked token v = (Inr True, v)"
  using assms by (simp add: revoke_run is_revoked_run r_set_px_def r_get_def entry_live_def)

end
