(* ===== verification/Samples.thy ===== *)
theory Samples
  imports Queries RedisStore
begin

section \<open>A small concrete installation\<close>

text \<open>
  One product, two buyers, one purchase, a default configuration and an environment in which
  Telegram accepts every message: the concrete inputs the theorems of the other theories are
  applied to, so that none of them holds for want of a database or a world that satisfies its
  hypotheses.
\<close>

definition sample_product :: product where
  "sample_product = \<lparr>pr_id = 1, pr_slug = ''demo'', pr_title = ''Demo'', pr_description = ''A demo'',
     pr_photo_file_id = None, pr_delivery_url = ''https://e.io/x'', pr_price_stars = Some 100,
     pr_price_usdt = Some 5, pr_is_active = True, pr_created_at = 0, pr_updated_at = 0\<rparr>"

definition sample_user :: user where
  "sample_user = \<lparr>us_telegram_id = 7, us_username = Some ''ann'', us_first_name = Some ''Ann'',
     us_language_code = None, us_created_at = 0, us_last_seen_at = 0\<rparr>"

definition sample_purchase :: "purchase_status \<Rightarrow> purchase" where
  "sample_purchase s =
     (let paid = s \<notin> {PENDING, EXPIRED}; delivered = (s = DELIVERED) in
      \<lparr>pu_id = 10, pu_user_id = 7, pu_product_id = 1, pu_provider = STARS, pu_status = s,
       pu_amount = 100, pu_currency = XTR, pu_external_id = ''inv'',
       pu_telegram_charge_id = (if paid then Some ''ch'' else None),
       pu_delivered_url = (if delivered then Some ''https://e.io/x'' else None),
       pu_created_at = 5, pu_paid_at = (if paid then Some 6 else None),
       pu_delivered_at = (if delivered then Some 7 else None)\<rparr>)"

definition sample_db :: "purchase list \<Rightarrow> database" where
  "sample_db ps = \<lparr>products = [sample_product], users = [sample_user], purchases = ps\<rparr>"

definition sample_settings :: settings where
  "sample_settings = \<lparr>
     cfg_app = \<lparr>app_name = ''Shop'', app_environment = PRODUCTION, app_debug = False,
        app_log_level = INFO, app_log_format = JSON_FORMAT, app_api_prefix = ''/api/v1'',
        app_docs_enabled = False, app_host = ''0.0.0.0'', app_port = 8000\<rparr>,
     cfg_postgres = \<lparr>pg_host = ''db'', pg_port = 5432, pg_user = ''u'', pg_password = ''p@s:s'',
        pg_db = ''shop'', pg_pool_size = 10, pg_max_overflow = 5, pg_pool_timeout = 30,
        pg_pool_recycle = 1800, pg_echo = False\<rparr>,
     cfg_redis = \<lparr>rs_host = ''redis'', rs_port = 6379, rs_db = 0, rs_password = None,
        rs_max_connections = 50, rs_socket_timeout = 5, rs_lock_ttl_seconds = 60,
        rs_lock_wait_seconds = 0\<rparr>,
     cfg_telegram = \<lparr>tg_bot_token = ''12345:abcdefghijabcdefghijabcdefghij'', tg_bot_username = ''shop_bot'',
        tg_use_webhook = False, tg_webhook_base_url = None, tg_webhook_path = ''/tg'',
        tg_webhook_secret = ''0123456789abcdef'',
        tg_drop_pending_updates = True\<rparr>,
     cfg_cryptobot = \<lparr>cb_api_token = ''t'', cb_network = TESTNET, cb_asset = ''USDT'',
        cb_invoice_ttl_seconds = 1800, cb_request_timeout = 10, cb_webhook_path = ''/crypto''\<rparr>,
     cfg_bot = \<lparr>bot_webhook_host = ''0.0.0.0'', bot_webhook_port = 8080, bot_throttle_seconds = 1,
        bot_reconciliation_interval_seconds = 60, bot_reconciliation_batch_size = 100,
        bot_housekeeping_interval_seconds = 300\<rparr>,
     cfg_delivery = default_delivery,
     cfg_security = \<lparr>sec_jwt_secret = ''0123456789012345678901234567890123'',
        sec_access_token_ttl_minutes = 15, sec_refresh_token_ttl_days = 7,
        sec_admin_username = ''admin'', sec_admin_password = ''correct horse'',
        sec_login_rate_limit = 5, sec_login_rate_window_seconds = 60, sec_cookie_secure = True,
        sec_cookie_name = ''refresh'', sec_cors_origins = []\<rparr>\<rparr>"

definition sample_env :: env where
  "sample_env = \<lparr>env_settings = sample_settings, env_uuid4 = (\<lambda>n. of_nat (n + 1000)),
     env_latency = (\<lambda>_. 0), env_telegram = (\<lambda>_ _. None),
     env_crypto_pay = (\<lambda>_ _ _. HttpFailure ''unreachable''), env_jitter = (\<lambda>_. 1 / 2),
     env_netloc_ok = (\<lambda>_. True), env_signature = (\<lambda>token body. token @ body),
     env_json_loads = (\<lambda>_. None), env_jwt_encode = (\<lambda>secret claims. secret),
     env_jwt_decode = (\<lambda>_ _ _. Inl ''DecodeError''), env_argon2_verify = (\<lambda>p q. p = q)\<rparr>"

definition sample_world :: "purchase list \<Rightarrow> world" where
  "sample_world ps = \<lparr>db = sample_db ps, redis = Map.empty, clock = 1000000, uuids_drawn = 0,
     requests = 0, effects = []\<rparr>"

lemma numeric_round_of_int: "numeric_round s (of_int n) = of_int n"
proof -
  have "\<bar>of_int n\<bar> * 10 ^ s = (of_int (\<bar>n\<bar> * 10 ^ s) :: rat)" by simp
  moreover have "\<lfloor>(of_int m :: rat) + 1 / 2\<rfloor> = m" for m by linarith
  ultimately have "\<lfloor>\<bar>of_int n :: rat\<bar> * 10 ^ s + 1 / 2\<rfloor> = \<bar>n\<bar> * 10 ^ s" by metis
  moreover have "sgn (of_int n :: rat) * of_int \<bar>n\<bar> = of_int n"
    by (simp add: sgn_if)
  ultimately show ?thesis by (simp add: numeric_round_def)
qed

lemma numeric_round_numeral [simp]: "numeric_round s (numeral k) = numeral k"
  using numeric_round_of_int [of s "numeral k"] by simp

lemma sample_purchase_sel [simp]:
  "pu_id (sample_purchase s) = 10" "pu_user_id (sample_purchase s) = 7"
  "pu_product_id (sample_purchase s) = 1" "pu_provider (sample_purchase s) = STARS"
  "pu_status (sample_purchase s) = s" "pu_external_id (sample_purchase s) = ''inv''"
  "pu_amount (sample_purchase s) = 100" "pu_created_at (sample_purchase s) = 5"
  "pu_telegram_charge_id (sample_purchase s) = (if s \<in> {PENDING, EXPIRED} then None else Some ''ch'')"
  by (simp_all add: sample_purchase_def Let_def)

lemma sample_db_sel [simp]:
  "products (sample_db ps) = [sample_product]" "users (sample_db ps) = [sample_user]"
  "purchases (sample_db ps) = ps" "(sample_db ps)\<lparr>purchases := qs\<rparr> = sample_db qs"
  by (simp_all add: sample_db_def)

lemma sample_product_sel [simp]:
  "pr_id sample_product = 1" "pr_slug sample_product = ''demo''" "pr_is_active sample_product"
  "pr_price_stars sample_product = Some 100" "pr_price_usdt sample_product = Some 5"
  "us_telegram_id sample_user = 7"
  by (simp_all add: sample_product_def sample_user_def)

lemma sample_world_sel [simp]:
  "db (sample_world ps) = sample_db ps" "redis (sample_world ps) = Map.empty"
  "clock (sample_world ps) = 1000000" "uuids_drawn (sample_world ps) = 0"
  "requests (sample_world ps) = 0" "effects (sample_world ps) = []"
  by (simp_all add: sample_world_def)

lemma sample_db_ok [simp]: "db_ok (sample_db [sample_purchase s])"
  by (cases s)
    (simp_all add: db_ok_def schema_ok_def sample_purchase_def Let_def sample_product_def sample_user_def
      product_row_ok_def user_row_ok_def purchase_row_ok_def purchases_unique_def unique_on_def
      fields_follow_status_def product_fits_def product_stored_def user_fits_def purchase_fits_def
      purchase_stored_def fits_numeric_def fits_string_def fits_int_def delivery_complete_def
      paid_at_present_def slug_body_def slug_char_def slug_max_length_def
      is_ascii_letter_def is_ascii_digit_def)

lemma sample_db_empty_ok [simp]: "db_ok (sample_db [])"
  using sample_db_ok by (simp add: db_ok_def schema_ok_def purchases_unique_def unique_on_def)

subsection \<open>The locks and the rate limiter, at work\<close>

definition locked_world :: "string \<Rightarrow> world" where
  \<comment> \<open>the lock of a key is held by the owner of token \<open>t\<close> until second 60\<close>
  "locked_world key = (sample_world [])\<lparr>redis :=
     [lock_name key \<mapsto> \<lparr>r_value = RStr ''t'', r_expires_at = Some 60000\<rparr>]\<rparr>"

lemma locked_world_wf [simp]: "lock_wf (lock_name key) (locked_world key)"
  by (simp add: lock_wf_def locked_world_def)

lemma locked_world_lease [simp]:
  "lock_lease (lock_name key) (locked_world key) = Some (''t'', 60000)"
  by (simp add: lock_lease_def locked_world_def r_get_def entry_live_def now_ms_def)

lemma locked_world_sel [simp]:
  "clock (locked_world key) = 1000000" "db (locked_world key) = sample_db []"
  "effects (locked_world key) = []"
  by (simp_all add: locked_world_def)

lemma run_ops_clock:
  "clock (lock.run_ops name ops w) = clock w + sum_list (map (\<lambda>x. case x of Tick d \<Rightarrow> int d | _ \<Rightarrow> 0) ops)"
proof (induction ops arbitrary: w)
  case (Cons x ops)
  have "clock (snd (lock.perform name x w)) = clock w + (case x of Tick d \<Rightarrow> int d | _ \<Rightarrow> 0)"
    by (cases x) (simp_all add: set_nx_def release_def split: prod.split)
  with Cons show ?case by simp
qed simp


theorem lock_self_heals_witness:
  "fst (set_nx (lock_name ''k'') ''u'' 5000 (advance 60000000 (locked_world ''k'')))"
  using lock_self_heals [where name = "lock_name ''k''" and w = "locked_world ''k''" and t = "''t''"
      and e = 60000 and px = 5000 and d = 60000000 and u = "''u''"]
  by (simp add: now_ms_def)

theorem with_lock_excludes_witness:
  "fst (with_lock sample_env ''k'' None None (ret ()) (locked_world ''k''))
     = Inl (err LockBusyError [(''lock_key'', JStr ''k'')])"
  using with_lock_excludes [of "''k''" "locked_world ''k''" "''t''" 60000 sample_env None None "ret ()"]
  by (simp add: now_ms_def microseconds_def lock_wait_def sample_env_def sample_settings_def retry_delay_def)

theorem rate_limit_window_witness:
  "hits ''login'' 2 60 [0, 1000000, 1000000] (sample_world []) = [Inr True, Inr True, Inr False]"
  using rate_limit_window [where w = "sample_world []" and d = 0 and key = "''login''"
      and ds = "[1000000, 1000000]" and window = 60 and limit = 2]
  by (simp add: now_ms_def r_get_def millis_def upt_rec)

end
