(* ===== verification/PurchaseRepo.thy ===== *)
theory PurchaseRepo
  imports Samples
begin

section \<open>The purchase repository\<close>

text \<open>
  \<^verbatim>\<open>infrastructure/db/repositories/purchases.py\<close>. Every method is a program on the database;
  the current time and a freshly drawn UUID are arguments. A SAVEPOINT that is rolled back leaves
  the rows as they were, which is what \<open>flush\<close> does on a rejected statement.
\<close>

subsection \<open>Rows by key\<close>

definition purchase_or_404 :: "uuid \<Rightarrow> purchase option \<Rightarrow> (exn, database, purchase) prog" where
  "purchase_or_404 purchase_id m = (case m of
      None \<Rightarrow> throw (err PurchaseNotFoundError [(''purchase_id'', JStr (uuid_str purchase_id))])
    | Some p \<Rightarrow> ret p)"

definition lock_purchase :: "uuid \<Rightarrow> (exn, database, purchase) prog" where
  \<comment> \<open>\<open>_lock\<close>: SELECT ... FOR UPDATE\<close>
  "lock_purchase purchase_id =
     bindM (select_one purchases (\<lambda>p. pu_id p = purchase_id)) (purchase_or_404 purchase_id)"

definition purchase_get :: "uuid \<Rightarrow> (exn, database, purchase option) prog" where
  "purchase_get purchase_id = get_by_key purchases pu_id purchase_id"

definition get_by_external_id :: "payment_provider \<Rightarrow> string \<Rightarrow> (exn, database, purchase option) prog" where
  "get_by_external_id provider external_id =
     select_one purchases (\<lambda>p. pu_provider p = provider \<and> pu_external_id p = external_id)"

definition get_by_charge_id :: "string \<Rightarrow> (exn, database, purchase option) prog" where
  "get_by_charge_id charge_id =
     select_one purchases (\<lambda>p. pu_telegram_charge_id p = Some charge_id)"

definition find_access_granting :: "int \<Rightarrow> uuid \<Rightarrow> (exn, database, purchase option) prog" where
  "find_access_granting user_id product_id =
     select_one purchases (\<lambda>p. pu_user_id p = user_id \<and> pu_product_id p = product_id
        \<and> pu_status p \<in> set access_granting_statuses)"

subsection \<open>Inserting\<close>

definition terminal_for_payment :: "purchase_status list" where
  "terminal_for_payment = [PAID, DELIVERED]"

definition translate :: "exn \<Rightarrow> string \<Rightarrow> exn" where
  "translate e external_id = (case violated_constraint e of
      None \<Rightarrow> e
    | Some c \<Rightarrow>
        if c = ''uq_purchases_user_product_paid'' then err DuplicatePurchaseError []
        else if c = ''uq_purchases_provider_external_id''
        then err_msg ConflictError ''This invoice is already recorded''
               [(''constraint'', JStr c), (''external_id'', JStr external_id)]
        else if c = ''uq_purchases_telegram_charge_id''
        then err_msg ConflictError ''This Telegram charge is already recorded''
               [(''constraint'', JStr c)]
        else e)"

definition savepoint :: "string \<Rightarrow> (database \<Rightarrow> exn + database) \<Rightarrow> (exn, database, unit) prog" where
  \<comment> \<open>\<open>try: async with begin_nested(): ... flush() except IntegrityError: raise _translate(...)\<close>\<close>
  "savepoint external_id write =
     catchM (flush write) (on_class [IntegrityError] (\<lambda>e. throw (translate e external_id)))"

definition new_purchase :: "uuid \<Rightarrow> datetime \<Rightarrow> purchase_draft \<Rightarrow> purchase" where
  "new_purchase new_id now dr =
     (let status = (case dr_status dr of Some s \<Rightarrow> s | None \<Rightarrow> PENDING) in
      \<lparr>pu_id = new_id, pu_user_id = dr_user_id dr, pu_product_id = dr_product_id dr,
       pu_provider = dr_provider dr, pu_status = status, pu_amount = dr_amount dr,
       pu_currency = dr_currency dr, pu_external_id = dr_external_id dr,
       pu_telegram_charge_id = None, pu_delivered_url = None, pu_created_at = now,
       pu_paid_at = (if status \<in> set terminal_for_payment then Some now else None),
       pu_delivered_at = None\<rparr>)"

definition reread_purchase :: "uuid \<Rightarrow> (exn, database, purchase) prog" where
  \<comment> \<open>\<open>session.refresh\<close>\<close>
  "reread_purchase purchase_id = bindM (purchase_get purchase_id) (purchase_or_404 purchase_id)"

definition create_purchase :: "uuid \<Rightarrow> datetime \<Rightarrow> purchase_draft \<Rightarrow> (exn, database, purchase) prog" where
  "create_purchase new_id now dr =
     thenM (savepoint (dr_external_id dr) (insert_purchase (new_purchase new_id now dr)))
       (reread_purchase new_id)"

subsection \<open>Moving through the life cycle\<close>

definition conflict :: "string \<Rightarrow> uuid \<Rightarrow> purchase_status \<Rightarrow> exn" where
  "conflict message purchase_id status = err_msg ConflictError message
     [(''purchase_id'', JStr (uuid_str purchase_id)), (''status'', JStr (status_value status))]"

definition mark_paid ::
  "datetime \<Rightarrow> uuid \<Rightarrow> datetime option \<Rightarrow> string option \<Rightarrow> (exn, database, purchase) prog" where
  "mark_paid now purchase_id paid_at charge_id =
     bindM (lock_purchase purchase_id) (\<lambda>p.
       if pu_status p \<in> set terminal_for_payment then
         (if truthy charge_id \<and> pu_telegram_charge_id p = None
          then (let q = p\<lparr>pu_telegram_charge_id := charge_id\<rparr> in
                thenM (flush (write_purchase q)) (ret q))
          else ret p)
       else if pu_status p = REFUNDED then
         throw (conflict ''Refunded purchase cannot be paid again'' purchase_id (pu_status p))
       else
         thenM (savepoint (pu_external_id p) (write_purchase
             (p\<lparr>pu_status := PAID,
                pu_paid_at := Some (case paid_at of Some t \<Rightarrow> t | None \<Rightarrow> now),
                pu_telegram_charge_id :=
                  (if truthy charge_id then charge_id else pu_telegram_charge_id p)\<rparr>)))
           (reread_purchase purchase_id))"

definition mark_delivered ::
  "datetime \<Rightarrow> uuid \<Rightarrow> string \<Rightarrow> datetime option \<Rightarrow> (exn, database, purchase) prog" where
  "mark_delivered now purchase_id delivered_url delivered_at =
     bindM (lock_purchase purchase_id) (\<lambda>p.
       if pu_status p = DELIVERED then ret p
       else if pu_status p \<noteq> PAID then
         throw (conflict ''Only a paid purchase can be delivered'' purchase_id (pu_status p))
       else
         thenM (flush (write_purchase
             (p\<lparr>pu_status := DELIVERED, pu_delivered_url := Some delivered_url,
                pu_delivered_at := Some (case delivered_at of Some t \<Rightarrow> t | None \<Rightarrow> now)\<rparr>)))
           (reread_purchase purchase_id))"

definition mark_refunded :: "uuid \<Rightarrow> (exn, database, purchase) prog" where
  "mark_refunded purchase_id =
     bindM (lock_purchase purchase_id) (\<lambda>p.
       if pu_status p = REFUNDED then ret p
       else thenM (flush (write_purchase (p\<lparr>pu_status := REFUNDED\<rparr>))) (reread_purchase purchase_id))"

definition stale :: "datetime \<Rightarrow> purchase \<Rightarrow> bool" where
  "stale older_than p = (pu_status p = PENDING \<and> pu_created_at p < older_than)"

definition expire_pending :: "datetime \<Rightarrow> (exn, database, nat) prog" where
  \<comment> \<open>one UPDATE ... RETURNING id\<close>
  "expire_pending older_than = (\<lambda>d.
     (Inr (length (filter (stale older_than) (purchases d))),
      d\<lparr>purchases := update_rows (stale older_than) (\<lambda>p. p\<lparr>pu_status := EXPIRED\<rparr>) (purchases d)\<rparr>))"

definition list_pending :: "payment_provider \<Rightarrow> nat \<Rightarrow> (exn, database, purchase list) prog" where
  "list_pending provider limit = getsM (\<lambda>d.
     take limit (sort_key pu_created_at
       (filter (\<lambda>p. pu_provider p = provider \<and> pu_status p = PENDING) (purchases d))))"

subsection \<open>Search\<close>

definition ids_where :: "database \<Rightarrow> (purchase \<Rightarrow> bool) \<Rightarrow> uuid list" where
  "ids_where d P = map pu_id (filter P (purchases d))"

definition buyer_matches :: "database \<Rightarrow> (user \<Rightarrow> bool) \<Rightarrow> purchase \<Rightarrow> bool" where
  \<comment> \<open>JOIN users ON purchases.user_id = users.telegram_id WHERE ...\<close>
  "buyer_matches d P p = list_ex (\<lambda>u. us_telegram_id u = pu_user_id p \<and> P u) (users d)"

definition product_matches :: "database \<Rightarrow> (product \<Rightarrow> bool) \<Rightarrow> purchase \<Rightarrow> bool" where
  "product_matches d P p = list_ex (\<lambda>q. pr_id q = pu_product_id p \<and> P q) (products d)"

definition telegram_id_branch :: "database \<Rightarrow> string \<Rightarrow> exn + uuid list" where
  \<comment> \<open>\<open>term.isdigit()\<close> guards \<open>int(term)\<close>; the number is bound as a BIGINT\<close>
  "telegram_id_branch d term =
     (if \<not> py_isdigit term then Inr []
      else if \<not> list_all is_ascii_digit term
      then Inl (other_exn ValueError ''invalid literal for int() with base 10'')
      else if \<not> fits_int 64 (int (str_nat term)) then Inl data_error
      else Inr (ids_where d (\<lambda>p. pu_user_id p = int (str_nat term))))"

definition matching_ids :: "database \<Rightarrow> string \<Rightarrow> exn + uuid list" where
  "matching_ids d term =
     (let pat = like_pattern term in
      case telegram_id_branch d term of
        Inl e \<Rightarrow> Inl e
      | Inr by_telegram_id \<Rightarrow> Inr (remdups
          (ids_where d (\<lambda>p. ilike (pu_external_id p) pat)
           @ ids_where d (\<lambda>p. ilike_opt (pu_telegram_charge_id p) pat)
           @ ids_where d (buyer_matches d (\<lambda>u. ilike_opt (us_username u) pat))
           @ ids_where d (product_matches d (\<lambda>q. ilike (pr_title q) pat \<or> ilike (pr_slug q) pat))
           @ by_telegram_id)))"

definition search_term :: "string \<Rightarrow> string" where
  \<comment> \<open>\<open>search.strip().lstrip("@")\<close>\<close>
  "search_term s = dropWhile (\<lambda>c. c = CHR ''@'') (py_strip s)"

definition purchase_conditions :: "database \<Rightarrow> purchase_filters \<Rightarrow> exn + (purchase \<Rightarrow> bool)" where
  "purchase_conditions d f =
     (let by_status = (\<lambda>p. uf_statuses f = [] \<or> pu_status p \<in> set (uf_statuses f)) in
      if truthy (uf_search f) then
        (case matching_ids d (search_term (the (uf_search f))) of
           Inl e \<Rightarrow> Inl e
         | Inr ids \<Rightarrow> Inr (\<lambda>p. by_status p \<and> pu_id p \<in> set ids))
      else Inr by_status)"

definition join_record :: "database \<Rightarrow> purchase \<Rightarrow> purchase_record list" where
  "join_record d p =
     concat (map (\<lambda>u. map (\<lambda>q. \<lparr>rec_purchase = p, rec_user = u, rec_product = q\<rparr>)
         (filter (\<lambda>q. pr_id q = pu_product_id p) (products d)))
       (filter (\<lambda>u. us_telegram_id u = pu_user_id p) (users d)))"

definition search_purchases ::
  "purchase_filters \<Rightarrow> page_request \<Rightarrow> (exn, database, purchase_record page) prog" where
  "search_purchases f pq = (\<lambda>d. case purchase_conditions d f of
      Inl e \<Rightarrow> (Inl e, d)
    | Inr cond \<Rightarrow> (Inr
        \<lparr>page_items = slice pq (newest_first (\<lambda>r. pu_created_at (rec_purchase r))
             (\<lambda>r. pu_id (rec_purchase r))
             (concat (map (join_record d) (filter cond (purchases d))))),
         page_total = int (length (filter cond (purchases d))),
         page_limit = pq_limit pq, page_offset = pq_offset pq\<rparr>, d))"

subsection \<open>Every method evolves the database\<close>

lemma lock_purchase_run:
  "lock_purchase i d = (case scalar_one_or_none (filter (\<lambda>p. pu_id p = i) (purchases d)) of
      Inl e \<Rightarrow> (Inl e, d)
    | Inr None \<Rightarrow> (Inl (err PurchaseNotFoundError [(''purchase_id'', JStr (uuid_str i))]), d)
    | Inr (Some p) \<Rightarrow> (Inr p, d))"
  by (auto simp: lock_purchase_def bindM_run select_one_def purchase_or_404_def
      split: sum.split option.split)

lemma lock_purchaseD:
  "lock_purchase i d = (Inr p, d') \<Longrightarrow> d' = d \<and> p \<in> set (purchases d) \<and> pu_id p = i"
  using scalar_SomeD [of "\<lambda>p. pu_id p = i" "purchases d" p]
  by (auto simp: lock_purchase_run split: sum.splits option.splits)

lemma lock_purchase_same [simp]: "snd (lock_purchase i d) = d"
  by (simp add: lock_purchase_run split: sum.split option.split)

lemma reread_purchase_run:
  "reread_purchase i d = (case List.find (\<lambda>p. pu_id p = i) (purchases d) of
      None \<Rightarrow> (Inl (err PurchaseNotFoundError [(''purchase_id'', JStr (uuid_str i))]), d)
    | Some p \<Rightarrow> (Inr p, d))"
  by (simp add: reread_purchase_def purchase_get_def get_by_key_def bindM_run purchase_or_404_def
      split: option.split)

lemma reread_purchase_same [simp]: "snd (reread_purchase i d) = d"
  by (simp add: reread_purchase_run split: option.split)

lemma savepoint_run:
  "savepoint x f d = (case f d of
      Inl e \<Rightarrow> (Inl (if isinstance e IntegrityError then translate e x else e), d)
    | Inr d' \<Rightarrow> (Inr (), d'))"
  by (simp add: savepoint_def catchM_run flush_run on_class_def split: sum.split)

lemma savepoint_snd: "snd (savepoint x f d) = snd (flush f d)"
  by (simp add: savepoint_run flush_run split: sum.split)

lemma thenM_reread_snd [simp]: "snd (thenM m (reread_purchase i) d) = snd (m d)"
  by (simp add: thenM_run split: prod.split sum.split)

lemma along_lock_then:
  assumes "\<And>p d. p \<in> set (purchases d) \<Longrightarrow> pu_id p = i \<Longrightarrow> evolves d (snd (f p d))"
  shows "along evolves (bindM (lock_purchase i) f)"
proof (rule alongI)
  fix d
  obtain r d' where lock: "lock_purchase i d = (r, d')" by (cases "lock_purchase i d")
  show "evolves d (snd (bindM (lock_purchase i) f d))"
  proof (cases r)
    case (Inl e)
    then show ?thesis using lock lock_purchase_same [of i d] by (simp add: bindM_run evolves.R_refl)
  next
    case (Inr p)
    with lock show ?thesis using lock_purchaseD [of i d p d'] assms by (simp add: bindM_run)
  qed
qed

lemma flush_evolves:
  "(\<And>e. f d = Inr e \<Longrightarrow> evolves d e) \<Longrightarrow> evolves d (snd (flush f d))"
  by (auto simp: flush_run evolves.R_refl split: sum.split)

lemma purchase_stored_amount:
  "pu_amount (purchase_stored p) = numeric_round 6 (pu_amount p)"
  "purchase_stored p = p \<longleftrightarrow> numeric_round 6 (pu_amount p) = pu_amount p"
proof -
  show "pu_amount (purchase_stored p) = numeric_round 6 (pu_amount p)"
    by (simp add: purchase_stored_def)
  then show "purchase_stored p = p \<longleftrightarrow> numeric_round 6 (pu_amount p) = pu_amount p"
    by (metis (mono_tags) purchase.surjective purchase.update_convs(6) purchase_stored_def)
qed

lemma write_evolves:
  assumes "p \<in> set (purchases d)"
    and "numeric_round 6 (pu_amount p) = pu_amount p \<Longrightarrow> fields_follow_status p \<Longrightarrow>
           row_le p (purchase_stored q) \<and> fields_follow_status q"
  shows "evolves d (snd (flush (write_purchase q) d))"
proof (rule flush_evolves)
  fix e assume e: "write_purchase q d = Inr e"
  show "evolves d e"
  proof (cases "db_ok d")
    case True
    then have "numeric_round 6 (pu_amount p) = pu_amount p" and "fields_follow_status p"
      using assms(1) db_okD(7,8) [OF True]
      by (auto simp: list_all_iff purchase_row_ok_def purchase_stored_amount(2))
    with assms e show ?thesis by (intro write_purchase_evolves [of q d e p]) auto
  qed (simp add: evolves_def)
qed

lemma mark_paid_evolves: "along evolves (mark_paid now i paid_at charge)"
  unfolding mark_paid_def
proof (rule along_lock_then)
  fix p and d :: database assume p: "p \<in> set (purchases d)" "pu_id p = i"
  let ?q = "p\<lparr>pu_telegram_charge_id := charge\<rparr>"
  let ?r = "p\<lparr>pu_status := PAID,
      pu_paid_at := Some (case paid_at of Some t \<Rightarrow> t | None \<Rightarrow> now),
      pu_telegram_charge_id := (if truthy charge then charge else pu_telegram_charge_id p)\<rparr>"
  have recorded: "evolves d (snd (flush (write_purchase ?q) d))"
    if "pu_status p \<in> {PAID, DELIVERED}" and "pu_telegram_charge_id p = None"
    using that by (intro write_evolves [OF p(1)])
      (auto simp: row_le_def fields_follow_status_def purchase_stored_amount(1))
  have paid: "evolves d (snd (flush (write_purchase ?r) d))"
    if "pu_status p \<in> {PENDING, EXPIRED}"
    using that by (intro write_evolves [OF p(1)])
      (auto simp: row_le_def fields_follow_status_def purchase_stored_amount(1))
  show "evolves d (snd ((if pu_status p \<in> set terminal_for_payment then
         (if truthy charge \<and> pu_telegram_charge_id p = None
          then (let q = ?q in thenM (flush (write_purchase q)) (ret q))
          else ret p)
       else if pu_status p = REFUNDED then
         throw (conflict ''Refunded purchase cannot be paid again'' i (pu_status p))
       else thenM (savepoint (pu_external_id p) (write_purchase ?r)) (reread_purchase i)) d))"
    using recorded paid
    by (cases "pu_status p")
      (auto simp: terminal_for_payment_def savepoint_snd Let_def evolves.R_refl)
qed

lemma mark_delivered_evolves: "along evolves (mark_delivered now i url time)"
  unfolding mark_delivered_def
proof (rule along_lock_then)
  fix p and d :: database assume p: "p \<in> set (purchases d)" "pu_id p = i"
  have "evolves d (snd (flush (write_purchase
      (p\<lparr>pu_status := DELIVERED, pu_delivered_url := Some url,
         pu_delivered_at := Some (case time of Some t \<Rightarrow> t | None \<Rightarrow> now)\<rparr>)) d))"
    if "pu_status p = PAID"
    using that by (intro write_evolves [OF p(1)])
      (auto simp: row_le_def fields_follow_status_def purchase_stored_amount(1))
  then show "evolves d (snd ((if pu_status p = DELIVERED then ret p
       else if pu_status p \<noteq> PAID then
         throw (conflict ''Only a paid purchase can be delivered'' i (pu_status p))
       else thenM (flush (write_purchase
             (p\<lparr>pu_status := DELIVERED, pu_delivered_url := Some url,
                pu_delivered_at := Some (case time of Some t \<Rightarrow> t | None \<Rightarrow> now)\<rparr>)))
           (reread_purchase i)) d))"
    by (simp add: evolves.R_refl)
qed

lemma write_unpaid_refund:
  "pu_paid_at p = None \<Longrightarrow> pu_status p = REFUNDED \<Longrightarrow> write_purchase p d \<noteq> Inr e"
  by (simp add: write_purchase_def Let_def purchase_violation_def paid_at_present_def)

lemma mark_refunded_evolves: "along evolves (mark_refunded i)"
  unfolding mark_refunded_def
proof (rule along_lock_then)
  fix p and d :: database assume p: "p \<in> set (purchases d)" "pu_id p = i"
  let ?q = "p\<lparr>pu_status := REFUNDED\<rparr>"
  have "evolves d (snd (flush (write_purchase ?q) d))"
  proof (cases "pu_status p \<in> {PENDING, EXPIRED}")
    case True
    show ?thesis
    proof (rule flush_evolves)
      fix e assume w: "write_purchase ?q d = Inr e"
      have "\<not> db_ok d"
        using True p w write_unpaid_refund [of ?q d e]
        by (auto simp: db_ok_def list_all_iff fields_follow_status_def)
      then show "evolves d e" by (simp add: evolves_def)
    qed
  next
    case False
    then show ?thesis
      by (intro write_evolves [OF p(1)], cases "pu_status p")
        (auto simp: row_le_def fields_follow_status_def purchase_stored_amount(1))
  qed
  then show "evolves d (snd ((if pu_status p = REFUNDED then ret p
       else thenM (flush (write_purchase ?q)) (reread_purchase i)) d))"
    by (simp add: evolves.R_refl)
qed

lemma create_purchase_evolves:
  assumes "dr_status dr \<noteq> Some DELIVERED \<and> dr_status dr \<noteq> Some REFUNDED"
  shows "along evolves (create_purchase new_id now dr)"
proof (rule alongI)
  fix d
  have "fields_follow_status (new_purchase new_id now dr)"
    using assms by (cases "dr_status dr"; cases "the (dr_status dr)")
      (auto simp: new_purchase_def fields_follow_status_def Let_def terminal_for_payment_def)
  then show "evolves d (snd (create_purchase new_id now dr d))"
    unfolding create_purchase_def thenM_reread_snd savepoint_snd
    by (intro flush_evolves insert_purchase_evolves)
qed

lemma expire_pending_evolves: "along evolves (expire_pending t)"
proof (rule alongI)
  fix d :: database
  let ?f = "\<lambda>p. p\<lparr>pu_status := EXPIRED\<rparr>" and ?g = "\<lambda>p. if stale t p then p\<lparr>pu_status := EXPIRED\<rparr> else p"
  let ?e = "d\<lparr>purchases := update_rows (stale t) ?f (purchases d)\<rparr>"
  have rows: "purchases ?e = map ?g (purchases d)" by (simp add: update_rows_def)
  have keys: "pu_id (?g p) = pu_id p" "(pu_provider (?g p), pu_external_id (?g p)) = (pu_provider p, pu_external_id p)"
      "pu_telegram_charge_id (?g p) = pu_telegram_charge_id p"
      "grants_access (?g p) = grants_access p" "(pu_user_id (?g p), pu_product_id (?g p)) = (pu_user_id p, pu_product_id p)" for p
    by (auto simp: stale_def)
  have unique: "unique_on P k (map ?g ps) = unique_on P k ps"
    if "\<And>p. P (?g p) = P p" and "\<And>p. k (?g p) = k p"
    for P and k :: "purchase \<Rightarrow> 'k" and ps
    using that by (simp add: unique_on_def filter_map o_def)
  have "db_ok ?e" if ok: "db_ok d"
  proof -
    have "purchase_row_ok d (?g p)" if "purchase_row_ok d p" for p
      using that by (auto simp: purchase_row_ok_def stale_def purchase_fits_def
          purchase_stored_amount(2) delivery_complete_def paid_at_present_def)
    moreover have "fields_follow_status (?g p)" if "fields_follow_status p" for p
      using that by (auto simp: fields_follow_status_def stale_def)
    moreover have "purchases_unique (map ?g (purchases d))"
      using db_okD(6) [OF ok] unfolding purchases_unique_def distinct_as_unique
      by (subst (1 2 3 4) unique) (auto simp: keys(1,3,4) stale_def)
    moreover have "list_all P (map ?g ps)" if "list_all P ps" and "\<And>p. P p \<Longrightarrow> P (?g p)" for P ps
      using that unfolding list_all_iff set_map by blast
    ultimately show ?thesis
      using db_okD [OF ok] by (intro db_okI) (simp_all only: rows purchase_row_ok_only, simp_all)
  qed
  moreover have "row_le p (?g p)" for p
    by (auto simp: row_le_def stale_def)
  then have "history_le d ?e"
    unfolding history_le_def list_all_iff list_ex_iff rows set_map by blast
  ultimately show "evolves d (snd (expire_pending t d))"
    by (auto simp: evolves_def expire_pending_def)
qed

subsection \<open>Lookups never find two rows\<close>

lemma select_one_unique_on:
  assumes "unique_on P k (table d)"
  shows "select_one table (\<lambda>r. P r \<and> k r = x) d
     = (Inr (List.find (\<lambda>r. P r \<and> k r = x) (table d)), d)"
  by (simp add: select_one_def scalar_unique_on [OF assms])

lemma get_by_external_id_run:
  "db_ok d \<Longrightarrow> get_by_external_id v x d
     = (Inr (List.find (\<lambda>p. pu_provider p = v \<and> pu_external_id p = x) (purchases d)), d)"
  using select_one_unique_on [of "\<lambda>_. True" "\<lambda>p. (pu_provider p, pu_external_id p)" purchases d "(v, x)"]
  by (simp add: get_by_external_id_def db_ok_def schema_ok_def purchases_unique_def)

lemma get_by_charge_id_run:
  "db_ok d \<Longrightarrow> get_by_charge_id c d
     = (Inr (List.find (\<lambda>p. pu_telegram_charge_id p = Some c) (purchases d)), d)"
proof -
  assume "db_ok d"
  then have "unique_on (\<lambda>p. pu_telegram_charge_id p \<noteq> None) pu_telegram_charge_id (purchases d)"
    by (simp only: db_ok_def schema_ok_def purchases_unique_def)
  note found = select_one_unique_on [where table = purchases and d = d, OF this, of "Some c"]
  have eq: "(\<lambda>p. pu_telegram_charge_id p = Some c)
      = (\<lambda>p. pu_telegram_charge_id p \<noteq> None \<and> pu_telegram_charge_id p = Some c)" by auto
  show ?thesis unfolding get_by_charge_id_def by (subst (1 2) eq) (rule found)
qed

lemma find_access_granting_run:
  "db_ok d \<Longrightarrow> find_access_granting u i d
     = (Inr (List.find (\<lambda>p. grants_access p \<and> (pu_user_id p, pu_product_id p) = (u, i)) (purchases d)), d)"
proof -
  assume "db_ok d"
  moreover have "(\<lambda>p. pu_user_id p = u \<and> pu_product_id p = i \<and> pu_status p \<in> set access_granting_statuses)
      = (\<lambda>p. grants_access p \<and> (pu_user_id p, pu_product_id p) = (u, i))" by auto
  ultimately show ?thesis
    using select_one_unique_on [of grants_access "\<lambda>p. (pu_user_id p, pu_product_id p)" purchases d "(u, i)"]
    by (simp only: find_access_granting_def db_ok_def schema_ok_def purchases_unique_def)
qed

lemma lock_purchase_found:
  assumes "db_ok d" and "p \<in> set (purchases d)"
  shows "lock_purchase (pu_id p) d = (Inr p, d)"
proof -
  note ids = db_okD(9) [OF assms(1)]
  have "scalar_one_or_none (filter (\<lambda>q. True \<and> pu_id q = pu_id p) (purchases d))
      = Inr (List.find (\<lambda>q. True \<and> pu_id q = pu_id p) (purchases d))"
    using ids by (intro scalar_unique_on) (simp add: distinct_as_unique)
  moreover have "List.find (\<lambda>q. pu_id q = pu_id p) (purchases d) = Some p"
    using find_eq_Some_iff [OF ids] assms(2) by blast
  ultimately show ?thesis by (simp add: lock_purchase_run)
qed

lemma lock_purchase_missing:
  "\<forall>p\<in>set (purchases d). pu_id p \<noteq> i \<Longrightarrow>
     lock_purchase i d = (Inl (err PurchaseNotFoundError [(''purchase_id'', JStr (uuid_str i))]), d)"
  by (simp add: lock_purchase_run scalar_one_or_none_def filter_empty_conv [THEN iffD2])

subsection \<open>Writing a row of a well-formed database\<close>

lemma unique_onD:
  assumes "unique_on P k rows" and "p \<in> set rows" and "q \<in> set rows" and "P p" and "P q" and "k p = k q"
  shows "p = q"
  using assms by (auto simp: unique_on_def distinct_map inj_on_def)

lemma unique_key_free:
  assumes "unique_on P k rows" and "p \<in> set rows" and "P r \<Longrightarrow> P p" and "k r = k p" and "i r = i p"
  shows "key_free P k r (rows_but i r rows)"
  unfolding key_free_def rows_but_def list_all_iff
  using unique_onD [OF assms(1,2)] assms(3-) by force

definition charge_taken :: "database \<Rightarrow> string option \<Rightarrow> bool" where
  "charge_taken d charge = list_ex (\<lambda>q. pu_telegram_charge_id q = charge) (purchases d)"

definition owns :: "database \<Rightarrow> int \<Rightarrow> uuid \<Rightarrow> bool" where
  "owns d u i = list_ex (\<lambda>q. grants_access q \<and> pu_user_id q = u \<and> pu_product_id q = i) (purchases d)"

lemma reread_written:
  assumes "p \<in> set (purchases d)" and "pu_id q = pu_id p"
  shows "reread_purchase (pu_id p) (d\<lparr>purchases := replace_row pu_id q (purchases d)\<rparr>)
     = (Inr q, d\<lparr>purchases := replace_row pu_id q (purchases d)\<rparr>)"
proof -
  have "List.find (\<lambda>r. pu_id r = pu_id p) (purchases d) \<noteq> None"
    using find_NoneD assms(1) by fastforce
  then show ?thesis by (simp add: reread_purchase_run find_replace_row assms(2))
qed

lemma rows_but_others: "pu_id q = pu_id p \<Longrightarrow>
    r \<in> set (rows_but pu_id q (purchases d)) \<longleftrightarrow> r \<in> set (purchases d) \<and> pu_id r \<noteq> pu_id p"
  by (simp add: rows_but_def)

lemma row_by_id: "db_ok d \<Longrightarrow> p \<in> set (purchases d) \<Longrightarrow> r \<in> set (purchases d) \<Longrightarrow> pu_id r = pu_id p \<Longrightarrow> r = p"
  by (metis db_okD(9) distinct_map inj_on_eq_iff)

text \<open>Which of the unique indexes a rewritten row can violate: a new charge, and access it did not grant before.\<close>

lemma charge_key_free:
  assumes "db_ok d" and "p \<in> set (purchases d)" and "pu_id q = pu_id p"
  shows "key_free (\<lambda>q. pu_telegram_charge_id q \<noteq> None) pu_telegram_charge_id q (rows_but pu_id q (purchases d))
    \<longleftrightarrow> \<not> (pu_telegram_charge_id q \<noteq> pu_telegram_charge_id p \<and> pu_telegram_charge_id q \<noteq> None
          \<and> charge_taken d (pu_telegram_charge_id q))"
proof (cases "pu_telegram_charge_id q = pu_telegram_charge_id p")
  case True
  have "unique_on (\<lambda>q. pu_telegram_charge_id q \<noteq> None) pu_telegram_charge_id (purchases d)"
    using db_okD(6) [OF assms(1)] by (simp only: purchases_unique_def)
  from unique_key_free [OF this assms(2), of q pu_id] True assms(3) show ?thesis
    by (simp del: not_None_eq)
next
  case False
  then show ?thesis
    using assms(2) row_by_id [OF assms(1,2)]
    by (auto simp: key_free_def list_all_iff list_ex_iff charge_taken_def Ball_def rows_but_others [OF assms(3)])
      (metis option.distinct(1))
qed

lemma owner_key_free:
  assumes "db_ok d" and "p \<in> set (purchases d)" and "pu_id q = pu_id p"
    and same: "pu_user_id q = pu_user_id p" "pu_product_id q = pu_product_id p"
  shows "key_free grants_access (\<lambda>q. (pu_user_id q, pu_product_id q)) q (rows_but pu_id q (purchases d))
    \<longleftrightarrow> \<not> (grants_access q \<and> \<not> grants_access p \<and> owns d (pu_user_id p) (pu_product_id p))"
proof (cases "grants_access p")
  case True
  have "unique_on grants_access (\<lambda>q. (pu_user_id q, pu_product_id q)) (purchases d)"
    using db_okD(6) [OF assms(1)] by (simp only: purchases_unique_def)
  from unique_key_free [OF this assms(2), of q pu_id] True assms(3) same show ?thesis
    by (simp del: grants_access_iff)
next
  case False
  then show ?thesis
    using assms(2) row_by_id [OF assms(1,2)]
    unfolding key_free_def list_all_iff list_ex_iff owns_def Ball_def rows_but_others [OF assms(3)]
    by (auto simp: same simp del: grants_access_iff)
qed

lemma write_status_run:
  assumes ok: "db_ok d" and p: "p \<in> set (purchases d)" and same: "pu_id q = pu_id p"
      "pu_user_id q = pu_user_id p" "pu_product_id q = pu_product_id p"
      "pu_provider q = pu_provider p" "pu_external_id q = pu_external_id p" "pu_amount q = pu_amount p"
    and fits: "fits_string 128 (pu_telegram_charge_id q)"
    and checks: "delivery_complete q" "paid_at_present q"
  shows "write_purchase q d =
     (if pu_telegram_charge_id q \<noteq> pu_telegram_charge_id p \<and> pu_telegram_charge_id q \<noteq> None
          \<and> charge_taken d (pu_telegram_charge_id q)
      then Inl (integrity_error ''uq_purchases_telegram_charge_id'')
      else if grants_access q \<and> \<not> grants_access p \<and> owns d (pu_user_id p) (pu_product_id p)
      then Inl (integrity_error ''uq_purchases_user_product_paid'')
      else Inr (d\<lparr>purchases := replace_row pu_id q (purchases d)\<rparr>))"
proof -
  note okd = db_okD [OF ok]
  let ?others = "rows_but pu_id q (purchases d)"
  have row: "purchase_row_ok d p" using okd(7) p by (simp add: list_all_iff)
  then have "numeric_round 6 (pu_amount p) = pu_amount p"
    by (simp add: purchase_row_ok_def purchase_stored_amount(2))
  then have stored: "purchase_stored q = q" by (simp add: purchase_stored_amount(2) same)
  have fit: "purchase_fits q"
    using row fits by (simp add: purchase_row_ok_def purchase_fits_def same)
  have uq: "unique_on (\<lambda>_. True) pu_id (purchases d)"
      "unique_on (\<lambda>_. True) (\<lambda>q. (pu_provider q, pu_external_id q)) (purchases d)"
    using okd(6) by (simp_all add: purchases_unique_def distinct_as_unique)
  have k1: "key_free (\<lambda>_. True) pu_id q ?others"
    by (rule unique_key_free [OF uq(1) p]) (simp_all add: same)
  have k2: "key_free (\<lambda>_. True) (\<lambda>q. (pu_provider q, pu_external_id q)) q ?others"
    by (rule unique_key_free [OF uq(2) p]) (simp_all add: same)
  note k3 = charge_key_free [OF ok p same(1)] and k4 = owner_key_free [OF ok p same(1-3)]
  have rest: "0 < pu_amount q" "list_ex (\<lambda>r. pr_id r = pu_product_id q) (products d)"
      "list_ex (\<lambda>r. us_telegram_id r = pu_user_id q) (users d)"
    using row by (simp_all add: purchase_row_ok_def same)
  show ?thesis
    unfolding write_purchase_def Let_def stored flush_row_def purchase_violation_def k3 k4
    using fit k1 k2 rest checks by (simp add: first_violation_def del: grants_access_iff)
qed

subsection \<open>Properties of the life cycle operations\<close>

definition paid_version :: "datetime \<Rightarrow> datetime option \<Rightarrow> string option \<Rightarrow> purchase \<Rightarrow> purchase" where
  "paid_version now paid_at charge p =
     p\<lparr>pu_status := PAID, pu_paid_at := Some (case paid_at of Some t \<Rightarrow> t | None \<Rightarrow> now),
       pu_telegram_charge_id := (if truthy charge then charge else pu_telegram_charge_id p)\<rparr>"

lemma paid_version_sel [simp]:
  "pu_id (paid_version now t c p) = pu_id p" "pu_status (paid_version now t c p) = PAID"
  "pu_user_id (paid_version now t c p) = pu_user_id p"
  "pu_product_id (paid_version now t c p) = pu_product_id p"
  "pu_provider (paid_version now t c p) = pu_provider p"
  by (simp_all add: paid_version_def)

lemma unpaid_fields:
  assumes "db_ok d" and "p \<in> set (purchases d)" and "pu_status p = PENDING \<or> pu_status p = EXPIRED"
  shows "pu_paid_at p = None" "pu_telegram_charge_id p = None"
  using assms db_okD(8) [OF assms(1)] by (auto simp: list_all_iff fields_follow_status_def)

lemma truthy_None [simp]: "\<not> truthy None"
  by (simp add: truthy_def)

lemma mark_paid_unpaid:
  assumes "db_ok d" and "p \<in> set (purchases d)" and "pu_status p \<in> {PENDING, EXPIRED}"
    and "fits_string 128 charge"
  shows "mark_paid now (pu_id p) paid_at charge d =
     (if truthy charge \<and> charge_taken d charge
      then (Inl (err_msg ConflictError ''This Telegram charge is already recorded''
                [(''constraint'', JStr ''uq_purchases_telegram_charge_id'')]), d)
      else if owns d (pu_user_id p) (pu_product_id p) then (Inl (err DuplicatePurchaseError []), d)
      else (Inr (paid_version now paid_at charge p),
            d\<lparr>purchases := replace_row pu_id (paid_version now paid_at charge p) (purchases d)\<rparr>))"
proof -
  let ?q = "paid_version now paid_at charge p"
  have unpaid: "pu_paid_at p = None" "pu_telegram_charge_id p = None"
    using unpaid_fields [OF assms(1,2)] assms(3) by auto
  have run: "mark_paid now (pu_id p) paid_at charge d =
      thenM (savepoint (pu_external_id p) (write_purchase ?q)) (reread_purchase (pu_id p)) d"
    using assms(3) unfolding mark_paid_def
    by (auto simp: bindM_run lock_purchase_found [OF assms(1,2)] terminal_for_payment_def paid_version_def)
  have w: "write_purchase ?q d =
      (if pu_telegram_charge_id ?q \<noteq> pu_telegram_charge_id p \<and> pu_telegram_charge_id ?q \<noteq> None
          \<and> charge_taken d (pu_telegram_charge_id ?q)
       then Inl (integrity_error ''uq_purchases_telegram_charge_id'')
       else if grants_access ?q \<and> \<not> grants_access p \<and> owns d (pu_user_id p) (pu_product_id p)
       then Inl (integrity_error ''uq_purchases_user_product_paid'')
       else Inr (d\<lparr>purchases := replace_row pu_id ?q (purchases d)\<rparr>))"
    by (rule write_status_run [OF assms(1,2)])
      (use assms(4) unpaid in \<open>simp_all add: paid_version_def delivery_complete_def
        paid_at_present_def fits_string_def\<close>)
  have charge: "(pu_telegram_charge_id ?q \<noteq> pu_telegram_charge_id p \<and> pu_telegram_charge_id ?q \<noteq> None
      \<and> charge_taken d (pu_telegram_charge_id ?q)) = (truthy charge \<and> charge_taken d charge)"
    using unpaid(2) by (auto simp: paid_version_def truthy_def split: option.splits)
  have "grants_access ?q" and "\<not> grants_access p" and "pu_id ?q = pu_id p"
    using assms(3) by (auto simp: paid_version_def)
  then show ?thesis
    unfolding run thenM_run savepoint_run w charge
    using reread_written [OF assms(2), of ?q] by (simp add: translate_def)
qed

text \<open>
  C9. Confirming a payment, on every branch. A pending or expired purchase becomes paid, with the
  payment time and the charge id of the notification, and nothing else in the database changes;
  a charge id that another purchase carries and a product the buyer already owns are conflicts
  that leave the database alone.
\<close>

theorem mark_paid_confirms:
  assumes "db_ok d" and "p \<in> set (purchases d)" and "pu_status p \<in> {PENDING, EXPIRED}"
    and "fits_string 128 charge"
  shows "mark_paid now (pu_id p) paid_at charge d =
     (if truthy charge \<and> charge_taken d charge
      then (Inl (err_msg ConflictError ''This Telegram charge is already recorded''
                [(''constraint'', JStr ''uq_purchases_telegram_charge_id'')]), d)
      else if owns d (pu_user_id p) (pu_product_id p) then (Inl (err DuplicatePurchaseError []), d)
      else (Inr (paid_version now paid_at charge p),
            d\<lparr>purchases := replace_row pu_id (paid_version now paid_at charge p) (purchases d)\<rparr>))"
  by (rule mark_paid_unpaid [OF assms])

lemma mark_paid_sample:
  "mark_paid 9 10 None (Some ''ch'') (sample_db [sample_purchase EXPIRED])
     = (Inr (paid_version 9 None (Some ''ch'') (sample_purchase EXPIRED)),
        sample_db [paid_version 9 None (Some ''ch'') (sample_purchase EXPIRED)])"
  using mark_paid_unpaid [of "sample_db [sample_purchase EXPIRED]" "sample_purchase EXPIRED"
      "Some ''ch''" 9 None]
  by (simp add: fits_string_def charge_taken_def owns_def replace_row_def)

theorem mark_paid_confirms_witness:
  "mark_paid 9 10 None (Some ''ch'') (sample_db [sample_purchase EXPIRED])
     = (Inr (paid_version 9 None (Some ''ch'') (sample_purchase EXPIRED)),
        sample_db [paid_version 9 None (Some ''ch'') (sample_purchase EXPIRED)])"
  using mark_paid_confirms [of "sample_db [sample_purchase EXPIRED]" "sample_purchase EXPIRED"
      "Some ''ch''" 9 None]
  by (simp add: fits_string_def charge_taken_def owns_def replace_row_def)

lemma mark_paid_settled:
  assumes "db_ok d" and "p \<in> set (purchases d)" and "pu_status p \<in> {PAID, DELIVERED}"
    and "truthy charge \<Longrightarrow> pu_telegram_charge_id p \<noteq> None"
  shows "mark_paid now (pu_id p) paid_at charge d = (Inr p, d)"
  using assms(3,4) unfolding mark_paid_def
  by (auto simp: bindM_run lock_purchase_found [OF assms(1,2)] terminal_for_payment_def)

lemma mark_paid_late_charge:
  assumes "db_ok d" and "p \<in> set (purchases d)" and "mark_paid now (pu_id p) paid_at charge d = (Inr q, e)"
    and "pu_status p \<in> {PAID, DELIVERED}" and "truthy charge" and "pu_telegram_charge_id p = None"
  shows "q = p\<lparr>pu_telegram_charge_id := charge\<rparr> \<and> e = d\<lparr>purchases := replace_row pu_id q (purchases d)\<rparr>"
proof -
  let ?r = "p\<lparr>pu_telegram_charge_id := charge\<rparr>"
  have "numeric_round 6 (pu_amount p) = pu_amount p"
    using assms(2) db_okD(7) [OF assms(1)] by (auto simp: list_all_iff purchase_row_ok_def purchase_stored_amount(2))
  then have "purchase_stored ?r = ?r" by (simp add: purchase_stored_amount(2))
  moreover have "mark_paid now (pu_id p) paid_at charge d = thenM (flush (write_purchase ?r)) (ret ?r) d"
    using assms(4-6)
    by (auto simp: mark_paid_def bindM_run lock_purchase_found [OF assms(1,2)] terminal_for_payment_def Let_def)
  ultimately show ?thesis
    using assms(3) by (auto simp: thenM_run flush_run write_purchase_def Let_def split: sum.splits)
qed

lemma mark_paid_charge_fits:
  assumes "db_ok d" and "p \<in> set (purchases d)" and "mark_paid now (pu_id p) paid_at charge d = (Inr q, e)"
    and "pu_status p \<in> {PENDING, EXPIRED}"
  shows "fits_string 128 charge"
proof (rule ccontr)
  assume long: "\<not> fits_string 128 charge"
  then have "truthy charge" by (auto simp: fits_string_def truthy_def split: option.splits)
  with long have "write_purchase (paid_version now paid_at charge p) d = Inl data_error"
    by (simp add: write_purchase_def Let_def flush_row_def purchase_fits_def paid_version_def)
  moreover have "mark_paid now (pu_id p) paid_at charge d =
      thenM (savepoint (pu_external_id p) (write_purchase (paid_version now paid_at charge p)))
        (reread_purchase (pu_id p)) d"
    using assms(4) by (auto simp: mark_paid_def bindM_run lock_purchase_found [OF assms(1,2)] terminal_for_payment_def
        paid_version_def)
  ultimately show False using assms(3) by (simp add: thenM_run savepoint_run)
qed

lemma mark_paid_success:
  assumes ok: "db_ok d" and run: "mark_paid now i paid_at charge d = (Inr q, e)"
  shows "q \<in> set (purchases e) \<and> pu_id q = i \<and> pu_status q \<in> {PAID, DELIVERED}
     \<and> (truthy charge \<longrightarrow> pu_telegram_charge_id q \<noteq> None)"
proof -
  from run obtain p where lock: "lock_purchase i d = (Inr p, d)"
    unfolding mark_paid_def bindM_run
    by (auto split: prod.splits sum.splits dest: lock_purchaseD)
  then have p: "p \<in> set (purchases d)" and i: "pu_id p = i"
    using lock_purchaseD by blast+
  have here: "q \<in> set (replace_row pu_id q (purchases d))" if "pu_id q = i" for q
    using that p i by (auto simp: replace_row_def in_update_rows)
  consider (settled) "pu_status p \<in> {PAID, DELIVERED}" "truthy charge \<longrightarrow> pu_telegram_charge_id p \<noteq> None"
    | (charge) "pu_status p \<in> {PAID, DELIVERED}" "truthy charge" "pu_telegram_charge_id p = None"
    | (refunded) "pu_status p = REFUNDED"
    | (unpaid) "pu_status p \<in> {PENDING, EXPIRED}"
    by (cases "pu_status p") auto
  then show ?thesis
  proof cases
    case settled
    then show ?thesis using mark_paid_settled [OF ok p, of charge now paid_at] run p i by auto
  next
    case charge
    with mark_paid_late_charge [OF ok p] run i
    have "q = p\<lparr>pu_telegram_charge_id := charge\<rparr>" "e = d\<lparr>purchases := replace_row pu_id q (purchases d)\<rparr>"
      by auto
    then show ?thesis using charge here [of q] i by (auto simp: truthy_def split: option.splits)
  next
    case refunded
    then show ?thesis using run by (simp add: mark_paid_def bindM_run lock terminal_for_payment_def)
  next
    case unpaid
    have "fits_string 128 charge" using mark_paid_charge_fits [OF ok p _ unpaid] run i by blast
    from mark_paid_unpaid [OF ok p unpaid this, of now paid_at] run i
    have "q = paid_version now paid_at charge p"
      and "e = d\<lparr>purchases := replace_row pu_id q (purchases d)\<rparr>"
      by (auto split: if_splits)
    then show ?thesis using here [of q] i
      by (auto simp: paid_version_def truthy_def split: option.splits)
  qed
qed

text \<open>
  A payment notification may be replayed at will: once it was confirmed, confirming it again
  returns the same purchase and changes nothing, whatever time the replay claims.
\<close>

theorem mark_paid_replay:
  assumes "db_ok d" and "mark_paid now i paid_at charge d = (Inr q, e)"
  shows "mark_paid now' i paid_at' charge e = (Inr q, e)"
proof -
  have "db_ok e"
    using assms mark_paid_evolves [THEN alongD_eq, OF assms(2)] by (simp add: evolves_def)
  with mark_paid_success [OF assms] show ?thesis
    using mark_paid_settled [of e q charge now' paid_at'] by auto
qed

theorem mark_paid_replay_witness:
  "\<exists>q e. mark_paid 9 10 None (Some ''ch'') (sample_db [sample_purchase EXPIRED]) = (Inr q, e)
     \<and> mark_paid 70 10 (Some 3) (Some ''ch'') e = (Inr q, e) \<and> pu_paid_at q = Some 9"
proof -
  let ?q = "paid_version 9 None (Some ''ch'') (sample_purchase EXPIRED)"
  have "mark_paid 9 10 None (Some ''ch'') (sample_db [sample_purchase EXPIRED])
      = (Inr ?q, sample_db [?q])"
    by (rule mark_paid_sample)
  with mark_paid_replay [OF _ this, of 70 "Some 3"] show ?thesis by (auto simp: paid_version_def)
qed

definition delivered_version :: "datetime \<Rightarrow> string \<Rightarrow> datetime option \<Rightarrow> purchase \<Rightarrow> purchase" where
  "delivered_version now url at_time p =
     p\<lparr>pu_status := DELIVERED, pu_delivered_url := Some url,
       pu_delivered_at := Some (case at_time of Some t \<Rightarrow> t | None \<Rightarrow> now)\<rparr>"

lemma delivered_version_sel [simp]:
  "pu_id (delivered_version now u t p) = pu_id p" "pu_status (delivered_version now u t p) = DELIVERED"
  "pu_delivered_url (delivered_version now u t p) = Some u"
  by (simp_all add: delivered_version_def)

lemma paid_row:
  assumes "db_ok d" and "p \<in> set (purchases d)"
  shows "fits_string 128 (pu_telegram_charge_id p)" "paid_at_present p"
    "pu_status p = PAID \<Longrightarrow> pu_delivered_at p = None \<and> pu_delivered_url p = None"
  using assms db_okD(7,8) [OF assms(1)]
  by (auto simp: list_all_iff purchase_row_ok_def purchase_fits_def fields_follow_status_def)

lemma mark_delivered_run:
  assumes "db_ok d" and "p \<in> set (purchases d)"
  shows "mark_delivered now (pu_id p) url at_time d =
     (case pu_status p of
        DELIVERED \<Rightarrow> (Inr p, d)
      | PAID \<Rightarrow> (Inr (delivered_version now url at_time p),
           d\<lparr>purchases := replace_row pu_id (delivered_version now url at_time p) (purchases d)\<rparr>)
      | s \<Rightarrow> (Inl (conflict ''Only a paid purchase can be delivered'' (pu_id p) s), d))"
proof (cases "pu_status p = PAID")
  case True
  let ?q = "delivered_version now url at_time p"
  have "paid_at_present ?q"
    using paid_row(2) [OF assms] True by (simp add: paid_at_present_def delivered_version_def)
  then have w: "write_purchase ?q d = Inr (d\<lparr>purchases := replace_row pu_id ?q (purchases d)\<rparr>)"
    using write_status_run [OF assms, of ?q] True paid_row(1) [OF assms]
    by (simp add: delivered_version_def delivery_complete_def)
  have "mark_delivered now (pu_id p) url at_time d =
      thenM (flush (write_purchase ?q)) (reread_purchase (pu_id p)) d"
    by (simp add: mark_delivered_def bindM_run lock_purchase_found [OF assms] True delivered_version_def)
  then show ?thesis
    using reread_written [OF assms(2), of ?q] by (simp add: thenM_run flush_run w True)
next
  case False
  then show ?thesis
    by (cases "pu_status p")
      (simp_all add: mark_delivered_def bindM_run lock_purchase_found [OF assms])
qed

text \<open>
  Recording a delivery, on every branch. A paid purchase becomes delivered with the link that
  was sent; a delivered one is answered as it is and keeps its first link and time; every other
  status is a conflict that changes nothing.
\<close>

theorem mark_delivered_outcome:
  assumes "db_ok d" and "p \<in> set (purchases d)"
  shows "mark_delivered now (pu_id p) url at_time d =
     (case pu_status p of
        DELIVERED \<Rightarrow> (Inr p, d)
      | PAID \<Rightarrow> (Inr (delivered_version now url at_time p),
           d\<lparr>purchases := replace_row pu_id (delivered_version now url at_time p) (purchases d)\<rparr>)
      | s \<Rightarrow> (Inl (conflict ''Only a paid purchase can be delivered'' (pu_id p) s), d))"
  by (rule mark_delivered_run [OF assms])

theorem mark_delivered_outcome_witness:
  "mark_delivered 9 10 ''u'' None (sample_db [sample_purchase PAID])
     = (Inr (delivered_version 9 ''u'' None (sample_purchase PAID)),
        sample_db [delivered_version 9 ''u'' None (sample_purchase PAID)])"
  using mark_delivered_outcome [of "sample_db [sample_purchase PAID]" "sample_purchase PAID" 9 "''u''" None]
  by (simp add: replace_row_def)

lemma mark_refunded_run:
  assumes "db_ok d" and "p \<in> set (purchases d)"
  shows "mark_refunded (pu_id p) d =
     (if pu_status p = REFUNDED then (Inr p, d)
      else if pu_status p \<in> {PAID, DELIVERED}
      then (Inr (p\<lparr>pu_status := REFUNDED\<rparr>),
            d\<lparr>purchases := replace_row pu_id (p\<lparr>pu_status := REFUNDED\<rparr>) (purchases d)\<rparr>)
      else (Inl (integrity_error ''ck_purchases_paid_at_present''), d))"
proof -
  let ?q = "p\<lparr>pu_status := REFUNDED\<rparr>"
  consider (refunded) "pu_status p = REFUNDED" | (refund) "pu_status p \<in> {PAID, DELIVERED}"
    | (unpaid) "pu_status p = PENDING \<or> pu_status p = EXPIRED" by (cases "pu_status p") auto
  then show ?thesis
  proof cases
    case refunded
    then show ?thesis by (simp add: mark_refunded_def bindM_run lock_purchase_found [OF assms])
  next
    case refund
    then have checks: "delivery_complete ?q" "paid_at_present ?q"
      using paid_row(2) [OF assms] by (auto simp: delivery_complete_def paid_at_present_def)
    have w: "write_purchase ?q d = Inr (d\<lparr>purchases := replace_row pu_id ?q (purchases d)\<rparr>)"
      using write_status_run [OF assms, of ?q] checks paid_row(1) [OF assms] by simp
    from refund have "mark_refunded (pu_id p) d = thenM (flush (write_purchase ?q)) (reread_purchase (pu_id p)) d"
      by (auto simp: mark_refunded_def bindM_run lock_purchase_found [OF assms])
    with refund show ?thesis
      using reread_written [OF assms(2), of ?q] by (auto simp: thenM_run flush_run w)
  next
    case unpaid
    have row: "purchase_row_ok d p" using assms db_okD(7) by (auto simp: list_all_iff)
    then have "purchase_stored ?q = ?q" "purchase_fits ?q" "0 < pu_amount ?q"
      by (simp_all add: purchase_row_ok_def purchase_stored_amount(2) purchase_fits_def)
    moreover have "delivery_complete ?q" "\<not> paid_at_present ?q"
      using unpaid_fields(1) [OF assms unpaid] by (simp_all add: delivery_complete_def paid_at_present_def)
    ultimately have w: "write_purchase ?q d = Inl (integrity_error ''ck_purchases_paid_at_present'')"
      by (simp add: write_purchase_def Let_def flush_row_def purchase_violation_def first_violation_def)
    from unpaid show ?thesis
      by (auto simp: mark_refunded_def bindM_run lock_purchase_found [OF assms] thenM_run flush_run w)
  qed
qed

text \<open>
  Refunds, on every branch. A paid or delivered purchase becomes refunded and keeps everything
  it recorded; a refunded one is answered as it is; refunding a purchase that was never paid is
  rejected by the database, and the rejection reaches the caller as the untranslated
  \<open>IntegrityError\<close> of the CHECK constraint, not as a domain error.
\<close>

theorem mark_refunded_outcome:
  assumes "db_ok d" and "p \<in> set (purchases d)"
  shows "mark_refunded (pu_id p) d =
     (if pu_status p = REFUNDED then (Inr p, d)
      else if pu_status p \<in> {PAID, DELIVERED}
      then (Inr (p\<lparr>pu_status := REFUNDED\<rparr>),
            d\<lparr>purchases := replace_row pu_id (p\<lparr>pu_status := REFUNDED\<rparr>) (purchases d)\<rparr>)
      else (Inl (integrity_error ''ck_purchases_paid_at_present''), d))"
  by (rule mark_refunded_run [OF assms])

theorem mark_refunded_outcome_witness:
  "mark_refunded 10 (sample_db [sample_purchase PENDING])
     = (Inl (integrity_error ''ck_purchases_paid_at_present''), sample_db [sample_purchase PENDING])"
  using mark_refunded_outcome [of "sample_db [sample_purchase PENDING]" "sample_purchase PENDING"]
  by simp

subsection \<open>Recording an invoice\<close>

definition invoice_recorded :: "database \<Rightarrow> payment_provider \<Rightarrow> string \<Rightarrow> bool" where
  "invoice_recorded d v x = list_ex (\<lambda>q. pu_provider q = v \<and> pu_external_id q = x) (purchases d)"

definition draft_storable :: "database \<Rightarrow> purchase_draft \<Rightarrow> bool" where
  \<comment> \<open>the draft fits its columns, costs something and points at an existing buyer and product\<close>
  "draft_storable d dr =
     (fits_int 64 (dr_user_id dr) \<and> fits_numeric 18 6 (dr_amount dr)
      \<and> 0 < numeric_round 6 (dr_amount dr) \<and> length (dr_external_id dr) \<le> 128
      \<and> list_ex (\<lambda>q. pr_id q = dr_product_id dr) (products d)
      \<and> list_ex (\<lambda>u. us_telegram_id u = dr_user_id dr) (users d))"

lemma create_purchase_run:
  assumes "db_ok d" and "draft_storable d dr" and "dr_status dr = None"
    and "\<forall>p\<in>set (purchases d). pu_id p \<noteq> new_id"
  shows "create_purchase new_id now dr d =
     (if invoice_recorded d (dr_provider dr) (dr_external_id dr)
      then (Inl (err_msg ConflictError ''This invoice is already recorded''
               [(''constraint'', JStr ''uq_purchases_provider_external_id''),
                (''external_id'', JStr (dr_external_id dr))]), d)
      else (let p = purchase_stored (new_purchase new_id now dr) in
            (Inr p, d\<lparr>purchases := purchases d @ [p]\<rparr>)))"
proof -
  let ?p = "new_purchase new_id now dr" and ?r = "purchase_stored (new_purchase new_id now dr)"
  have sel: "pu_id ?p = new_id" "pu_status ?p = PENDING" "pu_telegram_charge_id ?p = None"
      "pu_provider ?p = dr_provider dr" "pu_external_id ?p = dr_external_id dr"
      "pu_user_id ?p = dr_user_id dr" "pu_product_id ?p = dr_product_id dr" "pu_amount ?p = dr_amount dr"
    using assms(3) by (simp_all add: new_purchase_def Let_def)
  have fits: "purchase_fits ?p"
    using assms(2) by (simp add: purchase_fits_def sel draft_storable_def fits_string_def)
  have "key_free (\<lambda>_. True) pu_id ?r (purchases d)"
    using assms(4) by (simp add: key_free_def list_all_iff sel)
  moreover have "key_free (\<lambda>_. True) (\<lambda>q. (pu_provider q, pu_external_id q)) ?r (purchases d)
      = (\<not> invoice_recorded d (dr_provider dr) (dr_external_id dr))"
    by (auto simp: key_free_def list_all_iff list_ex_iff sel invoice_recorded_def)
  moreover have "key_free (\<lambda>q. pu_telegram_charge_id q \<noteq> None) pu_telegram_charge_id ?r (purchases d)"
      "key_free grants_access (\<lambda>q. (pu_user_id q, pu_product_id q)) ?r (purchases d)"
    by (simp_all add: key_free_def sel)
  moreover have "0 < pu_amount ?r" "delivery_complete ?r" "paid_at_present ?r"
    using assms(2) by (simp_all add: purchase_stored_amount(1) sel draft_storable_def
        delivery_complete_def paid_at_present_def)
  ultimately have w: "insert_purchase ?p d =
      (if invoice_recorded d (dr_provider dr) (dr_external_id dr)
       then Inl (integrity_error ''uq_purchases_provider_external_id'')
       else Inr (d\<lparr>purchases := purchases d @ [?r]\<rparr>))"
    using fits assms(2)
    by (simp add: insert_purchase_def Let_def flush_row_def purchase_violation_def first_violation_def
        sel draft_storable_def del: grants_access_iff not_None_eq)
  have "List.find (\<lambda>q. pu_id q = new_id) (purchases d) = None"
    using assms(4) by (simp add: find_None_iff)
  then have "reread_purchase new_id (d\<lparr>purchases := purchases d @ [?r]\<rparr>)
      = (Inr ?r, d\<lparr>purchases := purchases d @ [?r]\<rparr>)"
    by (simp add: reread_purchase_run find_append sel)
  then show ?thesis
    by (simp add: create_purchase_def thenM_run savepoint_run w translate_def Let_def)
qed

text \<open>
  Recording an invoice of a storable draft: it becomes a pending, unpaid purchase appended to
  the table, unless the invoice id is already recorded for that provider. That case is answered
  with a \<open>ConflictError\<close>, not with the \<open>DuplicatePurchaseError\<close> the repository contract documents.
\<close>

theorem create_purchase_outcome:
  assumes "db_ok d" and "draft_storable d dr" and "dr_status dr = None"
    and "\<forall>p\<in>set (purchases d). pu_id p \<noteq> new_id"
  shows "create_purchase new_id now dr d =
     (if invoice_recorded d (dr_provider dr) (dr_external_id dr)
      then (Inl (err_msg ConflictError ''This invoice is already recorded''
               [(''constraint'', JStr ''uq_purchases_provider_external_id''),
                (''external_id'', JStr (dr_external_id dr))]), d)
      else (let p = purchase_stored (new_purchase new_id now dr) in
            (Inr p, d\<lparr>purchases := purchases d @ [p]\<rparr>)))"
  by (rule create_purchase_run [OF assms])

definition sample_draft :: purchase_draft where
  "sample_draft = \<lparr>dr_user_id = 7, dr_product_id = 1, dr_provider = STARS, dr_amount = 100,
     dr_currency = XTR, dr_external_id = ''inv'', dr_status = None\<rparr>"

theorem create_purchase_outcome_witness:
  "fst (create_purchase 11 8 sample_draft (sample_db [sample_purchase EXPIRED]))
     = Inl (err_msg ConflictError ''This invoice is already recorded''
         [(''constraint'', JStr ''uq_purchases_provider_external_id''), (''external_id'', JStr ''inv'')])
   \<and> snd (create_purchase 11 8 sample_draft (sample_db [])) = sample_db [new_purchase 11 8 sample_draft]"
  using create_purchase_outcome [of "sample_db [sample_purchase EXPIRED]" sample_draft 11 8]
    create_purchase_outcome [of "sample_db []" sample_draft 11 8]
  by (simp add: draft_storable_def sample_draft_def fits_int_def fits_numeric_def invoice_recorded_def
      purchase_stored_def new_purchase_def Let_def)

subsection \<open>The search box\<close>

definition search_matches :: "database \<Rightarrow> string \<Rightarrow> purchase \<Rightarrow> bool" where
  \<comment> \<open>the specification: one OR over the three joined tables\<close>
  "search_matches d t p =
     (let has = (\<lambda>s. sublist (py_lower t) (py_lower s)); has_opt = case_option False has in
      has (pu_external_id p) \<or> has_opt (pu_telegram_charge_id p)
      \<or> buyer_matches d (\<lambda>u. has_opt (us_username u)) p
      \<or> product_matches d (\<lambda>q. has (pr_title q) \<or> has (pr_slug q)) p
      \<or> (py_isdigit t \<and> pu_user_id p = int (str_nat t)))"

definition readable_term :: "string \<Rightarrow> bool" where
  \<comment> \<open>a term that looks like a number is one PostgreSQL can compare with a BIGINT\<close>
  "readable_term t = (py_isdigit t \<longrightarrow> list_all is_ascii_digit t \<and> fits_int 64 (int (str_nat t)))"

lemma ilike_opt_pattern:
  "ilike_opt x (like_pattern t) = case_option False (\<lambda>s. sublist (py_lower t) (py_lower s)) x"
  by (simp add: ilike_opt_def ilike_pattern split: option.split)

lemma in_ids_where:
  "db_ok d \<Longrightarrow> p \<in> set (purchases d) \<Longrightarrow> pu_id p \<in> set (ids_where d P) \<longleftrightarrow> P p"
proof -
  assume "db_ok d" and p: "p \<in> set (purchases d)"
  then have "distinct (map pu_id (purchases d))" by (rule_tac db_okD)
  with p show ?thesis by (auto simp: ids_where_def distinct_map dest: inj_onD)
qed

lemma matching_ids_run:
  assumes "db_ok d" and "readable_term t"
  obtains ids where "matching_ids d t = Inr ids"
    and "\<And>p. p \<in> set (purchases d) \<Longrightarrow> pu_id p \<in> set ids \<longleftrightarrow> search_matches d t p"
proof -
  have branch: "telegram_id_branch d t = Inr (if py_isdigit t then ids_where d (\<lambda>p. pu_user_id p = int (str_nat t)) else [])"
    using assms(2) by (simp add: telegram_id_branch_def readable_term_def)
  show thesis
    by (rule that, simp add: matching_ids_def Let_def branch)
      (simp add: in_ids_where [OF assms(1)] search_matches_def Let_def ilike_pattern ilike_opt_pattern)
qed

lemma length_join_record:
  assumes "db_ok d" and "p \<in> set (purchases d)"
  shows "length (join_record d p) = 1"
proof -
  have row: "purchase_row_ok d p" using db_okD(7) [OF assms(1)] assms(2) by (simp add: list_all_iff)
  have one: "\<exists>r. filter (\<lambda>r. k r = x) rows = [r]"
    if "distinct (map k rows)" and "\<exists>r\<in>set rows. k r = x" for k :: "'r \<Rightarrow> 'k" and x rows
  proof -
    have "length (filter (\<lambda>r. True \<and> k r = x) rows) \<le> 1"
      using that(1) by (intro filter_unique_on) (simp add: distinct_as_unique)
    moreover have "filter (\<lambda>r. k r = x) rows \<noteq> []" using that(2) by (simp add: filter_empty_conv)
    ultimately show ?thesis by (cases "filter (\<lambda>r. k r = x) rows") auto
  qed
  obtain q where "filter (\<lambda>q. pr_id q = pu_product_id p) (products d) = [q]"
    using one [of pr_id "products d"] db_okD(1) [OF assms(1)] row
    by (auto simp: purchase_row_ok_def list_ex_iff)
  moreover obtain u where "filter (\<lambda>u. us_telegram_id u = pu_user_id p) (users d) = [u]"
    using one [of us_telegram_id "users d"] db_okD(4) [OF assms(1)] row
    by (auto simp: purchase_row_ok_def list_ex_iff)
  ultimately show ?thesis by (simp add: join_record_def)
qed

lemma length_concat_ones: "\<forall>x\<in>set xs. length (f x) = 1 \<Longrightarrow> length (concat (map f xs)) = length xs"
  by (induction xs) auto

definition records_by_date :: "purchase_record list \<Rightarrow> purchase_record list" where
  "records_by_date = newest_first (\<lambda>r. pu_created_at (rec_purchase r)) (\<lambda>r. pu_id (rec_purchase r))"

text \<open>
  The UNION of index lookups the search runs is the plain disjunction over the joined tables:
  for every term that is not an unreadable number, the answer is the requested page of the
  purchases that match by invoice, charge id, user name, title, slug or buyer id, newest first, and
  \<open>total\<close> counts exactly the joined rows although it is computed without the joins.
\<close>

theorem search_is_disjunction:
  assumes "db_ok d" and "s \<noteq> []" and "readable_term (search_term s)"
  shows "search_purchases \<lparr>uf_search = Some s, uf_statuses = ss\<rparr> pq d =
     (Inr (page_of pq (records_by_date (concat (map (join_record d)
        (filter (\<lambda>p. (ss = [] \<or> pu_status p \<in> set ss) \<and> search_matches d (search_term s) p)
          (purchases d)))))), d)"
proof -
  let ?P = "\<lambda>p. (ss = [] \<or> pu_status p \<in> set ss) \<and> search_matches d (search_term s) p"
  obtain ids where ids: "matching_ids d (search_term s) = Inr ids"
    and mem: "\<And>p. p \<in> set (purchases d) \<Longrightarrow> pu_id p \<in> set ids \<longleftrightarrow> search_matches d (search_term s) p"
    by (rule matching_ids_run [OF assms(1,3)]) blast
  have same: "filter (\<lambda>p. (ss = [] \<or> pu_status p \<in> set ss) \<and> pu_id p \<in> set ids) (purchases d)
      = filter ?P (purchases d)"
    using mem by (intro filter_cong) auto
  have "length (concat (map (join_record d) (filter ?P (purchases d)))) = length (filter ?P (purchases d))"
    using length_join_record [OF assms(1)] by (intro length_concat_ones) auto
  then show ?thesis
    using assms(2)
    by (simp add: search_purchases_def purchase_conditions_def Let_def truthy_def ids same
        page_of_def records_by_date_def)
qed

theorem search_is_disjunction_witness:
  "search_purchases \<lparr>uf_search = Some '' @AN'', uf_statuses = []\<rparr> \<lparr>pq_limit = 5, pq_offset = 0\<rparr>
     (sample_db [sample_purchase PAID])
   = (Inr \<lparr>page_items = [\<lparr>rec_purchase = sample_purchase PAID, rec_user = sample_user,
          rec_product = sample_product\<rparr>], page_total = 1, page_limit = 5, page_offset = 0\<rparr>,
      sample_db [sample_purchase PAID])"
proof -
  have t: "search_term '' @AN'' = ''AN''"
    by (simp add: search_term_def py_strip_def py_lstrip_def py_rstrip_def py_isspace_def Let_def)
  have lower: "py_lower ''AN'' = ''an''" "py_lower ''ann'' = ''ann''" by code_simp+
  have "readable_term ''AN''"
    by (simp add: readable_term_def py_isdigit_def is_ascii_digit_def)
  moreover have "search_matches (sample_db [sample_purchase PAID]) ''AN'' (sample_purchase PAID)"
    using lower by (simp add: search_matches_def Let_def buyer_matches_def sample_user_def sublist_code)
  ultimately show ?thesis
    using search_is_disjunction [of "sample_db [sample_purchase PAID]" "'' @AN''" "[]"]
    by (simp add: t page_of_def slice_def records_by_date_def newest_first_def join_record_def)
qed

text \<open>
  A term that passes \<open>str.isdigit\<close> without being a decimal numeral, such as a superscript
  digit, makes the search raise \<open>ValueError\<close> (an unhandled server error), whatever the database
  holds.
\<close>

theorem search_superscript_fails:
  "search_purchases \<lparr>uf_search = Some [CHR 0xB2], uf_statuses = ss\<rparr> pq d
     = (Inl (other_exn ValueError ''invalid literal for int() with base 10''), d)"
proof -
  have "search_term [CHR 0xB2] = [CHR 0xB2]"
    by (simp add: search_term_def py_strip_def py_lstrip_def py_rstrip_def py_isspace_def Let_def)
  then show ?thesis
    by (simp add: search_purchases_def purchase_conditions_def Let_def truthy_def matching_ids_def
        telegram_id_branch_def py_isdigit_def is_ascii_digit_def)
qed

end
