(* ===== verification/ProductRepo.thy ===== *)
theory ProductRepo
  imports Samples
begin

section \<open>The product and user repositories\<close>

text \<open>
  \<^verbatim>\<open>infrastructure/db/repositories/products.py\<close> and \<^verbatim>\<open>users.py\<close> as programs on the database.
  An update writes the supplied fields by name, as the \<open>setattr\<close> loop does; when no column
  changes its value the ORM sends no statement and \<open>updated_at\<close> stays.
\<close>

subsection \<open>Products\<close>

definition product_or_404 :: "uuid \<Rightarrow> product option \<Rightarrow> (exn, database, product) prog" where
  "product_or_404 product_id m = (case m of
      None \<Rightarrow> throw (err ProductNotFoundError [(''product_id'', JStr (uuid_str product_id))])
    | Some p \<Rightarrow> ret p)"

definition product_get :: "uuid \<Rightarrow> (exn, database, product option) prog" where
  "product_get product_id = get_by_key products pr_id product_id"

definition product_get_by_slug :: "string \<Rightarrow> bool \<Rightarrow> (exn, database, product option) prog" where
  "product_get_by_slug slug only_active =
     select_one products (\<lambda>p. pr_slug p = slug \<and> (only_active \<longrightarrow> pr_is_active p))"

definition product_conditions :: "product_filters \<Rightarrow> product \<Rightarrow> bool" where
  "product_conditions f p =
     ((truthy (pf_search f) \<longrightarrow>
         (let pat = like_pattern (the (pf_search f)) in
          ilike (pr_title p) pat \<or> ilike (pr_slug p) pat \<or> ilike (pr_description p) pat))
      \<and> (case pf_is_active f of None \<Rightarrow> True | Some b \<Rightarrow> pr_is_active p = b))"

definition products_by_date :: "product list \<Rightarrow> product list" where
  "products_by_date = newest_first pr_created_at pr_id"

definition list_products :: "product_filters \<Rightarrow> page_request \<Rightarrow> (exn, database, product page) prog" where
  "list_products f pq = getsM (\<lambda>d.
     \<lparr>page_items = slice pq (products_by_date (filter (product_conditions f) (products d))),
      page_total = int (length (filter (product_conditions f) (products d))),
      page_limit = pq_limit pq, page_offset = pq_offset pq\<rparr>)"

definition reread_product :: "uuid \<Rightarrow> (exn, database, product) prog" where
  "reread_product product_id = bindM (product_get product_id) (product_or_404 product_id)"

definition slug_savepoint :: "string \<Rightarrow> (database \<Rightarrow> exn + database) \<Rightarrow> (exn, database, unit) prog" where
  \<comment> \<open>the \<open>except IntegrityError\<close> of \<open>create\<close> and \<open>update\<close>\<close>
  "slug_savepoint slug write =
     catchM (flush write) (on_class [IntegrityError] (\<lambda>e. throw
        (if violated_constraint e = Some ''uq_products_slug''
         then err SlugAlreadyExistsError [(''slug'', JStr slug)] else e)))"

definition new_product :: "uuid \<Rightarrow> datetime \<Rightarrow> product_draft \<Rightarrow> product" where
  "new_product new_id now dr =
     \<lparr>pr_id = new_id, pr_slug = pd_slug dr, pr_title = pd_title dr,
      pr_description = pd_description dr, pr_photo_file_id = pd_photo_file_id dr,
      pr_delivery_url = pd_delivery_url dr, pr_price_stars = pd_price_stars dr,
      pr_price_usdt = pd_price_usdt dr, pr_is_active = pd_is_active dr,
      pr_created_at = now, pr_updated_at = now\<rparr>"

definition product_create :: "uuid \<Rightarrow> datetime \<Rightarrow> product_draft \<Rightarrow> (exn, database, product) prog" where
  "product_create new_id now dr =
     thenM (slug_savepoint (pd_slug dr) (insert_product (new_product new_id now dr)))
       (reread_product new_id)"

fun set_field :: "product \<Rightarrow> string \<times> field_value \<Rightarrow> product" where
  \<comment> \<open>\<open>setattr(model, field, value)\<close>\<close>
  "set_field p (name, VStr s) =
     (if name = ''slug'' then p\<lparr>pr_slug := s\<rparr>
      else if name = ''title'' then p\<lparr>pr_title := s\<rparr>
      else if name = ''description'' then p\<lparr>pr_description := s\<rparr>
      else if name = ''delivery_url'' then p\<lparr>pr_delivery_url := s\<rparr> else p)"
| "set_field p (name, VOptStr x) = (if name = ''photo_file_id'' then p\<lparr>pr_photo_file_id := x\<rparr> else p)"
| "set_field p (name, VOptInt x) = (if name = ''price_stars'' then p\<lparr>pr_price_stars := x\<rparr> else p)"
| "set_field p (name, VOptDec x) = (if name = ''price_usdt'' then p\<lparr>pr_price_usdt := x\<rparr> else p)"
| "set_field p (name, VBool b) = (if name = ''is_active'' then p\<lparr>pr_is_active := b\<rparr> else p)"

definition applied_slug :: "(string \<times> field_value) list \<Rightarrow> string" where
  \<comment> \<open>\<open>str(applied.get("slug"))\<close>\<close>
  "applied_slug cs = (case map_of cs ''slug'' of Some (VStr s) \<Rightarrow> s | _ \<Rightarrow> ''None'')"

definition product_update_row :: "datetime \<Rightarrow> uuid \<Rightarrow> product_update \<Rightarrow> (exn, database, product) prog" where
  \<comment> \<open>\<open>SqlAlchemyProductRepository.update\<close>\<close>
  "product_update_row now product_id u =
     bindM (reread_product product_id) (\<lambda>p.
       if changes u = [] then ret p
       else (let q = foldl set_field p (changes u) in
         thenM (slug_savepoint (applied_slug (changes u))
             (if q = p then Inr else write_product (q\<lparr>pr_updated_at := now\<rparr>)))
           (reread_product product_id)))"

definition sold :: "uuid \<Rightarrow> database \<Rightarrow> nat" where
  "sold product_id d = length (filter (\<lambda>p. pu_product_id p = product_id) (purchases d))"

definition product_delete :: "uuid \<Rightarrow> (exn, database, unit) prog" where
  "product_delete product_id =
     bindM (reread_product product_id) (\<lambda>p.
     bindM (getsM (sold product_id)) (\<lambda>n.
       if n \<noteq> 0 then throw (err_msg ConflictError
           ''Product has purchases and cannot be deleted; deactivate it instead''
           [(''product_id'', JStr (uuid_str product_id)), (''purchases'', JInt (int n))])
       else flush (delete_product_row product_id)))"

definition product_count :: "bool option \<Rightarrow> (exn, database, nat) prog" where
  "product_count only_active = getsM (\<lambda>d. length (filter
     (\<lambda>p. case only_active of None \<Rightarrow> True | Some b \<Rightarrow> pr_is_active p = b) (products d)))"

subsection \<open>Users\<close>

definition user_get :: "int \<Rightarrow> (exn, database, user option) prog" where
  "user_get telegram_id = get_by_key users us_telegram_id telegram_id"

definition user_upsert :: "datetime \<Rightarrow> user_draft \<Rightarrow> datetime option \<Rightarrow> (exn, database, user) prog" where
  \<comment> \<open>INSERT ... ON CONFLICT (telegram_id) DO UPDATE ... RETURNING\<close>
  "user_upsert now dr seen_at = (\<lambda>d.
     let last_seen = (case seen_at of Some t \<Rightarrow> t | None \<Rightarrow> now) in
     case List.find (\<lambda>u. us_telegram_id u = ud_telegram_id dr) (users d) of
       None \<Rightarrow>
         (let u = \<lparr>us_telegram_id = ud_telegram_id dr, us_username = ud_username dr,
              us_first_name = ud_first_name dr, us_language_code = ud_language_code dr,
              us_created_at = now, us_last_seen_at = last_seen\<rparr>
          in thenM (flush (insert_user u)) (ret u) d)
     | Some old \<Rightarrow>
         (let u = old\<lparr>us_username := ud_username dr, us_first_name := ud_first_name dr,
              us_language_code := ud_language_code dr, us_last_seen_at := last_seen\<rparr>
          in thenM (flush (write_user u)) (ret u) d))"

definition user_count :: "(exn, database, nat) prog" where
  "user_count = getsM (\<lambda>d. length (users d))"

subsection \<open>Every method evolves the database\<close>

lemma product_get_run [simp]:
  "product_get i d = (Inr (List.find (\<lambda>p. pr_id p = i) (products d)), d)"
  by (simp add: product_get_def get_by_key_def)

lemma user_get_run [simp]:
  "user_get i d = (Inr (List.find (\<lambda>u. us_telegram_id u = i) (users d)), d)"
  by (simp add: user_get_def get_by_key_def)

lemma reread_product_run:
  "reread_product i d = (case List.find (\<lambda>p. pr_id p = i) (products d) of
      None \<Rightarrow> (Inl (err ProductNotFoundError [(''product_id'', JStr (uuid_str i))]), d)
    | Some p \<Rightarrow> (Inr p, d))"
  by (simp add: reread_product_def bindM_run product_or_404_def split: option.split)

lemma reread_product_same [simp]: "snd (reread_product i d) = d"
  by (simp add: reread_product_run split: option.split)

lemma along_reread_product: "along evolves (reread_product i)"
  by (simp add: along_def evolves.R_refl)

lemma thenM_reread_product_snd [simp]: "snd (thenM m (reread_product i) d) = snd (m d)"
  by (simp add: thenM_run split: prod.split sum.split)

lemma slug_savepoint_run:
  "slug_savepoint x f d = (case f d of
      Inl e \<Rightarrow> (Inl (if isinstance e IntegrityError
          then (if violated_constraint e = Some ''uq_products_slug''
                then err SlugAlreadyExistsError [(''slug'', JStr x)] else e) else e), d)
    | Inr d' \<Rightarrow> (Inr (), d'))"
  by (simp add: slug_savepoint_def catchM_run flush_run on_class_def split: sum.split)

lemma along_slug_savepoint:
  "(\<And>d e. f d = Inr e \<Longrightarrow> evolves d e) \<Longrightarrow> along evolves (slug_savepoint x f)"
  by (auto simp: along_def slug_savepoint_run evolves.R_refl split: sum.split)

lemma along_flush: "(\<And>d e. f d = Inr e \<Longrightarrow> evolves d e) \<Longrightarrow> along evolves (flush f)"
  by (auto simp: along_def flush_run evolves.R_refl split: sum.split)

lemma product_create_evolves: "along evolves (product_create new_id now dr)"
  unfolding product_create_def
  by (intro evolves.along_thenM along_slug_savepoint along_reread_product insert_product_evolves)

lemma product_update_evolves: "along evolves (product_update_row now i u)"
  unfolding product_update_row_def Let_def
  by (intro evolves.along_rules along_slug_savepoint along_reread_product)
    (auto split: if_splits intro: write_product_evolves evolves.R_refl)

lemma product_delete_evolves: "along evolves (product_delete i)"
  unfolding product_delete_def
  by (intro evolves.along_rules along_flush along_reread_product delete_product_evolves)

lemma user_upsert_evolves: "along evolves (user_upsert now dr seen_at)"
proof (rule alongI)
  fix d
  show "evolves d (snd (user_upsert now dr seen_at d))"
    by (auto simp: user_upsert_def Let_def flush_run evolves.R_refl
        split: option.split sum.split intro: insert_user_evolves write_user_evolves)
qed

end
