(* ===== verification/Contract.thy ===== *)
theory Contract
  imports PurchaseRepo ProductRepo
begin

section \<open>The contract of the repositories\<close>

text \<open>
  The interface between the repositories and everything above them: a preorder on databases along
  which each of the nine writing operations of \<^verbatim>\<open>infrastructure/db/repositories/\<close> moves. Whatever
  relation satisfies the contract, all use cases, handlers, workers and endpoints move along it; the
  components prove that once, inside the locale. Two relations satisfy it: the life of the shop's data
  (\<open>evolves\<close>, here) and "is a sequence of repository operations" (in \<open>System\<close>).
\<close>

abbreviation moves :: "(database \<Rightarrow> database \<Rightarrow> bool) \<Rightarrow> 'a action \<Rightarrow> bool" where
  "moves R m \<equiv> along (\<lambda>v w. R (db v) (db w)) m"

named_theorems same_state \<open>programs that only read\<close>

lemma select_one_same [same_state]: "snd (select_one t P d) = d"
  by (simp add: select_one_def)

lemma get_by_key_same [same_state]: "snd (get_by_key t k x d) = d"
  by (simp add: get_by_key_def)

lemmas queries =
  purchase_get_def get_by_external_id_def get_by_charge_id_def find_access_granting_def
  list_pending_def product_get_def product_get_by_slug_def user_get_def

locale shop_preorder = db_preorder R for R :: "database \<Rightarrow> database \<Rightarrow> bool" +
  assumes upsert_moves: "along R (user_upsert now dr seen_at)"
    and create_purchase_moves: "dr_status draft = None \<Longrightarrow> along R (create_purchase new_id now draft)"
    and mark_paid_moves: "along R (mark_paid now i paid_at charge)"
    and mark_delivered_moves: "along R (mark_delivered now i url delivered_at)"
    and mark_refunded_moves: "along R (mark_refunded i)"
    and expire_pending_moves: "along R (expire_pending created_before)"
    and product_create_moves: "along R (product_create new_id now prepared)"
    and product_update_moves: "along R (product_update_row now i changed)"
    and product_delete_moves: "along R (product_delete i)"
begin

text \<open>Queries leave the database alone, so they move along every preorder.\<close>

lemma along_reads: "(\<And>d. snd (m d) = d) \<Longrightarrow> along R m"
  by (simp add: along_def R_refl)

lemma along_select_one: "along R (select_one t P)"
  by (rule along_reads) (simp add: same_state)

lemma along_get_by_key: "along R (get_by_key t k x)"
  by (rule along_reads) (simp add: same_state)

lemma along_or_404: "along R (product_or_404 i m)" "along R (purchase_or_404 i m')"
  by (simp_all add: product_or_404_def purchase_or_404_def along_rules split: option.split)

lemmas tx_rules =
  along_rules along_select_one along_get_by_key along_or_404
  mark_paid_moves mark_delivered_moves mark_refunded_moves create_purchase_moves
  expire_pending_moves upsert_moves product_create_moves product_update_moves product_delete_moves

lemmas svc_rules = along_actions along_redis tx_rules

lemma moves_same_db: "(\<And>w. db (snd (m w)) = db w) \<Longrightarrow> moves R m"
  by (simp add: along_def R_refl)

text \<open>Exception handlers, clause by clause.\<close>

lemma moves_catch:
  "moves R m \<Longrightarrow> (\<And>e k. h e = Some k \<Longrightarrow> moves R k) \<Longrightarrow> moves R (catchM m h)"
  by (rule w.along_catchM)

lemma moves_clause:
  "or_else (on_class cs h) k e = Some m \<Longrightarrow> (\<And>x. moves R (h x)) \<Longrightarrow> (k e = Some m \<Longrightarrow> moves R m) \<Longrightarrow> moves R m"
  by (auto simp: or_else_Some)

lemma moves_last_clause: "on_class cs h e = Some m \<Longrightarrow> (\<And>x. moves R (h x)) \<Longrightarrow> moves R m"
  by auto

end

interpretation evolve: shop_preorder evolves
  by unfold_locales
    (simp_all add: user_upsert_evolves create_purchase_evolves mark_paid_evolves mark_delivered_evolves
      mark_refunded_evolves expire_pending_evolves product_create_evolves product_update_evolves
      product_delete_evolves)

end
