(* ===== verification/PurchaseService.thy ===== *)
theory PurchaseService
  imports Contract
begin

section \<open>The purchase use cases\<close>

text \<open>
  \<^verbatim>\<open>services/purchases.py\<close>: opening a card, starting a purchase under the buyer's lock,
  confirming a payment under the payment's lock, deliveries, refunds, lookups and expiry. A use
  case is one unit of work; the locks are those of \<open>RedisStore\<close>. \<open>invoice_ttl\<close> is wired from
  the Crypto Pay settings by the container.
\<close>

subsection \<open>Operations\<close>

definition payment_confirmation_wait :: rat where
  "payment_confirmation_wait = 5"

definition price_of :: "product \<Rightarrow> payment_provider \<Rightarrow> exn + rat" where
  \<comment> \<open>\<open>_price\<close>\<close>
  "price_of p provider = (case price_for p provider of
      None \<Rightarrow> Inl (err ProviderNotSupportedError
        [(''product_id'', JStr (uuid_str (pr_id p))), (''provider'', JStr (provider_value provider))])
    | Some x \<Rightarrow> Inr x)"

fun payment_options :: "product \<Rightarrow> payment_provider list \<Rightarrow> exn + payment_option list" where
  "payment_options p [] = Inr []"
| "payment_options p (v # vs) = (case price_of p v of
      Inl e \<Rightarrow> Inl e
    | Inr x \<Rightarrow> (case payment_options p vs of
        Inl e \<Rightarrow> Inl e
      | Inr os \<Rightarrow> Inr (\<lparr>opt_provider = v, opt_amount = x, opt_currency = provider_currency v\<rparr> # os)))"

definition card_tx :: "user_draft \<Rightarrow> string \<Rightarrow> datetime \<Rightarrow> (exn, database, product \<times> purchase option) prog" where
  \<comment> \<open>the unit of work of \<open>open_card\<close>\<close>
  "card_tx profile slug now =
     thenM (user_upsert now profile None)
     (bindM (product_get_by_slug slug False) (\<lambda>m.
      bindM (case m of None \<Rightarrow> throw (err ProductNotFoundError [(''slug'', JStr slug)]) | Some p \<Rightarrow> ret p) (\<lambda>p.
      if \<not> pr_is_active p then throw (err ProductInactiveError [(''slug'', JStr slug)])
      else bindM (find_access_granting (ud_telegram_id profile) (pr_id p)) (\<lambda>owned. ret (p, owned)))))"

definition open_card :: "user_draft \<Rightarrow> string \<Rightarrow> product_card action" where
  "open_card profile slug =
     bindM (in_uow (card_tx profile slug)) (\<lambda>r. case r of (p, owned) \<Rightarrow>
     bindM (liftE (payment_options p (available_providers p))) (\<lambda>options.
       ret \<lparr>card_product = p, card_options = options, card_owned_purchase = owned\<rparr>))"

definition remember_user :: "user_draft \<Rightarrow> user action" where
  "remember_user profile = in_uow (\<lambda>now. user_upsert now profile None)"

definition start_tx ::
  "int \<Rightarrow> uuid \<Rightarrow> payment_provider \<Rightarrow> string \<Rightarrow> uuid \<Rightarrow> datetime \<Rightarrow> (exn, database, purchase) prog" where
  \<comment> \<open>the unit of work of \<open>start_purchase\<close>\<close>
  "start_tx user_id product_id provider external_id new_id now =
     bindM (user_get user_id) (\<lambda>u.
     if u = None then throw (err UserNotFoundError [(''telegram_id'', JInt user_id)]) else
     bindM (product_get product_id) (\<lambda>m.
     bindM (product_or_404 product_id m) (\<lambda>p.
     if \<not> pr_is_active p
     then throw (err ProductInactiveError [(''product_id'', JStr (uuid_str product_id))])
     else if \<not> supports p provider
     then throw (err ProviderNotSupportedError
            [(''product_id'', JStr (uuid_str product_id)), (''provider'', JStr (provider_value provider))])
     else
     bindM (find_access_granting user_id product_id) (\<lambda>owned.
     if owned \<noteq> None then throw (err DuplicatePurchaseError
            [(''product_id'', JStr (uuid_str product_id)), (''user_id'', JInt user_id)])
     else
     bindM (liftE (price_of p provider)) (\<lambda>amount.
       create_purchase new_id now
         \<lparr>dr_user_id = user_id, dr_product_id = product_id, dr_provider = provider,
          dr_amount = amount, dr_currency = provider_currency provider,
          dr_external_id = external_id, dr_status = None\<rparr>)))))"

definition start_purchase :: "env \<Rightarrow> int \<Rightarrow> uuid \<Rightarrow> payment_provider \<Rightarrow> string \<Rightarrow> purchase action" where
  "start_purchase E user_id product_id provider external_id =
     with_lock E (purchase_lock_key user_id product_id) None None
       (bindM (new_uuid E) (\<lambda>new_id.
          in_uow (start_tx user_id product_id provider external_id new_id)))"

definition confirm_tx ::
  "payment_provider \<Rightarrow> string \<Rightarrow> string option \<Rightarrow> datetime option \<Rightarrow> datetime \<Rightarrow> (exn, database, purchase) prog" where
  \<comment> \<open>the unit of work of \<open>confirm_payment\<close>\<close>
  "confirm_tx provider external_id charge_id paid_at now =
     bindM (get_by_external_id provider external_id) (\<lambda>m.
     bindM (case m of
        None \<Rightarrow> throw (err PurchaseNotFoundError
          [(''provider'', JStr (provider_value provider)), (''external_id'', JStr external_id)])
      | Some p \<Rightarrow> ret p) (\<lambda>p.
       mark_paid now (pu_id p) paid_at charge_id))"

definition confirm_payment ::
  "env \<Rightarrow> payment_provider \<Rightarrow> string \<Rightarrow> string option \<Rightarrow> datetime option \<Rightarrow> purchase action" where
  "confirm_payment E provider external_id charge_id paid_at =
     with_lock E (payment_lock_key provider external_id) None (Some payment_confirmation_wait)
       (in_uow (confirm_tx provider external_id charge_id paid_at))"

definition svc_mark_delivered :: "uuid \<Rightarrow> string \<Rightarrow> purchase action" where
  "svc_mark_delivered purchase_id delivered_url =
     in_uow (\<lambda>now. mark_delivered now purchase_id delivered_url None)"

definition refund :: "uuid \<Rightarrow> purchase action" where
  "refund purchase_id = in_uow (\<lambda>_. mark_refunded purchase_id)"

definition refund_tx :: "string \<Rightarrow> datetime \<Rightarrow> (exn, database, purchase) prog" where
  "refund_tx charge_id now =
     bindM (get_by_charge_id charge_id) (\<lambda>m.
     bindM (case m of
        None \<Rightarrow> throw (err PurchaseNotFoundError [(''telegram_charge_id'', JStr charge_id)])
      | Some p \<Rightarrow> ret p) (\<lambda>p. mark_refunded (pu_id p)))"

definition refund_by_charge_id :: "string \<Rightarrow> purchase action" where
  "refund_by_charge_id charge_id = in_uow (refund_tx charge_id)"

definition purchase_found :: "uuid \<Rightarrow> purchase option \<Rightarrow> purchase action" where
  "purchase_found purchase_id m = (case m of
      None \<Rightarrow> throw (err PurchaseNotFoundError [(''purchase_id'', JStr (uuid_str purchase_id))])
    | Some p \<Rightarrow> ret p)"

definition svc_get_purchase :: "uuid \<Rightarrow> purchase action" where
  "svc_get_purchase purchase_id =
     bindM (in_uow (\<lambda>_. purchase_get purchase_id)) (purchase_found purchase_id)"

definition product_for_checkout :: "uuid \<Rightarrow> product action" where
  "product_for_checkout product_id =
     bindM (in_uow (\<lambda>_. product_get product_id)) (\<lambda>m. case m of
        None \<Rightarrow> throw (err ProductNotFoundError [(''product_id'', JStr (uuid_str product_id))])
      | Some p \<Rightarrow> (if \<not> pr_is_active p
          then throw (err ProductInactiveError [(''product_id'', JStr (uuid_str product_id))])
          else ret p))"

definition find_by_invoice :: "payment_provider \<Rightarrow> string \<Rightarrow> purchase option action" where
  "find_by_invoice provider external_id = in_uow (\<lambda>_. get_by_external_id provider external_id)"

definition find_owned :: "int \<Rightarrow> uuid \<Rightarrow> purchase option action" where
  "find_owned user_id product_id = in_uow (\<lambda>_. find_access_granting user_id product_id)"

definition svc_list_pending :: "payment_provider \<Rightarrow> nat \<Rightarrow> purchase list action" where
  "svc_list_pending provider limit = in_uow (\<lambda>_. list_pending provider limit)"

definition invoice_ttl :: "env \<Rightarrow> int" where
  \<comment> \<open>\<open>timedelta(seconds=settings.cryptobot.invoice_ttl_seconds)\<close> in microseconds\<close>
  "invoice_ttl E = cb_invoice_ttl_seconds (cfg_cryptobot (env_settings E)) * 1000000"

definition expire_stale :: "env \<Rightarrow> datetime option \<Rightarrow> nat action" where
  "expire_stale E now_arg =
     bindM utc_now (\<lambda>now. let moment = (case now_arg of Some t \<Rightarrow> t | None \<Rightarrow> now) in
       in_uow (\<lambda>_. expire_pending (moment - invoice_ttl E)))"

subsection \<open>The use cases under the contract\<close>

context shop_preorder
begin

lemma card_tx_moves: "along R (card_tx profile slug now)"
  unfolding card_tx_def queries by (intro tx_rules)

lemma start_tx_moves: "along R (start_tx u i v x new_id now)"
  unfolding start_tx_def queries by (intro tx_rules) simp

lemma confirm_tx_moves: "along R (confirm_tx v x c t now)"
  unfolding confirm_tx_def queries by (intro tx_rules)

lemma refund_tx_moves: "along R (refund_tx c now)"
  unfolding refund_tx_def queries by (intro tx_rules)

lemmas purchase_rules = svc_rules card_tx_moves start_tx_moves confirm_tx_moves refund_tx_moves

lemma open_card_moves: "moves R (open_card profile slug)"
  unfolding open_card_def by (intro purchase_rules)

lemma remember_user_moves: "moves R (remember_user profile)"
  unfolding remember_user_def by (intro purchase_rules)

lemma start_purchase_moves: "moves R (start_purchase E u i v x)"
  unfolding start_purchase_def by (intro purchase_rules)

lemma confirm_payment_moves: "moves R (confirm_payment E v x c t)"
  unfolding confirm_payment_def by (intro purchase_rules)

lemma svc_mark_delivered_moves: "moves R (svc_mark_delivered i url)"
  unfolding svc_mark_delivered_def by (intro purchase_rules)

lemma refund_moves: "moves R (refund i)"
  unfolding refund_def by (intro purchase_rules)

lemma refund_by_charge_id_moves: "moves R (refund_by_charge_id c)"
  unfolding refund_by_charge_id_def by (intro purchase_rules)

lemma svc_get_purchase_moves: "moves R (svc_get_purchase i)"
  unfolding svc_get_purchase_def purchase_found_def queries by (intro purchase_rules)

lemma product_for_checkout_moves: "moves R (product_for_checkout i)"
  unfolding product_for_checkout_def queries by (intro purchase_rules)

lemma find_by_invoice_moves: "moves R (find_by_invoice v x)"
  unfolding find_by_invoice_def queries by (intro purchase_rules)

lemma find_owned_moves: "moves R (find_owned u i)"
  unfolding find_owned_def queries by (intro purchase_rules)

lemma svc_list_pending_moves: "moves R (svc_list_pending v n)"
  unfolding svc_list_pending_def queries by (intro purchase_rules)

lemma expire_stale_moves: "moves R (expire_stale E t)"
  unfolding expire_stale_def by (intro purchase_rules)

end

subsection \<open>Opening a card bills nothing\<close>

definition shop_view :: "database \<Rightarrow> purchase list \<times> product list" where
  "shop_view d = (purchases d, products d)"

lemma user_upsert_frame: "along (\<lambda>d e. shop_view d = shop_view e) (user_upsert now dr t)"
  by (auto simp: along_def user_upsert_def Let_def flush_run insert_user_def write_user_def
      shop_view_def flush_row_def split: option.split sum.split)

lemma read_frame:
  "along (\<lambda>d e. shop_view d = shop_view e) (select_one t P)"
  "along (\<lambda>d e. shop_view d = shop_view e) (get_by_key t' k x)"
  by (simp_all add: along_def same_state)

lemma card_tx_frame: "along (\<lambda>d e. shop_view d = shop_view e) (card_tx profile slug now)"
  unfolding card_tx_def queries by (intro frame.along_rules user_upsert_frame read_frame)

lemma in_uow_elsewhere:
  "redis (snd (in_uow body w)) = redis w \<and> effects (snd (in_uow body w)) = effects w
     \<and> requests (snd (in_uow body w)) = requests w"
  by (simp add: in_uow_def split: prod.split sum.split)

text \<open>
  Showing a product never bills anybody: whatever the visitor, the payload, the database and
  the outcome, opening a card leaves all purchases and products as they were, takes no lock and
  calls nobody, so no purchase and no invoice can come of it.
\<close>

theorem open_card_bills_nothing:
  "purchases (db (snd (open_card profile slug w))) = purchases (db w)
   \<and> products (db (snd (open_card profile slug w))) = products (db w)
   \<and> redis (snd (open_card profile slug w)) = redis w
   \<and> effects (snd (open_card profile slug w)) = effects w
   \<and> requests (snd (open_card profile slug w)) = requests w"
proof -
  have same: "snd (open_card profile slug w) = snd (in_uow (card_tx profile slug) w)"
    by (auto simp: open_card_def bindM_run split: prod.split sum.split)
  have "along (\<lambda>v w. shop_view (db v) = shop_view (db w)) (in_uow (card_tx profile slug))"
    by (intro db_frame.along_in_uow card_tx_frame)
  then have "shop_view (db w) = shop_view (db (snd (in_uow (card_tx profile slug) w)))" by (rule alongD)
  then show ?thesis
    unfolding same using in_uow_elsewhere [of "card_tx profile slug" w] by (simp add: shop_view_def)
qed

lemma payment_options_available:
  "list_all (supports p) vs \<Longrightarrow> payment_options p vs =
     Inr (map (\<lambda>v. \<lparr>opt_provider = v, opt_amount = the (price_for p v),
        opt_currency = provider_currency v\<rparr>) vs)"
  by (induction vs) (auto simp: price_of_def supports_def)

text \<open>The card offers one button per rail with a price, and asking for them never fails.\<close>

lemma card_options:
  "payment_options p (available_providers p) =
     Inr (map (\<lambda>v. \<lparr>opt_provider = v, opt_amount = the (price_for p v),
        opt_currency = provider_currency v\<rparr>) (available_providers p))"
  by (rule payment_options_available) (simp add: available_providers_def list_all_iff)

subsection \<open>Starting a purchase\<close>

lemma active_product_fits:
  assumes "db_ok d" and "p \<in> set (products d)" and "price_for p v = Some x"
  shows "0 < numeric_round 6 x \<and> fits_numeric 18 6 x \<and> numeric_round 6 x = x"
proof -
  have row: "product_row_ok p" using assms db_okD(3) by (auto simp: list_all_iff)
  show ?thesis
  proof (cases v)
    case STARS
    then obtain n where n: "pr_price_stars p = Some n" and x: "x = of_int n"
      using assms(3) by (auto simp: price_for_def)
    then have "0 < n" and "n < 2 ^ 31"
      using row by (auto simp: product_row_ok_def product_fits_def fits_int_def)
    then have "(of_int n :: rat) < of_int (2 ^ 31)" by (simp only: of_int_less_iff)
    then show ?thesis using \<open>0 < n\<close> x by (simp add: numeric_round_of_int fits_numeric_def)
  next
    case CRYPTO
    then have x: "pr_price_usdt p = Some x" using assms(3) by (simp add: price_for_def)
    then have pos: "0 < x" and fits: "\<bar>numeric_round 2 x\<bar> < 10 ^ 10" and stored: "numeric_round 2 x = x"
      using row by (auto simp: product_row_ok_def product_fits_def fits_numeric_def product_stored_def
          dest: arg_cong [where f = pr_price_usdt])
    have same: "numeric_round 6 x = x"
    proof -
      define n where "n = \<lfloor>\<bar>x\<bar> * 10 ^ 2 + 1 / 2\<rfloor>"
      have x2: "x = of_int n / 100" using stored pos by (simp add: numeric_round_def n_def)
      then have "\<bar>x\<bar> * 10 ^ 6 = of_int (n * 10000)" using pos by simp
      moreover have "\<lfloor>(of_int m :: rat) + 1 / 2\<rfloor> = m" for m by linarith
      ultimately have eq: "\<lfloor>\<bar>x\<bar> * 10 ^ 6 + 1 / 2\<rfloor> = n * 10000" by metis
      have "numeric_round 6 x = of_int (n * 10000) / 10 ^ 6"
        unfolding numeric_round_def eq using pos by simp
      then show ?thesis by (subst (2) x2) simp
    qed
    moreover have "\<bar>x\<bar> < 10 ^ 12" using fits stored by simp
    ultimately show ?thesis using pos by (simp add: fits_numeric_def)
  qed
qed

lemma user_known:
  "db_ok d \<Longrightarrow> u \<in> us_telegram_id ` set (users d) \<Longrightarrow> fits_int 64 u"
  using db_okD(5) by (auto simp: list_all_iff user_row_ok_def user_fits_def)

definition offered :: "database \<Rightarrow> uuid \<Rightarrow> payment_provider \<Rightarrow> rat option" where
  \<comment> \<open>the price of an active product on a rail\<close>
  "offered d i v = (case List.find (\<lambda>p. pr_id p = i) (products d) of
      Some p \<Rightarrow> (if pr_is_active p then price_for p v else None) | None \<Rightarrow> None)"

lemma create_purchase_success:
  assumes "create_purchase new_id now dr d = (Inr q, e)" and "dr_status dr = None"
  shows "q = purchase_stored (new_purchase new_id now dr) \<and> e = d\<lparr>purchases := purchases d @ [q]\<rparr>
     \<and> \<not> invoice_recorded d (dr_provider dr) (dr_external_id dr)"
proof -
  let ?r = "purchase_stored (new_purchase new_id now dr)"
  have sel: "pu_id (new_purchase new_id now dr) = new_id"
      "pu_provider (new_purchase new_id now dr) = dr_provider dr"
      "pu_external_id (new_purchase new_id now dr) = dr_external_id dr"
    by (simp_all add: new_purchase_def Let_def)
  from assms(1) have ins: "insert_purchase (new_purchase new_id now dr) d = Inr e"
    and get: "List.find (\<lambda>p. pu_id p = new_id) (purchases e) = Some q"
    by (auto simp: create_purchase_def thenM_run savepoint_run reread_purchase_run
        split: sum.splits option.splits)
  from ins have viol: "purchase_violation d (purchases d) ?r = None"
    and e: "e = d\<lparr>purchases := purchases d @ [?r]\<rparr>"
    by (simp_all add: insert_purchase_def Let_def)
  from viol have "\<forall>p\<in>set (purchases d). pu_id p \<noteq> new_id"
    and free: "\<forall>p\<in>set (purchases d). (pu_provider p, pu_external_id p) \<noteq> (dr_provider dr, dr_external_id dr)"
    by (simp_all add: purchase_violation_def key_free_def list_all_iff sel)
  then have "List.find (\<lambda>p. pu_id p = new_id) (purchases d) = None" by (auto simp: find_None_iff)
  with get e have "q = ?r" by (simp add: find_append sel)
  with e free show ?thesis by (auto simp: invoice_recorded_def list_ex_iff)
qed

lemma start_tx_success:
  assumes "db_ok d" and "start_tx u i v x new_id now d = (Inr q, e)"
  shows "\<exists>amount. offered d i v = Some amount \<and> \<not> owns d u i
     \<and> u \<in> us_telegram_id ` set (users d) \<and> \<not> invoice_recorded d v x
     \<and> q = \<lparr>pu_id = new_id, pu_user_id = u, pu_product_id = i, pu_provider = v, pu_status = PENDING,
          pu_amount = amount, pu_currency = provider_currency v, pu_external_id = x,
          pu_telegram_charge_id = None, pu_delivered_url = None, pu_created_at = now,
          pu_paid_at = None, pu_delivered_at = None\<rparr>
     \<and> e = d\<lparr>purchases := purchases d @ [q]\<rparr>"
proof -
  from assms(2) obtain user where user: "List.find (\<lambda>r. us_telegram_id r = u) (users d) = Some user"
    by (auto simp: start_tx_def bindM_run split: option.splits if_splits)
  from assms(2) user obtain p where prod: "List.find (\<lambda>p. pr_id p = i) (products d) = Some p"
    by (auto simp: start_tx_def bindM_run product_or_404_def split: option.splits)
  have active: "pr_is_active p" and supported: "supports p v"
    using assms(2) user prod
    by (auto simp: start_tx_def bindM_run product_or_404_def split: if_splits)
  then obtain amount where price: "price_for p v = Some amount" by (auto simp: supports_def)
  let ?dr = "\<lparr>dr_user_id = u, dr_product_id = i, dr_provider = v, dr_amount = amount,
      dr_currency = provider_currency v, dr_external_id = x, dr_status = None\<rparr>"
  have create: "create_purchase new_id now ?dr d = (Inr q, e)"
    and none: "List.find (\<lambda>p. grants_access p \<and> (pu_user_id p, pu_product_id p) = (u, i)) (purchases d) = None"
    using assms(2) user prod active supported price
    by (auto simp: start_tx_def bindM_run product_or_404_def find_access_granting_run [OF assms(1)]
        price_of_def split: if_splits)
  have "\<not> owns d u i"
    using none by (auto simp: find_None_iff owns_def list_ex_iff)
  moreover have "numeric_round 6 amount = amount"
    using active_product_fits [OF assms(1) _ price] find_SomeD [OF prod] by blast
  moreover have "u \<in> us_telegram_id ` set (users d)"
    using find_SomeD [OF user] by blast
  moreover have "offered d i v = Some amount"
    using prod active price by (simp add: offered_def)
  ultimately show ?thesis
    using create_purchase_success [OF create] by (simp add: purchase_stored_def new_purchase_def
        Let_def terminal_for_payment_def)
qed

text \<open>
  C14. A purchase starts only as a pending one at the product's own price: if the transaction
  succeeds, the buyer is known, the product is on sale on that rail, the buyer does not own it, and
  exactly one row was appended, unpaid, with that price in the currency of the rail.
\<close>

theorem start_tx_only_offers:
  assumes "db_ok d" and "start_tx u i v x new_id now d = (Inr q, e)"
  shows "\<exists>amount. offered d i v = Some amount \<and> \<not> owns d u i
     \<and> u \<in> us_telegram_id ` set (users d) \<and> \<not> invoice_recorded d v x
     \<and> q = \<lparr>pu_id = new_id, pu_user_id = u, pu_product_id = i, pu_provider = v, pu_status = PENDING,
          pu_amount = amount, pu_currency = provider_currency v, pu_external_id = x,
          pu_telegram_charge_id = None, pu_delivered_url = None, pu_created_at = now,
          pu_paid_at = None, pu_delivered_at = None\<rparr>
     \<and> e = d\<lparr>purchases := purchases d @ [q]\<rparr>"
  by (rule start_tx_success [OF assms])

theorem start_tx_only_offers_witness:
  "\<exists>q. start_tx 7 1 STARS ''inv'' 11 8 (sample_db []) = (Inr q, sample_db [q])
     \<and> offered (sample_db []) 1 STARS = Some (pu_amount q) \<and> pu_status q = PENDING \<and> pu_currency q = XTR"
proof -
  have fresh: "\<forall>p\<in>set (purchases (sample_db [])). pu_id p \<noteq> 11" by simp
  have dr: "\<lparr>dr_user_id = 7, dr_product_id = 1, dr_provider = STARS, dr_amount = 100,
      dr_currency = XTR, dr_external_id = ''inv'', dr_status = None\<rparr> = sample_draft"
    by (simp add: sample_draft_def)
  have "draft_storable (sample_db []) sample_draft"
    by (simp add: draft_storable_def sample_draft_def fits_int_def fits_numeric_def)
  from create_purchase_run [OF sample_db_empty_ok this _ fresh, of 8]
  have "\<exists>q. create_purchase 11 8 sample_draft (sample_db []) = (Inr q, sample_db [q])"
    by (simp add: Let_def invoice_recorded_def) (simp add: sample_draft_def)
  then obtain q where "create_purchase 11 8 sample_draft (sample_db []) = (Inr q, sample_db [q])" by blast
  then have run: "start_tx 7 1 STARS ''inv'' 11 8 (sample_db []) = (Inr q, sample_db [q])"
    by (simp add: start_tx_def bindM_run product_or_404_def supports_def price_for_def price_of_def
        find_access_granting_def select_one_def scalar_one_or_none_def dr)
  with start_tx_only_offers [OF sample_db_empty_ok run] show ?thesis by auto
qed

subsection \<open>Refunds\<close>

text \<open>
  C25. A refund reported by its charge id takes back exactly the purchase that carries the charge,
  and afterwards the buyer does not own the product any more, so it can be bought again.
\<close>

theorem refund_reopens_sale:
  assumes "db_ok (db w)" and "p \<in> set (purchases (db w))"
    and "pu_telegram_charge_id p = Some c" and "pu_status p \<in> {PAID, DELIVERED}"
  shows "\<exists>w'. refund_by_charge_id c w = (Inr (p\<lparr>pu_status := REFUNDED\<rparr>), w')
     \<and> purchases (db w') = replace_row pu_id (p\<lparr>pu_status := REFUNDED\<rparr>) (purchases (db w))
     \<and> \<not> owns (db w') (pu_user_id p) (pu_product_id p)"
proof -
  let ?d = "db w" and ?q = "p\<lparr>pu_status := REFUNDED\<rparr>"
  note okd = db_okD [OF assms(1)]
  have uq: "unique_on (\<lambda>q. pu_telegram_charge_id q \<noteq> None) pu_telegram_charge_id (purchases ?d)"
      "unique_on grants_access (\<lambda>q. (pu_user_id q, pu_product_id q)) (purchases ?d)"
    using okd(6) by (simp_all add: purchases_unique_def del: not_None_eq)
  have "List.find (\<lambda>q. pu_telegram_charge_id q = Some c) (purchases ?d) \<noteq> None"
    using find_NoneD [of "\<lambda>q. pu_telegram_charge_id q = Some c" "purchases ?d" p] assms(2,3) by auto
  then obtain r where r: "List.find (\<lambda>q. pu_telegram_charge_id q = Some c) (purchases ?d) = Some r"
    by blast
  have "r = p"
    using find_SomeD [OF r] unique_onD [OF uq(1), of r p] assms(2,3) by simp
  with r have tx: "refund_tx c (clock w) ?d = mark_refunded (pu_id p) ?d"
    by (simp add: refund_tx_def bindM_run get_by_charge_id_run [OF assms(1)])
  let ?e = "?d\<lparr>purchases := replace_row pu_id ?q (purchases ?d)\<rparr>"
  have run: "refund_by_charge_id c w = (Inr ?q, w\<lparr>db := ?e\<rparr>)"
    using assms(4) by (auto simp: refund_by_charge_id_def in_uow_def tx mark_refunded_run [OF assms(1,2)])
  have rows: "set (purchases ?e) = insert ?q (set (purchases ?d) - {p})"
    using set_replace_row [OF okd(9) assms(2), of ?q] by simp
  have "\<not> owns ?e (pu_user_id p) (pu_product_id p)"
  proof
    assume "owns ?e (pu_user_id p) (pu_product_id p)"
    then obtain x where x: "x \<in> set (purchases ?d)" "x \<noteq> p" "grants_access x"
        "pu_user_id x = pu_user_id p" "pu_product_id x = pu_product_id p"
      unfolding owns_def list_ex_iff rows by auto
    moreover have "grants_access p" using assms(4) by auto
    ultimately show False using unique_onD [OF uq(2) x(1) assms(2)] by simp
  qed
  with run show ?thesis by auto
qed

theorem refund_reopens_sale_witness:
  "\<exists>w'. refund_by_charge_id ''ch'' (sample_world [sample_purchase DELIVERED])
       = (Inr ((sample_purchase DELIVERED)\<lparr>pu_status := REFUNDED\<rparr>), w') \<and> \<not> owns (db w') 7 1"
  using refund_reopens_sale [of "sample_world [sample_purchase DELIVERED]" "sample_purchase DELIVERED" "''ch''"]
  by auto

end
