(* ===== verification/Telegram.thy ===== *)
theory Telegram
  imports World "HOL-Library.Sublist"
begin

section \<open>The Telegram transport\<close>

text \<open>
  \<^verbatim>\<open>infrastructure/telegram/errors.py\<close> and \<^verbatim>\<open>gateways.py\<close>: which failures of a Bot API call are
  worth retrying, the delivery gateway, the Stars invoice sender, and \<open>html.escape\<close> with the
  part of \<^verbatim>\<open>bot/texts.py\<close> that renders database values.
\<close>

subsection \<open>Classifying failures\<close>

definition permanent_markers :: "string list" where
  "permanent_markers = [''chat not found'', ''user is deactivated'', ''bot was blocked'',
     ''bot was kicked'', ''peer_id_invalid'', ''chat_id is empty'']"

definition is_permanent_bad_request :: "exn \<Rightarrow> bool" where
  "is_permanent_bad_request e =
     list_ex (\<lambda>marker. sublist marker (py_lower (exn_message e))) permanent_markers"

definition permanent_error :: "string \<Rightarrow> exn" where
  "permanent_error msg = app_error DeliveryPermanentError (Some msg) []"

definition flood_wait :: "exn \<Rightarrow> rat" where
  "flood_wait e = (case exn_retry_after e of Some r \<Rightarrow> r | None \<Rightarrow> 0)"

definition to_delivery_error :: "exn \<Rightarrow> exn" where
  "to_delivery_error e =
     (if isinstance e TelegramRetryAfter
      then transient_error (''Telegram flood control: retry after '' @ int_str \<lfloor>flood_wait e\<rfloor> @ ''s'')
             (Some (flood_wait e))
      else if isinstance e TelegramForbiddenError
      then permanent_error (''Telegram refused: '' @ exn_message e)
      else if isinstance e TelegramBadRequest
      then (if is_permanent_bad_request e
            then permanent_error (''Telegram rejected the chat: '' @ exn_message e)
            else transient_error (''Telegram bad request: '' @ exn_message e) None)
      else if isinstance e TelegramServerError \<or> isinstance e TelegramNetworkError
      then transient_error (''Telegram is unavailable: '' @ exn_message e) None
      else if isinstance e TelegramAPIError
      then transient_error (''Telegram API error: '' @ exn_message e) None
      else transient_error (''Unexpected transport failure: '' @ exn_message e) None)"

subsection \<open>Gateways\<close>

definition gateway_send :: "env \<Rightarrow> delivery_message \<Rightarrow> unit action" where
  "gateway_send E msg =
     catchM (telegram_request E (SendDelivery msg))
       (on_class [ExceptionC] (\<lambda>e. throw (to_delivery_error e)))"

definition whole_amount :: "rat \<Rightarrow> rat" where
  \<comment> \<open>\<open>int(Decimal(amount))\<close>\<close>
  "whole_amount x = (if 0 \<le> x then of_int \<lfloor>x\<rfloor> else of_int \<lceil>x\<rceil>)"

definition invoice_placeholder :: string where
  \<comment> \<open>the Cyrillic fallback of \<open>invoice_description\<close>, by an ASCII stand-in\<close>
  "invoice_placeholder = ''Digital product''"

definition invoice_description :: "string \<Rightarrow> string" where
  "invoice_description d = (let t = py_strip d in if t \<noteq> [] then t else invoice_placeholder)"

definition stars_message :: "invoice_request \<Rightarrow> invoice_request" where
  \<comment> \<open>what is sent: the title cut to 32 characters, the description to 255, whole Stars\<close>
  "stars_message r = r\<lparr>inv_title := take 32 (inv_title r),
     inv_description := take 255 (invoice_description (inv_description r)), inv_amount := whole_amount (inv_amount r)\<rparr>"

definition send_invoice :: "env \<Rightarrow> invoice_request \<Rightarrow> unit action" where
  "send_invoice E r =
     catchM (telegram_request E (SendStarsInvoice (stars_message r)))
       (on_class [TelegramAPIError] (\<lambda>e. throw
          (err_msg PaymentGatewayError ''Telegram refused to send the Stars invoice''
             [(''payload'', JStr (inv_payload r))])))"

subsection \<open>Rendering\<close>

definition html_escape :: "string \<Rightarrow> string" where
  "html_escape s =
     replace_char (CHR 0x27) (''&#x27;'')
      (replace_char (CHR 0x22) (''&quot;'')
       (replace_char (CHR ''>'') (''&gt;'')
        (replace_char (CHR ''<'') (''&lt;'')
         (replace_char (CHR ''&'') (''&amp;'') s))))"

definition delivery_body :: "delivery_message \<Rightarrow> string" where
  \<comment> \<open>\<open>delivery_message\<close> below its header line\<close>
  "delivery_body m = ''<b>'' @ html_escape (dm_product_title m) @ ''</b>'' @ [newline, newline]
     @ html_escape (dm_delivery_url m)"

subsection \<open>Facts\<close>

lemma telegram_request_run:
  "telegram_request E eff w = (case env_telegram E (requests w) eff of
      None \<Rightarrow> (Inr (), after_request E eff True w) | Some e \<Rightarrow> (Inl e, after_request E eff False w))"
  by (simp add: telegram_request_def)

lemma after_request_sel [simp]:
  "db (after_request E eff ok w) = db w" "redis (after_request E eff ok w) = redis w"
  "requests (after_request E eff ok w) = Suc (requests w)"
  "uuids_drawn (after_request E eff ok w) = uuids_drawn w"
  "effects (after_request E eff ok w) = effects w @ [(eff, ok)]"
  "clock (after_request E eff ok w) = clock w + int (env_latency E (requests w))"
  by (simp_all add: after_request_def)

lemma gateway_send_run:
  "gateway_send E msg w = (case env_telegram E (requests w) (SendDelivery msg) of
      None \<Rightarrow> (Inr (), after_request E (SendDelivery msg) True w)
    | Some e \<Rightarrow> (Inl (to_delivery_error e), after_request E (SendDelivery msg) False w))"
  by (simp add: gateway_send_def catchM_run telegram_request_run on_class_def split: option.split)

lemma exn_cls_permanent_error [simp]: "exn_cls (permanent_error m) = DeliveryPermanentError"
  by (simp add: permanent_error_def)

lemma isinstance_permanent_error [simp]:
  "isinstance (permanent_error m) k = is_subclass DeliveryPermanentError k"
  by (simp add: permanent_error_def del: is_subclass_simps)

lemma exn_cls_to_delivery_error:
  "exn_cls (to_delivery_error e) = (if isinstance e TelegramForbiddenError
        \<or> (isinstance e TelegramBadRequest \<and> is_permanent_bad_request e)
      then DeliveryPermanentError else DeliveryTransientError)"
  by (cases "exn_cls e") (simp_all add: to_delivery_error_def isinstance_def)

text \<open>
  Every failure of the transport becomes one of the two delivery errors. It is final only for
  a refusing chat: a forbidden chat, or a bad request whose text names a dead chat, in any letter
  case; everything else, known or not, is to be retried, after the wait the flood control asked for.
\<close>

theorem transport_failures_classified:
  "exn_cls (to_delivery_error e) = (if isinstance e TelegramForbiddenError
        \<or> (isinstance e TelegramBadRequest \<and> is_permanent_bad_request e)
      then DeliveryPermanentError else DeliveryTransientError)
   \<and> exn_retry_after (to_delivery_error e)
      = (if isinstance e TelegramRetryAfter then Some (flood_wait e) else None)"
  by (cases "exn_cls e")
    (simp_all add: to_delivery_error_def isinstance_def permanent_error_def app_error_def transient_error_def)

definition escaped_char :: "char \<Rightarrow> string" where
  "escaped_char c = (if c = CHR ''&'' then ''&amp;'' else if c = CHR ''<'' then ''&lt;''
     else if c = CHR ''>'' then ''&gt;'' else if c = CHR 0x22 then ''&quot;''
     else if c = CHR 0x27 then ''&#x27;'' else [c])"

lemma html_escape_concat: "html_escape s = concat (map escaped_char s)"
  by (induction s) (auto simp: html_escape_def escaped_char_def)

lemma escaped_char_prefix_free:
  "escaped_char x @ u = escaped_char y @ v \<Longrightarrow> x = y \<and> u = v"
  by (simp add: escaped_char_def split: if_splits)

lemma escaped_char_nonempty [simp]: "escaped_char c \<noteq> []"
  by (simp add: escaped_char_def)

lemma html_escape_inject: "html_escape s = html_escape t \<Longrightarrow> s = t"
  unfolding html_escape_concat
proof (induction s arbitrary: t)
  case Nil
  then show ?case by (cases t) auto
next
  case (Cons x s)
  then obtain y u where "t = y # u" by (cases t) auto
  with Cons escaped_char_prefix_free [of x _ y] show ?case by auto
qed

definition markup :: "char \<Rightarrow> bool" where
  "markup c = (c = CHR ''<'' \<or> c = CHR ''>'' \<or> c = CHR 0x22 \<or> c = CHR 0x27)"

text \<open>
  Text from the database cannot open a tag or an attribute in a message: once escaped it holds no
  angle bracket and no quote, so the only markup of a delivery message is its own bold tag, whatever
  the title and the link are; and escaping loses nothing, since different texts stay different.
\<close>

theorem escaped_text_is_inert:
  "filter markup (html_escape s) = [] \<and> (html_escape s = html_escape t) = (s = t)
   \<and> filter markup (delivery_body m) = ''<><>''"
proof -
  have "filter markup (escaped_char c) = []" for c
    by (auto simp: escaped_char_def markup_def)
  then have inert: "filter markup (html_escape s) = []" for s
    by (induction s) (auto simp: html_escape_concat)
  have tags: "filter markup ''<b>'' = ''<>''" "filter markup ''</b>'' = ''<>''"
    by (simp_all add: markup_def)
  have "\<not> markup newline" by (auto simp: markup_def dest: arg_cong [where f = ord])
  then have "filter markup [newline, newline] = []" by simp
  then have "filter markup (delivery_body m) = ''<><>''"
    unfolding delivery_body_def filter_append tags inert by simp
  then show ?thesis using html_escape_inject inert by blast
qed

end
