(* ===== verification/DeliveryService.thy ===== *)
theory DeliveryService
  imports PurchaseService Telegram
begin

section \<open>Delivering a purchase\<close>

text \<open>
  \<^verbatim>\<open>services/delivery.py\<close>: the retry loop with exponential back-off, and delivery of a purchase
  under its lock. The transaction that reads the purchase is closed before the first message is
  sent, and the delivery is recorded in a second one. The loop runs at most \<open>max_attempts\<close> times,
  so it is a recursion on the attempts left. Seconds are exact rationals; the jitter of a wait is a
  value of the environment, indexed by the requests made so far.
\<close>

subsection \<open>Back-off\<close>

definition backoff_nominal :: "delivery_settings \<Rightarrow> nat \<Rightarrow> rat" where
  "backoff_nominal s attempt =
     min (dl_initial_backoff_seconds s * dl_backoff_multiplier s ^ (attempt - 1)) (dl_max_backoff_seconds s)"

definition backoff :: "delivery_settings \<Rightarrow> rat \<Rightarrow> nat \<Rightarrow> rat option \<Rightarrow> rat" where
  "backoff s jitter attempt retry_after =
     (let delay = backoff_nominal s attempt;
          spread = delay * dl_jitter_ratio s;
          delay' = max 0 (delay + spread * (jitter * 2 - 1))
      in (case retry_after of Some r \<Rightarrow> max delay' r | None \<Rightarrow> delay'))"

subsection \<open>The retry loop\<close>

definition delivery_conf :: "env \<Rightarrow> delivery_settings" where
  "delivery_conf E = cfg_delivery (env_settings E)"

definition exhausted :: "env \<Rightarrow> delivery_message \<Rightarrow> string option \<Rightarrow> delivery_result" where
  "exhausted E msg last_error = \<lparr>res_status = FAILED, res_purchase_id = dm_purchase_id msg,
     res_attempts = dl_max_attempts (delivery_conf E), res_error = last_error\<rparr>"

definition attempt_send :: "env \<Rightarrow> delivery_message \<Rightarrow> exn option action" where
  \<comment> \<open>\<open>try: gateway.send(...)\<close> with the exception as the value\<close>
  "attempt_send E msg = catchM (thenM (gateway_send E msg) (ret None))
     (on_class [DeliveryPermanentError, DeliveryTransientError] (\<lambda>e. ret (Some e)))"

fun send_loop :: "env \<Rightarrow> delivery_message \<Rightarrow> nat \<Rightarrow> nat \<Rightarrow> string option \<Rightarrow> delivery_result action" where
  \<comment> \<open>attempts left, number of the next attempt, last error\<close>
  "send_loop E msg 0 attempt last_error = ret (exhausted E msg last_error)"
| "send_loop E msg (Suc remaining) attempt last_error =
     bindM (attempt_send E msg) (\<lambda>failure. case failure of
        None \<Rightarrow> ret \<lparr>res_status = SENT, res_purchase_id = dm_purchase_id msg,
            res_attempts = attempt, res_error = None\<rparr>
      | Some e \<Rightarrow>
          if isinstance e DeliveryPermanentError
          then ret \<lparr>res_status = FAILED, res_purchase_id = dm_purchase_id msg,
              res_attempts = attempt, res_error = Some (exn_message e)\<rparr>
          else if remaining = 0 then ret (exhausted E msg (Some (exn_message e)))
          else bindM (getsM (\<lambda>w. env_jitter E (requests w))) (\<lambda>jitter.
               thenM (sleep_for (backoff (delivery_conf E) jitter attempt (exn_retry_after e)))
                 (send_loop E msg remaining (Suc attempt) (Some (exn_message e)))))"

definition send_with_retries :: "env \<Rightarrow> delivery_message \<Rightarrow> delivery_result action" where
  "send_with_retries E msg = send_loop E msg (dl_max_attempts (delivery_conf E)) 1 None"

subsection \<open>Delivery\<close>

record delivery_context =
  cx_purchase :: purchase
  cx_product :: product
  cx_user :: user

definition context_tx :: "uuid \<Rightarrow> (exn, database, delivery_context) prog" where
  "context_tx purchase_id =
     bindM (purchase_get purchase_id) (\<lambda>m.
     bindM (purchase_or_404 purchase_id m) (\<lambda>p.
     bindM (product_get (pu_product_id p)) (\<lambda>q.
     bindM (product_or_404 (pu_product_id p) q) (\<lambda>product.
     bindM (user_get (pu_user_id p)) (\<lambda>u.
     bindM (case u of None \<Rightarrow> throw (err UserNotFoundError [(''telegram_id'', JInt (pu_user_id p))])
            | Some user \<Rightarrow> ret user) (\<lambda>user.
       ret \<lparr>cx_purchase = p, cx_product = product, cx_user = user\<rparr>))))))"

definition load_context :: "uuid \<Rightarrow> delivery_context action" where
  "load_context purchase_id = in_uow (\<lambda>_. context_tx purchase_id)"

definition delivery_message_for :: "delivery_context \<Rightarrow> uuid \<Rightarrow> bool \<Rightarrow> delivery_message" where
  "delivery_message_for c purchase_id is_repeat =
     \<lparr>dm_chat_id = us_telegram_id (cx_user c), dm_purchase_id = purchase_id,
      dm_product_title = pr_title (cx_product c), dm_delivery_url = pr_delivery_url (cx_product c),
      dm_is_repeat = is_repeat\<rparr>"

definition deliver_body :: "env \<Rightarrow> uuid \<Rightarrow> bool \<Rightarrow> bool \<Rightarrow> delivery_result action" where
  \<comment> \<open>what happens under the lock\<close>
  "deliver_body E purchase_id is_repeat resend_if_delivered =
     bindM (load_context purchase_id) (\<lambda>c.
     let p = cx_purchase c in
     if pu_status p = DELIVERED \<and> \<not> resend_if_delivered
     then ret \<lparr>res_status = ALREADY_DELIVERED, res_purchase_id = purchase_id, res_attempts = 0,
            res_error = None\<rparr>
     else if \<not> grants_access p
     then throw (conflict ''Only a paid purchase can be delivered'' purchase_id (pu_status p))
     else
       bindM (send_with_retries E (delivery_message_for c purchase_id is_repeat)) (\<lambda>outcome.
       if \<not> succeeded outcome then ret outcome
       else if pu_status p \<noteq> DELIVERED
       then thenM (svc_mark_delivered purchase_id (pr_delivery_url (cx_product c))) (ret outcome)
       else ret outcome))"

definition deliver :: "env \<Rightarrow> uuid \<Rightarrow> bool \<Rightarrow> bool \<Rightarrow> delivery_result action" where
  "deliver E purchase_id is_repeat resend_if_delivered =
     with_lock E (delivery_lock_key purchase_id) None None
       (deliver_body E purchase_id is_repeat resend_if_delivered)"

definition deliver_purchase :: "env \<Rightarrow> uuid \<Rightarrow> delivery_result action" where
  "deliver_purchase E purchase_id = deliver E purchase_id False False"

definition redeliver :: "env \<Rightarrow> uuid \<Rightarrow> delivery_result action" where
  "redeliver E purchase_id = deliver E purchase_id True True"

subsection \<open>The retry loop, observed from outside\<close>

abbreviation sends_of :: "delivery_message \<Rightarrow> (effect \<times> bool) list \<Rightarrow> (effect \<times> bool) list" where
  "sends_of msg tr \<equiv> filter (\<lambda>x. fst x = SendDelivery msg) tr"

definition retry_trace :: "delivery_message \<Rightarrow> nat \<Rightarrow> delivery_result \<Rightarrow> (effect \<times> bool) list \<Rightarrow> bool" where
  \<comment> \<open>between one and \<open>n\<close> sends and nothing else but waits; every send but the last one failed, and
      the last one succeeded exactly when the result says so\<close>
  "retry_trace msg n res tr =
     (let s = sends_of msg tr in
      1 \<le> length s \<and> length s \<le> n \<and> list_all (\<lambda>x. \<not> snd x) (butlast s)
      \<and> snd (last s) = (res_status res = SENT) \<and> res_status res \<noteq> ALREADY_DELIVERED
      \<and> list_all (\<lambda>x. fst x = SendDelivery msg \<or> (\<exists>t. fst x = Slept t)) tr)"

lemma attempt_send_run:
  "attempt_send E msg w = (case env_telegram E (requests w) (SendDelivery msg) of
      None \<Rightarrow> (Inr None, after_request E (SendDelivery msg) True w)
    | Some e \<Rightarrow> (Inr (Some (to_delivery_error e)), after_request E (SendDelivery msg) False w))"
  by (simp add: attempt_send_def catchM_run thenM_run gateway_send_run on_class_def isinstance_def
      exn_cls_to_delivery_error split: option.split)

lemma sleep_for_run:
  "sleep_for t w = (Inr (), w\<lparr>clock := clock w + max 0 (microseconds t),
     effects := effects w @ [(Slept t, True)]\<rparr>)"
  by (simp add: sleep_for_def)

lemma retry_trace_step:
  assumes "retry_trace msg n res tr"
  shows "retry_trace msg (Suc n) res ((SendDelivery msg, False) # (Slept t, True) # tr)"
proof -
  have "sends_of msg tr \<noteq> []" using assms by (auto simp: retry_trace_def Let_def)
  then show ?thesis using assms by (auto simp: retry_trace_def Let_def)
qed

lemma send_loop_trace:
  assumes "0 < n" and "1 \<le> k" and "k + n = Suc (dl_max_attempts (delivery_conf E))"
  shows "\<exists>res tr w'. send_loop E msg n k le w = (Inr res, w') \<and> effects w' = effects w @ tr
     \<and> retry_trace msg n res tr \<and> res_purchase_id res = dm_purchase_id msg
     \<and> res_attempts res = k - 1 + length (sends_of msg tr)
     \<and> db w' = db w \<and> redis w' = redis w \<and> uuids_drawn w' = uuids_drawn w"
  using assms
proof (induction n arbitrary: k le w)
  case (Suc n)
  let ?eff = "SendDelivery msg"
  show ?case
  proof (cases "env_telegram E (requests w) ?eff")
    case None
    then show ?thesis
      using Suc.prems
      by (auto simp: bindM_run attempt_send_run retry_trace_def Let_def intro!: exI [of _ "[(?eff, True)]"])
  next
    case (Some e)
    let ?d = "to_delivery_error e" and ?w = "after_request E ?eff False w"
    show ?thesis
    proof (cases "isinstance ?d DeliveryPermanentError \<or> n = 0")
      case True
      then show ?thesis
        using Suc.prems Some
        by (auto simp: bindM_run attempt_send_run retry_trace_def Let_def exhausted_def
            intro!: exI [of _ "[(?eff, False)]"])
    next
      case False
      let ?t = "backoff (delivery_conf E) (env_jitter E (requests ?w)) k (exn_retry_after ?d)"
      let ?v = "snd (sleep_for ?t ?w)"
      have run: "send_loop E msg (Suc n) k le w = send_loop E msg n (Suc k) (Some (exn_message ?d)) ?v"
        using False Some by (simp add: bindM_run attempt_send_run thenM_run sleep_for_run)
      have "0 < n" and "1 \<le> Suc k" and "Suc k + n = Suc (dl_max_attempts (delivery_conf E))"
        using False Suc.prems by auto
      from Suc.IH [OF this, of "Some (exn_message ?d)" ?v] obtain res tr w' where
        *: "send_loop E msg n (Suc k) (Some (exn_message ?d)) ?v = (Inr res, w')"
          "effects w' = effects ?v @ tr" "retry_trace msg n res tr"
          "res_purchase_id res = dm_purchase_id msg"
          "res_attempts res = Suc k - 1 + length (sends_of msg tr)"
          "db w' = db ?v" "redis w' = redis ?v" "uuids_drawn w' = uuids_drawn ?v"
        by blast
      let ?tr = "(?eff, False) # (Slept ?t, True) # tr"
      have "effects w' = effects w @ ?tr" using *(2) by (simp add: sleep_for_run)
      moreover have "res_attempts res = k - 1 + length (sends_of msg ?tr)"
        using *(5) Suc.prems(2) by simp
      moreover have "db w' = db w" "redis w' = redis w" "uuids_drawn w' = uuids_drawn w"
        using *(6-8) by (simp_all add: sleep_for_run)
      ultimately show ?thesis
        using run *(1,4) retry_trace_step [OF *(3)] by metis
    qed
  qed
qed simp

lemma send_with_retries_trace:
  assumes "0 < dl_max_attempts (delivery_conf E)"
  obtains res tr w' where "send_with_retries E msg w = (Inr res, w')" "effects w' = effects w @ tr"
    "retry_trace msg (dl_max_attempts (delivery_conf E)) res tr" "res_purchase_id res = dm_purchase_id msg"
    "res_attempts res = length (sends_of msg tr)" "db w' = db w" "redis w' = redis w"
    "uuids_drawn w' = uuids_drawn w"
  using send_loop_trace [where E = E and k = 1 and msg = msg and le = None and w = w, OF assms]
  by (auto simp: send_with_retries_def)

text \<open>
  C29. The retry loop always returns a result, never an exception. It sends the message between once
  and \<open>max_attempts\<close> times and otherwise only waits; it stops at the first success and reports
  \<open>SENT\<close> exactly then; the attempts it reports are the messages it sent; and it touches neither the
  database nor Redis.
\<close>

theorem retries_are_bounded:
  assumes "0 < dl_max_attempts (delivery_conf E)"
  shows "\<exists>res tr w'. send_with_retries E msg w = (Inr res, w') \<and> effects w' = effects w @ tr
     \<and> retry_trace msg (dl_max_attempts (delivery_conf E)) res tr
     \<and> res_attempts res = length (sends_of msg tr)
     \<and> db w' = db w \<and> redis w' = redis w"
  by (rule send_with_retries_trace [OF assms, of msg w]) blast

definition flaky_env :: env where
  \<comment> \<open>Telegram fails twice, then answers\<close>
  "flaky_env = sample_env\<lparr>env_telegram := (\<lambda>n _. if n < 2 then Some (other_exn TelegramNetworkError ''down'') else None)\<rparr>"

definition sample_message :: delivery_message where
  "sample_message = \<lparr>dm_chat_id = 7, dm_purchase_id = 10, dm_product_title = ''Demo'',
     dm_delivery_url = ''https://e.io/x'', dm_is_repeat = False\<rparr>"

theorem retries_are_bounded_witness:
  "\<exists>res tr w'. send_with_retries flaky_env sample_message (sample_world []) = (Inr res, w')
     \<and> effects w' = tr \<and> retry_trace sample_message 4 res tr \<and> res_attempts res = length (sends_of sample_message tr)"
proof -
  have max: "dl_max_attempts (delivery_conf flaky_env) = 4"
    by (simp add: flaky_env_def delivery_conf_def sample_env_def sample_settings_def default_delivery_def)
  then have "0 < dl_max_attempts (delivery_conf flaky_env)" by simp
  from retries_are_bounded [OF this, of sample_message "sample_world []"] show ?thesis
    unfolding max by simp blast
qed

subsection \<open>How long a wait may be\<close>

text \<open>
  With validated settings and a jitter in [0, 1), a wait is never shorter than what the provider
  asked for, never longer than the larger of that and the configured maximum with its jitter, and the
  wait without jitter never shrinks from one attempt to the next.
\<close>

theorem backoff_bounds:
  assumes "load_delivery s = Inr s" and "0 \<le> j" and "j < 1"
  shows "(case ra of Some r \<Rightarrow> r \<le> backoff s j n ra | None \<Rightarrow> True)
     \<and> 0 \<le> backoff s j n ra
     \<and> backoff s j n ra \<le> max (dl_max_backoff_seconds s * (1 + dl_jitter_ratio s))
            (case ra of Some r \<Rightarrow> r | None \<Rightarrow> 0)
     \<and> backoff_nominal s n \<le> backoff_nominal s (Suc n)"
proof -
  from assms(1) have s: "0 < dl_initial_backoff_seconds s" "1 \<le> dl_backoff_multiplier s"
      "0 \<le> dl_jitter_ratio s" "0 < dl_max_backoff_seconds s"
    by (auto simp: load_delivery_def split: if_splits)
  let ?d = "backoff_nominal s n"
  have d: "0 \<le> ?d" "?d \<le> dl_max_backoff_seconds s"
    using s by (auto simp: backoff_nominal_def min_def)
  have "?d * dl_jitter_ratio s * (j * 2 - 1) \<le> ?d * dl_jitter_ratio s * 1"
    using s d assms(3) by (intro mult_left_mono) auto
  then have "?d + ?d * dl_jitter_ratio s * (j * 2 - 1) \<le> ?d * (1 + dl_jitter_ratio s)"
    by (simp add: algebra_simps)
  also have "\<dots> \<le> dl_max_backoff_seconds s * (1 + dl_jitter_ratio s)"
    using d s by (intro mult_right_mono) auto
  finally have up: "max 0 (?d + ?d * dl_jitter_ratio s * (j * 2 - 1))
      \<le> dl_max_backoff_seconds s * (1 + dl_jitter_ratio s)"
    using s by simp
  have "dl_backoff_multiplier s ^ (n - 1) \<le> dl_backoff_multiplier s ^ n"
    using s by (intro power_increasing) auto
  then have "dl_initial_backoff_seconds s * dl_backoff_multiplier s ^ (n - 1)
      \<le> dl_initial_backoff_seconds s * dl_backoff_multiplier s ^ n"
    using s by (intro mult_left_mono) auto
  then have "backoff_nominal s n \<le> backoff_nominal s (Suc n)"
    by (auto simp: backoff_nominal_def min_def)
  then show ?thesis
    using up by (auto simp: backoff_def Let_def max_def split: option.split)
qed

theorem backoff_bounds_witness:
  "backoff default_delivery (1 / 2) 2 (Some 7) \<ge> 7"
proof -
  have "load_delivery default_delivery = Inr default_delivery"
    by (simp add: load_delivery_def default_delivery_def check_backoff_bounds_def)
  from backoff_bounds [OF this, where j = "1 / 2" and ra = "Some 7" and n = 2] show ?thesis by simp
qed

subsection \<open>What a delivery does\<close>

lemma purchase_found_by_id:
  "db_ok d \<Longrightarrow> p \<in> set (purchases d) \<Longrightarrow>
     List.find (\<lambda>q. pu_id q = pu_id p) (purchases d) = Some p"
  using find_eq_Some_iff [OF db_okD(9)] by blast

lemma context_tx_found:
  assumes "db_ok d" and "p \<in> set (purchases d)"
  obtains q u where "q \<in> set (products d)" "pr_id q = pu_product_id p"
    "u \<in> set (users d)" "us_telegram_id u = pu_user_id p"
    "context_tx (pu_id p) d = (Inr \<lparr>cx_purchase = p, cx_product = q, cx_user = u\<rparr>, d)"
proof -
  have row: "purchase_row_ok d p" using db_okD(7) [OF assms(1)] assms(2) by (simp add: list_all_iff)
  then obtain q u where q: "q \<in> set (products d)" "pr_id q = pu_product_id p"
    and u: "u \<in> set (users d)" "us_telegram_id u = pu_user_id p"
    by (auto simp: purchase_row_ok_def list_ex_iff)
  have "List.find (\<lambda>r. pr_id r = pu_product_id p) (products d) = Some q"
    using find_eq_Some_iff [OF db_okD(1) [OF assms(1)]] q by blast
  moreover have "List.find (\<lambda>r. us_telegram_id r = pu_user_id p) (users d) = Some u"
    using find_eq_Some_iff [OF db_okD(4) [OF assms(1)]] u by blast
  ultimately have "context_tx (pu_id p) d = (Inr \<lparr>cx_purchase = p, cx_product = q, cx_user = u\<rparr>, d)"
    by (simp add: context_tx_def bindM_run purchase_get_def get_by_key_def purchase_or_404_def
        purchase_found_by_id [OF assms] product_or_404_def)
  with q u show thesis by (rule that)
qed

lemma deliver_body_run:
  assumes "db_ok (db w)" and "p \<in> set (purchases (db w))" and "0 < dl_max_attempts (delivery_conf E)"
    and "deliver_body E (pu_id p) is_repeat resend w = (r, w')"
  obtains (already) "pu_status p = DELIVERED" "\<not> resend" "w' = w"
      "r = Inr \<lparr>res_status = ALREADY_DELIVERED, res_purchase_id = pu_id p, res_attempts = 0, res_error = None\<rparr>"
  | (denied) "\<not> grants_access p" "w' = w"
      "r = Inl (conflict ''Only a paid purchase can be delivered'' (pu_id p) (pu_status p))"
  | (tried) c res tr t where "grants_access p" "pu_status p = DELIVERED \<longrightarrow> resend" "r = Inr res"
      "cx_purchase c = p" "cx_product c \<in> set (products (db w))" "pr_id (cx_product c) = pu_product_id p"
      "us_telegram_id (cx_user c) = pu_user_id p"
      "effects w' = effects w @ tr"
      "retry_trace (delivery_message_for c (pu_id p) is_repeat) (dl_max_attempts (delivery_conf E)) res tr"
      "db w' = (if res_status res = SENT \<and> pu_status p = PAID
         then (db w)\<lparr>purchases := replace_row pu_id
                (delivered_version t (pr_delivery_url (cx_product c)) None p) (purchases (db w))\<rparr>
         else db w)"
proof -
  let ?i = "pu_id p"
  obtain q u where q: "q \<in> set (products (db w))" "pr_id q = pu_product_id p"
    and u: "us_telegram_id u = pu_user_id p"
    and ctx: "context_tx ?i (db w) = (Inr \<lparr>cx_purchase = p, cx_product = q, cx_user = u\<rparr>, db w)"
    by (rule context_tx_found [OF assms(1,2)])
  let ?c = "\<lparr>cx_purchase = p, cx_product = q, cx_user = u\<rparr>"
  have load: "load_context ?i w = (Inr ?c, w)" by (simp add: load_context_def in_uow_def ctx)
  consider (a) "pu_status p = DELIVERED" "\<not> resend" | (b) "\<not> grants_access p"
    | (c) "grants_access p" "pu_status p = DELIVERED \<longrightarrow> resend" by blast
  then show thesis
  proof cases
    case a
    then show thesis using assms(4) load by (intro already) (auto simp: deliver_body_def bindM_run Let_def)
  next
    case b
    then show thesis using assms(4) load by (intro denied) (auto simp: deliver_body_def bindM_run Let_def)
  next
    case c
    let ?msg = "delivery_message_for ?c ?i is_repeat"
    obtain res tr w1 where send: "send_with_retries E ?msg w = (Inr res, w1)" "effects w1 = effects w @ tr"
        "retry_trace ?msg (dl_max_attempts (delivery_conf E)) res tr" "db w1 = db w"
      by (rule send_with_retries_trace [OF assms(3)])
    then have st: "res_status res = SENT \<or> res_status res = FAILED"
      by (cases "res_status res") (auto simp: retry_trace_def Let_def)
    show thesis
    proof (cases "res_status res = SENT \<and> pu_status p = PAID")
      case False
      then have "r = Inr res" and "w' = w1"
        using assms(4) load send(1) c st by (auto simp: deliver_body_def bindM_run Let_def)
      with c q u send False show thesis by (intro tried [of res ?c tr]) auto
    next
      case True
      let ?p = "delivered_version (clock w1) (pr_delivery_url q) None p"
      have "svc_mark_delivered ?i (pr_delivery_url q) w1
          = (Inr ?p, w1\<lparr>db := (db w)\<lparr>purchases := replace_row pu_id ?p (purchases (db w))\<rparr>\<rparr>)"
        using True mark_delivered_run [OF assms(1,2)]
        by (simp add: svc_mark_delivered_def in_uow_def send(4))
      then have "r = Inr res" and "w' = w1\<lparr>db := (db w)\<lparr>purchases := replace_row pu_id ?p (purchases (db w))\<rparr>\<rparr>"
        using assms(4) load send(1) True by (auto simp: deliver_body_def bindM_run thenM_run Let_def)
      with c q u send True show thesis by (intro tried [of res ?c tr "clock w1"]) auto
    qed
  qed
qed

definition hand_over ::
  "env \<Rightarrow> purchase \<Rightarrow> delivery_result \<Rightarrow> database \<Rightarrow> (effect \<times> bool) list \<Rightarrow> database \<Rightarrow> bool" where
  \<comment> \<open>the requests of one delivery of a paid purchase, and the database after it\<close>
  "hand_over E p res d tr e = (\<exists>q t. q \<in> set (products d) \<and> pr_id q = pu_product_id p
     \<and> retry_trace \<lparr>dm_chat_id = pu_user_id p, dm_purchase_id = pu_id p,
           dm_product_title = pr_title q, dm_delivery_url = pr_delivery_url q, dm_is_repeat = False\<rparr>
         (dl_max_attempts (delivery_conf E)) res tr
     \<and> e = (if res_status res = SENT
         then d\<lparr>purchases := replace_row pu_id (delivered_version t (pr_delivery_url q) None p) (purchases d)\<rparr>
         else d))"

lemma deliver_purchase_run:
  assumes "db_ok (db w)" and "p \<in> set (purchases (db w))" and "0 < dl_max_attempts (delivery_conf E)"
    and "deliver_purchase E (pu_id p) w = (r, w')"
  shows "(r = Inl (err LockBusyError [(''lock_key'', JStr (delivery_lock_key (pu_id p)))])
        \<and> db w' = db w \<and> effects w' = effects w)
     \<or> (case pu_status p of
          DELIVERED \<Rightarrow> (\<exists>res. r = Inr res \<and> res_status res = ALREADY_DELIVERED)
            \<and> db w' = db w \<and> effects w' = effects w
        | PAID \<Rightarrow> (\<exists>res tr. r = Inr res \<and> effects w' = effects w @ tr
            \<and> hand_over E p res (db w) tr (db w'))
        | s \<Rightarrow> r = Inl (conflict ''Only a paid purchase can be delivered'' (pu_id p) s)
            \<and> db w' = db w \<and> effects w' = effects w)"
  using assms(4) unfolding deliver_purchase_def deliver_def
proof (cases rule: with_lock_cases)
  case busy
  then show ?thesis by simp
next
  case (held w1 w2)
  have ok: "db_ok (db w1)" "p \<in> set (purchases (db w1))" using assms(1,2) held(1) by simp_all
  from ok assms(3) held(7) show ?thesis
  proof (cases rule: deliver_body_run)
    case already
    then show ?thesis using held by auto
  next
    case denied
    then show ?thesis using held by (cases "pu_status p") auto
  next
    case (tried c res tr t)
    then have "pu_status p = PAID" by auto
    then show ?thesis
      using tried held unfolding delivery_message_for_def hand_over_def by auto
  qed
qed

text \<open>
  C10. Delivering a purchase, on every branch. A busy lock, a delivered purchase and a purchase that
  was not paid send nothing and change nothing. For a paid one the buyer is sent the link the product
  carries now; the purchase becomes delivered with exactly that link when a message got through, and
  when none did it stays paid, so the buyer keeps the right to the link.
\<close>

theorem deliver_purchase_outcome:
  assumes "db_ok (db w)" and "p \<in> set (purchases (db w))" and "0 < dl_max_attempts (delivery_conf E)"
    and "deliver_purchase E (pu_id p) w = (r, w')"
  shows "(r = Inl (err LockBusyError [(''lock_key'', JStr (delivery_lock_key (pu_id p)))])
        \<and> db w' = db w \<and> effects w' = effects w)
     \<or> (case pu_status p of
          DELIVERED \<Rightarrow> (\<exists>res. r = Inr res \<and> res_status res = ALREADY_DELIVERED)
            \<and> db w' = db w \<and> effects w' = effects w
        | PAID \<Rightarrow> (\<exists>res tr. r = Inr res \<and> effects w' = effects w @ tr
            \<and> hand_over E p res (db w) tr (db w'))
        | s \<Rightarrow> r = Inl (conflict ''Only a paid purchase can be delivered'' (pu_id p) s)
            \<and> db w' = db w \<and> effects w' = effects w)"
  by (rule deliver_purchase_run [OF assms])

theorem deliver_purchase_outcome_witness:
  "\<exists>r w' res. deliver_purchase sample_env 10 (sample_world [sample_purchase PAID]) = (r, w')
     \<and> (r = Inl (err LockBusyError [(''lock_key'', JStr (delivery_lock_key 10))]) \<or> r = Inr res)"
proof -
  obtain r w' where run: "deliver_purchase sample_env 10 (sample_world [sample_purchase PAID]) = (r, w')"
    by (cases "deliver_purchase sample_env 10 (sample_world [sample_purchase PAID])")
  have "0 < dl_max_attempts (delivery_conf sample_env)"
    by (simp add: delivery_conf_def sample_env_def sample_settings_def default_delivery_def)
  from deliver_purchase_outcome [of "sample_world [sample_purchase PAID]" "sample_purchase PAID", OF _ _ this]
    run show ?thesis by auto
qed

subsection \<open>Deliveries under the contract\<close>

context shop_preorder
begin

lemma attempt_send_moves: "moves R (attempt_send E msg)"
  by (rule moves_same_db) (simp add: attempt_send_run split: option.split)

lemma send_loop_moves: "moves R (send_loop E msg n k le)"
proof (induction n arbitrary: k le)
  case 0
  show ?case by (simp add: along_def R_refl)
next
  case (Suc n)
  show ?case unfolding send_loop.simps by (intro svc_rules attempt_send_moves Suc.IH)
qed

lemma deliver_moves: "moves R (deliver E i is_repeat resend)"
  unfolding deliver_def deliver_body_def load_context_def context_tx_def send_with_retries_def queries
  by (intro svc_rules send_loop_moves svc_mark_delivered_moves)

lemma deliver_purchase_moves: "moves R (deliver_purchase E i)"
  unfolding deliver_purchase_def by (rule deliver_moves)

lemma redeliver_moves: "moves R (redeliver E i)"
  unfolding redeliver_def by (rule deliver_moves)

end

end
