(* ===== verification/CryptoBot.thy ===== *)
theory CryptoBot
  imports Samples
begin

section \<open>The Crypto Pay client\<close>

text \<open>
  \<^verbatim>\<open>infrastructure/payments/cryptobot.py\<close>: one POST per call with its error ladder, invoice
  creation, the states of many invoices in batches of a hundred, and the signature check. What the
  provider answers is \<open>env_crypto_pay\<close>; a parsed body is a \<open>json\<close> value or nothing when it is
  malformed. JSON numbers with a fraction do not occur in the fields the client reads.
\<close>

subsection \<open>Python's view of JSON values\<close>

definition hex_escape :: "char \<Rightarrow> string" where
  "hex_escape c = [CHR 0x5C, CHR ''x'', hex_char (ord c div 16), hex_char (ord c mod 16)]"

definition py_printable :: "char \<Rightarrow> bool" where
  "py_printable c = (let n = ord c in (32 \<le> n \<and> n \<le> 126) \<or> (161 \<le> n \<and> n \<noteq> 173))"

definition repr_char :: "char \<Rightarrow> char \<Rightarrow> string" where
  "repr_char q c =
     (if c = q \<or> c = CHR 0x5C then [CHR 0x5C, c]
      else if ord c = 10 then [CHR 0x5C, CHR ''n''] else if ord c = 13 then [CHR 0x5C, CHR ''r'']
      else if ord c = 9 then [CHR 0x5C, CHR ''t'']
      else if py_printable c then [c] else hex_escape c)"

definition py_repr_str :: "string \<Rightarrow> string" where
  "py_repr_str s =
     (let q = (if CHR 0x27 \<in> set s \<and> CHR 0x22 \<notin> set s then CHR 0x22 else CHR 0x27)
      in q # concat (map (repr_char q) s) @ [q])"

definition join_with :: "string \<Rightarrow> string list \<Rightarrow> string" where
  \<comment> \<open>\<open>sep.join(parts)\<close>\<close>
  "join_with sep parts = (case parts of [] \<Rightarrow> [] | p # ps \<Rightarrow> p @ concat (map (\<lambda>q. sep @ q) ps))"

fun py_repr :: "json \<Rightarrow> string" where
  "py_repr JNull = ''None''"
| "py_repr (JBool b) = (if b then ''True'' else ''False'')"
| "py_repr (JInt i) = int_str i"
| "py_repr (JStr s) = py_repr_str s"
| "py_repr (JList xs) = ''['' @ join_with '', '' (map py_repr xs) @ '']''"
| "py_repr (JObj kvs) =
     ''{'' @ join_with '', '' (map (\<lambda>kv. py_repr_str (fst kv) @ '': '' @ py_repr (snd kv)) kvs) @ ''}''"

definition py_str :: "json \<Rightarrow> string" where
  \<comment> \<open>\<open>str(x)\<close>\<close>
  "py_str x = (case x of JStr s \<Rightarrow> s | _ \<Rightarrow> py_repr x)"

fun json_truthy :: "json \<Rightarrow> bool" where
  "json_truthy JNull = False"
| "json_truthy (JBool b) = b"
| "json_truthy (JInt i) = (i \<noteq> 0)"
| "json_truthy (JStr s) = (s \<noteq> [])"
| "json_truthy (JList xs) = (xs \<noteq> [])"
| "json_truthy (JObj kvs) = (kvs \<noteq> [])"

definition json_or :: "json \<Rightarrow> json \<Rightarrow> json" where
  \<comment> \<open>\<open>a or b\<close>\<close>
  "json_or a b = (if json_truthy a then a else b)"

subsection \<open>One call\<close>

definition gateway_error :: "string \<Rightarrow> string \<Rightarrow> (string \<times> json) list \<Rightarrow> exn" where
  "gateway_error message meth details =
     err_msg PaymentGatewayError message ((''method'', JStr meth) # details)"

definition read_response :: "string \<Rightarrow> http_outcome \<Rightarrow> exn + (string \<times> json) list" where
  \<comment> \<open>the error ladder of \<open>_call\<close>\<close>
  "read_response meth response = (case response of
      HttpFailure _ \<Rightarrow> Inl (gateway_error ''Crypto Pay is unreachable'' meth [])
    | HttpResponse status body \<Rightarrow>
        if 400 \<le> status
        then Inl (gateway_error (''Crypto Pay returned HTTP '' @ nat_str status) meth [])
        else (case body of
            None \<Rightarrow> Inl (gateway_error ''Crypto Pay returned a malformed response'' meth [])
          | Some (JObj obj) \<Rightarrow>
              if \<not> json_truthy (json_get obj ''ok'')
              then Inl (gateway_error ''Crypto Pay rejected the request'' meth
                     [(''detail'', JStr (take 200 (py_str (json_get obj ''error''))))])
              else (case json_get obj ''result'' of
                  JObj result \<Rightarrow> Inr result
                | _ \<Rightarrow> Inl (gateway_error ''Crypto Pay returned an unexpected result'' meth []))
          | Some _ \<Rightarrow> Inl (gateway_error ''Crypto Pay rejected the request'' meth
              [(''detail'', JStr ''None'')])))"

definition call_api :: "env \<Rightarrow> string \<Rightarrow> (string \<times> json) list \<Rightarrow> (string \<times> json) list action" where
  \<comment> \<open>\<open>_call\<close>\<close>
  "call_api E meth payload =
     bindM (crypto_pay_request E meth payload) (\<lambda>response. liftE (read_response meth response))"

subsection \<open>Invoices\<close>

definition crypto_conf :: "env \<Rightarrow> cryptobot_settings" where
  "crypto_conf E = cfg_cryptobot (env_settings E)"

definition decimal_text :: "rat \<Rightarrow> string" where
  \<comment> \<open>\<open>str(Decimal(amount))\<close>: a NUMERIC(12, 2) price prints its two decimals, and the only other
      amount the checkout passes is the integer 0\<close>
  "decimal_text x = (if x = 0 then ''0''
     else (let cents = \<lfloor>x * 100\<rfloor> in int_str (cents div 100) @ ''.''
        @ [digit_char (nat (cents mod 100 div 10)), digit_char (nat (cents mod 10))]))"

definition invoice_payload :: "env \<Rightarrow> invoice_request \<Rightarrow> (string \<times> json) list" where
  "invoice_payload E r =
     [(''currency_type'', JStr ''crypto''),
      (''asset'', JStr (cb_asset (crypto_conf E))),
      (''amount'', JStr (decimal_text (inv_amount r))),
      (''description'', JStr (take 1024 (inv_title r))),
      (''payload'', JStr (inv_payload r)),
      (''expires_in'', JInt (cb_invoice_ttl_seconds (crypto_conf E))),
      (''allow_comments'', JBool False),
      (''allow_anonymous'', JBool False)]"

definition read_invoice :: "(string \<times> json) list \<Rightarrow> exn + invoice" where
  "read_invoice result =
     (let invoice_id = json_get result ''invoice_id'';
          pay_url = json_or (json_get result ''bot_invoice_url'') (json_get result ''pay_url'')
      in (case (invoice_id, pay_url) of
            (JNull, _) \<Rightarrow> Inl (err_msg PaymentGatewayError
               ''Crypto Pay returned an invoice without an id or a payment URL''
               [(''response'', JStr (take 200 (py_repr (JObj result))))])
          | (x, JStr url) \<Rightarrow> Inr \<lparr>invoice_external_id = py_str x, invoice_pay_url = Some url\<rparr>
          | _ \<Rightarrow> Inl (err_msg PaymentGatewayError
               ''Crypto Pay returned an invoice without an id or a payment URL''
               [(''response'', JStr (take 200 (py_repr (JObj result))))])))"

definition create_invoice :: "env \<Rightarrow> invoice_request \<Rightarrow> invoice action" where
  "create_invoice E r =
     bindM (call_api E ''createInvoice'' (invoice_payload E r)) (\<lambda>result. liftE (read_invoice result))"

fun state_by_status :: "string \<Rightarrow> payment_state option" where
  "state_by_status s =
     (if s = ''active'' then Some PS_PENDING else if s = ''paid'' then Some PS_PAID
      else if s = ''expired'' then Some PS_EXPIRED else None)"

type_synonym states = "(string \<times> payment_state) list"

fun dict_set :: "'k \<Rightarrow> 'v \<Rightarrow> ('k \<times> 'v) list \<Rightarrow> ('k \<times> 'v) list" where
  \<comment> \<open>\<open>d[k] = v\<close>: an existing key keeps its place\<close>
  "dict_set k v [] = [(k, v)]"
| "dict_set k v ((k', v') # d) = (if k' = k then (k, v) # d else (k', v') # dict_set k v d)"

definition read_item :: "states \<Rightarrow> json \<Rightarrow> states" where
  "read_item states item = (case item of
      JObj obj \<Rightarrow> (case (json_get obj ''invoice_id'', json_get obj ''status'') of
          (JNull, _) \<Rightarrow> states
        | (x, JStr status) \<Rightarrow> (case state_by_status status of
            Some st \<Rightarrow> dict_set (py_str x) st states | None \<Rightarrow> states)
        | _ \<Rightarrow> states)
    | _ \<Rightarrow> states)"

definition read_items :: "states \<Rightarrow> (string \<times> json) list \<Rightarrow> states" where
  "read_items states result = (case json_get result ''items'' of
      JList items \<Rightarrow> foldl read_item states items | _ \<Rightarrow> states)"

definition states_per_request :: nat where
  "states_per_request = 100"

function batches :: "nat \<Rightarrow> 'a list \<Rightarrow> 'a list list" where
  \<comment> \<open>\<open>for offset in range(0, len(xs), n): xs[offset : offset + n]\<close>\<close>
  "batches n xs = (if n = 0 \<or> xs = [] then [] else take n xs # batches n (drop n xs))"
  by pat_completeness auto
termination by (relation "measure (\<lambda>(n, xs). length xs)") auto

declare batches.simps [simp del]

fun fetch_batches :: "env \<Rightarrow> string list list \<Rightarrow> states \<Rightarrow> states action" where
  "fetch_batches E [] states = ret states"
| "fetch_batches E (b # bs) states =
     bindM (call_api E ''getInvoices'' [(''invoice_ids'', JStr (join_with '','' b))]) (\<lambda>result.
       fetch_batches E bs (read_items states result))"

definition fetch_states :: "env \<Rightarrow> string list \<Rightarrow> states action" where
  "fetch_states E external_ids = fetch_batches E (batches states_per_request external_ids) []"

subsection \<open>Webhook signatures\<close>

definition verify_signature :: "env \<Rightarrow> string \<Rightarrow> string option \<Rightarrow> bool" where
  "verify_signature E body signature = (case signature of
      None \<Rightarrow> False
    | Some s \<Rightarrow> s \<noteq> [] \<and> env_signature E (cb_api_token (crypto_conf E)) body = s)"

subsection \<open>Facts\<close>

lemma crypto_pay_request_run:
  "crypto_pay_request E meth payload w =
     (Inr (env_crypto_pay E (requests w) meth payload),
      after_request E (CallCryptoPay meth payload) True w)"
  by (simp add: crypto_pay_request_def)

lemma call_api_run:
  "call_api E meth payload w =
     (read_response meth (env_crypto_pay E (requests w) meth payload),
      after_request E (CallCryptoPay meth payload) True w)"
  by (simp add: call_api_def bindM_run crypto_pay_request_run split: sum.split)

lemma read_response_error:
  "read_response meth r = Inl e \<Longrightarrow> exn_cls e = PaymentGatewayError"
  by (auto simp: read_response_def gateway_error_def split: http_outcome.splits if_splits option.splits json.splits)

lemma call_api_error:
  "call_api E meth payload w = (Inl e, w') \<Longrightarrow> exn_cls e = PaymentGatewayError"
  by (auto simp: call_api_run dest: read_response_error)

lemma along_call_api_db: "db (snd (call_api E meth payload w)) = db w"
  by (simp add: call_api_run after_request_def)

lemma concat_batches: "0 < n \<Longrightarrow> concat (batches n xs) = xs"
  by (induction n xs rule: batches.induct) (subst batches.simps, auto)

lemma batches_small: "b \<in> set (batches n xs) \<Longrightarrow> 0 < length b \<and> length b \<le> n"
  by (induction n xs rule: batches.induct) (subst (asm) (2) batches.simps, auto split: if_splits)

lemma fetch_batches_db: "db (snd (fetch_batches E bs st w)) = db w"
proof (induction bs arbitrary: st w)
  case (Cons b bs)
  show ?case
    using Cons.IH by (simp add: bindM_run call_api_run after_request_def split: sum.split)
qed simp

lemma fetch_states_db: "db (snd (fetch_states E xs w)) = db w"
  by (simp add: fetch_states_def fetch_batches_db)

lemma fetch_batches_error:
  "fetch_batches E bs st w = (Inl e, w') \<Longrightarrow> exn_cls e = PaymentGatewayError"
proof (induction bs arbitrary: st w)
  case (Cons b bs)
  then show ?case
    by (auto simp: bindM_run call_api_run dest: read_response_error split: sum.splits)
qed simp

lemma fetch_batches_trace:
  "\<exists>n. effects (snd (fetch_batches E bs st w)) = effects w @ map (\<lambda>b.
       (CallCryptoPay ''getInvoices'' [(''invoice_ids'', JStr (join_with '','' b))], True)) (take n bs)
     \<and> (case fst (fetch_batches E bs st w) of
          Inl e \<Rightarrow> exn_cls e = PaymentGatewayError | Inr _ \<Rightarrow> n = length bs)"
proof (induction bs arbitrary: st w)
  case Nil
  then show ?case by simp
next
  case (Cons b bs)
  let ?pl = "[(''invoice_ids'', JStr (join_with '','' b))]"
  let ?eff = "CallCryptoPay ''getInvoices'' ?pl"
  let ?w = "after_request E ?eff True w"
  show ?case
  proof (cases "read_response ''getInvoices'' (env_crypto_pay E (requests w) ''getInvoices'' ?pl)")
    case (Inl e)
    then show ?thesis
      using read_response_error [OF Inl]
      by (auto simp: bindM_run call_api_run after_request_def intro!: exI [of _ 1])
  next
    case (Inr result)
    from Cons.IH [of "read_items st result" ?w] obtain n where
      "effects (snd (fetch_batches E bs (read_items st result) ?w)) = effects ?w @ map (\<lambda>b.
       (CallCryptoPay ''getInvoices'' [(''invoice_ids'', JStr (join_with '','' b))], True)) (take n bs)"
      "case fst (fetch_batches E bs (read_items st result) ?w) of
          Inl e \<Rightarrow> exn_cls e = PaymentGatewayError | Inr _ \<Rightarrow> n = length bs"
      by blast
    then show ?thesis
      using Inr by (intro exI [of _ "Suc n"]) (simp add: bindM_run call_api_run after_request_def split: sum.splits)
  qed
qed

text \<open>
  Reading invoice states asks about every id exactly once, in order and at most a hundred per
  request; the first failing request ends it, and whatever went wrong (no connection, an HTTP error,
  a malformed or rejected answer) the caller sees a \<open>PaymentGatewayError\<close>.
\<close>

theorem fetch_states_batches:
  "\<exists>n. effects (snd (fetch_states E ids w)) = effects w @ map (\<lambda>b.
       (CallCryptoPay ''getInvoices'' [(''invoice_ids'', JStr (join_with '','' b))], True))
         (take n (batches 100 ids))
     \<and> (case fst (fetch_states E ids w) of
          Inl e \<Rightarrow> exn_cls e = PaymentGatewayError | Inr _ \<Rightarrow> n = length (batches 100 ids))
     \<and> concat (batches 100 ids) = ids
     \<and> list_all (\<lambda>b. 0 < length b \<and> length b \<le> 100) (batches 100 ids)
     \<and> db (snd (fetch_states E ids w)) = db w"
  using fetch_batches_trace [of E "batches 100 ids" "[]" w] batches_small [of _ 100 ids]
    concat_batches [of 100 ids] fetch_states_db [of E ids w]
  by (auto simp: fetch_states_def states_per_request_def list_all_iff)

end
