(* ===== verification/Checkout.thy ===== *)
theory Checkout
  imports DeliveryService CryptoBot
begin

section \<open>Checkout, settlement, verification\<close>

text \<open>
  \<^verbatim>\<open>services/checkout.py\<close>: a pressed payment button becomes a pending purchase and an invoice, a
  payment becomes a confirmation followed by a delivery, and the manual check of one purchase asks
  the provider for the truth.
\<close>

subsection \<open>Operations\<close>

record crypto_checkout =
  cc_purchase :: purchase
  cc_pay_url :: string

definition start_stars_checkout :: "env \<Rightarrow> int \<Rightarrow> product \<Rightarrow> purchase action" where
  "start_stars_checkout E user_id p =
     bindM (new_uuid E) (\<lambda>u. let payload = uuid_hex u in
     bindM (start_purchase E user_id (pr_id p) STARS payload) (\<lambda>purchase.
     thenM (send_invoice E
        \<lparr>inv_user_id = user_id, inv_product_id = pr_id p, inv_title = pr_title p,
         inv_description = pr_description p, inv_amount = pu_amount purchase,
         inv_currency = pu_currency purchase, inv_payload = payload\<rparr>)
       (ret purchase)))"

definition start_crypto_checkout :: "env \<Rightarrow> int \<Rightarrow> product \<Rightarrow> crypto_checkout action" where
  "start_crypto_checkout E user_id p =
     bindM (find_owned user_id (pr_id p)) (\<lambda>owned.
     if owned \<noteq> None then throw (err DuplicatePurchaseError
          [(''product_id'', JStr (uuid_str (pr_id p))), (''user_id'', JInt user_id)])
     else
     bindM (new_uuid E) (\<lambda>u.
     bindM (create_invoice E
        \<lparr>inv_user_id = user_id, inv_product_id = pr_id p, inv_title = pr_title p,
         inv_description = pr_description p,
         inv_amount = (case price_for p CRYPTO of Some x \<Rightarrow> x | None \<Rightarrow> 0),
         inv_currency = provider_currency CRYPTO, inv_payload = uuid_hex u\<rparr>) (\<lambda>inv.
     bindM (start_purchase E user_id (pr_id p) CRYPTO (invoice_external_id inv)) (\<lambda>purchase.
       ret \<lparr>cc_purchase = purchase,
            cc_pay_url = (case invoice_pay_url inv of Some url \<Rightarrow> url | None \<Rightarrow> [])\<rparr>))))"

definition settle_payment ::
  "env \<Rightarrow> payment_provider \<Rightarrow> string \<Rightarrow> string option \<Rightarrow> datetime option \<Rightarrow> delivery_result action" where
  "settle_payment E provider external_id charge_id paid_at =
     bindM (confirm_payment E provider external_id charge_id paid_at) (\<lambda>p.
       deliver_purchase E (pu_id p))"

definition checkout_redeliver :: "env \<Rightarrow> uuid \<Rightarrow> delivery_result action" where
  "checkout_redeliver E purchase_id = redeliver E purchase_id"

subsection \<open>Verification\<close>

definition report ::
  "purchase \<Rightarrow> verification_outcome \<Rightarrow> purchase_status \<Rightarrow> payment_state option \<Rightarrow> delivery_result option
     \<Rightarrow> string option \<Rightarrow> verification_report" where
  \<comment> \<open>\<open>_report\<close>\<close>
  "report p out before state delivery detail =
     \<lparr>vr_purchase_id = pu_id p, vr_provider = pu_provider p, vr_outcome = out,
      vr_status_before = before, vr_status_after = pu_status p, vr_provider_state = state,
      vr_delivery = delivery, vr_detail = detail\<rparr>"

definition settle_and_report ::
  "env \<Rightarrow> purchase \<Rightarrow> purchase_status \<Rightarrow> payment_state \<Rightarrow> string option \<Rightarrow> verification_report action" where
  "settle_and_report E p before state charge_id =
     bindM (settle_payment E (pu_provider p) (pu_external_id p) charge_id None) (\<lambda>result.
     bindM (svc_get_purchase (pu_id p)) (\<lambda>refreshed.
       ret (report refreshed
         (if succeeded result then VO_SETTLED_AND_DELIVERED else VO_DELIVERY_FAILED)
         before (Some state) (Some result) None)))"

definition no_evidence_detail :: string where
  "no_evidence_detail = ''Telegram Stars provides no invoice lookup and no charge id was recorded for this invoice, so no payment ever reached the bot.''"

definition verify_stars :: "env \<Rightarrow> purchase \<Rightarrow> purchase_status \<Rightarrow> verification_report action" where
  "verify_stars E p before =
     (if \<not> truthy (pu_telegram_charge_id p)
      then ret (report p VO_NO_PROVIDER_EVIDENCE before None None (Some no_evidence_detail))
      else settle_and_report E p before PS_PAID (pu_telegram_charge_id p))"

definition unknown_invoice_detail :: string where
  "unknown_invoice_detail = ''The provider does not know this invoice any more.''"

definition fetch_or_report :: "env \<Rightarrow> purchase \<Rightarrow> purchase_status \<Rightarrow> (verification_report + states) action" where
  \<comment> \<open>the \<open>try: fetch_states ... except AppError: return\<close>\<close>
  "fetch_or_report E p before =
     catchM (bindM (fetch_states E [pu_external_id p]) (\<lambda>states. ret (Inr states)))
       (on_class [AppError] (\<lambda>e. ret (Inl (report p VO_PROVIDER_UNAVAILABLE before None None
          (Some (exn_message e))))))"

definition verify_crypto :: "env \<Rightarrow> purchase \<Rightarrow> purchase_status \<Rightarrow> verification_report action" where
  "verify_crypto E p before =
     bindM (fetch_or_report E p before) (\<lambda>r. case r of
       Inl unavailable \<Rightarrow> ret unavailable
     | Inr states \<Rightarrow>
         (case map_of states (pu_external_id p) of
            Some PS_PAID \<Rightarrow> settle_and_report E p before PS_PAID None
          | Some PS_EXPIRED \<Rightarrow> ret (report p VO_EXPIRED_UNPAID before (Some PS_EXPIRED) None None)
          | state \<Rightarrow> ret (report p VO_STILL_UNPAID before state None
              (case state of Some _ \<Rightarrow> None | None \<Rightarrow> Some unknown_invoice_detail))))"

definition verify_payment :: "env \<Rightarrow> uuid \<Rightarrow> verification_report action" where
  "verify_payment E purchase_id =
     bindM (svc_get_purchase purchase_id) (\<lambda>p.
     let before = pu_status p in
     if pu_status p = REFUNDED then ret (report p VO_REFUNDED before None None None)
     else if pu_status p = DELIVERED then ret (report p VO_ALREADY_DELIVERED before None None None)
     else if pu_status p = PAID then
       bindM (deliver_purchase E purchase_id) (\<lambda>result.
       bindM (svc_get_purchase purchase_id) (\<lambda>refreshed.
         ret (report refreshed (if succeeded result then VO_DELIVERED_NOW else VO_DELIVERY_FAILED)
                before None (Some result) None)))
     else if pu_provider p = STARS then verify_stars E p before
     else verify_crypto E p before)"

subsection \<open>The checkout under the contract\<close>

lemma fetch_states_same_db: "fetch_states E ids w = (r, w') \<Longrightarrow> db w' = db w"
  by (metis fetch_states_db snd_conv)

context shop_preorder
begin

lemma send_invoice_moves: "moves R (send_invoice E r)"
  by (rule moves_same_db)
    (auto simp: send_invoice_def catchM_run telegram_request_run on_class_def split: option.split)

lemma create_invoice_moves: "moves R (create_invoice E r)"
  by (rule moves_same_db) (simp add: create_invoice_def bindM_run call_api_run split: sum.split)

lemma fetch_states_moves: "moves R (fetch_states E ids)"
  by (rule moves_same_db) (rule fetch_states_db)

lemma fetch_or_report_moves: "moves R (fetch_or_report E p before)"
  by (rule moves_same_db) (auto simp: fetch_or_report_def catchM_run bindM_run on_class_def
      split: prod.split sum.split option.split dest: fetch_states_same_db)

lemma start_stars_checkout_moves: "moves R (start_stars_checkout E u p)"
  unfolding start_stars_checkout_def
  by (intro svc_rules start_purchase_moves send_invoice_moves)

lemma start_crypto_checkout_moves: "moves R (start_crypto_checkout E u p)"
  unfolding start_crypto_checkout_def
  by (intro svc_rules find_owned_moves create_invoice_moves start_purchase_moves)

lemma settle_payment_moves: "moves R (settle_payment E v x c t)"
  unfolding settle_payment_def
  by (intro svc_rules confirm_payment_moves deliver_purchase_moves)

lemma checkout_redeliver_moves: "moves R (checkout_redeliver E i)"
  unfolding checkout_redeliver_def by (rule redeliver_moves)

lemma settle_and_report_moves: "moves R (settle_and_report E p before st c)"
  unfolding settle_and_report_def
  by (intro svc_rules settle_payment_moves svc_get_purchase_moves)

lemma verify_crypto_moves: "moves R (verify_crypto E p before)"
  unfolding verify_crypto_def
  by (intro svc_rules fetch_or_report_moves)
    (auto split: option.split payment_state.split intro!: w.along_ret settle_and_report_moves)

lemma verify_stars_moves: "moves R (verify_stars E p before)"
  unfolding verify_stars_def by (intro svc_rules settle_and_report_moves)

lemma verify_payment_moves: "moves R (verify_payment E i)"
  unfolding verify_payment_def
  by (intro svc_rules svc_get_purchase_moves deliver_purchase_moves verify_stars_moves verify_crypto_moves)

end

subsection \<open>A sample run\<close>

definition sample_crypto_purchase :: purchase where
  "sample_crypto_purchase = (sample_purchase PENDING)\<lparr>pu_provider := CRYPTO, pu_currency := USDT,
     pu_amount := 5, pu_external_id := ''77''\<rparr>"

lemma sample_crypto_purchase_sel [simp]:
  "pu_id sample_crypto_purchase = 10" "pu_provider sample_crypto_purchase = CRYPTO"
  "pu_status sample_crypto_purchase = PENDING" "pu_external_id sample_crypto_purchase = ''77''"
  by (simp_all add: sample_crypto_purchase_def)

lemma sample_crypto_db_ok [simp]: "db_ok (sample_db [sample_crypto_purchase])"
  by (simp add: db_ok_def schema_ok_def sample_crypto_purchase_def sample_purchase_def sample_product_def
      sample_user_def product_row_ok_def user_row_ok_def purchase_row_ok_def purchases_unique_def
      unique_on_def fields_follow_status_def product_fits_def product_stored_def user_fits_def
      purchase_fits_def purchase_stored_def fits_numeric_def fits_string_def fits_int_def
      delivery_complete_def paid_at_present_def slug_body_def slug_char_def slug_max_length_def
      is_ascii_letter_def is_ascii_digit_def)

lemma sample_attempts [simp]: "dl_max_attempts (delivery_conf sample_env) = 4"
  by (simp add: delivery_conf_def sample_env_def sample_settings_def default_delivery_def)

subsection \<open>Starting a checkout\<close>

lemma start_purchase_success:
  assumes "db_ok (db w)" and "start_purchase E u i v x w = (Inr q, w')"
  shows "\<exists>amount. offered (db w) i v = Some amount \<and> \<not> owns (db w) u i
     \<and> db w' = (db w)\<lparr>purchases := purchases (db w) @ [q]\<rparr> \<and> effects w' = effects w
     \<and> pu_status q = PENDING \<and> pu_amount q = amount \<and> pu_currency q = provider_currency v
     \<and> pu_external_id q = x \<and> pu_user_id q = u \<and> pu_product_id q = i \<and> pu_provider q = v"
  using assms(2) unfolding start_purchase_def
proof (cases rule: with_lock_cases)
  case (held w1 w2)
  let ?i = "env_uuid4 E (uuids_drawn w1)"
  from held obtain d where tx: "start_tx u i v x ?i (clock w1) (db w1) = (Inr q, d)"
    and "w2 = w1\<lparr>uuids_drawn := Suc (uuids_drawn w1), db := d\<rparr>"
    by (auto simp: bindM_run new_uuid_def in_uow_commit)
  with start_tx_success [OF _ tx] assms(1) held show ?thesis by auto
qed simp

lemma start_purchase_failure:
  assumes "start_purchase E u i v x w = (Inl e, w')"
  shows "db w' = db w \<and> effects w' = effects w"
  using assms unfolding start_purchase_def
proof (cases rule: with_lock_cases)
  case (held w1 w2)
  then show ?thesis by (auto simp: bindM_run new_uuid_def in_uow_fails)
qed simp

lemma send_invoice_run:
  obtains r' where "send_invoice E r w = (r', after_request E (SendStarsInvoice (stars_message r))
     (r' = Inr ()) w)"
proof (cases "env_telegram E (requests w) (SendStarsInvoice (stars_message r))")
  case None
  then show thesis by (intro that [of "Inr ()"]) (simp add: send_invoice_def catchM_run telegram_request_run)
next
  case (Some e)
  then show thesis
    by (intro that [of "fst (send_invoice E r w)"])
      (simp add: send_invoice_def catchM_run telegram_request_run on_class_def split: option.split)
qed

text \<open>
  A Stars invoice goes out only for a recorded pending purchase: pressing the button makes at
  most one request, it is the invoice whose payload, amount and currency are those of the purchase
  that was just appended at the price on sale, and every failure before that point leaves database
  and outside alone.
\<close>

theorem stars_invoice_is_recorded:
  assumes "db_ok (db w)" and "start_stars_checkout E u p w = (r, w')"
  shows "(db w' = db w \<and> effects w' = effects w \<and> (\<exists>e. r = Inl e))
     \<or> (\<exists>q sent. db w' = (db w)\<lparr>purchases := purchases (db w) @ [q]\<rparr>
          \<and> pu_status q = PENDING \<and> pu_user_id q = u \<and> pu_product_id q = pr_id p
          \<and> offered (db w) (pr_id p) STARS = Some (pu_amount q) \<and> \<not> owns (db w) u (pr_id p)
          \<and> effects w' = effects w @ [(SendStarsInvoice (stars_message
              \<lparr>inv_user_id = u, inv_product_id = pr_id p, inv_title = pr_title p,
               inv_description = pr_description p, inv_amount = pu_amount q,
               inv_currency = XTR, inv_payload = pu_external_id q\<rparr>), sent)]
          \<and> (sent \<longrightarrow> r = Inr q))"
proof -
  let ?x = "uuid_hex (env_uuid4 E (uuids_drawn w))"
  let ?w = "w\<lparr>uuids_drawn := Suc (uuids_drawn w)\<rparr>"
  obtain r1 w1 where start: "start_purchase E u (pr_id p) STARS ?x ?w = (r1, w1)"
    by (cases "start_purchase E u (pr_id p) STARS ?x ?w")
  show ?thesis
  proof (cases r1)
    case (Inl e)
    with start assms(2) show ?thesis
      using start_purchase_failure [of E u "pr_id p" STARS ?x ?w e w1]
      by (auto simp: start_stars_checkout_def bindM_run new_uuid_def Let_def)
  next
    case (Inr q)
    from start_purchase_success [OF _ start [unfolded Inr]] assms(1)
    have q: "offered (db w) (pr_id p) STARS = Some (pu_amount q)" "\<not> owns (db w) u (pr_id p)"
        "db w1 = (db w)\<lparr>purchases := purchases (db w) @ [q]\<rparr>" "effects w1 = effects w"
        "pu_status q = PENDING" "pu_currency q = XTR" "pu_external_id q = ?x"
        "pu_user_id q = u" "pu_product_id q = pr_id p"
      by auto
    let ?req = "\<lparr>inv_user_id = u, inv_product_id = pr_id p, inv_title = pr_title p,
        inv_description = pr_description p, inv_amount = pu_amount q, inv_currency = XTR,
        inv_payload = ?x\<rparr>"
    have "start_stars_checkout E u p w = thenM (send_invoice E ?req) (ret q) w1"
      using start Inr q by (simp add: start_stars_checkout_def bindM_run new_uuid_def Let_def)
    moreover obtain r2 where inv: "send_invoice E ?req w1 =
        (r2, after_request E (SendStarsInvoice (stars_message ?req)) (r2 = Inr ()) w1)"
      by (rule send_invoice_run)
    ultimately have "w' = after_request E (SendStarsInvoice (stars_message ?req)) (r2 = Inr ()) w1"
      and "r2 = Inr () \<longrightarrow> r = Inr q"
      using assms(2) by (auto simp: thenM_run split: sum.splits)
    with q show ?thesis by (intro disjI2 exI [of _ q] exI [of _ "r2 = Inr ()"]) auto
  qed
qed

theorem stars_invoice_is_recorded_witness:
  "\<exists>r w'. start_stars_checkout sample_env 7 sample_product (sample_world []) = (r, w')
     \<and> (purchases (db w') = [] \<and> effects w' = [] \<or> (\<exists>q. purchases (db w') = [q] \<and> pu_amount q = 100))"
proof -
  obtain r w' where run: "start_stars_checkout sample_env 7 sample_product (sample_world []) = (r, w')"
    by (cases "start_stars_checkout sample_env 7 sample_product (sample_world [])")
  from stars_invoice_is_recorded [OF _ run] run show ?thesis
    by (auto simp: offered_def price_for_def)
qed


lemma find_owned_run:
  assumes "db_ok (db w)"
  shows "find_owned u i w = (Inr (List.find (\<lambda>p. grants_access p \<and> (pu_user_id p, pu_product_id p) = (u, i))
     (purchases (db w))), w)"
  by (simp add: find_owned_def in_uow_def find_access_granting_run [OF assms])

lemma owns_find:
  "owns d u i = (List.find (\<lambda>p. grants_access p \<and> (pu_user_id p, pu_product_id p) = (u, i)) (purchases d) \<noteq> None)"
  by (auto simp: owns_def list_ex_iff find_None_iff)

lemma create_invoice_run:
  obtains r' where "create_invoice E r w = (r', after_request E
     (CallCryptoPay ''createInvoice'' (invoice_payload E r)) True w)"
  by (rule that [of "fst (create_invoice E r w)"]) (simp add: create_invoice_def bindM_run call_api_run split: sum.split)

text \<open>
  C34. The Crypto Pay invoice comes first: a buyer who owns the product causes no request, and
  anybody else exactly one, whether or not the product is still on sale. Only when it is on sale on
  that rail is a pending purchase recorded, under the id the provider gave; otherwise the invoice
  stays behind without a purchase and the caller gets an error.
\<close>

theorem crypto_invoice_first:
  assumes "db_ok (db w)" and "start_crypto_checkout E u p w = (r, w')"
  shows "if owns (db w) u (pr_id p)
     then w' = w \<and> (\<exists>e. r = Inl e \<and> exn_cls e = DuplicatePurchaseError)
     else (\<exists>payload. effects w' = effects w @ [(CallCryptoPay ''createInvoice'' payload, True)])
       \<and> (case r of
            Inl e \<Rightarrow> db w' = db w
          | Inr c \<Rightarrow> offered (db w) (pr_id p) CRYPTO = Some (pu_amount (cc_purchase c))
              \<and> pu_status (cc_purchase c) = PENDING
              \<and> db w' = (db w)\<lparr>purchases := purchases (db w) @ [cc_purchase c]\<rparr>)"
proof (cases "owns (db w) u (pr_id p)")
  case True
  then show ?thesis
    using assms(2) by (auto simp: start_crypto_checkout_def bindM_run find_owned_run [OF assms(1)] owns_find)
next
  case False
  let ?v = "w\<lparr>uuids_drawn := Suc (uuids_drawn w)\<rparr>"
  let ?req = "\<lparr>inv_user_id = u, inv_product_id = pr_id p, inv_title = pr_title p,
     inv_description = pr_description p,
     inv_amount = (case price_for p CRYPTO of Some x \<Rightarrow> x | None \<Rightarrow> 0),
     inv_currency = provider_currency CRYPTO, inv_payload = uuid_hex (env_uuid4 E (uuids_drawn w))\<rparr>"
  let ?eff = "CallCryptoPay ''createInvoice'' (invoice_payload E ?req)"
  let ?w1 = "after_request E ?eff True ?v"
  obtain r1 where create: "create_invoice E ?req ?v = (r1, ?w1)" by (rule create_invoice_run)
  have run: "start_crypto_checkout E u p w = (case r1 of Inl e \<Rightarrow> (Inl e, ?w1)
     | Inr iv \<Rightarrow> bindM (start_purchase E u (pr_id p) CRYPTO (invoice_external_id iv)) (\<lambda>purchase.
         ret \<lparr>cc_purchase = purchase,
            cc_pay_url = (case invoice_pay_url iv of Some url \<Rightarrow> url | None \<Rightarrow> [])\<rparr>) ?w1)"
    using False create by (simp add: start_crypto_checkout_def bindM_run find_owned_run [OF assms(1)]
        owns_find new_uuid_def split: sum.split)
  show ?thesis
  proof (cases r1)
    case (Inl e)
    then show ?thesis using run assms(2) False by auto
  next
    case (Inr iv)
    obtain r2 w2 where start: "start_purchase E u (pr_id p) CRYPTO (invoice_external_id iv) ?w1 = (r2, w2)"
      by (cases "start_purchase E u (pr_id p) CRYPTO (invoice_external_id iv) ?w1")
    show ?thesis
    proof (cases r2)
      case (Inl e)
      then show ?thesis
        using run Inr start assms(2) False start_purchase_failure [of E u _ _ _ ?w1 e w2]
        by (auto simp: bindM_run)
    next
      case (Inr q)
      have "db_ok (db ?w1)" using assms(1) by simp
      from start_purchase_success [OF this start [unfolded Inr]]
      show ?thesis using run \<open>r1 = Inr iv\<close> Inr start assms(2) False by (auto simp: bindM_run)
    qed
  qed
qed

theorem crypto_invoice_first_witness:
  "\<exists>r w' payload. start_crypto_checkout sample_env 7 sample_product (sample_world []) = (r, w')
     \<and> effects w' = [(CallCryptoPay ''createInvoice'' payload, True)]"
proof -
  obtain r w' where run: "start_crypto_checkout sample_env 7 sample_product (sample_world []) = (r, w')"
    by (cases "start_crypto_checkout sample_env 7 sample_product (sample_world [])")
  from crypto_invoice_first [OF _ run] run show ?thesis by (auto simp: owns_def)
qed


subsection \<open>Settling a payment\<close>

lemma find_invoice:
  assumes "db_ok d" and "p \<in> set (purchases d)"
  shows "List.find (\<lambda>q. pu_provider q = pu_provider p \<and> pu_external_id q = pu_external_id p) (purchases d) = Some p"
proof -
  have "unique_on (\<lambda>_. True) (\<lambda>q. (pu_provider q, pu_external_id q)) (purchases d)"
    using db_okD(6) [OF assms(1)] by (simp add: purchases_unique_def)
  then have "r = p" if "r \<in> set (purchases d)" "pu_provider r = pu_provider p" "pu_external_id r = pu_external_id p" for r
    using unique_onD that assms(2) by fastforce
  moreover obtain r where "List.find (\<lambda>q. pu_provider q = pu_provider p \<and> pu_external_id q = pu_external_id p)
      (purchases d) = Some r"
    using assms(2) by (cases "List.find (\<lambda>q. pu_provider q = pu_provider p \<and> pu_external_id q = pu_external_id p) (purchases d)")
      (auto simp: find_None_iff)
  ultimately show ?thesis using find_SomeD by fastforce
qed

lemma confirm_tx_found:
  assumes "db_ok d" and "p \<in> set (purchases d)"
  shows "confirm_tx (pu_provider p) (pu_external_id p) charge paid_at now d = mark_paid now (pu_id p) paid_at charge d"
  by (simp add: confirm_tx_def bindM_run get_by_external_id_run [OF assms(1)] find_invoice [OF assms])

lemma mark_paid_keeps:
  assumes "db_ok d" and "mark_paid now i paid_at charge d = (r, e)"
  shows "db_ok e"
  using mark_paid_evolves alongD_eq [OF mark_paid_evolves assms(2)] assms(1) by (auto simp: evolves_def)

lemma confirm_payment_cases:
  assumes "db_ok (db w)" and "p \<in> set (purchases (db w))"
    and "confirm_payment E (pu_provider p) (pu_external_id p) charge paid_at w = (r, w')"
  obtains (busy) "r = Inl (err LockBusyError
        [(''lock_key'', JStr (payment_lock_key (pu_provider p) (pu_external_id p)))])"
      "db w' = db w" "effects w' = effects w"
  | (failed) e now d where "r = Inl e" "mark_paid now (pu_id p) paid_at charge (db w) = (Inl e, d)"
      "db w' = db w" "effects w' = effects w"
  | (confirmed) q now where "r = Inr q" "mark_paid now (pu_id p) paid_at charge (db w) = (Inr q, db w')"
      "effects w' = effects w"
  using assms(3) unfolding confirm_payment_def
proof (cases rule: with_lock_cases)
  case held: (held w1 w2)
  have tx: "confirm_tx (pu_provider p) (pu_external_id p) charge paid_at (clock w1) (db w1)
      = mark_paid (clock w1) (pu_id p) paid_at charge (db w)"
    using held(1) confirm_tx_found [OF assms(1,2)] by simp
  show thesis
  proof (cases r)
    case (Inl e)
    with held(7) obtain d where "mark_paid (clock w1) (pu_id p) paid_at charge (db w) = (Inl e, d)" "w2 = w1"
      by (auto simp: in_uow_fails tx)
    with Inl held show thesis by (intro failed) auto
  next
    case (Inr q)
    with held(7) obtain d where "mark_paid (clock w1) (pu_id p) paid_at charge (db w) = (Inr q, d)" "w2 = w1\<lparr>db := d\<rparr>"
      by (auto simp: in_uow_commit tx)
    with Inr held show thesis by (intro confirmed) auto
  qed
qed (rule busy)

text \<open>
  C8. A replayed notification does nothing twice: settling a payment whose purchase was already
  delivered changes no row, sends no message, and reports \<open>ALREADY_DELIVERED\<close> unless one of the two
  locks is busy.
\<close>

theorem settle_is_idempotent:
  assumes "db_ok (db w)" and "p \<in> set (purchases (db w))" and "pu_status p = DELIVERED"
    and "truthy charge \<Longrightarrow> pu_telegram_charge_id p \<noteq> None" and "0 < dl_max_attempts (delivery_conf E)"
    and "settle_payment E (pu_provider p) (pu_external_id p) charge paid_at w = (r, w')"
  shows "db w' = db w \<and> effects w' = effects w
     \<and> (case r of Inl e \<Rightarrow> exn_cls e = LockBusyError | Inr res \<Rightarrow> res_status res = ALREADY_DELIVERED)"
proof -
  obtain r1 w1 where conf: "confirm_payment E (pu_provider p) (pu_external_id p) charge paid_at w = (r1, w1)"
    by (cases "confirm_payment E (pu_provider p) (pu_external_id p) charge paid_at w")
  have settled: "mark_paid now (pu_id p) paid_at charge (db w) = (Inr p, db w)" for now
    using mark_paid_settled [OF assms(1,2)] assms(3,4) by simp
  have run: "settle_payment E (pu_provider p) (pu_external_id p) charge paid_at w =
      (case r1 of Inl e \<Rightarrow> (Inl e, w1) | Inr q \<Rightarrow> deliver_purchase E (pu_id q) w1)"
    by (simp add: settle_payment_def bindM_run conf split: sum.split)
  from assms(1,2) conf show ?thesis
  proof (cases rule: confirm_payment_cases)
    case (confirmed q now)
    then have same: "q = p" "db w1 = db w" using settled [of now] by auto
    with run confirmed(1) assms(6) have "deliver_purchase E (pu_id p) w1 = (r, w')" by simp
    from deliver_purchase_run [OF _ _ assms(5) this] same assms(1-3) confirmed(3)
    show ?thesis by auto
  qed (use run assms(6) settled in auto)
qed

theorem settle_is_idempotent_witness:
  "\<exists>r w'. settle_payment sample_env STARS ''inv'' (Some ''ch'') None (sample_world [sample_purchase DELIVERED])
       = (r, w') \<and> db w' = sample_db [sample_purchase DELIVERED] \<and> effects w' = []"
proof -
  obtain r w' where run:
    "settle_payment sample_env STARS ''inv'' (Some ''ch'') None (sample_world [sample_purchase DELIVERED]) = (r, w')"
    by (cases "settle_payment sample_env STARS ''inv'' (Some ''ch'') None (sample_world [sample_purchase DELIVERED])")
  from settle_is_idempotent [where w = "sample_world [sample_purchase DELIVERED]" and E = sample_env
      and p = "sample_purchase DELIVERED" and charge = "Some ''ch''" and paid_at = None and r = r and w' = w']
  show ?thesis using run by simp
qed


text \<open>
  C7. A payment that arrives for an unpaid (or already expired) invoice is recorded before anything
  is sent: either a lock of the payment is busy and nothing happened, or the purchase is paid with
  the charge of the notification, and from there it is delivered exactly when a message got through.
  In particular no outcome of the delivery loses the payment.
\<close>

theorem settle_records_then_delivers:
  assumes "db_ok (db w)" and "p \<in> set (purchases (db w))" and "pu_status p \<in> {PENDING, EXPIRED}"
    and "fits_string 128 charge" and "\<not> (truthy charge \<and> charge_taken (db w) charge)"
    and "\<not> owns (db w) (pu_user_id p) (pu_product_id p)" and "0 < dl_max_attempts (delivery_conf E)"
    and "settle_payment E (pu_provider p) (pu_external_id p) charge paid_at w = (r, w')"
  shows "(db w' = db w \<and> effects w' = effects w \<and> (\<exists>e. r = Inl e \<and> exn_cls e = LockBusyError))
     \<or> (\<exists>now. let q = paid_version now paid_at charge p;
                d = (db w)\<lparr>purchases := replace_row pu_id q (purchases (db w))\<rparr> in
          (db w' = d \<and> effects w' = effects w \<and> (\<exists>e. r = Inl e \<and> exn_cls e = LockBusyError))
          \<or> (\<exists>res tr. r = Inr res \<and> effects w' = effects w @ tr \<and> hand_over E q res d tr (db w')))"
proof -
  obtain r1 w1 where conf: "confirm_payment E (pu_provider p) (pu_external_id p) charge paid_at w = (r1, w1)"
    by (cases "confirm_payment E (pu_provider p) (pu_external_id p) charge paid_at w")
  let ?q = "\<lambda>now. paid_version now paid_at charge p"
  let ?d = "\<lambda>now. (db w)\<lparr>purchases := replace_row pu_id (?q now) (purchases (db w))\<rparr>"
  have paid: "mark_paid now (pu_id p) paid_at charge (db w) = (Inr (?q now), ?d now)" for now
    using mark_paid_unpaid [OF assms(1-4)] assms(5,6) by auto
  have run: "settle_payment E (pu_provider p) (pu_external_id p) charge paid_at w =
      (case r1 of Inl e \<Rightarrow> (Inl e, w1) | Inr q \<Rightarrow> deliver_purchase E (pu_id q) w1)"
    by (simp add: settle_payment_def bindM_run conf split: sum.split)
  from assms(1,2) conf show ?thesis
  proof (cases rule: confirm_payment_cases)
    case (confirmed q now)
    then have same: "q = ?q now" "db w1 = ?d now" using paid [of now] by auto
    have ok: "db_ok (db w1)" and p: "?q now \<in> set (purchases (db w1))"
      using mark_paid_keeps [OF assms(1) paid [of now]] same(2) mark_paid_success [OF assms(1) paid [of now]]
      by auto
    from run confirmed(1) same(1) assms(8) have "deliver_purchase E (pu_id (?q now)) w1 = (r, w')" by simp
    from deliver_purchase_run [OF ok p assms(7) this] same(2) confirmed(3)
    show ?thesis by (intro disjI2 exI [of _ now]) (auto simp: Let_def)
  qed (use run assms(8) paid in auto)
qed

theorem settle_records_then_delivers_witness:
  "\<exists>r w'. settle_payment sample_env STARS ''inv'' (Some ''ch'') None (sample_world [sample_purchase PENDING])
       = (r, w') \<and> (db w' = sample_db [sample_purchase PENDING] \<and> effects w' = []
          \<or> effects w' = [] \<or> (\<exists>res q d tr. r = Inr res \<and> effects w' = tr \<and> hand_over sample_env q res d tr (db w')))"
proof -
  obtain r w' where run:
    "settle_payment sample_env STARS ''inv'' (Some ''ch'') None (sample_world [sample_purchase PENDING]) = (r, w')"
    by (cases "settle_payment sample_env STARS ''inv'' (Some ''ch'') None (sample_world [sample_purchase PENDING])")
  from settle_records_then_delivers [where w = "sample_world [sample_purchase PENDING]" and E = sample_env
      and p = "sample_purchase PENDING" and charge = "Some ''ch''" and paid_at = None and r = r and w' = w']
  show ?thesis using run by (auto simp: fits_string_def charge_taken_def owns_def Let_def)
qed


subsection \<open>Verifying a payment\<close>

lemma svc_get_purchase_run:
  assumes "db_ok (db w)" and "p \<in> set (purchases (db w))"
  shows "svc_get_purchase (pu_id p) w = (Inr p, w)"
  by (simp add: svc_get_purchase_def bindM_run in_uow_def purchase_get_def get_by_key_def purchase_found_def
      purchase_found_by_id [OF assms])

text \<open>
  Asking about a purchase that is finished, refunded, or an unpaid Stars purchase only reports:
  the world stays as it is, and the outcome names the reason. (An unpaid purchase carries no charge
  id, so for Stars the answer is always that there is no evidence.)
\<close>

theorem verify_reports_only:
  assumes "db_ok (db w)" and "p \<in> set (purchases (db w))"
    and "pu_status p \<in> {REFUNDED, DELIVERED} \<or> pu_status p \<noteq> PAID \<and> pu_provider p = STARS"
  shows "\<exists>detail. verify_payment E (pu_id p) w = (Inr
     \<lparr>vr_purchase_id = pu_id p, vr_provider = pu_provider p,
      vr_outcome = (case pu_status p of REFUNDED \<Rightarrow> VO_REFUNDED | DELIVERED \<Rightarrow> VO_ALREADY_DELIVERED
         | _ \<Rightarrow> VO_NO_PROVIDER_EVIDENCE),
      vr_status_before = pu_status p, vr_status_after = pu_status p, vr_provider_state = None,
      vr_delivery = None, vr_detail = detail\<rparr>, w)"
proof (cases "pu_status p = PENDING \<or> pu_status p = EXPIRED")
  case True
  then have "\<not> truthy (pu_telegram_charge_id p)" using unpaid_fields [OF assms(1,2)] by simp
  then show ?thesis using True assms(3)
    by (auto simp: verify_payment_def bindM_run svc_get_purchase_run [OF assms(1,2)] Let_def
        verify_stars_def report_def)
next
  case False
  then show ?thesis using assms(3)
    by (cases "pu_status p") (auto simp: verify_payment_def bindM_run svc_get_purchase_run [OF assms(1,2)]
        Let_def report_def)
qed

theorem verify_reports_only_witness:
  "\<exists>rep. verify_payment sample_env 10 (sample_world [sample_purchase PENDING])
       = (Inr rep, sample_world [sample_purchase PENDING]) \<and> vr_outcome rep = VO_NO_PROVIDER_EVIDENCE"
  using verify_reports_only [of "sample_world [sample_purchase PENDING]" "sample_purchase PENDING" sample_env]
  by auto


lemma fetch_states_error: "fetch_states E ids w = (Inl e, w') \<Longrightarrow> isinstance e AppError"
  using fetch_batches_error [of E _ _ w e w'] by (auto simp: fetch_states_def isinstance_def)

lemma fetch_or_report_run:
  "fetch_or_report E p before w = (case fetch_states E [pu_external_id p] w of
      (Inl e, v) \<Rightarrow> (Inr (Inl (report p VO_PROVIDER_UNAVAILABLE before None None (Some (exn_message e)))), v)
    | (Inr states, v) \<Rightarrow> (Inr (Inr states), v))"
  using fetch_states_error
  by (auto simp: fetch_or_report_def catchM_run bindM_run on_class_def split: prod.split sum.split)

text \<open>
  C24. Nobody becomes a buyer by asking: verifying an unpaid crypto purchase changes a row, or raises,
  only when the provider itself just said that this invoice is paid. Any other answer (no answer, an
  error, an unknown, active or expired invoice) is reported with the database as it was and nothing
  sent but the question.
\<close>

theorem verify_trusts_only_the_provider:
  assumes "db_ok (db w)" and "p \<in> set (purchases (db w))"
    and "pu_status p \<in> {PENDING, EXPIRED}" and "pu_provider p = CRYPTO"
    and "verify_payment E (pu_id p) w = (r, w')"
    and "\<And>states. fst (fetch_states E [pu_external_id p] w) = Inr states \<Longrightarrow>
           map_of states (pu_external_id p) \<noteq> Some PS_PAID"
  shows "db w' = db w \<and> w' = snd (fetch_states E [pu_external_id p] w)
     \<and> (\<exists>rep. r = Inr rep \<and> vr_status_after rep = pu_status p \<and> vr_delivery rep = None
          \<and> vr_outcome rep = (case fst (fetch_states E [pu_external_id p] w) of
              Inl _ \<Rightarrow> VO_PROVIDER_UNAVAILABLE
            | Inr states \<Rightarrow> (if map_of states (pu_external_id p) = Some PS_EXPIRED
                then VO_EXPIRED_UNPAID else VO_STILL_UNPAID)))"
proof -
  obtain f v where fetch: "fetch_states E [pu_external_id p] w = (f, v)"
    by (cases "fetch_states E [pu_external_id p] w")
  have run: "verify_payment E (pu_id p) w = verify_crypto E p (pu_status p) w"
    using assms(3,4) by (auto simp: verify_payment_def bindM_run svc_get_purchase_run [OF assms(1,2)] Let_def)
  have db: "db v = db w" using fetch by (rule fetch_states_same_db)
  show ?thesis
  proof (cases f)
    case (Inl e)
    then show ?thesis using assms(5) db
      by (auto simp: run verify_crypto_def bindM_run fetch_or_report_run fetch report_def)
  next
    case (Inr states)
    then show ?thesis using assms(5) assms(6) [of states] db
      by (cases "map_of states (pu_external_id p)")
        (auto simp: run verify_crypto_def bindM_run fetch_or_report_run fetch report_def
          split: payment_state.splits)
  qed
qed

lemma sample_provider_silent:
  "fst (fetch_states sample_env [x] w) \<noteq> Inr states"
  by (simp add: fetch_states_def states_per_request_def batches.simps [of 100 "[x]"] batches.simps [of 100 "[]"]
      bindM_run call_api_run read_response_def sample_env_def)

theorem verify_trusts_only_the_provider_witness:
  "\<exists>r w' rep. verify_payment sample_env 10 (sample_world [sample_crypto_purchase]) = (r, w')
     \<and> db w' = sample_db [sample_crypto_purchase] \<and> r = Inr rep \<and> vr_status_after rep = PENDING"
proof -
  obtain r w' where run: "verify_payment sample_env 10 (sample_world [sample_crypto_purchase]) = (r, w')"
    by (cases "verify_payment sample_env 10 (sample_world [sample_crypto_purchase])")
  have "fst (fetch_states sample_env [''77''] (sample_world [sample_crypto_purchase])) \<noteq> Inr states" for states
    by (rule sample_provider_silent)
  with verify_trusts_only_the_provider [of "sample_world [sample_crypto_purchase]" sample_crypto_purchase
      sample_env r w'] run
  show ?thesis by auto
qed


end
