(* ===== verification/Bot.thy ===== *)
theory Bot
  imports Checkout
begin

section \<open>The Telegram bot\<close>

text \<open>
  \<^verbatim>\<open>bot/texts.py\<close>, \<^verbatim>\<open>bot/keyboards.py\<close>, \<^verbatim>\<open>bot/handlers/start.py\<close>, \<^verbatim>\<open>bot/handlers/payments.py\<close>,
  \<^verbatim>\<open>bot/middlewares.py\<close> and the routing of \<^verbatim>\<open>bot/factory.py\<close>. An incoming update is a value of
  \<open>update\<close>; what the handlers say is a list of effects. The star and the gem in front of a price are
  outside Latin-1 and stand for themselves as one ASCII character. How aiogram packs callback data
  and matches filters is its own business: an update arrives already matched to its handler.
\<close>

subsection \<open>Texts and keyboards\<close>

definition money :: "rat \<Rightarrow> string" where
  \<comment> \<open>\<open>_money\<close> on the amounts of a card, which have at most two decimals\<close>
  "money x = (if x = of_int \<lfloor>x\<rfloor> then int_str \<lfloor>x\<rfloor>
     else (let cents = \<lfloor>x * 100\<rfloor> in int_str (cents div 100) @ ''.'' @ [digit_char (nat (cents mod 100 div 10))]
       @ (if cents mod 10 = 0 then [] else [digit_char (nat (cents mod 10))])))"

definition currency_symbol :: "currency_t \<Rightarrow> string" where
  "currency_symbol c = (if currency_value c = ''XTR'' then ''*'' else ''#'')"

definition option_line :: "payment_option \<Rightarrow> string" where
  "option_line opt = currency_symbol (opt_currency opt) @ '' '' @ money (opt_amount opt) @ '' ''
     @ currency_value (opt_currency opt)"

definition card_caption :: "product_card \<Rightarrow> string" where
  \<comment> \<open>\<open>product_card\<close>\<close>
  "card_caption crd = (let p = card_product crd in
     join_with [newline]
       ([''<b>'' @ html_escape (pr_title p) @ ''</b>'']
        @ (if pr_description p \<noteq> [] then [[], html_escape (pr_description p)] else [])
        @ [[]] @ map option_line (card_options crd)))"

datatype button_label = STARS_BUTTON | CRYPTO_BUTTON

fun button_label_of :: "payment_provider \<Rightarrow> button_label" where
  "button_label_of STARS = STARS_BUTTON"
| "button_label_of CRYPTO = CRYPTO_BUTTON"

record pay_callback =
  cbk_provider :: payment_provider
  cbk_product_id :: uuid

definition payment_keyboard :: "product_card \<Rightarrow> (button_label \<times> pay_callback) list" where
  "payment_keyboard crd = map (\<lambda>opt. (button_label_of (opt_provider opt),
     \<lparr>cbk_provider = opt_provider opt, cbk_product_id = pr_id (card_product crd)\<rparr>)) (card_options crd)"

subsection \<open>Answers\<close>

definition answer :: "env \<Rightarrow> int \<Rightarrow> bot_text \<Rightarrow> unit action" where
  "answer E chat t = telegram_request E (Answer chat t)"

definition answer_callback :: "env \<Rightarrow> int \<Rightarrow> bot_text option \<Rightarrow> unit action" where
  "answer_callback E user t = telegram_request E (AnswerCallback user t)"

definition answer_pre_checkout :: "env \<Rightarrow> bot_text option \<Rightarrow> unit action" where
  \<comment> \<open>\<open>None\<close> is \<open>ok=True\<close>, \<open>Some t\<close> is \<open>ok=False\<close> with the error message \<open>t\<close>\<close>
  "answer_pre_checkout E t = telegram_request E (AnswerPreCheckout t)"

subsection \<open>Handlers of \<^verbatim>\<open>start.py\<close>\<close>

definition handle_start_without_deep_link :: "env \<Rightarrow> int \<Rightarrow> unit action" where
  "handle_start_without_deep_link E chat = answer E chat NO_DEEP_LINK"

definition shown_card :: "env \<Rightarrow> int \<Rightarrow> user_draft \<Rightarrow> string \<Rightarrow> product_card option action" where
  \<comment> \<open>\<open>try: card = open_card(...) except ...: answer; return\<close>\<close>
  "shown_card E chat profile slug =
     catchM (bindM (open_card profile slug) (\<lambda>c. ret (Some c)))
      (or_else
        (on_class [ProductNotFoundError] (\<lambda>_. thenM (answer E chat CARD_NOT_FOUND) (ret None)))
        (on_class [ProductInactiveError] (\<lambda>_. thenM (answer E chat CARD_UNAVAILABLE) (ret None))))"

definition redeliver_again :: "env \<Rightarrow> int \<Rightarrow> uuid \<Rightarrow> unit action" where
  \<comment> \<open>the owned branch of \<open>handle_deep_link\<close>, after the first answer\<close>
  "redeliver_again E chat purchase_id =
     bindM (catchM (bindM (checkout_redeliver E purchase_id) (\<lambda>r. ret (Some r)))
              (on_class [LockBusyError] (\<lambda>_. ret None))) (\<lambda>m.
       case m of None \<Rightarrow> ret ()
       | Some result \<Rightarrow> whenM (\<not> succeeded result) (answer E chat TXT_DELIVERY_FAILED))"

definition handle_deep_link :: "env \<Rightarrow> int \<Rightarrow> user_draft \<Rightarrow> string option \<Rightarrow> unit action" where
  "handle_deep_link E chat profile args =
     (let payload = py_strip (case args of Some a \<Rightarrow> a | None \<Rightarrow> []) in
      if \<not> is_valid_slug payload then answer E chat CARD_NOT_FOUND
      else bindM (shown_card E chat profile payload) (\<lambda>m. case m of
         None \<Rightarrow> ret ()
       | Some crd \<Rightarrow> (case card_owned_purchase crd of
            Some owned \<Rightarrow> thenM (answer E chat ALREADY_PURCHASED) (redeliver_again E chat (pu_id owned))
          | None \<Rightarrow> telegram_request E (AnswerCard chat crd))))"

subsection \<open>Handlers of \<^verbatim>\<open>payments.py\<close>\<close>

definition start_checkout :: "env \<Rightarrow> int \<Rightarrow> payment_provider \<Rightarrow> product \<Rightarrow> unit action" where
  \<comment> \<open>the body of the second \<open>try\<close> of \<open>handle_pay_pressed\<close>\<close>
  "start_checkout E user provider p =
     (if provider = STARS
      then bindM (start_stars_checkout E user p) (\<lambda>_. answer_callback E user None)
      else bindM (start_crypto_checkout E user p) (\<lambda>c.
           thenM (answer_callback E user None)
             (telegram_request E (AnswerPayKeyboard user (cc_pay_url c)))))"

definition hand_link_over_again :: "env \<Rightarrow> int \<Rightarrow> product \<Rightarrow> unit action" where
  \<comment> \<open>the \<open>except DuplicatePurchaseError\<close> branch\<close>
  "hand_link_over_again E user p =
     thenM (answer_callback E user (Some ALREADY_PURCHASED))
      (bindM (find_owned user (pr_id p)) (\<lambda>owned. case owned of
          None \<Rightarrow> ret ()
        | Some q \<Rightarrow> catchM (bindM (checkout_redeliver E (pu_id q)) (\<lambda>_. ret ()))
                     (on_class [LockBusyError] (\<lambda>_. ret ()))))"

definition handle_pay_pressed :: "env \<Rightarrow> int \<Rightarrow> pay_callback \<Rightarrow> unit action" where
  "handle_pay_pressed E user cb =
     bindM (catchM (bindM (product_for_checkout (cbk_product_id cb)) (\<lambda>p. ret (Some p)))
        (on_class [ProductNotFoundError, ProductInactiveError]
           (\<lambda>_. thenM (answer_callback E user (Some CARD_UNAVAILABLE)) (ret None)))) (\<lambda>m.
     case m of None \<Rightarrow> ret ()
     | Some p \<Rightarrow>
         catchM (start_checkout E user (cbk_provider cb) p)
          (or_else (on_class [LockBusyError]
              (\<lambda>_. answer_callback E user (Some PAYMENT_IN_PROGRESS)))
          (or_else (on_class [DuplicatePurchaseError] (\<lambda>_. hand_link_over_again E user p))
          (or_else (on_class [ProviderNotSupportedError]
              (\<lambda>_. answer_callback E user (Some CARD_UNAVAILABLE)))
            (on_class [PaymentGatewayError]
              (\<lambda>_. answer_callback E user (Some PAYMENT_UNAVAILABLE)))))))"

definition still_sold :: "env \<Rightarrow> uuid \<Rightarrow> bool action" where
  \<comment> \<open>\<open>try: product_for_checkout(...) except ...: answer; return\<close>\<close>
  "still_sold E product_id =
     catchM (bindM (product_for_checkout product_id) (\<lambda>_. ret True))
      (on_class [ProductNotFoundError, ProductInactiveError]
         (\<lambda>_. thenM (answer_pre_checkout E (Some PRE_CHECKOUT_UNAVAILABLE)) (ret False)))"

definition handle_pre_checkout :: "env \<Rightarrow> string \<Rightarrow> unit action" where
  "handle_pre_checkout E inv_id =
     bindM (find_by_invoice STARS inv_id) (\<lambda>m. case m of
        None \<Rightarrow> answer_pre_checkout E (Some PRE_CHECKOUT_UNKNOWN)
      | Some p \<Rightarrow>
          if pu_status p \<in> {PAID, DELIVERED}
          then answer_pre_checkout E (Some PRE_CHECKOUT_ALREADY_OWNED)
          else bindM (still_sold E (pu_product_id p)) (\<lambda>sold.
            if \<not> sold then ret ()
            else bindM (find_owned (pu_user_id p) (pu_product_id p)) (\<lambda>owned.
              if owned \<noteq> None then answer_pre_checkout E (Some PRE_CHECKOUT_ALREADY_OWNED)
              else answer_pre_checkout E None)))"

definition handle_successful_payment :: "env \<Rightarrow> int \<Rightarrow> string \<Rightarrow> string \<Rightarrow> unit action" where
  "handle_successful_payment E chat inv_id charge_id =
     bindM (catchM (bindM (settle_payment E STARS inv_id (Some charge_id) None) (\<lambda>r. ret (Some r)))
        (or_else (on_class [LockBusyError] (\<lambda>_. ret None))
          (on_class [PurchaseNotFoundError]
             (\<lambda>_. thenM (answer E chat TXT_DELIVERY_FAILED) (ret None))))) (\<lambda>m.
      case m of None \<Rightarrow> ret ()
      | Some result \<Rightarrow> whenM (\<not> succeeded result) (answer E chat TXT_DELIVERY_FAILED))"

definition handle_refunded_payment :: "env \<Rightarrow> int \<Rightarrow> string \<Rightarrow> unit action" where
  "handle_refunded_payment E chat charge_id =
     bindM (catchM (bindM (refund_by_charge_id charge_id) (\<lambda>_. ret True))
        (on_class [PurchaseNotFoundError] (\<lambda>_. ret False))) (\<lambda>found.
      whenM found (answer E chat REFUND_NOTICE))"

subsection \<open>The throttle and the routing\<close>

datatype event_kind =
  EvMessage int | EvCallback int | EvUpdate "int option" "int option" | EvOther

definition notify_throttled :: "env \<Rightarrow> event_kind \<Rightarrow> unit action" where
  "notify_throttled E ev =
     catchM (case (case ev of EvUpdate (Some user) _ \<Rightarrow> EvCallback user
                   | EvUpdate None (Some chat) \<Rightarrow> EvMessage chat | e \<Rightarrow> e) of
          EvCallback user \<Rightarrow> answer_callback E user (Some TOO_FAST)
        | EvMessage chat \<Rightarrow> answer E chat TOO_FAST
        | _ \<Rightarrow> ret ())
      (on_class [ExceptionC] (\<lambda>_. ret ()))"

definition throttle_window :: "env \<Rightarrow> rat" where
  "throttle_window E = bot_throttle_seconds (cfg_bot (env_settings E))"

definition throttle :: "env \<Rightarrow> event_kind \<Rightarrow> int option \<Rightarrow> unit action \<Rightarrow> unit action" where
  \<comment> \<open>\<open>ThrottleMiddleware.__call__\<close>\<close>
  "throttle E ev user handler = (case user of
      None \<Rightarrow> handler
    | Some u \<Rightarrow>
        if throttle_window E \<le> 0 then handler
        else catchM (with_lock E (throttle_key u) (Some (throttle_window E)) None handler)
               (on_class [LockBusyError] (\<lambda>_. notify_throttled E ev)))"

datatype bot_update =
  StartPlain int int
| StartDeepLink int user_draft "string option"
| PayPressed int pay_callback
| PreCheckout string
| SuccessfulPayment int int string string
| RefundedPayment int int string

fun handle_update :: "env \<Rightarrow> bot_update \<Rightarrow> unit action" where
  \<comment> \<open>the dispatcher of \<open>create_dispatcher\<close>: messages and button presses pass the throttle\<close>
  "handle_update E (StartPlain chat user) =
     throttle E (EvMessage chat) (Some user) (handle_start_without_deep_link E chat)"
| "handle_update E (StartDeepLink chat profile args) =
     throttle E (EvMessage chat) (Some (ud_telegram_id profile)) (handle_deep_link E chat profile args)"
| "handle_update E (PayPressed user cb) =
     throttle E (EvCallback user) (Some user) (handle_pay_pressed E user cb)"
| "handle_update E (PreCheckout inv_id) = handle_pre_checkout E inv_id"
| "handle_update E (SuccessfulPayment chat user inv_id charge_id) =
     throttle E (EvMessage chat) (Some user) (handle_successful_payment E chat inv_id charge_id)"
| "handle_update E (RefundedPayment chat user charge_id) =
     throttle E (EvMessage chat) (Some user) (handle_refunded_payment E chat charge_id)"

subsection \<open>The last check before a charge\<close>

definition on_sale :: "database \<Rightarrow> uuid \<Rightarrow> bool" where
  "on_sale d i = (case List.find (\<lambda>p. pr_id p = i) (products d) of
     Some p \<Rightarrow> pr_is_active p | None \<Rightarrow> False)"

definition pre_checkout_verdict :: "database \<Rightarrow> string \<Rightarrow> bot_text option" where
  \<comment> \<open>what the buyer should hear: \<open>None\<close> lets Telegram charge\<close>
  "pre_checkout_verdict d x =
     (case List.find (\<lambda>p. pu_provider p = STARS \<and> pu_external_id p = x) (purchases d) of
        None \<Rightarrow> Some PRE_CHECKOUT_UNKNOWN
      | Some p \<Rightarrow>
          if pu_status p \<in> {PAID, DELIVERED} then Some PRE_CHECKOUT_ALREADY_OWNED
          else if \<not> on_sale d (pu_product_id p) then Some PRE_CHECKOUT_UNAVAILABLE
          else if owns d (pu_user_id p) (pu_product_id p) then Some PRE_CHECKOUT_ALREADY_OWNED
          else None)"

lemma telegram_request_result:
  obtains r where "telegram_request E eff w = (r, after_request E eff (r = Inr ()) w)"
  by (cases "env_telegram E (requests w) eff") (auto simp: telegram_request_run)

lemma product_for_checkout_run:
  "product_for_checkout i w = (case List.find (\<lambda>p. pr_id p = i) (products (db w)) of
      None \<Rightarrow> (Inl (err ProductNotFoundError [(''product_id'', JStr (uuid_str i))]), w)
    | Some p \<Rightarrow> if pr_is_active p then (Inr p, w)
        else (Inl (err ProductInactiveError [(''product_id'', JStr (uuid_str i))]), w))"
  by (simp add: product_for_checkout_def bindM_run in_uow_def product_get_def get_by_key_def split: option.split)

lemma still_sold_run:
  "still_sold E i w = (if on_sale (db w) i then (Inr True, w)
     else (thenM (answer_pre_checkout E (Some PRE_CHECKOUT_UNAVAILABLE)) (ret False)) w)"
  by (simp add: still_sold_def catchM_run bindM_run product_for_checkout_run on_sale_def on_class_def
      split: option.split)

lemma find_by_invoice_run:
  "db_ok (db w) \<Longrightarrow> find_by_invoice v x w =
     (Inr (List.find (\<lambda>p. pu_provider p = v \<and> pu_external_id p = x) (purchases (db w))), w)"
  by (simp add: find_by_invoice_def in_uow_def get_by_external_id_run)

lemma pre_checkout_run:
  assumes "db_ok (db w)"
  obtains r where "handle_pre_checkout E x w =
    (r, after_request E (AnswerPreCheckout (pre_checkout_verdict (db w) x)) (r = Inr ()) w)"
proof -
  let ?v = "pre_checkout_verdict (db w) x"
  obtain r where r: "telegram_request E (AnswerPreCheckout ?v) w
      = (r, after_request E (AnswerPreCheckout ?v) (r = Inr ()) w)"
    by (rule telegram_request_result)
  have "handle_pre_checkout E x w = telegram_request E (AnswerPreCheckout ?v) w"
    by (auto simp: handle_pre_checkout_def bindM_run find_by_invoice_run [OF assms] pre_checkout_verdict_def
        still_sold_run answer_pre_checkout_def thenM_run find_owned_run [OF assms] owns_find
        split: option.split prod.split sum.split)
  with r show thesis by (intro that) simp
qed

text \<open>
  C26. The pre-checkout query is answered exactly once, with the verdict, and the database is not
  touched. The charge is let through only for a known invoice of a product that is on sale and that
  the buyer does not own.
\<close>

theorem pre_checkout_answers:
  assumes "db_ok (db w)"
  shows "\<exists>r. handle_pre_checkout E x w =
    (r, after_request E (AnswerPreCheckout (pre_checkout_verdict (db w) x)) (r = Inr ()) w)"
  by (rule pre_checkout_run [OF assms]) blast

theorem pre_checkout_answers_witness:
  "\<exists>r. handle_pre_checkout sample_env ''inv'' (sample_world [sample_purchase DELIVERED]) =
    (r, after_request sample_env (AnswerPreCheckout (Some PRE_CHECKOUT_ALREADY_OWNED)) (r = Inr ())
       (sample_world [sample_purchase DELIVERED]))"
  using pre_checkout_answers [of "sample_world [sample_purchase DELIVERED]" sample_env "''inv''"]
  by (simp add: pre_checkout_verdict_def)

lemma mark_paid_refunded:
  assumes "db_ok d" and "p \<in> set (purchases d)" and "pu_status p = REFUNDED"
  shows "mark_paid now (pu_id p) paid_at charge d =
    (Inl (conflict ''Refunded purchase cannot be paid again'' (pu_id p) REFUNDED), d)"
  using assms(3) unfolding mark_paid_def
  by (simp add: bindM_run lock_purchase_found [OF assms(1,2)] terminal_for_payment_def)

lemma exn_cls_conflict [simp]: "exn_cls (conflict m i s) = ConflictError"
  by (simp add: conflict_def)



subsection \<open>Throttling\<close>

lemma notify_throttled_run:
  "fst (notify_throttled E ev w) = Inr () \<and> db (snd (notify_throttled E ev w)) = db w
     \<and> redis (snd (notify_throttled E ev w)) = redis w
     \<and> (effects (snd (notify_throttled E ev w)) = effects w
        \<or> (\<exists>sent eff. effects (snd (notify_throttled E ev w)) = effects w @ [(eff, sent)]
             \<and> (\<exists>n. eff = Answer n TOO_FAST \<or> eff = AnswerCallback n (Some TOO_FAST))))"
  by (auto simp: notify_throttled_def catchM_run on_class_def answer_def answer_callback_def
      telegram_request_run split: event_kind.split option.split)

text \<open>
  C28. A buyer has one update in flight: while the throttle lock of the buyer is held past the waiting
  window, a further message or button press does not reach its handler, whatever it is. Nothing
  changes, at most the notice is sent, and the update counts as handled. That includes the service
  message of a captured Stars payment, which Telegram does not send again.
\<close>

theorem throttle_drops_updates:
  assumes "lock_wf (lock_name (throttle_key u)) w"
    and "lock_lease (lock_name (throttle_key u)) w = Some (t, e)"
    and "now_ms (max (clock w) (clock w + microseconds (lock_wait E None) + retry_delay)) < e"
    and "0 < throttle_window E"
    and "upd = SuccessfulPayment chat u x charge \<or> upd = RefundedPayment chat u charge
       \<or> upd = PayPressed u cb \<or> upd = StartPlain chat u
       \<or> (upd = StartDeepLink chat profile args \<and> ud_telegram_id profile = u)"
  shows "fst (handle_update E upd w) = Inr () \<and> db (snd (handle_update E upd w)) = db w
     \<and> redis (snd (handle_update E upd w)) = redis w
     \<and> (\<exists>tr. effects (snd (handle_update E upd w)) = effects w @ tr
          \<and> list_all (\<lambda>x. \<exists>n. fst x = Answer n TOO_FAST \<or> fst x = AnswerCallback n (Some TOO_FAST)) tr)"
proof -
  obtain ev h where upd: "handle_update E upd = throttle E ev (Some u) h"
    using assms(5) by auto
  obtain r v where lock: "with_lock E (throttle_key u) (Some (throttle_window E)) None h w = (r, v)"
    by (cases "with_lock E (throttle_key u) (Some (throttle_window E)) None h w")
  with with_lock_busy [OF assms(1-3), of "Some (throttle_window E)" h]
  have v: "r = Inl (err LockBusyError [(''lock_key'', JStr (throttle_key u))])" "db v = db w"
      "redis v = redis w" "effects v = effects w" by simp_all
  then have "throttle E ev (Some u) h w = notify_throttled E ev v"
    using lock assms(4) by (simp add: throttle_def catchM_run on_class_def)
  with upd v show ?thesis using notify_throttled_run [of E ev v] by auto
qed

theorem throttle_drops_updates_witness:
  "fst (handle_update sample_env (SuccessfulPayment 7 7 ''inv'' ''ch'') (locked_world (throttle_key 7))) = Inr ()
     \<and> db (snd (handle_update sample_env (SuccessfulPayment 7 7 ''inv'' ''ch'') (locked_world (throttle_key 7)))) = sample_db []"
proof -
  have "0 < throttle_window sample_env" "lock_wait sample_env None = 0"
    by (simp_all add: throttle_window_def lock_wait_def sample_env_def sample_settings_def)
  with throttle_drops_updates [where u = 7 and w = "locked_world (throttle_key 7)" and t = "''t''"
      and e = 60000 and E = sample_env and upd = "SuccessfulPayment 7 7 ''inv'' ''ch''" and chat = 7
      and x = "''inv''" and charge = "''ch''"]
  show ?thesis by (simp add: now_ms_def microseconds_def retry_delay_def)
qed

end
