(* ===== verification/Billing.thy ===== *)
theory Billing
  imports Bot
begin

section \<open>Who may bill\<close>

text \<open>
  The invariant \<^verbatim>\<open>services/checkout.py\<close> announces: an invoice is created only when the buyer
  presses a payment button. \<open>billing\<close> is the part of the world an invoice would show up in (the
  recorded purchases and the invoice requests made so far); every program but the two checkouts is
  shown to leave it alone, from the repository up to the dispatcher.
\<close>

definition is_invoice :: "effect \<Rightarrow> bool" where
  "is_invoice eff = (case eff of
      SendStarsInvoice _ \<Rightarrow> True | CallCryptoPay meth _ \<Rightarrow> meth = ''createInvoice'' | _ \<Rightarrow> False)"

definition purchase_ids :: "database \<Rightarrow> uuid list" where
  "purchase_ids d = map pu_id (purchases d)"

definition billing :: "world \<Rightarrow> uuid list \<times> (effect \<times> bool) list" where
  "billing w = (purchase_ids (db w), filter (\<lambda>x. is_invoice (fst x)) (effects w))"

abbreviation bills_nothing :: "'a action \<Rightarrow> bool" where
  "bills_nothing m \<equiv> along (\<lambda>v w. billing v = billing w) m"

abbreviation adds_no_purchase :: "(exn, database, 'a) prog \<Rightarrow> bool" where
  "adds_no_purchase m \<equiv> along (\<lambda>d e. purchase_ids d = purchase_ids e) m"

subsection \<open>Repositories\<close>

lemma reads_add_nothing:
  "adds_no_purchase (select_one t P)" "adds_no_purchase (get_by_key t' k x)"
  "adds_no_purchase (purchase_or_404 i m)" "adds_no_purchase (product_or_404 i m')"
  by (simp_all add: along_def same_state purchase_or_404_def product_or_404_def split: option.split)

lemma write_purchase_ids: "write_purchase p d = Inr e \<Longrightarrow> purchase_ids e = purchase_ids d"
  by (auto simp: write_purchase_def flush_row_def purchase_ids_def Let_def replace_row_def update_rows_def
      split: if_splits option.splits)

lemma writes_add_nothing:
  "adds_no_purchase (flush (write_purchase p))" "adds_no_purchase (savepoint x (write_purchase p))"
  using write_purchase_ids by (auto simp: along_def flush_run savepoint_run split: sum.split)

lemmas repo_rules =
  frame.along_rules frame.along_bindM reads_add_nothing writes_add_nothing

lemma reread_adds_nothing: "adds_no_purchase (reread_purchase i)" "adds_no_purchase (lock_purchase i)"
  unfolding reread_purchase_def lock_purchase_def queries by (intro repo_rules)+

lemma mark_paid_adds_nothing: "adds_no_purchase (mark_paid now i t c)"
  unfolding mark_paid_def Let_def by (intro repo_rules reread_adds_nothing)

lemma mark_delivered_adds_nothing: "adds_no_purchase (mark_delivered now i url t)"
  unfolding mark_delivered_def by (intro repo_rules reread_adds_nothing)

lemma mark_refunded_adds_nothing: "adds_no_purchase (mark_refunded i)"
  unfolding mark_refunded_def by (intro repo_rules reread_adds_nothing)

lemma card_tx_adds_nothing: "adds_no_purchase (card_tx profile slug now)"
  using card_tx_frame [of profile slug now] by (rule along_mono) (simp add: shop_view_def purchase_ids_def)

subsection \<open>Actions\<close>

lemma in_uow_bills:
  assumes "\<And>now. adds_no_purchase (body now)"
  shows "bills_nothing (in_uow body)"
proof (rule alongI)
  fix w :: world
  have "purchase_ids (db w) = purchase_ids (db (snd (in_uow body w)))"
    using alongD [OF assms [of "clock w"], of "db w"]
    by (auto simp: in_uow_def split: prod.split sum.split)
  then show "billing w = billing (snd (in_uow body w))"
    using in_uow_elsewhere [of body w] by (simp add: billing_def)
qed

lemma with_lock_bills:
  assumes "bills_nothing body"
  shows "bills_nothing (with_lock E key ttl wait body)"
proof (rule alongI)
  fix w :: world
  obtain r w' where run: "with_lock E key ttl wait body w = (r, w')"
    by (cases "with_lock E key ttl wait body w")
  then have "billing w = billing w'"
  proof (cases rule: with_lock_cases)
    case (held w1 w2)
    with alongD_eq [OF assms held(7)] show ?thesis by (simp add: billing_def)
  qed (simp add: billing_def)
  with run show "billing w = billing (snd (with_lock E key ttl wait body w))" by simp
qed

lemma request_bills: "\<not> is_invoice eff \<Longrightarrow> bills_nothing (telegram_request E eff)"
  by (simp add: along_def telegram_request_run billing_def split: option.split)

lemma sleep_bills: "bills_nothing (sleep_for t)"
  by (simp add: along_def sleep_for_run billing_def is_invoice_def)

lemma answers_bill_nothing:
  "bills_nothing (answer E n t)" "bills_nothing (answer_callback E n u)" "bills_nothing (answer_pre_checkout E u)"
  "bills_nothing (telegram_request E (AnswerCard n c))"
  by (simp_all add: answer_def answer_callback_def answer_pre_checkout_def request_bills is_invoice_def)

lemmas action_rules =
  frame.along_rules in_uow_bills with_lock_bills sleep_bills answers_bill_nothing

lemma catch_bills:
  "bills_nothing m \<Longrightarrow> (\<And>e k. h e = Some k \<Longrightarrow> bills_nothing k) \<Longrightarrow> bills_nothing (catchM m h)"
  by (rule frame.along_catchM)

subsection \<open>Services\<close>

lemma lookups_bill_nothing:
  "bills_nothing (find_owned u i)" "bills_nothing (find_by_invoice v x)"
  "bills_nothing (in_uow (\<lambda>_. product_get i))" "bills_nothing (in_uow (\<lambda>_. purchase_get i))"
  unfolding find_owned_def find_by_invoice_def queries by (intro action_rules repo_rules)+

lemma product_for_checkout_bills: "bills_nothing (product_for_checkout i)"
  unfolding product_for_checkout_def by (intro action_rules lookups_bill_nothing)

lemma open_card_bills: "bills_nothing (open_card profile slug)"
  unfolding open_card_def by (intro action_rules card_tx_adds_nothing)

lemma confirm_payment_bills: "bills_nothing (confirm_payment E v x c t)"
  unfolding confirm_payment_def confirm_tx_def queries
  by (intro action_rules repo_rules mark_paid_adds_nothing)

lemma refund_bills: "bills_nothing (refund_by_charge_id c)"
  unfolding refund_by_charge_id_def refund_tx_def queries
  by (intro action_rules repo_rules mark_refunded_adds_nothing)

lemma svc_mark_delivered_bills: "bills_nothing (svc_mark_delivered i url)"
  unfolding svc_mark_delivered_def by (intro action_rules mark_delivered_adds_nothing)

lemma attempt_send_bills: "bills_nothing (attempt_send E msg)"
  by (simp add: along_def attempt_send_run billing_def is_invoice_def split: option.split)

lemma send_loop_bills: "bills_nothing (send_loop E msg n k le)"
proof (induction n arbitrary: k le)
  case (Suc n)
  show ?case unfolding send_loop.simps by (intro action_rules attempt_send_bills Suc.IH)
qed (simp add: along_def)

lemma deliver_bills: "bills_nothing (deliver E i is_repeat resend)"
  unfolding deliver_def deliver_body_def load_context_def context_tx_def send_with_retries_def queries Let_def
  by (intro action_rules repo_rules send_loop_bills svc_mark_delivered_bills)

lemma settle_payment_bills: "bills_nothing (settle_payment E v x c t)"
  unfolding settle_payment_def deliver_purchase_def
  by (intro action_rules confirm_payment_bills deliver_bills)

lemma checkout_redeliver_bills: "bills_nothing (checkout_redeliver E i)"
  unfolding checkout_redeliver_def redeliver_def by (rule deliver_bills)

subsection \<open>Handlers\<close>

lemma handler_branch:
  "or_else (on_class cs h) k e = Some m \<Longrightarrow> (\<And>x. bills_nothing (h x)) \<Longrightarrow> (k e = Some m \<Longrightarrow> bills_nothing m)
     \<Longrightarrow> bills_nothing m"
  by (auto simp: or_else_Some)

lemma handler_last: "on_class cs h e = Some m \<Longrightarrow> (\<And>x. bills_nothing (h x)) \<Longrightarrow> bills_nothing m"
  by auto

lemma redeliver_again_bills: "bills_nothing (redeliver_again E chat i)"
  unfolding redeliver_again_def
  by (intro action_rules catch_bills checkout_redeliver_bills) (erule handler_last, intro action_rules)

lemma handle_deep_link_bills: "bills_nothing (handle_deep_link E chat profile args)"
proof -
  have "bills_nothing (shown_card E chat profile payload)" for payload
    unfolding shown_card_def
    by (intro action_rules catch_bills open_card_bills)
      (erule handler_branch, intro action_rules, erule handler_last, intro action_rules)
  then show ?thesis
    unfolding handle_deep_link_def Let_def by (intro action_rules redeliver_again_bills)
qed

lemma handle_pre_checkout_bills: "bills_nothing (handle_pre_checkout E x)"
proof -
  have "bills_nothing (still_sold E i)" for i
    unfolding still_sold_def
    by (intro action_rules catch_bills product_for_checkout_bills) (erule handler_last, intro action_rules)
  then show ?thesis
    unfolding handle_pre_checkout_def by (intro action_rules lookups_bill_nothing)
qed

lemma handle_successful_payment_bills: "bills_nothing (handle_successful_payment E chat x c)"
  unfolding handle_successful_payment_def
  by (intro action_rules catch_bills settle_payment_bills)
    (erule handler_branch, intro action_rules, erule handler_last, intro action_rules)

lemma handle_refunded_payment_bills: "bills_nothing (handle_refunded_payment E chat c)"
  unfolding handle_refunded_payment_def
  by (intro action_rules catch_bills refund_bills) (erule handler_last, intro action_rules)

lemma throttle_bills: "bills_nothing h \<Longrightarrow> bills_nothing (throttle E ev u h)"
proof -
  have "bills_nothing (notify_throttled E ev)"
    unfolding notify_throttled_def
    by (intro catch_bills) (auto split: event_kind.split option.split intro!: action_rules)
  moreover assume "bills_nothing h"
  ultimately show ?thesis
    unfolding throttle_def by (intro action_rules catch_bills) (auto elim: handler_last)
qed

text \<open>
  C13. Only the payment button bills: handling any other update of the bot (a \<open>/start\<close>, a deep link, a
  pre-checkout query, a payment, a refund), in any world and with any outcome, records no purchase
  and asks neither Telegram nor Crypto Pay for an invoice.
\<close>

theorem only_the_button_bills:
  assumes "\<And>user cb. upd \<noteq> PayPressed user cb"
  shows "map pu_id (purchases (db (snd (handle_update E upd w)))) = map pu_id (purchases (db w))
     \<and> filter (\<lambda>x. is_invoice (fst x)) (effects (snd (handle_update E upd w)))
       = filter (\<lambda>x. is_invoice (fst x)) (effects w)"
proof -
  have "bills_nothing (handle_start_without_deep_link E chat)" for chat
    unfolding handle_start_without_deep_link_def by (rule answers_bill_nothing)
  then have "bills_nothing (handle_update E upd)"
    using assms by (cases upd) (auto intro!: throttle_bills handle_deep_link_bills handle_pre_checkout_bills
        handle_successful_payment_bills handle_refunded_payment_bills)
  from alongD [OF this, of w] show ?thesis by (simp add: billing_def purchase_ids_def)
qed

theorem only_the_button_bills_witness:
  "map pu_id (purchases (db (snd (handle_update sample_env (PreCheckout ''inv'') (sample_world [sample_purchase PENDING])))))
     = [10]"
  using only_the_button_bills [of "PreCheckout ''inv''" sample_env "sample_world [sample_purchase PENDING]"] by simp

end
