(* ===== verification/Webhooks.thy ===== *)
theory Webhooks
  imports Checkout
begin

section \<open>Notifications and background workers\<close>

text \<open>
  \<^verbatim>\<open>bot/webhooks.py\<close> and \<^verbatim>\<open>bot/workers.py\<close>: the signed Crypto Pay notification, one round of the
  reconciliation of pending invoices, and one round of the housekeeping. A response is its HTTP
  status and the \<open>ok\<close> flag of its body. The endless loops around the rounds only repeat them; an
  exception of a round is logged by the loop, which goes on.
\<close>

subsection \<open>Settling without a charge id\<close>

lemma settle_run:
  "settle_payment E v x charge t w = (case confirm_payment E v x charge t w of
     (Inl e, w1) \<Rightarrow> (Inl e, w1) | (Inr q, w1) \<Rightarrow> deliver_purchase E (pu_id q) w1)"
  by (simp add: settle_payment_def bindM_run)

lemma confirm_unknown:
  assumes "db_ok (db w)" and "List.find (\<lambda>q. pu_provider q = v \<and> pu_external_id q = x) (purchases (db w)) = None"
    and "confirm_payment E v x charge t w = (r, w')"
  shows "db w' = db w \<and> (\<exists>e. r = Inl e \<and> isinstance e AppError)"
  using assms(3) unfolding confirm_payment_def
proof (cases rule: with_lock_cases)
  case (held w1 w2)
  with assms(1,2) show ?thesis
    by (auto simp: in_uow_def confirm_tx_def bindM_run get_by_external_id_run split: prod.splits)
qed simp

lemma mark_paid_uncharged:
  assumes "db_ok d" and "p \<in> set (purchases d)" and "mark_paid now (pu_id p) t None d = (r, e)"
  shows "(case r of Inl x \<Rightarrow> isinstance x AppError
     | Inr q \<Rightarrow> pu_id q = pu_id p \<and> pu_provider q = pu_provider p \<and> pu_external_id q = pu_external_id p
         \<and> q \<in> set (purchases e) \<and> set (purchases e) = insert q (set (purchases d) - {p}))"
proof -
  note uncharged = mark_paid_unpaid [OF assms(1,2), of None now t]
  consider "pu_status p \<in> {PENDING, EXPIRED}" | "pu_status p \<in> {PAID, DELIVERED}" | "pu_status p = REFUNDED"
    by (cases "pu_status p") auto
  then show ?thesis
  proof cases
    case 1
    then have "mark_paid now (pu_id p) t None d =
       (if owns d (pu_user_id p) (pu_product_id p) then (Inl (err DuplicatePurchaseError []), d)
        else (Inr (paid_version now t None p),
            d\<lparr>purchases := replace_row pu_id (paid_version now t None p) (purchases d)\<rparr>))"
      using uncharged by (simp add: fits_string_def)
    with assms(3) show ?thesis
      using set_replace_row [OF db_okD(9) [OF assms(1)] assms(2), of "paid_version now t None p"]
      by (auto simp: isinstance_def paid_version_def split: if_splits)
  next
    case 2
    with assms(3) mark_paid_settled [OF assms(1,2), of None now t] assms(2) show ?thesis by auto
  next
    case 3
    with assms(3) show ?thesis
      by (auto simp: mark_paid_def bindM_run lock_purchase_found [OF assms(1,2)] terminal_for_payment_def conflict_def)
  qed
qed

lemma deliver_touches_one:
  assumes "db_ok (db w)" and "p \<in> set (purchases (db w))" and "0 < dl_max_attempts (delivery_conf E)"
    and "deliver_purchase E (pu_id p) w = (r, w')"
  shows "(\<forall>e. r = Inl e \<longrightarrow> isinstance e AppError) \<and> set (purchases (db w)) - {p} \<subseteq> set (purchases (db w'))"
proof -
  have rows: "q = p"
    if "q \<in> set (purchases (db w))" "q \<notin> set (replace_row pu_id (delivered_version t url None p) (purchases (db w)))"
    for q t url
    using set_replace_row [OF db_okD(9) [OF assms(1)] assms(2), of "delivered_version t url None p"] that by auto
  from deliver_purchase_run [OF assms] show ?thesis
  proof (elim disjE)
    assume "case pu_status p of
          DELIVERED \<Rightarrow> (\<exists>res. r = Inr res \<and> res_status res = ALREADY_DELIVERED) \<and> db w' = db w \<and> effects w' = effects w
        | PAID \<Rightarrow> (\<exists>res tr. r = Inr res \<and> effects w' = effects w @ tr \<and> hand_over E p res (db w) tr (db w'))
        | s \<Rightarrow> r = Inl (conflict ''Only a paid purchase can be delivered'' (pu_id p) s) \<and> db w' = db w \<and> effects w' = effects w"
    then show ?thesis
      by (cases "pu_status p") (auto simp: conflict_def hand_over_def split: if_splits dest: rows)
  qed (auto simp: isinstance_def)
qed

lemma settle_uncharged:
  assumes "db_ok (db w)" and "0 < dl_max_attempts (delivery_conf E)"
    and "settle_payment E v x None t w = (r, w')"
  shows "(\<forall>e. r = Inl e \<longrightarrow> isinstance e AppError)
     \<and> (\<forall>p\<in>set (purchases (db w)). (pu_provider p, pu_external_id p) \<noteq> (v, x) \<longrightarrow> p \<in> set (purchases (db w')))"
proof -
  obtain r1 w1 where conf: "confirm_payment E v x None t w = (r1, w1)"
    by (cases "confirm_payment E v x None t w")
  show ?thesis
  proof (cases "List.find (\<lambda>q. pu_provider q = v \<and> pu_external_id q = x) (purchases (db w))")
    case None
    from confirm_unknown [OF assms(1) this conf] conf assms(3) show ?thesis by (auto simp: settle_run)
  next
    case (Some p)
    then have p: "p \<in> set (purchases (db w))" and key: "pu_provider p = v" "pu_external_id p = x"
      using find_SomeD by fastforce+
    with conf have "confirm_payment E (pu_provider p) (pu_external_id p) None t w = (r1, w1)" by simp
    with assms(1) p show ?thesis
    proof (cases rule: confirm_payment_cases)
      case busy
      with conf assms(3) show ?thesis by (auto simp: settle_run isinstance_def)
    next
      case (failed e now d)
      with conf assms(3) mark_paid_uncharged [OF assms(1) p, of now t "Inl e" d] show ?thesis
        by (auto simp: settle_run)
    next
      case (confirmed q now)
      note paid = mark_paid_uncharged [OF assms(1) p confirmed(2)]
      have ok: "db_ok (db w1)" using mark_paid_keeps [OF assms(1) confirmed(2)] .
      from assms(3) conf confirmed(1) have "deliver_purchase E (pu_id q) w1 = (r, w')" by (simp add: settle_run)
      from deliver_touches_one [OF ok _ assms(2) this] paid key show ?thesis by auto
    qed
  qed
qed

lemma settle_keeps_ok: "db_ok (db w) \<Longrightarrow> db_ok (db (snd (settle_payment E v x c t w)))"
  using alongD [OF evolve.settle_payment_moves [of E v x c t], of w] by (simp add: evolves_def)

subsection \<open>The webhook\<close>

definition extract_invoice_id :: "(string \<times> json) list \<Rightarrow> string option" where
  "extract_invoice_id payload = (case json_get payload ''payload'' of
      JObj inv_obj \<Rightarrow> (case json_get inv_obj ''invoice_id'' of JNull \<Rightarrow> None | x \<Rightarrow> Some (py_str x))
    | _ \<Rightarrow> None)"

type_synonym response = "nat \<times> bool"

definition settle_notified :: "env \<Rightarrow> string \<Rightarrow> response action" where
  \<comment> \<open>the \<open>try\<close> around the settlement: a replayed, unknown or conflicting payment is acknowledged\<close>
  "settle_notified E invoice_id =
     catchM (bindM (settle_payment E CRYPTO invoice_id None None) (\<lambda>_. ret (200, True)))
      (or_else (on_class [LockBusyError] (\<lambda>_. ret (200, True)))
      (or_else (on_class [PurchaseNotFoundError] (\<lambda>_. ret (200, True)))
        (on_class [AppError] (\<lambda>_. ret (200, True)))))"

definition handle_cryptobot_webhook :: "env \<Rightarrow> string \<Rightarrow> string option \<Rightarrow> response action" where
  "handle_cryptobot_webhook E body signature =
     (if \<not> verify_signature E body signature then ret (401, False)
      else (case env_json_loads E body of
          None \<Rightarrow> ret (400, False)
        | Some (JObj payload) \<Rightarrow>
            if json_get payload ''update_type'' \<noteq> JStr ''invoice_paid'' then ret (200, True)
            else (case extract_invoice_id payload of
                None \<Rightarrow> ret (400, False)
              | Some invoice_id \<Rightarrow> settle_notified E invoice_id)
        | Some _ \<Rightarrow> ret (400, False)))"

definition notified_invoice :: "env \<Rightarrow> string \<Rightarrow> string option" where
  \<comment> \<open>the invoice a body announces as paid, if it is such an announcement\<close>
  "notified_invoice E body = (case env_json_loads E body of
      Some (JObj payload) \<Rightarrow> (if json_get payload ''update_type'' = JStr ''invoice_paid''
         then extract_invoice_id payload else None)
    | _ \<Rightarrow> None)"

lemma settle_notified_run:
  assumes "db_ok (db w)" and "0 < dl_max_attempts (delivery_conf E)"
  shows "settle_notified E x w = (Inr (200, True), snd (settle_payment E CRYPTO x None None w))"
proof -
  obtain r w' where run: "settle_payment E CRYPTO x None None w = (r, w')"
    by (cases "settle_payment E CRYPTO x None None w")
  from settle_uncharged [OF assms run] run show ?thesis
    by (cases r) (auto simp: settle_notified_def catchM_run bindM_run or_else_def on_class_def)
qed


definition notified_env :: env where
  "notified_env = sample_env\<lparr>env_json_loads := (\<lambda>_. Some (JObj [(''update_type'', JStr ''invoice_paid''),
     (''payload'', JObj [(''invoice_id'', JInt 77)])]))\<rparr>"


subsection \<open>The workers\<close>

definition keyed_by_invoice :: "purchase list \<Rightarrow> (string \<times> purchase) list" where
  \<comment> \<open>\<open>{purchase.external_id: purchase for purchase in pending}\<close>\<close>
  "keyed_by_invoice ps = foldl (\<lambda>d p. dict_set (pu_external_id p) p d) [] ps"

definition settle_polled :: "env \<Rightarrow> string \<Rightarrow> nat action" where
  \<comment> \<open>one turn of the loop for a paid invoice: 1 when it was settled, 0 for \<open>continue\<close>\<close>
  "settle_polled E external_id =
     catchM (bindM (settle_payment E CRYPTO external_id None None) (\<lambda>_. ret 1))
      (or_else (on_class [LockBusyError] (\<lambda>_. ret 0)) (on_class [AppError] (\<lambda>_. ret 0)))"

fun settle_paid :: "env \<Rightarrow> states \<Rightarrow> nat \<Rightarrow> nat action" where
  "settle_paid E [] settled = ret settled"
| "settle_paid E ((external_id, state) # rest) settled =
     (if state \<noteq> PS_PAID then settle_paid E rest settled
      else bindM (settle_polled E external_id) (\<lambda>n. settle_paid E rest (settled + n)))"

definition batch_size :: "env \<Rightarrow> nat" where
  "batch_size E = nat (bot_reconciliation_batch_size (cfg_bot (env_settings E)))"

definition reconcile_once :: "env \<Rightarrow> nat action" where
  \<comment> \<open>\<open>ReconciliationWorker.run_once\<close>\<close>
  "reconcile_once E =
     bindM (svc_list_pending CRYPTO (batch_size E)) (\<lambda>pending.
     if pending = [] then ret 0
     else bindM (catchM (bindM (fetch_states E (map fst (keyed_by_invoice pending))) (\<lambda>s. ret (Some s)))
            (on_class [AppError] (\<lambda>_. ret None))) (\<lambda>m.
          case m of None \<Rightarrow> ret 0 | Some states \<Rightarrow> settle_paid E states 0))"

definition housekeep_once :: "env \<Rightarrow> nat action" where
  \<comment> \<open>\<open>HousekeepingWorker.run_once\<close>\<close>
  "housekeep_once E = expire_stale E None"

lemma settle_polled_run:
  assumes "db_ok (db w)" and "0 < dl_max_attempts (delivery_conf E)"
  shows "\<exists>n\<le>1. settle_polled E x w = (Inr n, snd (settle_payment E CRYPTO x None None w))"
proof -
  obtain r w' where run: "settle_payment E CRYPTO x None None w = (r, w')"
    by (cases "settle_payment E CRYPTO x None None w")
  from settle_uncharged [OF assms run] run show ?thesis
    by (cases r) (auto simp: settle_polled_def catchM_run bindM_run or_else_def on_class_def)
qed

lemma settle_paid_run:
  assumes "db_ok (db w)" and "0 < dl_max_attempts (delivery_conf E)"
  shows "\<exists>n w'. settle_paid E states k w = (Inr n, w')
     \<and> n \<le> k + length (filter (\<lambda>s. snd s = PS_PAID) states)
     \<and> (\<forall>p\<in>set (purchases (db w)). pu_provider p \<noteq> CRYPTO \<or> (pu_external_id p, PS_PAID) \<notin> set states
          \<longrightarrow> p \<in> set (purchases (db w')))"
  using assms(1)
proof (induction states arbitrary: k w)
  case (Cons s states)
  obtain x st where s: "s = (x, st)" by (cases s)
  show ?case
  proof (cases "st = PS_PAID")
    case False
    with Cons s show ?thesis by fastforce
  next
    case True
    obtain m where m: "m \<le> 1" "settle_polled E x w = (Inr m, snd (settle_payment E CRYPTO x None None w))"
      using settle_polled_run [OF Cons.prems assms(2), of x] by blast
    let ?v = "snd (settle_payment E CRYPTO x None None w)"
    have "db_ok (db ?v)" using Cons.prems by (rule settle_keeps_ok)
    from Cons.IH [OF this, of "k + m"] obtain n w' where
      "settle_paid E states (k + m) ?v = (Inr n, w')"
      "n \<le> k + m + length (filter (\<lambda>s. snd s = PS_PAID) states)"
      "\<forall>p\<in>set (purchases (db ?v)). pu_provider p \<noteq> CRYPTO \<or> (pu_external_id p, PS_PAID) \<notin> set states
          \<longrightarrow> p \<in> set (purchases (db w'))"
      by blast
    moreover have "\<forall>p\<in>set (purchases (db w)). (pu_provider p, pu_external_id p) \<noteq> (CRYPTO, x)
        \<longrightarrow> p \<in> set (purchases (db ?v))"
      using settle_uncharged [OF Cons.prems assms(2), of CRYPTO x None "fst (settle_payment E CRYPTO x None None w)" ?v]
      by simp
    ultimately show ?thesis using True s m by (auto simp: bindM_run)
  qed
qed simp

lemma list_pending_run: "\<exists>ps. svc_list_pending v n w = (Inr ps, w)"
  by (simp add: svc_list_pending_def in_uow_def list_pending_def)

lemma sample_provider_never_answers:
  "fst (fetch_states sample_env ids w) = Inr states \<Longrightarrow> states = []"
  by (cases "batches 100 ids") (auto simp: fetch_states_def states_per_request_def bindM_run call_api_run
      read_response_def sample_env_def)

text \<open>
  C30. A round of the reconciliation always ends normally with the number of payments it settled, no
  more than the provider reported paid; and a purchase whose Crypto Pay invoice the provider did not
  report paid in this round is afterwards exactly as it was.
\<close>

theorem reconcile_settles_only_paid:
  assumes "db_ok (db w)" and "0 < dl_max_attempts (delivery_conf E)"
  shows "\<exists>n w' states. reconcile_once E w = (Inr n, w')
     \<and> n \<le> length (filter (\<lambda>s. snd s = PS_PAID) states)
     \<and> (states = [] \<or> (\<exists>ids. fst (fetch_states E ids w) = Inr states))
     \<and> (\<forall>p\<in>set (purchases (db w)). pu_provider p \<noteq> CRYPTO \<or> (pu_external_id p, PS_PAID) \<notin> set states
          \<longrightarrow> p \<in> set (purchases (db w')))"
proof -
  obtain ps where ps: "svc_list_pending CRYPTO (batch_size E) w = (Inr ps, w)" using list_pending_run by blast
  let ?ids = "map fst (keyed_by_invoice ps)"
  obtain f v where fetch: "fetch_states E ?ids w = (f, v)" by (cases "fetch_states E ?ids w")
  have same: "db v = db w" using fetch by (rule fetch_states_same_db)
  show ?thesis
  proof (cases "ps = []")
    case True
    with ps show ?thesis by (intro exI [of _ 0] exI [of _ w] exI [of _ "[]"]) (simp add: reconcile_once_def bindM_run)
  next
    case False
    show ?thesis
    proof (cases f)
      case (Inl e)
      with fetch_states_error [OF fetch [unfolded Inl]] False ps fetch same show ?thesis
        by (intro exI [of _ 0] exI [of _ v] exI [of _ "[]"])
          (simp add: reconcile_once_def bindM_run catchM_run on_class_def)
    next
      case (Inr states)
      have run: "reconcile_once E w = settle_paid E states 0 v"
        using Inr False ps fetch by (simp add: reconcile_once_def bindM_run catchM_run)
      from assms(1) same have "db_ok (db v)" by simp
      then obtain n w' where "settle_paid E states 0 v = (Inr n, w')"
        "n \<le> length (filter (\<lambda>s. snd s = PS_PAID) states)"
        "\<forall>p\<in>set (purchases (db v)). pu_provider p \<noteq> CRYPTO \<or> (pu_external_id p, PS_PAID) \<notin> set states
          \<longrightarrow> p \<in> set (purchases (db w'))"
        using settle_paid_run [OF _ assms(2), of v states 0] by auto
      moreover have "fst (fetch_states E ?ids w) = Inr states" using fetch Inr by simp
      ultimately show ?thesis using run same by metis
    qed
  qed
qed

theorem reconcile_settles_only_paid_witness:
  "\<exists>n w'. reconcile_once sample_env (sample_world [sample_crypto_purchase]) = (Inr n, w')
     \<and> n = 0 \<and> sample_crypto_purchase \<in> set (purchases (db w'))"
proof -
  let ?w = "sample_world [sample_crypto_purchase]"
  obtain n w' states where run: "reconcile_once sample_env ?w = (Inr n, w')
      \<and> n \<le> length (filter (\<lambda>s. snd s = PS_PAID) states)
      \<and> (states = [] \<or> (\<exists>ids. fst (fetch_states sample_env ids ?w) = Inr states))
      \<and> (\<forall>p\<in>set (purchases (db ?w)). pu_provider p \<noteq> CRYPTO \<or> (pu_external_id p, PS_PAID) \<notin> set states
           \<longrightarrow> p \<in> set (purchases (db w')))"
    using reconcile_settles_only_paid [of ?w sample_env] by auto
  then have "states = []" using sample_provider_never_answers by blast
  with run show ?thesis by simp
qed

end
