(* ===== verification/Workers.thy ===== *)
theory Workers
  imports Webhooks
begin

section \<open>The worker loops\<close>

text \<open>
  \<open>run_forever\<close> of \<^verbatim>\<open>bot/workers.py\<close>: the loop ends only by cancellation, so the model runs a given
  number of its turns. A turn that raises is logged and the loop goes on.
\<close>

fun worker_turns :: "nat action \<Rightarrow> rat \<Rightarrow> nat \<Rightarrow> unit action" where
  "worker_turns run_once interval 0 = ret ()"
| "worker_turns run_once interval (Suc n) =
     thenM (catchM (bindM run_once (\<lambda>_. ret ())) (on_class [ExceptionC] (\<lambda>_. ret ())))
      (thenM (sleep_for interval) (worker_turns run_once interval n))"

definition reconcile_turns :: "env \<Rightarrow> nat \<Rightarrow> unit action" where
  "reconcile_turns E = worker_turns (reconcile_once E) (bot_reconciliation_interval_seconds (cfg_bot (env_settings E)))"

definition housekeep_turns :: "env \<Rightarrow> nat \<Rightarrow> unit action" where
  "housekeep_turns E = worker_turns (housekeep_once E) (bot_housekeeping_interval_seconds (cfg_bot (env_settings E)))"

lemma turn_survives: "\<exists>w'. catchM (bindM m (\<lambda>_. ret ())) (on_class [ExceptionC] (\<lambda>_. ret ())) w = (Inr (), w')"
  by (cases "m w" rule: prod.exhaust; cases "fst (m w)") (auto simp: catchM_run bindM_run on_class_def)

lemma worker_turns_return: "\<exists>w'. worker_turns m interval n w = (Inr (), w')"
proof (induction n arbitrary: w)
  case (Suc n)
  obtain v where turn: "catchM (bindM m (\<lambda>_. ret ())) (on_class [ExceptionC] (\<lambda>_. ret ())) w = (Inr (), v)"
    using turn_survives [of m w] by blast
  obtain u where nap: "sleep_for interval v = (Inr (), u)" by (simp add: sleep_for_def)
  show ?case using Suc.IH [of u] by (simp add: thenM_run turn nap)
qed simp

subsection \<open>Housekeeping\<close>

definition expired_by :: "datetime \<Rightarrow> purchase list \<Rightarrow> purchase list" where
  "expired_by t ps = map (\<lambda>p. if stale t p then p\<lparr>pu_status := EXPIRED\<rparr> else p) ps"

lemma expired_by_twice: "s \<le> t \<Longrightarrow> expired_by t (expired_by s ps) = expired_by t ps"
  by (auto simp: expired_by_def stale_def)

definition pause :: "env \<Rightarrow> int" where
  \<comment> \<open>the interval of the worker in microseconds\<close>
  "pause E = max 0 (microseconds (bot_housekeeping_interval_seconds (cfg_bot (env_settings E))))"

lemma housekeep_turn:
  "\<exists>k. housekeep_once E w = (Inr k, w\<lparr>db := (db w)\<lparr>purchases := expired_by (clock w - invoice_ttl E) (purchases (db w))\<rparr>\<rparr>)"
  by (simp add: housekeep_once_def expire_stale_def bindM_run utc_now_def in_uow_run expire_pending_def
      expired_by_def update_rows_def)

lemma housekeep_turns_run:
  "\<exists>w'. housekeep_turns E (Suc n) w = (Inr (), w') \<and> clock w' = clock w + int (Suc n) * pause E
     \<and> redis w' = redis w
     \<and> db w' = (db w)\<lparr>purchases := expired_by (clock w + int n * pause E - invoice_ttl E) (purchases (db w))\<rparr>"
proof (induction n arbitrary: w)
  case 0
  obtain k where "housekeep_once E w = (Inr k, w\<lparr>db := (db w)\<lparr>purchases := expired_by (clock w - invoice_ttl E) (purchases (db w))\<rparr>\<rparr>)"
    using housekeep_turn by blast
  then show ?case
    by (simp add: housekeep_turns_def thenM_run catchM_run bindM_run sleep_for_def pause_def)
next
  case (Suc n)
  obtain k where once: "housekeep_once E w = (Inr k, w\<lparr>db := (db w)\<lparr>purchases := expired_by (clock w - invoice_ttl E) (purchases (db w))\<rparr>\<rparr>)"
    using housekeep_turn by blast
  obtain v where first: "housekeep_turns E (Suc (Suc n)) w = housekeep_turns E (Suc n) v"
    and v: "clock v = clock w + pause E" "redis v = redis w"
      "db v = (db w)\<lparr>purchases := expired_by (clock w - invoice_ttl E) (purchases (db w))\<rparr>"
    using once by (simp add: housekeep_turns_def thenM_run catchM_run bindM_run sleep_for_def pause_def)
  have "0 \<le> int (Suc n) * pause E" by (simp add: pause_def)
  then have "clock w - invoice_ttl E \<le> clock v + int n * pause E - invoice_ttl E"
    using v(1) by (simp add: algebra_simps)
  note twice = expired_by_twice [OF this, of "purchases (db w)"]
  from Suc.IH [of v] show ?case
    unfolding first using twice by (auto simp: v algebra_simps)
qed



end
