(* ===== verification/ProductService.thy ===== *)
theory ProductService
  imports Contract
begin

section \<open>The product use cases\<close>

text \<open>
  \<^verbatim>\<open>services/products.py\<close>: validation of the delivery link with the part of
  \<open>urllib.parse.urlparse\<close> it reads (scheme and network location), creation, partial update,
  deletion and lookups, each in one unit of work.
\<close>

subsection \<open>urlparse\<close>

definition scheme_char :: "char \<Rightarrow> bool" where
  "scheme_char c = (is_ascii_letter c \<or> is_ascii_digit c \<or> c \<in> set ''+-.'')"

definition url_clean :: "string \<Rightarrow> string" where
  \<comment> \<open>leading C0 controls and spaces go, tabs and line breaks go everywhere\<close>
  "url_clean s = filter (\<lambda>c. ord c \<notin> {9, 10, 13}) (dropWhile (\<lambda>c. ord c \<le> 32) s)"

definition split_scheme :: "string \<Rightarrow> string \<times> string" where
  "split_scheme url =
     (let pre = takeWhile (\<lambda>c. c \<noteq> CHR '':'') url; rest = dropWhile (\<lambda>c. c \<noteq> CHR '':'') url in
      if rest \<noteq> [] \<and> pre \<noteq> [] \<and> is_ascii_letter (hd pre) \<and> list_all scheme_char pre
      then (py_lower pre, tl rest) else ([], url))"

definition split_netloc :: "string \<Rightarrow> string" where
  "split_netloc rest =
     (if starts_with ''//'' rest then takeWhile (\<lambda>c. c \<notin> set ''/?#'') (drop 2 rest) else [])"

definition urlparse :: "(string \<Rightarrow> bool) \<Rightarrow> string \<Rightarrow> exn + string \<times> string" where
  "urlparse netloc_ok s =
     (case split_scheme (url_clean s) of (scheme, rest) \<Rightarrow>
        (let netloc = split_netloc rest in
         if (CHR ''['' \<in> set netloc) \<noteq> (CHR '']'' \<in> set netloc)
         then Inl (other_exn ValueError ''Invalid IPv6 URL'')
         else if (CHR ''['' \<in> set netloc \<or> list_ex (\<lambda>c. 128 \<le> ord c) netloc) \<and> \<not> netloc_ok netloc
         then Inl (other_exn ValueError ''netloc is invalid'')
         else Inr (scheme, netloc)))"

definition allowed_url_schemes :: "string list" where
  "allowed_url_schemes = [''http'', ''https'']"

definition validate_delivery_url :: "(string \<Rightarrow> bool) \<Rightarrow> string \<Rightarrow> exn + string" where
  "validate_delivery_url netloc_ok url =
     (let candidate = py_strip url in
      case urlparse netloc_ok candidate of
        Inl e \<Rightarrow> Inl e
      | Inr (scheme, netloc) \<Rightarrow>
          if scheme \<notin> set allowed_url_schemes \<or> netloc = []
          then Inl (err InvalidDeliveryUrlError [(''url'', JStr url)])
          else Inr candidate)"

subsection \<open>Operations\<close>

definition prepare_draft :: "env \<Rightarrow> product_draft \<Rightarrow> exn + product_draft" where
  "prepare_draft E dr =
     (case normalise_slug (pd_slug dr) of Inl e \<Rightarrow> Inl e
      | Inr slug \<Rightarrow>
          (case validate_delivery_url (env_netloc_ok E) (pd_delivery_url dr) of Inl e \<Rightarrow> Inl e
           | Inr url \<Rightarrow> mk_product_draft (dr\<lparr>pd_slug := slug, pd_title := py_strip (pd_title dr),
                 pd_delivery_url := url\<rparr>)))"

definition svc_create_product :: "env \<Rightarrow> product_draft \<Rightarrow> product action" where
  "svc_create_product E dr =
     bindM (liftE (prepare_draft E dr)) (\<lambda>prepared.
     bindM (new_uuid E) (\<lambda>new_id.
       in_uow (\<lambda>now. product_create new_id now prepared)))"

definition prepare_changes :: "env \<Rightarrow> product_update \<Rightarrow> exn + product_update" where
  "prepare_changes E u =
     (case (case up_slug u of UNSET \<Rightarrow> Inr UNSET
              | Supplied s \<Rightarrow> (case normalise_slug s of Inl e \<Rightarrow> Inl e | Inr x \<Rightarrow> Inr (Supplied x))) of
        Inl e \<Rightarrow> Inl e
      | Inr slug \<Rightarrow>
          (case (case up_delivery_url u of UNSET \<Rightarrow> Inr UNSET
                   | Supplied s \<Rightarrow> (case validate_delivery_url (env_netloc_ok E) s of
                        Inl e \<Rightarrow> Inl e | Inr x \<Rightarrow> Inr (Supplied x))) of
             Inl e \<Rightarrow> Inl e
           | Inr url \<Rightarrow> Inr (u\<lparr>up_slug := slug,
               up_title := (case up_title u of UNSET \<Rightarrow> UNSET | Supplied t \<Rightarrow> Supplied (py_strip t)),
               up_delivery_url := url\<rparr>)))"

definition ensure_still_purchasable :: "product \<Rightarrow> product_update \<Rightarrow> exn + unit" where
  "ensure_still_purchasable current u =
     (if maybe_or (up_price_stars u) (pr_price_stars current) = None
         \<and> maybe_or (up_price_usdt u) (pr_price_usdt current) = None
      then Inl (err InvalidPriceError [(''product_id'', JStr (uuid_str (pr_id current)))])
      else Inr ())"

definition svc_update_product :: "env \<Rightarrow> uuid \<Rightarrow> product_update \<Rightarrow> product action" where
  "svc_update_product E product_id u =
     bindM (liftE (prepare_changes E u)) (\<lambda>prepared.
       in_uow (\<lambda>now.
         bindM (product_get product_id) (\<lambda>m.
         bindM (product_or_404 product_id m) (\<lambda>current.
         thenM (liftE (ensure_still_purchasable current prepared))
           (product_update_row now product_id prepared)))))"

definition svc_delete_product :: "uuid \<Rightarrow> unit action" where
  "svc_delete_product product_id = in_uow (\<lambda>_. product_delete product_id)"

definition product_found :: "(string \<times> json) list \<Rightarrow> product option \<Rightarrow> product action" where
  "product_found details m = (case m of
      None \<Rightarrow> throw (err ProductNotFoundError details) | Some p \<Rightarrow> ret p)"

definition svc_get_product :: "uuid \<Rightarrow> product action" where
  "svc_get_product product_id =
     bindM (in_uow (\<lambda>_. product_get product_id))
       (product_found [(''product_id'', JStr (uuid_str product_id))])"

definition svc_get_product_by_slug :: "string \<Rightarrow> bool \<Rightarrow> product action" where
  "svc_get_product_by_slug slug only_active =
     bindM (in_uow (\<lambda>_. product_get_by_slug slug only_active)) (product_found [(''slug'', JStr slug)])"

definition svc_list_products :: "product_filters \<Rightarrow> page_request \<Rightarrow> product page action" where
  "svc_list_products f pq = in_uow (\<lambda>_. list_products f pq)"

definition svc_deep_link :: "env \<Rightarrow> string \<Rightarrow> string" where
  "svc_deep_link E slug = deep_link (cfg_telegram (env_settings E)) slug"

subsection \<open>The use cases under the contract\<close>

context shop_preorder
begin

lemma svc_create_product_moves: "moves R (svc_create_product E dr)"
  unfolding svc_create_product_def by (intro svc_rules)

lemma svc_update_product_moves: "moves R (svc_update_product E i u)"
  unfolding svc_update_product_def queries by (intro svc_rules)

lemma svc_delete_product_moves: "moves R (svc_delete_product i)"
  unfolding svc_delete_product_def by (intro svc_rules)

lemma svc_get_product_moves: "moves R (svc_get_product i)"
  unfolding svc_get_product_def product_found_def queries by (intro svc_rules)

lemma svc_list_products_moves: "moves R (svc_list_products f pq)"
  unfolding svc_list_products_def list_products_def by (intro svc_rules)

end

subsection \<open>The delivery link\<close>

lemma split_scheme_http:
  assumes "split_scheme url = (scheme, rest)" and "scheme \<noteq> []"
  shows "py_lower url = scheme @ '':'' @ py_lower rest"
proof -
  let ?pre = "takeWhile (\<lambda>c. c \<noteq> CHR '':'') url" and ?rest = "dropWhile (\<lambda>c. c \<noteq> CHR '':'') url"
  from assms have r: "?rest \<noteq> []" and s: "scheme = py_lower ?pre" and t: "rest = tl ?rest"
    by (auto simp: split_scheme_def Let_def split: if_splits)
  from r have "hd ?rest = CHR '':''" using hd_dropWhile by blast
  with r t have "?rest = CHR '':'' # rest" by (metis list.collapse)
  then have "url = ?pre @ CHR '':'' # rest" by (metis takeWhile_dropWhile_id)
  then have "py_lower url = py_lower ?pre @ py_lower (CHR '':'' # rest)"
    by (metis py_lower_append)
  moreover have "py_lower (CHR '':'' # rest) = '':'' @ py_lower rest"
    by (simp add: py_lower_def py_lower_char_def)
  ultimately show ?thesis using s by simp
qed

lemma netloc_slashes:
  assumes "split_netloc rest \<noteq> []"
  shows "\<exists>c t. rest = ''//'' @ c # t \<and> c \<notin> set ''/?#''"
proof -
  from assms have "take 2 rest = ''//''" and n: "takeWhile (\<lambda>c. c \<notin> set ''/?#'') (drop 2 rest) \<noteq> []"
    by (simp_all add: split_netloc_def starts_with_def numeral_2_eq_2 split: if_splits)
  then have "rest = ''//'' @ drop 2 rest" by (metis append_take_drop_id)
  moreover obtain c t where "drop 2 rest = c # t" and "c \<notin> set ''/?#''"
    using n by (cases "drop 2 rest") (auto split: if_splits)
  ultimately show ?thesis by metis
qed

text \<open>
  A delivery link the service accepts is stored stripped, and read the way a URL parser reads
  it (without leading control characters, tabs and line breaks) it starts with \<open>http://\<close> or
  \<open>https://\<close> in any letter case, followed by a non-empty host part.
\<close>

theorem accepted_link_is_absolute:
  assumes "validate_delivery_url netloc_ok url = Inr link"
  shows "link = py_strip url
     \<and> (\<exists>scheme c t. scheme \<in> {''http'', ''https''} \<and> c \<notin> set ''/?#''
          \<and> py_lower (url_clean link) = scheme @ ''://'' @ py_lower (c # t))"
proof -
  let ?s = "split_scheme (url_clean (py_strip url))"
  from assms have link: "link = py_strip url" and sch: "fst ?s \<in> {''http'', ''https''}"
    and net: "split_netloc (snd ?s) \<noteq> []"
    by (auto simp: validate_delivery_url_def Let_def urlparse_def allowed_url_schemes_def
        split: sum.splits prod.splits if_splits)
  obtain c t where rest: "snd ?s = ''//'' @ c # t" and c: "c \<notin> set ''/?#''"
    using netloc_slashes [OF net] by blast
  have "py_lower (url_clean link) = fst ?s @ '':'' @ py_lower (snd ?s)"
    using sch by (intro split_scheme_http) (auto simp: link)
  moreover have "py_lower (''//'' @ c # t) = ''//'' @ py_lower (c # t)"
    by (simp add: py_lower_def py_lower_char_def)
  ultimately have "py_lower (url_clean link) = fst ?s @ ''://'' @ py_lower (c # t)"
    by (simp add: rest)
  with sch c link show ?thesis by blast
qed

theorem accepted_link_is_absolute_witness:
  "\<exists>link. validate_delivery_url (\<lambda>_. True) '' HTTPS://e.io/x '' = Inr link
     \<and> (\<exists>scheme c t. scheme \<in> {''http'', ''https''} \<and> c \<notin> set ''/?#''
          \<and> py_lower (url_clean link) = scheme @ ''://'' @ py_lower (c # t))"
proof -
  have "validate_delivery_url (\<lambda>_. True) '' HTTPS://e.io/x '' = Inr ''HTTPS://e.io/x''"
    by code_simp
  with accepted_link_is_absolute [OF this] show ?thesis by blast
qed

text \<open>
  A link whose host part has an unbalanced bracket makes the parser raise, and the validator
  lets that \<open>ValueError\<close> through instead of answering \<open>InvalidDeliveryUrlError\<close>.
\<close>

theorem unbalanced_bracket_escapes:
  "validate_delivery_url netloc_ok ''http://['' = Inl (other_exn ValueError ''Invalid IPv6 URL'')"
proof -
  have "py_strip ''http://['' = ''http://[''" and "split_scheme (url_clean ''http://['') = (''http'', ''//['')"
    and "split_netloc ''//['' = ''[''"
    by code_simp+
  then show ?thesis by (simp add: validate_delivery_url_def Let_def urlparse_def)
qed

subsection \<open>Partial updates\<close>

definition patched :: "product \<Rightarrow> product_update \<Rightarrow> product" where
  \<comment> \<open>the specification of a partial update: every supplied field, and only those\<close>
  "patched p u = p\<lparr>pr_slug := maybe_or (up_slug u) (pr_slug p),
     pr_title := maybe_or (up_title u) (pr_title p),
     pr_description := maybe_or (up_description u) (pr_description p),
     pr_delivery_url := maybe_or (up_delivery_url u) (pr_delivery_url p),
     pr_photo_file_id := maybe_or (up_photo_file_id u) (pr_photo_file_id p),
     pr_price_stars := maybe_or (up_price_stars u) (pr_price_stars p),
     pr_price_usdt := maybe_or (up_price_usdt u) (pr_price_usdt p),
     pr_is_active := maybe_or (up_is_active u) (pr_is_active p)\<rparr>"

lemma field_steps:
  "foldl set_field p (candidate ''slug'' VStr a) = p\<lparr>pr_slug := maybe_or a (pr_slug p)\<rparr>"
  "foldl set_field p (candidate ''title'' VStr a) = p\<lparr>pr_title := maybe_or a (pr_title p)\<rparr>"
  "foldl set_field p (candidate ''description'' VStr a) = p\<lparr>pr_description := maybe_or a (pr_description p)\<rparr>"
  "foldl set_field p (candidate ''delivery_url'' VStr a) = p\<lparr>pr_delivery_url := maybe_or a (pr_delivery_url p)\<rparr>"
  "foldl set_field p (candidate ''photo_file_id'' VOptStr b) = p\<lparr>pr_photo_file_id := maybe_or b (pr_photo_file_id p)\<rparr>"
  "foldl set_field p (candidate ''price_stars'' VOptInt c) = p\<lparr>pr_price_stars := maybe_or c (pr_price_stars p)\<rparr>"
  "foldl set_field p (candidate ''price_usdt'' VOptDec e) = p\<lparr>pr_price_usdt := maybe_or e (pr_price_usdt p)\<rparr>"
  "foldl set_field p (candidate ''is_active'' VBool f) = p\<lparr>pr_is_active := maybe_or f (pr_is_active p)\<rparr>"
  by ((cases a; simp), (cases a; simp), (cases a; simp), (cases a; simp), (cases b; simp),
      (cases c; simp), (cases e; simp), (cases f; simp))

lemma set_fields_patched: "foldl set_field p (changes u) = patched p u"
  by (simp add: changes_def foldl_append field_steps patched_def)

lemma pr_id_patched [simp]: "pr_id (patched p u) = pr_id p"
  by (simp add: patched_def)

lemma patched_empty: "changes u = [] \<Longrightarrow> patched p u = p"
  using set_fields_patched [of p u] by simp

lemma product_stored_sel [simp]:
  "pr_id (product_stored p) = pr_id p" "pr_slug (product_stored p) = pr_slug p"
  "pr_price_stars (product_stored p) = pr_price_stars p"
  "pr_price_usdt (product_stored p) = map_option (numeric_round 2) (pr_price_usdt p)"
  by (simp_all add: product_stored_def)

lemma stored_product:
  assumes "db_ok d" and "p \<in> set (products d)"
  shows "product_stored p = p"
  using assms db_okD(3) [OF assms(1)] by (auto simp: list_all_iff product_row_ok_def)

lemma product_found_by_id:
  assumes "db_ok d" and "p \<in> set (products d)"
  shows "List.find (\<lambda>q. pr_id q = pr_id p) (products d) = Some p"
  using find_eq_Some_iff [OF db_okD(1) [OF assms(1)]] assms(2) by blast

text \<open>What the repository's update leaves behind when it succeeds.\<close>

lemma product_update_row_success:
  assumes ok: "db_ok d" and run: "product_update_row now i u d = (Inr q, e)"
  obtains p where "p \<in> set (products d)" "pr_id p = i"
    "q\<lparr>pr_updated_at := 0\<rparr> = (product_stored (patched p u))\<lparr>pr_updated_at := 0\<rparr>"
    "q \<in> set (products e)" "\<And>r. r \<in> set (products e) \<Longrightarrow> r = q \<or> (r \<in> set (products d) \<and> pr_id r \<noteq> i)"
    "users e = users d" "purchases e = purchases d"
proof -
  from run obtain p where found: "List.find (\<lambda>p. pr_id p = i) (products d) = Some p"
    by (auto simp: product_update_row_def bindM_run reread_product_run split: option.splits)
  then have p: "p \<in> set (products d)" and i: "pr_id p = i" using find_SomeD by fastforce+
  note ids = db_okD(1) [OF ok]
  have only: "r = p" if "r \<in> set (products d)" "pr_id r = i" for r
    using that p i ids by (auto simp: distinct_map dest: inj_onD)
  show thesis
  proof (cases "patched p u = p")
    case True
    then have "q = p" and "e = d"
      using run found
      by (auto simp: product_update_row_def bindM_run reread_product_run set_fields_patched
          thenM_run slug_savepoint_run split: if_splits)
    then show thesis
      using that [OF p i] p only stored_product [OF ok p] True by auto
  next
    case False
    let ?r = "product_stored ((patched p u)\<lparr>pr_updated_at := now\<rparr>)"
    have "changes u \<noteq> []" using False patched_empty by blast
    with run found False have e: "e = d\<lparr>products := replace_row pr_id ?r (products d)\<rparr>"
      and q: "List.find (\<lambda>p. pr_id p = i) (products e) = Some q"
      by (auto simp: product_update_row_def bindM_run reread_product_run set_fields_patched Let_def
          thenM_run slug_savepoint_run write_product_def split: sum.splits option.splits if_splits)
    have "pr_id ?r = i" by (simp add: i)
    with q found have "q = ?r" by (simp add: e find_replace_row)
    moreover have "set (products e) = insert ?r (set (products d) - {p})"
      using set_replace_row [OF ids p, of ?r] i by (simp add: e)
    ultimately show thesis
      using that [OF p i] only i by (auto simp: e product_stored_def)
  qed
qed

text \<open>
  C33. A successful partial update applies exactly the supplied fields of the named product (as
  normalised, and rounded to the money column), leaves every other product, user and purchase as
  it was, and the result can still be bought and linked to: it has a price and a valid slug.
\<close>

theorem update_product_patches:
  assumes "db_ok (db w)" and "svc_update_product E i u w = (Inr q, w')"
  shows "\<exists>p prepared. prepare_changes E u = Inr prepared \<and> p \<in> set (products (db w)) \<and> pr_id p = i
     \<and> q\<lparr>pr_updated_at := 0\<rparr> = (product_stored (patched p prepared))\<lparr>pr_updated_at := 0\<rparr>
     \<and> (pr_price_stars q \<noteq> None \<or> pr_price_usdt q \<noteq> None) \<and> slug_body (pr_slug q)
     \<and> (\<forall>r\<in>set (products (db w')). r = q \<or> r \<in> set (products (db w)) \<and> pr_id r \<noteq> i)
     \<and> users (db w') = users (db w) \<and> purchases (db w') = purchases (db w)"
proof -
  from assms(2) obtain prepared where prep: "prepare_changes E u = Inr prepared"
    and uow: "in_uow (\<lambda>now. bindM (product_get i) (\<lambda>m. bindM (product_or_404 i m) (\<lambda>current.
         thenM (liftE (ensure_still_purchasable current prepared)) (product_update_row now i prepared)))) w
       = (Inr q, w')"
    by (auto simp: svc_update_product_def bindM_run split: sum.splits)
  then obtain d where w': "w' = w\<lparr>db := d\<rparr>" and row: "product_update_row (clock w) i prepared (db w) = (Inr q, d)"
    by (auto simp: in_uow_commit bindM_run product_or_404_def thenM_run
        split: option.splits prod.splits sum.splits)
  obtain p where p: "p \<in> set (products (db w))" "pr_id p = i"
    "q\<lparr>pr_updated_at := 0\<rparr> = (product_stored (patched p prepared))\<lparr>pr_updated_at := 0\<rparr>"
    "q \<in> set (products d)"
    "\<And>r. r \<in> set (products d) \<Longrightarrow> r = q \<or> (r \<in> set (products (db w)) \<and> pr_id r \<noteq> i)"
    "users d = users (db w)" "purchases d = purchases (db w)"
    by (rule product_update_row_success [OF assms(1) row]) blast
  have "db_ok d"
    using product_update_evolves [THEN alongD_eq, OF row] assms(1) by (simp add: evolves_def)
  then have "product_row_ok q" using p(4) db_okD(3) by (auto simp: list_all_iff)
  with p w' prep show ?thesis by (auto simp: product_row_ok_def)
qed

definition sample_update :: product_update where
  "sample_update = \<lparr>up_slug = UNSET, up_title = Supplied '' New '', up_description = UNSET,
     up_delivery_url = UNSET, up_photo_file_id = UNSET, up_price_stars = Supplied None,
     up_price_usdt = UNSET, up_is_active = UNSET\<rparr>"

theorem update_product_patches_witness:
  "\<exists>q w'. svc_update_product sample_env 1 sample_update (sample_world []) = (Inr q, w')
     \<and> (\<exists>p prepared. prepare_changes sample_env sample_update = Inr prepared
          \<and> p \<in> set (products (sample_db [])) \<and> pr_id p = 1
          \<and> q\<lparr>pr_updated_at := 0\<rparr> = (product_stored (patched p prepared))\<lparr>pr_updated_at := 0\<rparr>)"
proof -
  define u where "u = sample_update\<lparr>up_title := Supplied ''New''\<rparr>"
  define q where "q = (patched sample_product u)\<lparr>pr_updated_at := 1000000\<rparr>"
  have "py_strip '' New '' = ''New''" by code_simp
  then have prep: "prepare_changes sample_env sample_update = Inr u"
    by (simp add: prepare_changes_def sample_update_def u_def)
  have ch: "changes u \<noteq> []"
    by (simp add: changes_def sample_update_def u_def)
  have ne: "patched sample_product u \<noteq> sample_product"
    by (simp add: patched_def sample_product_def sample_update_def u_def)
  have priced: "ensure_still_purchasable sample_product u = Inr ()"
    by (simp add: ensure_still_purchasable_def sample_update_def u_def)
  have q: "q = sample_product\<lparr>pr_title := ''New'', pr_price_stars := None, pr_updated_at := 1000000\<rparr>"
    by (simp add: q_def u_def patched_def sample_update_def sample_product_def)
  then have id: "pr_id q = 1" by simp
  have "product_stored q = q"
    by (simp add: product_stored_def q sample_product_def)
  moreover have "product_fits q \<and> product_violation [] q = None"
    by (simp add: product_fits_def q sample_product_def fits_string_def
        fits_numeric_def slug_max_length_def product_violation_def slug_body_def slug_char_def
        is_ascii_letter_def key_free_def)
  ultimately have wr: "write_product q (sample_db []) = Inr ((sample_db [])\<lparr>products := [q]\<rparr>)"
    by (simp add: write_product_def Let_def rows_but_def replace_row_def id)
  have "product_update_row 1000000 1 u (sample_db []) = (Inr q, (sample_db [])\<lparr>products := [q]\<rparr>)"
    using ne ch
    by (simp add: product_update_row_def bindM_run reread_product_run set_fields_patched
        slug_savepoint_run Let_def thenM_run wr id flip: q_def)
  then have "svc_update_product sample_env 1 sample_update (sample_world [])
      = (Inr q, (sample_world [])\<lparr>db := (sample_db [])\<lparr>products := [q]\<rparr>\<rparr>)"
    by (simp add: svc_update_product_def bindM_run prep in_uow_def product_or_404_def thenM_run priced)
  with update_product_patches [OF _ this] show ?thesis by fastforce
qed

text \<open>
  Deleting a product, on every branch: a product that was ever bought is kept and the caller
  gets a \<open>ConflictError\<close> with the number of its purchases; one that was never bought disappears and
  nothing else changes; an unknown id is \<open>ProductNotFoundError\<close>.
\<close>

theorem delete_product_outcome:
  assumes "db_ok (db w)"
  shows "svc_delete_product i w =
     (if \<forall>p\<in>set (products (db w)). pr_id p \<noteq> i
      then (Inl (err ProductNotFoundError [(''product_id'', JStr (uuid_str i))]), w)
      else if \<exists>p\<in>set (purchases (db w)). pu_product_id p = i
      then (Inl (err_msg ConflictError
             ''Product has purchases and cannot be deleted; deactivate it instead''
             [(''product_id'', JStr (uuid_str i)), (''purchases'', JInt (int (sold i (db w))))]), w)
      else (Inr (), w\<lparr>db := (db w)\<lparr>products := filter (\<lambda>p. pr_id p \<noteq> i) (products (db w))\<rparr>\<rparr>))"
proof (cases "List.find (\<lambda>p. pr_id p = i) (products (db w))")
  case None
  then have unknown: "\<forall>p\<in>set (products (db w)). pr_id p \<noteq> i" by (auto simp: find_None_iff)
  have "reread_product i (db w) = (Inl (err ProductNotFoundError [(''product_id'', JStr (uuid_str i))]), db w)"
    by (simp add: reread_product_run None)
  then show ?thesis
    unfolding if_P [OF unknown] by (simp add: svc_delete_product_def in_uow_def product_delete_def bindM_run)
next
  case (Some p)
  then have known: "\<not> (\<forall>p\<in>set (products (db w)). pr_id p \<noteq> i)" using find_SomeD by fastforce
  have "(sold i (db w) = 0) = (\<not> (\<exists>p\<in>set (purchases (db w)). pu_product_id p = i))"
    by (auto simp: sold_def filter_empty_conv)
  moreover have "svc_delete_product i w =
     (if sold i (db w) \<noteq> 0 then (Inl (err_msg ConflictError
             ''Product has purchases and cannot be deleted; deactivate it instead''
             [(''product_id'', JStr (uuid_str i)), (''purchases'', JInt (int (sold i (db w))))]), w)
      else case delete_product_row i (db w) of Inl e \<Rightarrow> (Inl e, w) | Inr d \<Rightarrow> (Inr (), w\<lparr>db := d\<rparr>))"
    by (simp add: svc_delete_product_def in_uow_def product_delete_def bindM_run reread_product_run
        Some flush_run split: sum.split)
  ultimately show ?thesis
    unfolding if_not_P [OF known] by (simp add: delete_product_row_def list_ex_iff)
qed

theorem delete_product_outcome_witness:
  "svc_delete_product 1 (sample_world [])
     = (Inr (), (sample_world [])\<lparr>db := (sample_db [])\<lparr>products := []\<rparr>\<rparr>)
   \<and> db (snd (svc_delete_product 1 (sample_world [sample_purchase REFUNDED])))
     = sample_db [sample_purchase REFUNDED]"
  using delete_product_outcome [of "sample_world []" 1]
    delete_product_outcome [of "sample_world [sample_purchase REFUNDED]" 1]
  by simp

end
