(* ===== verification/Stats.thy ===== *)
theory Stats
  imports ProductRepo PurchaseRepo "HOL-Library.List_Lexorder" "HOL-Library.Char_ord"
begin

section \<open>Dashboard statistics\<close>

text \<open>
  \<^verbatim>\<open>domain/stats.py\<close>, \<^verbatim>\<open>infrastructure/db/repositories/stats.py\<close> and \<^verbatim>\<open>services/stats.py\<close>:
  reporting windows aligned to UTC midnight, revenue per currency, best sellers and latest sales,
  all read in one unit of work. Titles are ordered by code point (the C collation).
\<close>

subsection \<open>Windows\<close>

datatype stats_period = TODAY | WEEK | MONTH | ALL_TIME

definition week_days :: int where "week_days = 7"

definition month_days :: int where "month_days = 30"

definition day :: int where
  \<comment> \<open>microseconds of a day\<close>
  "day = 24 * 60 * 60 * 1000000"

fun period_start :: "stats_period \<Rightarrow> datetime \<Rightarrow> datetime option" where
  "period_start TODAY now = Some (now - now mod day)"
| "period_start WEEK now = Some (now - now mod day - (week_days - 1) * day)"
| "period_start MONTH now = Some (now - now mod day - (month_days - 1) * day)"
| "period_start ALL_TIME now = None"

definition in_window :: "stats_period \<Rightarrow> datetime \<Rightarrow> purchase \<Rightarrow> bool" where
  "in_window period now p =
     (pu_status p \<in> set access_granting_statuses
      \<and> (case period_start period now of None \<Rightarrow> True
         | Some start \<Rightarrow> (case pu_paid_at p of None \<Rightarrow> False | Some t \<Rightarrow> start \<le> t)))"

subsection \<open>Aggregates\<close>

record revenue_summary =
  rv_period :: stats_period
  rv_purchases_count :: nat
  rv_stars_amount :: int
  rv_usdt_amount :: rat

record top_product =
  tp_product_id :: uuid
  tp_slug :: string
  tp_title :: string
  tp_purchases_count :: nat
  tp_stars_amount :: int
  tp_usdt_amount :: rat

definition py_int :: "rat \<Rightarrow> int" where
  \<comment> \<open>\<open>int(x)\<close> truncates towards zero\<close>
  "py_int x = (if 0 \<le> x then \<lfloor>x\<rfloor> else \<lceil>x\<rceil>)"

definition amount_in :: "currency_t \<Rightarrow> purchase list \<Rightarrow> exn + rat" where
  \<comment> \<open>coalesce(sum(CASE ...), 0)::NUMERIC(18, 6)\<close>
  "amount_in c ps =
     (let total = sum_list (map (\<lambda>p. if pu_currency p = c then pu_amount p else 0) ps) in
      if fits_numeric 18 6 total then Inr (numeric_round 6 total) else Inl data_error)"

definition revenue :: "datetime \<Rightarrow> stats_period \<Rightarrow> (exn, database, revenue_summary) prog" where
  "revenue now period =
     bindM (getsM (\<lambda>d. filter (in_window period now) (purchases d))) (\<lambda>ps.
     bindM (liftE (amount_in XTR ps)) (\<lambda>stars.
     bindM (liftE (amount_in USDT ps)) (\<lambda>usdt.
       ret \<lparr>rv_period = period, rv_purchases_count = length ps, rv_stars_amount = py_int stars,
            rv_usdt_amount = usdt\<rparr>)))"

fun collect :: "(exn + 'a) list \<Rightarrow> exn + 'a list" where
  "collect [] = Inr []"
| "collect (r # rs) = (case r of Inl e \<Rightarrow> Inl e
     | Inr x \<Rightarrow> (case collect rs of Inl e \<Rightarrow> Inl e | Inr xs \<Rightarrow> Inr (x # xs)))"

definition product_sales :: "product \<Rightarrow> purchase list \<Rightarrow> exn + top_product" where
  "product_sales q ps =
     (case amount_in XTR ps of Inl e \<Rightarrow> Inl e | Inr stars \<Rightarrow>
     (case amount_in USDT ps of Inl e \<Rightarrow> Inl e | Inr usdt \<Rightarrow>
        Inr \<lparr>tp_product_id = pr_id q, tp_slug = pr_slug q, tp_title = pr_title q,
             tp_purchases_count = length ps, tp_stars_amount = py_int stars, tp_usdt_amount = usdt\<rparr>))"

definition top_products :: "datetime \<Rightarrow> stats_period \<Rightarrow> nat \<Rightarrow> (exn, database, top_product list) prog" where
  \<comment> \<open>the inner join drops products without sales; one group per product\<close>
  "top_products now period limit = (\<lambda>d.
     let sales = (\<lambda>q. filter (\<lambda>p. pu_product_id p = pr_id q \<and> in_window period now p) (purchases d));
         groups = filter (\<lambda>q. sales q \<noteq> []) (products d)
     in (case collect (map (\<lambda>q. product_sales q (sales q)) groups) of
           Inl e \<Rightarrow> (Inl e, d)
         | Inr rows \<Rightarrow> (Inr (take limit
             (sort_key (\<lambda>t. (- int (tp_purchases_count t), tp_title t)) rows)), d)))"

definition recent_purchases :: "nat \<Rightarrow> (exn, database, purchase_record list) prog" where
  \<comment> \<open>ORDER BY paid_at DESC NULLS LAST, created_at DESC\<close>
  "recent_purchases limit = getsM (\<lambda>d. take limit
     (sort_key (\<lambda>r. (case pu_paid_at (rec_purchase r) of Some t \<Rightarrow> (0::int, - t) | None \<Rightarrow> (1, 0),
          - pu_created_at (rec_purchase r)))
       (concat (map (join_record d)
          (filter (\<lambda>p. pu_status p \<in> set access_granting_statuses) (purchases d))))))"

subsection \<open>The dashboard\<close>

record stats_overview =
  ov_today :: revenue_summary
  ov_week :: revenue_summary
  ov_month :: revenue_summary
  ov_total :: revenue_summary
  ov_top_products :: "top_product list"
  ov_recent_purchases :: "purchase_record list"
  ov_products_total :: nat
  ov_products_active :: nat
  ov_users_total :: nat

definition overview_in :: "nat \<Rightarrow> nat \<Rightarrow> datetime \<Rightarrow> (exn, database, stats_overview) prog" where
  "overview_in top_limit recent_limit now =
     bindM (revenue now TODAY) (\<lambda>today.
     bindM (revenue now WEEK) (\<lambda>week.
     bindM (revenue now MONTH) (\<lambda>month.
     bindM (revenue now ALL_TIME) (\<lambda>total.
     bindM (top_products now MONTH top_limit) (\<lambda>top.
     bindM (recent_purchases recent_limit) (\<lambda>recent.
     bindM (product_count None) (\<lambda>products_total.
     bindM (product_count (Some True)) (\<lambda>products_active.
     bindM user_count (\<lambda>users_total.
       ret \<lparr>ov_today = today, ov_week = week, ov_month = month, ov_total = total,
            ov_top_products = top, ov_recent_purchases = recent,
            ov_products_total = products_total, ov_products_active = products_active,
            ov_users_total = users_total\<rparr>)))))))))"

definition svc_overview :: "nat \<Rightarrow> nat \<Rightarrow> stats_overview action" where
  "svc_overview top_limit recent_limit = in_uow (overview_in top_limit recent_limit)"

definition svc_search_purchases :: "purchase_filters \<Rightarrow> page_request \<Rightarrow> purchase_record page action" where
  "svc_search_purchases f pq = in_uow (\<lambda>_. search_purchases f pq)"

subsection \<open>The windows are nested\<close>

lemma revenue_run:
  "revenue now period d = (Inr r, d') \<longleftrightarrow> d' = d \<and>
     (\<exists>stars usdt. amount_in XTR (filter (in_window period now) (purchases d)) = Inr stars
        \<and> amount_in USDT (filter (in_window period now) (purchases d)) = Inr usdt
        \<and> r = \<lparr>rv_period = period,
             rv_purchases_count = length (filter (in_window period now) (purchases d)),
             rv_stars_amount = py_int stars, rv_usdt_amount = usdt\<rparr>)"
  by (auto simp: revenue_def bindM_run split: sum.splits)

lemma numeric_round_mono:
  assumes "0 \<le> x" and "x \<le> y"
  shows "numeric_round s x \<le> numeric_round s y"
proof (cases "x = 0")
  case True
  have "0 \<le> \<bar>y\<bar> * 10 ^ s + 1 / 2" by simp
  then have "0 \<le> numeric_round s y" using assms True by (simp add: numeric_round_def sgn_if)
  then show ?thesis by (simp add: True numeric_round_def [of s 0])
next
  case False
  have "\<bar>x\<bar> * 10 ^ s + 1 / 2 \<le> \<bar>y\<bar> * 10 ^ s + 1 / 2" using assms by (simp add: mult_right_mono)
  then have "\<lfloor>\<bar>x\<bar> * 10 ^ s + 1 / 2\<rfloor> \<le> \<lfloor>\<bar>y\<bar> * 10 ^ s + 1 / 2\<rfloor>" by (rule floor_mono)
  then show ?thesis using assms False by (simp add: numeric_round_def sgn_if divide_right_mono)
qed

lemma py_int_mono:
  assumes "x \<le> y"
  shows "py_int x \<le> py_int y"
proof -
  have "\<lceil>x\<rceil> \<le> \<lfloor>y\<rfloor>" if "x < 0" "0 \<le> y"
  proof -
    have "\<lceil>x\<rceil> \<le> 0" and "0 \<le> \<lfloor>y\<rfloor>" using that by (simp_all add: ceiling_le_iff)
    then show ?thesis by (rule order_trans)
  qed
  then show ?thesis using assms floor_mono [OF assms] ceiling_mono [OF assms] by (simp add: py_int_def)
qed

lemma filter_weaken_length:
  "(\<And>x. P x \<Longrightarrow> Q x) \<Longrightarrow> length (filter P xs) \<le> length (filter Q xs)"
  by (induction xs) (auto simp: le_SucI)

lemma filter_weaken_sum:
  fixes f :: "'a \<Rightarrow> rat"
  assumes "\<And>x. P x \<Longrightarrow> Q x" and "\<And>x. x \<in> set xs \<Longrightarrow> 0 \<le> f x"
  shows "sum_list (map f (filter P xs)) \<le> sum_list (map f (filter Q xs))"
  using assms(2)
proof (induction xs)
  case (Cons x xs)
  have "0 \<le> sum_list (map f (filter Q xs))" using Cons.prems by (intro sum_list_nonneg) auto
  with Cons assms(1) [of x] show ?case by (auto simp: add_increasing)
qed simp

lemma amount_in_mono:
  assumes "db_ok d" and "\<And>p. P p \<Longrightarrow> Q p"
    and "amount_in c (filter P (purchases d)) = Inr x" and "amount_in c (filter Q (purchases d)) = Inr y"
  shows "x \<le> y"
proof -
  have pos: "0 \<le> (if pu_currency p = c then pu_amount p else 0)" if "p \<in> set (purchases d)" for p
    using db_okD(7) [OF assms(1)] that by (auto simp: list_all_iff purchase_row_ok_def intro: less_imp_le)
  let ?f = "\<lambda>p. if pu_currency p = c then pu_amount p else 0"
  have "0 \<le> x" if "x \<in> set (map ?f (filter P (purchases d)))" for x
  proof -
    from that obtain p where "p \<in> set (purchases d)" and "x = ?f p" by auto
    then show ?thesis using pos by blast
  qed
  then have "0 \<le> sum_list (map ?f (filter P (purchases d)))" by (intro sum_list_nonneg)
  moreover have "sum_list (map ?f (filter P (purchases d))) \<le> sum_list (map ?f (filter Q (purchases d)))"
    using assms(2) pos by (rule filter_weaken_sum)
  ultimately show ?thesis
    using assms(3,4) numeric_round_mono by (auto simp: amount_in_def Let_def split: if_splits)
qed

definition revenue_le :: "revenue_summary \<Rightarrow> revenue_summary \<Rightarrow> bool" where
  "revenue_le r s = (rv_purchases_count r \<le> rv_purchases_count s
     \<and> rv_stars_amount r \<le> rv_stars_amount s \<and> rv_usdt_amount r \<le> rv_usdt_amount s)"

lemma revenue_mono:
  assumes "db_ok d" and "\<And>p. in_window a now p \<Longrightarrow> in_window b now p"
    and "revenue now a d = (Inr r, d')" and "revenue now b d = (Inr s, e')"
  shows "revenue_le r s"
proof -
  note mono = amount_in_mono [where P = "in_window a now" and Q = "in_window b now", OF assms(1,2)]
  have "length (filter (in_window a now) xs) \<le> length (filter (in_window b now) xs)" for xs
    using assms(2) by (rule filter_weaken_length)
  with assms(3,4) mono py_int_mono show ?thesis
    by (auto simp: revenue_run revenue_le_def)
qed

lemma in_window_mono:
  "in_window TODAY now p \<Longrightarrow> in_window WEEK now p"
  "in_window WEEK now p \<Longrightarrow> in_window MONTH now p"
  "in_window MONTH now p \<Longrightarrow> in_window ALL_TIME now p"
  by (auto simp: in_window_def week_days_def month_days_def day_def split: option.splits)

lemma overview_run:
  assumes "overview_in t n now d = (Inr v, d')"
  shows "d' = d" "revenue now TODAY d = (Inr (ov_today v), d)" "revenue now WEEK d = (Inr (ov_week v), d)"
    "revenue now MONTH d = (Inr (ov_month v), d)" "revenue now ALL_TIME d = (Inr (ov_total v), d)"
proof -
  obtain today d1 where 1: "revenue now TODAY d = (Inr today, d1)"
    using assms by (auto simp: overview_in_def bindM_run split: prod.splits sum.splits)
  then have d1: "d1 = d" by (simp add: revenue_run)
  obtain week d2 where 2: "revenue now WEEK d = (Inr week, d2)"
    using assms 1 d1 by (auto simp: overview_in_def bindM_run split: prod.splits sum.splits)
  then have d2: "d2 = d" by (simp add: revenue_run)
  obtain month d3 where 3: "revenue now MONTH d = (Inr month, d3)"
    using assms 1 2 d1 d2 by (auto simp: overview_in_def bindM_run split: prod.splits sum.splits)
  then have d3: "d3 = d" by (simp add: revenue_run)
  obtain total d4 where 4: "revenue now ALL_TIME d = (Inr total, d4)"
    using assms 1 2 3 d1 d2 d3 by (auto simp: overview_in_def bindM_run split: prod.splits sum.splits)
  then have d4: "d4 = d" by (simp add: revenue_run)
  have top: "top_products now MONTH t d = (x, d5) \<Longrightarrow> d5 = d" for x d5
    by (auto simp: top_products_def Let_def split: sum.splits)
  have "d' = d \<and> ov_today v = today \<and> ov_week v = week \<and> ov_month v = month \<and> ov_total v = total"
    using assms 1 2 3 4 d1 d2 d3 d4 top
    by (auto simp: overview_in_def bindM_run recent_purchases_def product_count_def user_count_def
        split: prod.splits sum.splits)
  with 1 2 3 4 d1 d2 d3 d4
  show "d' = d" "revenue now TODAY d = (Inr (ov_today v), d)" "revenue now WEEK d = (Inr (ov_week v), d)"
    "revenue now MONTH d = (Inr (ov_month v), d)" "revenue now ALL_TIME d = (Inr (ov_total v), d)"
    by simp_all
qed

text \<open>
  The dashboard is consistent: computing it changes nothing, the figures of today, the week,
  the month and all time only grow from one window to the next, and the all-time count is the number
  of purchases that grant access, so refunded, expired and pending ones are never revenue.
\<close>

theorem overview_consistent:
  assumes "db_ok (db w)" and "svc_overview t n w = (Inr v, w')"
  shows "w' = w \<and> revenue_le (ov_today v) (ov_week v) \<and> revenue_le (ov_week v) (ov_month v)
     \<and> revenue_le (ov_month v) (ov_total v)
     \<and> rv_purchases_count (ov_total v) = length (filter grants_access (purchases (db w)))"
proof -
  from assms(2) obtain d where run: "overview_in t n (clock w) (db w) = (Inr v, d)" and w': "w' = w\<lparr>db := d\<rparr>"
    by (auto simp: svc_overview_def in_uow_commit)
  note r = overview_run [OF run]
  have "in_window ALL_TIME (clock w) = grants_access"
    by (auto simp: in_window_def fun_eq_iff)
  then have "rv_purchases_count (ov_total v) = length (filter grants_access (purchases (db w)))"
    using r(5) by (auto simp: revenue_run)
  then show ?thesis
    using revenue_mono [OF assms(1) in_window_mono(1) r(2,3)] revenue_mono [OF assms(1) in_window_mono(2) r(3,4)]
      revenue_mono [OF assms(1) in_window_mono(3) r(4,5)] w' r(1) by simp
qed

theorem overview_consistent_witness:
  "\<exists>v. svc_overview 10 10 (sample_world []) = (Inr v, sample_world [])
     \<and> revenue_le (ov_today v) (ov_week v) \<and> rv_purchases_count (ov_total v) = 0"
proof -
  have "\<exists>v. svc_overview 10 10 (sample_world []) = (Inr v, sample_world [])"
    by (simp add: svc_overview_def in_uow_def overview_in_def bindM_run revenue_def amount_in_def
        numeric_round_def fits_numeric_def top_products_def recent_purchases_def product_count_def
        user_count_def Let_def sample_world_def)
  then obtain v where v: "svc_overview 10 10 (sample_world []) = (Inr v, sample_world [])" by blast
  with overview_consistent [OF _ v] show ?thesis by auto
qed

end
