(* ===== verification/Auth.thy ===== *)
theory Auth
  imports CryptoBot
begin

section \<open>Administrator authentication\<close>

text \<open>
  \<^verbatim>\<open>services/auth.py\<close> and \<^verbatim>\<open>domain/auth.py\<close>. PyJWT and argon2 are functions of the environment:
  \<open>env_jwt_decode\<close> takes the secret, the time and a token and yields the claims or the name of the
  \<open>PyJWTError\<close> (its algorithm, issuer and required claims are fixed), \<open>env_jwt_encode\<close> takes the
  secret and the claims the service builds, in which a datetime is its number of microseconds.
  \<open>env_argon2_verify\<close> compares a password with the hash of the configured one. Nothing is assumed of
  them; what a theorem needs of PyJWT is one of its hypotheses.
\<close>

subsection \<open>Operations\<close>

datatype token_type = ACCESS | REFRESH

fun token_type_value :: "token_type \<Rightarrow> string" where
  "token_type_value ACCESS = ''access''"
| "token_type_value REFRESH = ''refresh''"

record admin_identity =
  ai_username :: string
  ai_token_id :: string
  ai_token_type :: token_type

record token_pair =
  tp_access_token :: string
  tp_refresh_token :: string
  tp_access_expires_in :: int
  tp_refresh_expires_in :: int

definition security :: "env \<Rightarrow> security_settings" where
  "security E = cfg_security (env_settings E)"

definition access_ttl :: "env \<Rightarrow> int" where
  \<comment> \<open>seconds\<close>
  "access_ttl E = sec_access_token_ttl_minutes (security E) * 60"

definition refresh_ttl :: "env \<Rightarrow> int" where
  "refresh_ttl E = sec_refresh_token_ttl_days (security E) * 86400"

definition constant_time_equals :: "string \<Rightarrow> string \<Rightarrow> bool" where
  "constant_time_equals left right = (left = right)"

definition verify_password :: "env \<Rightarrow> string \<Rightarrow> bool" where
  "verify_password E password = env_argon2_verify E (sec_admin_password (security E)) password"

definition token_claims :: "string \<Rightarrow> token_type \<Rightarrow> string \<Rightarrow> datetime \<Rightarrow> datetime \<Rightarrow> (string \<times> json) list" where
  "token_claims username kind token_id issued_at expires_at =
     [(''sub'', JStr username), (''type'', JStr (token_type_value kind)), (''jti'', JStr token_id),
      (''iss'', JStr ''tgshop-admin''), (''iat'', JInt issued_at), (''exp'', JInt expires_at)]"

definition encode_token :: "env \<Rightarrow> string \<Rightarrow> token_type \<Rightarrow> int \<Rightarrow> datetime \<Rightarrow> string action" where
  \<comment> \<open>\<open>_encode\<close>; the lifetime is in seconds\<close>
  "encode_token E username kind ttl issued_at =
     bindM (new_uuid E) (\<lambda>u. ret (env_jwt_encode E (sec_jwt_secret (security E))
       (token_claims username kind (uuid_hex u) issued_at (issued_at + ttl * 1000000))))"

definition issue_pair :: "env \<Rightarrow> string \<Rightarrow> token_pair action" where
  "issue_pair E username =
     bindM utc_now (\<lambda>issued_at.
     bindM (encode_token E username ACCESS (access_ttl E) issued_at) (\<lambda>access.
     bindM (encode_token E username REFRESH (refresh_ttl E) issued_at) (\<lambda>refresh.
       ret \<lparr>tp_access_token = access, tp_refresh_token = refresh,
            tp_access_expires_in = access_ttl E, tp_refresh_expires_in = refresh_ttl E\<rparr>)))"

definition auth_login :: "env \<Rightarrow> string \<Rightarrow> string \<Rightarrow> token_pair action" where
  "auth_login E username password =
     (let username_ok = constant_time_equals username (sec_admin_username (security E));
          password_ok = verify_password E password
      in if \<not> (username_ok \<and> password_ok) then throw (err AuthenticationError [])
         else issue_pair E (sec_admin_username (security E)))"

definition decode_token :: "env \<Rightarrow> string \<Rightarrow> (string \<times> json) list action" where
  "decode_token E token = bindM utc_now (\<lambda>now.
     case env_jwt_decode E (sec_jwt_secret (security E)) now token of
       Inl reason \<Rightarrow> throw (err InvalidTokenError [(''reason'', JStr reason)])
     | Inr claims \<Rightarrow> ret claims)"

definition authenticate :: "env \<Rightarrow> string \<Rightarrow> token_type \<Rightarrow> admin_identity action" where
  "authenticate E token expected =
     bindM (decode_token E token) (\<lambda>payload.
     if json_get payload ''type'' \<noteq> JStr (token_type_value expected)
     then throw (err InvalidTokenError [(''expected'', JStr (token_type_value expected)),
                  (''actual'', JStr (py_str (json_get payload ''type'')))])
     else (case (json_get payload ''jti'', json_get payload ''sub'') of
         (JStr token_id, JStr subject) \<Rightarrow>
           bindM (is_revoked token_id) (\<lambda>revoked.
           if revoked then throw (err InvalidTokenError [])
           else if \<not> constant_time_equals subject (sec_admin_username (security E))
           then throw (err InvalidTokenError [])
           else ret \<lparr>ai_username = subject, ai_token_id = token_id, ai_token_type = expected\<rparr>)
       | _ \<Rightarrow> throw (err InvalidTokenError [])))"

definition auth_revoke :: "env \<Rightarrow> string \<Rightarrow> token_type \<Rightarrow> unit action" where
  "auth_revoke E token_id kind =
     revoke token_id (of_int (if kind = REFRESH then refresh_ttl E else access_ttl E))"

definition auth_refresh :: "env \<Rightarrow> string \<Rightarrow> token_pair action" where
  "auth_refresh E refresh_token =
     bindM (authenticate E refresh_token REFRESH) (\<lambda>identity.
     thenM (auth_revoke E (ai_token_id identity) REFRESH) (issue_pair E (ai_username identity)))"

definition auth_logout :: "env \<Rightarrow> string \<Rightarrow> unit action" where
  "auth_logout E refresh_token =
     bindM (authenticate E refresh_token REFRESH) (\<lambda>identity.
       auth_revoke E (ai_token_id identity) REFRESH)"

subsection \<open>What a token must satisfy\<close>

definition token_accepted :: "env \<Rightarrow> string \<Rightarrow> token_type \<Rightarrow> world \<Rightarrow> string \<Rightarrow> bool" where
  \<comment> \<open>the token with this id is good at this moment\<close>
  "token_accepted E token expected w token_id =
     (case env_jwt_decode E (sec_jwt_secret (security E)) (clock w) token of
        Inl _ \<Rightarrow> False
      | Inr claims \<Rightarrow> json_get claims ''type'' = JStr (token_type_value expected)
          \<and> json_get claims ''jti'' = JStr token_id
          \<and> json_get claims ''sub'' = JStr (sec_admin_username (security E))
          \<and> r_get (now_ms (clock w)) (revoked_name token_id) (redis w) = None)"

lemma authenticate_run:
  "authenticate E token expected w = (r, w') \<Longrightarrow> w' = w \<and>
     (case r of
        Inr a \<Rightarrow> token_accepted E token expected w (ai_token_id a)
          \<and> ai_username a = sec_admin_username (security E) \<and> ai_token_type a = expected
      | Inl e \<Rightarrow> exn_cls e = InvalidTokenError \<and> (\<forall>i. \<not> token_accepted E token expected w i))"
  by (auto simp: authenticate_def decode_token_def bindM_run utc_now_def is_revoked_run token_accepted_def
      constant_time_equals_def split: sum.splits json.splits if_splits)

text \<open>
  Authentication is exact and reads only: a token is accepted precisely when PyJWT accepts it
  now, it is of the expected kind, it names the configured administrator and its id is not revoked;
  in every other case the caller gets an \<open>InvalidTokenError\<close>, never anything else.
\<close>

theorem authenticate_exact:
  "snd (authenticate E token expected w) = w
   \<and> (case fst (authenticate E token expected w) of
        Inr a \<Rightarrow> token_accepted E token expected w (ai_token_id a)
          \<and> ai_username a = sec_admin_username (security E) \<and> ai_token_type a = expected
      | Inl e \<Rightarrow> exn_cls e = InvalidTokenError \<and> (\<forall>i. \<not> token_accepted E token expected w i))"
  using authenticate_run [of E token expected w "fst (authenticate E token expected w)"
      "snd (authenticate E token expected w)"] by simp

subsection \<open>Issued tokens\<close>

definition jwt_round_trip :: "env \<Rightarrow> bool" where
  \<comment> \<open>PyJWT decodes the tokens of this service under the same secret to the same texts, until the
      second in which \<open>exp\<close> lies\<close>
  "jwt_round_trip E = (\<forall>secret username kind token_id issued_at x t. t < x div 1000000 * 1000000
     \<longrightarrow> (\<exists>decoded. env_jwt_decode E secret t
             (env_jwt_encode E secret (token_claims username kind token_id issued_at x)) = Inr decoded
          \<and> json_get decoded ''sub'' = JStr username
          \<and> json_get decoded ''type'' = JStr (token_type_value kind)
          \<and> json_get decoded ''jti'' = JStr token_id))"

lemma encode_token_run:
  "encode_token E username kind ttl issued_at w =
     (Inr (env_jwt_encode E (sec_jwt_secret (security E)) (token_claims username kind
         (uuid_hex (env_uuid4 E (uuids_drawn w))) issued_at (issued_at + ttl * 1000000))),
      w\<lparr>uuids_drawn := Suc (uuids_drawn w)\<rparr>)"
  by (simp add: encode_token_def bindM_run new_uuid_def)

lemma issued_token_accepted:
  assumes "jwt_round_trip E" and "clock v < (issued_at + ttl * 1000000) div 1000000 * 1000000"
    and "encode_token E (sec_admin_username (security E)) kind ttl issued_at w = (Inr token, w')"
    and "r_get (now_ms (clock v)) (revoked_name (uuid_hex (env_uuid4 E (uuids_drawn w)))) (redis v) = None"
  shows "token_accepted E token expected v i \<longleftrightarrow>
     expected = kind \<and> i = uuid_hex (env_uuid4 E (uuids_drawn w))"
proof -
  let ?id = "uuid_hex (env_uuid4 E (uuids_drawn w))" and ?u = "sec_admin_username (security E)"
  have token: "token = env_jwt_encode E (sec_jwt_secret (security E))
      (token_claims ?u kind ?id issued_at (issued_at + ttl * 1000000))"
    using assms(3) by (simp add: encode_token_run)
  from assms(1,2) obtain decoded where
    dec: "env_jwt_decode E (sec_jwt_secret (security E)) (clock v) token = Inr decoded"
      "json_get decoded ''sub'' = JStr ?u" "json_get decoded ''type'' = JStr (token_type_value kind)"
      "json_get decoded ''jti'' = JStr ?id"
    unfolding jwt_round_trip_def token by blast
  have "token_type_value kind = token_type_value expected \<longleftrightarrow> expected = kind"
    by (cases kind; cases expected) simp_all
  with dec assms(4) show ?thesis by (auto simp: token_accepted_def)
qed

text \<open>A codec of the three texts that never expires: it shows what the hypothesis asks can be had.\<close>

definition field :: "string \<Rightarrow> string" where
  "field s = replicate (length s) CHR ''x'' @ CHR ''.'' # s"

definition read_field :: "string \<Rightarrow> string \<times> string" where
  "read_field tok = (let n = length (takeWhile (\<lambda>c. c = CHR ''x'') tok); rest = drop (Suc n) tok
     in (take n rest, drop n rest))"

definition json_text :: "json \<Rightarrow> string" where
  "json_text x = (case x of JStr s \<Rightarrow> s | _ \<Rightarrow> [])"

definition jwt_env :: env where
  "jwt_env = sample_env\<lparr>
     env_jwt_encode := (\<lambda>_ claims. concat (map (\<lambda>k. field (json_text (json_get claims k))) [''sub'', ''type'', ''jti''])),
     env_jwt_decode := (\<lambda>_ _ token. let (u, r) = read_field token; (k, r') = read_field r; (i, _) = read_field r'
        in Inr [(''sub'', JStr u), (''type'', JStr k), (''jti'', JStr i)])\<rparr>"

lemma read_field_field [simp]: "read_field (field s @ r) = (s, r)"
proof -
  have "takeWhile (\<lambda>c. c = CHR ''x'') (field s @ r) = replicate (length s) CHR ''x''"
    by (simp add: field_def takeWhile_append)
  then show ?thesis by (simp add: read_field_def field_def)
qed

lemma jwt_env_round_trip: "jwt_round_trip jwt_env"
  using read_field_field [of _ "[]"]
  by (simp add: jwt_round_trip_def jwt_env_def token_claims_def json_get_def json_text_def)



subsection \<open>Revoked tokens\<close>

lemma whole_second_before:
  "t < 1000000 * s \<Longrightarrow> 1000000 * s \<le> u + l * 1000000 \<Longrightarrow> now_ms t < now_ms u + l * 1000"
proof -
  assume "t < 1000000 * s" and le: "1000000 * s \<le> u + l * 1000000"
  then have "t < 1000 * s * 1000" by simp
  then have "t div 1000 < 1000 * s" by linarith
  also have "\<dots> = 1000000 * s div 1000" by simp
  also have "\<dots> \<le> (u + l * 1000 * 1000) div 1000" using le by (intro zdiv_mono1) simp_all
  also have "\<dots> = u div 1000 + l * 1000" by (subst div_mult_self1) simp_all
  finally show ?thesis by (simp add: now_ms_def)
qed

lemma retired_token:
  assumes "token_accepted E token REFRESH w i"
    and "\<And>t. 1000000 * s \<le> t \<Longrightarrow> \<exists>m. env_jwt_decode E (sec_jwt_secret (security E)) t token = Inl m"
    and "1000000 * s \<le> clock w + refresh_ttl E * 1000000"
    and "\<And>t c c'. env_jwt_decode E (sec_jwt_secret (security E)) t token = Inr c \<Longrightarrow>
           env_jwt_decode E (sec_jwt_secret (security E)) (clock w) token = Inr c' \<Longrightarrow> c = c'"
    and "redis v (revoked_name i) = redis (snd (auth_revoke E i REFRESH w)) (revoked_name i)"
  shows "\<not> token_accepted E token expected v j"
proof
  assume acc: "token_accepted E token expected v j"
  then obtain c where c: "env_jwt_decode E (sec_jwt_secret (security E)) (clock v) token = Inr c"
    and j: "json_get c ''jti'' = JStr j" and live: "r_get (now_ms (clock v)) (revoked_name j) (redis v) = None"
    by (auto simp: token_accepted_def split: sum.splits)
  obtain c' where c': "env_jwt_decode E (sec_jwt_secret (security E)) (clock w) token = Inr c'"
    and i: "json_get c' ''jti'' = JStr i"
    using assms(1) by (auto simp: token_accepted_def split: sum.splits)
  from assms(4) [OF c c'] j i have "j = i" by simp
  have "clock v < 1000000 * s" using assms(2) [of "clock v"] c by (cases "1000000 * s \<le> clock v") auto
  then have "now_ms (clock v) < now_ms (clock w) + refresh_ttl E * 1000"
    using assms(3) by (rule whole_second_before)
  moreover have "refresh_ttl E * 1000 \<le> millis (of_int (refresh_ttl E))"
  proof (cases "0 \<le> refresh_ttl E")
    case True
    have "(of_int (refresh_ttl E) * 1000 :: rat) = of_int (refresh_ttl E * 1000)" by simp
    then have "\<lfloor>(of_int (refresh_ttl E) * 1000 :: rat)\<rfloor> = refresh_ttl E * 1000" by (metis floor_of_int)
    with True show ?thesis by (simp add: millis_def)
  next
    case False
    then show ?thesis using millis_pos(2) [of "of_int (refresh_ttl E)"] by linarith
  qed
  ultimately have "now_ms (clock v) < now_ms (clock w) + millis (of_int (refresh_ttl E))" by linarith
  with revoked_until [of v i "of_int (refresh_ttl E)" w] assms(5)
  have "is_revoked i v = (Inr True, v)" by (simp add: auth_revoke_def)
  with live \<open>j = i\<close> show False by (simp add: is_revoked_run)
qed

text \<open>
  C18. A refresh token works once: after a rotation or a logout that succeeded, the presented token is
  never accepted again, as long as the revocation entry is left to its expiry. The entry outlives the
  token: it is kept for the whole refresh lifetime, and a token this service issued expires no later,
  in a whole second (as PyJWT stores it), and always decodes to the same claims.
\<close>

theorem refresh_token_works_once:
  assumes "auth_refresh E token w = (Inr pair, w') \<or> auth_logout E token w = (Inr (), w')"
    and "\<And>t. 1000000 * s \<le> t \<Longrightarrow> \<exists>m. env_jwt_decode E (sec_jwt_secret (security E)) t token = Inl m"
    and "1000000 * s \<le> clock w + refresh_ttl E * 1000000"
    and "\<And>t c c'. env_jwt_decode E (sec_jwt_secret (security E)) t token = Inr c \<Longrightarrow>
           env_jwt_decode E (sec_jwt_secret (security E)) (clock w) token = Inr c' \<Longrightarrow> c = c'"
    and "\<And>i. redis v (revoked_name i) = redis w' (revoked_name i)"
  shows "\<exists>e. authenticate E token expected v = (Inl e, v) \<and> exn_cls e = InvalidTokenError"
proof -
  obtain r u where auth: "authenticate E token REFRESH w = (r, u)" by (cases "authenticate E token REFRESH w")
  note run = authenticate_run [OF auth]
  from assms(1) auth run obtain a where a: "r = Inr a"
    by (auto simp: auth_refresh_def auth_logout_def bindM_run split: sum.splits)
  with run have acc: "token_accepted E token REFRESH w (ai_token_id a)" and "u = w" by simp_all
  have "redis w' = redis (snd (auth_revoke E (ai_token_id a) REFRESH w))"
    using assms(1) auth a \<open>u = w\<close>
    by (auto simp: auth_refresh_def auth_logout_def bindM_run thenM_run auth_revoke_def revoke_run
        issue_pair_def utc_now_def encode_token_run)
  with assms(5) have "redis v (revoked_name (ai_token_id a)) =
      redis (snd (auth_revoke E (ai_token_id a) REFRESH w)) (revoked_name (ai_token_id a))" by simp
  then have "\<not> token_accepted E token expected v j" for j
    using assms(2,4) by (intro retired_token [OF acc _ assms(3)]) blast+
  with authenticate_run [of E token expected v] show ?thesis
    by (cases "authenticate E token expected v") (auto split: sum.splits)
qed

definition expiring_env :: env where
  \<comment> \<open>a token of the administrator that expires in second 100\<close>
  "expiring_env = sample_env\<lparr>env_jwt_decode := (\<lambda>_ t _. if t < 100000000
     then Inr [(''sub'', JStr ''admin''), (''type'', JStr ''refresh''), (''jti'', JStr ''id'')]
     else Inl ''ExpiredSignatureError'')\<rparr>"

theorem refresh_token_works_once_witness:
  "\<exists>w'. auth_logout expiring_env ''tok'' (sample_world []) = (Inr (), w')
     \<and> (\<exists>e. authenticate expiring_env ''tok'' REFRESH (w'\<lparr>clock := 50000000\<rparr>) = (Inl e, w'\<lparr>clock := 50000000\<rparr>)
          \<and> exn_cls e = InvalidTokenError)"
proof -
  have conf: "sec_admin_username (security expiring_env) = ''admin''" "refresh_ttl expiring_env = 604800"
    by (simp_all add: security_def refresh_ttl_def expiring_env_def sample_env_def sample_settings_def)
  have dec: "env_jwt_decode expiring_env k 1000000 t = Inr [(''sub'', JStr ''admin''), (''type'', JStr ''refresh''),
      (''jti'', JStr ''id'')]" for k t
    by (simp add: expiring_env_def)
  have "fst (auth_logout expiring_env ''tok'' (sample_world [])) = Inr ()"
    by (simp add: auth_logout_def authenticate_def decode_token_def bindM_run utc_now_def is_revoked_run
        r_get_def constant_time_equals_def conf dec json_get_def auth_revoke_def revoke_run)
  then obtain w' where run: "auth_logout expiring_env ''tok'' (sample_world []) = (Inr (), w')"
    by (cases "auth_logout expiring_env ''tok'' (sample_world [])") simp
  have dead: "\<exists>m. env_jwt_decode expiring_env k t x = Inl m" if "1000000 * 100 \<le> t" for k t x
    using that by (simp add: expiring_env_def)
  have same: "c = c'" if "env_jwt_decode expiring_env k t x = Inr c" "env_jwt_decode expiring_env k u x = Inr c'" for k t u x c c'
    using that by (simp add: expiring_env_def split: if_splits)
  have "1000000 * 100 \<le> clock (sample_world []) + refresh_ttl expiring_env * 1000000" by (simp add: conf)
  with refresh_token_works_once [where E = expiring_env and token = "''tok''" and w = "sample_world []"
      and w' = w' and s = 100 and v = "w'\<lparr>clock := 50000000\<rparr>" and expected = REFRESH, OF _ dead _ same]
  show ?thesis using run by auto
qed

end
