(* ===== verification/ApiSchemas.thy ===== *)
theory ApiSchemas
  imports ProductService Stats Checkout Auth
begin

section \<open>Request and response schemas of the admin API\<close>

text \<open>
  \<^verbatim>\<open>api/schemas/\<close>: the bodies the API accepts, with the constraints pydantic checks (a pattern is
  matched to the end of the text), their translation into domain commands, and the bodies it
  answers with, built from domain objects field by field. A field of a partial update is absent,
  null, or a value: \<open>UNSET\<close>, \<open>Supplied None\<close>, \<open>Supplied (Some x)\<close>.
\<close>

subsection \<open>Requests\<close>

record login_request =
  lq_username :: string
  lq_password :: string

definition login_request_ok :: "login_request \<Rightarrow> bool" where
  "login_request_ok r = (1 \<le> length (lq_username r) \<and> length (lq_username r) \<le> 64
     \<and> 1 \<le> length (lq_password r) \<and> length (lq_password r) \<le> 256)"

record refresh_request =
  rq_refresh_token :: "string option"

definition refresh_request_ok :: "refresh_request \<Rightarrow> bool" where
  "refresh_request_ok r = (case rq_refresh_token r of None \<Rightarrow> True | Some t \<Rightarrow> length t \<le> 4096)"

definition title_ok :: "string \<Rightarrow> bool" where
  "title_ok t = (1 \<le> length t \<and> length t \<le> 255)"

definition url_length_ok :: "string \<Rightarrow> bool" where
  "url_length_ok t = (1 \<le> length t \<and> length t \<le> 2048)"

definition description_ok :: "string \<Rightarrow> bool" where
  "description_ok t = (length t \<le> 4096)"

definition photo_ok :: "string option \<Rightarrow> bool" where
  "photo_ok x = (case x of None \<Rightarrow> True | Some t \<Rightarrow> length t \<le> 255)"

definition stars_ok :: "int option \<Rightarrow> bool" where
  "stars_ok x = (case x of None \<Rightarrow> True | Some n \<Rightarrow> 0 < n \<and> n \<le> 1000000)"

definition usdt_ok :: "rat option \<Rightarrow> bool" where
  \<comment> \<open>\<open>gt=0, le=1000000.00, decimal_places=2\<close>\<close>
  "usdt_ok x = (case x of None \<Rightarrow> True
     | Some r \<Rightarrow> 0 < r \<and> r \<le> 1000000 \<and> r * 100 = of_int \<lfloor>r * 100\<rfloor>)"

record product_create_request =
  cq_slug :: string
  cq_title :: string
  cq_description :: string
  cq_delivery_url :: string
  cq_photo_file_id :: "string option"
  cq_price_stars :: "int option"
  cq_price_usdt :: "rat option"
  cq_is_active :: bool

definition at_least_one_price :: "product_create_request \<Rightarrow> bool" where
  "at_least_one_price r = (\<not> (cq_price_stars r = None \<and> cq_price_usdt r = None))"

definition create_request_ok :: "product_create_request \<Rightarrow> bool" where
  "create_request_ok r = (slug_body (cq_slug r) \<and> title_ok (cq_title r)
     \<and> description_ok (cq_description r) \<and> url_length_ok (cq_delivery_url r)
     \<and> photo_ok (cq_photo_file_id r) \<and> stars_ok (cq_price_stars r) \<and> usdt_ok (cq_price_usdt r)
     \<and> at_least_one_price r)"

definition to_draft :: "product_create_request \<Rightarrow> exn + product_draft" where
  "to_draft r = mk_product_draft \<lparr>pd_slug = cq_slug r, pd_title = cq_title r,
     pd_description = cq_description r, pd_delivery_url = cq_delivery_url r,
     pd_photo_file_id = cq_photo_file_id r, pd_price_stars = cq_price_stars r,
     pd_price_usdt = cq_price_usdt r, pd_is_active = cq_is_active r\<rparr>"

record product_patch_request =
  qq_slug :: "string option maybe"
  qq_title :: "string option maybe"
  qq_description :: "string option maybe"
  qq_delivery_url :: "string option maybe"
  qq_photo_file_id :: "string option maybe"
  qq_price_stars :: "int option maybe"
  qq_price_usdt :: "rat option maybe"
  qq_is_active :: "bool option maybe"

fun supplied_ok :: "('v \<Rightarrow> bool) \<Rightarrow> 'v option maybe \<Rightarrow> bool" where
  \<comment> \<open>the constraints of a field bind its value when there is one\<close>
  "supplied_ok P (Supplied (Some v)) = P v"
| "supplied_ok P _ = True"

definition not_null :: "'v option maybe \<Rightarrow> bool" where
  "not_null x = (x \<noteq> Supplied None)"

definition nulls_ok :: "product_patch_request \<Rightarrow> bool" where
  \<comment> \<open>\<open>_reject_nulls_where_meaningless\<close>\<close>
  "nulls_ok r = (not_null (qq_slug r) \<and> not_null (qq_title r) \<and> not_null (qq_description r)
     \<and> not_null (qq_delivery_url r) \<and> not_null (qq_is_active r))"

definition patch_request_ok :: "product_patch_request \<Rightarrow> bool" where
  "patch_request_ok r = (supplied_ok slug_body (qq_slug r) \<and> supplied_ok title_ok (qq_title r)
     \<and> supplied_ok description_ok (qq_description r) \<and> supplied_ok url_length_ok (qq_delivery_url r)
     \<and> supplied_ok (\<lambda>v. photo_ok (Some v)) (qq_photo_file_id r)
     \<and> supplied_ok (\<lambda>v. stars_ok (Some v)) (qq_price_stars r)
     \<and> supplied_ok (\<lambda>v. usdt_ok (Some v)) (qq_price_usdt r) \<and> nulls_ok r)"

fun unwrap :: "'v option maybe \<Rightarrow> 'v maybe" where
  \<comment> \<open>a null in a field that has none was rejected before\<close>
  "unwrap (Supplied (Some v)) = Supplied v"
| "unwrap _ = UNSET"

definition to_update :: "product_patch_request \<Rightarrow> product_update" where
  "to_update r = \<lparr>up_slug = unwrap (qq_slug r), up_title = unwrap (qq_title r),
     up_description = unwrap (qq_description r), up_delivery_url = unwrap (qq_delivery_url r),
     up_photo_file_id = qq_photo_file_id r, up_price_stars = qq_price_stars r,
     up_price_usdt = qq_price_usdt r, up_is_active = unwrap (qq_is_active r)\<rparr>"

definition patch_is_empty :: "product_patch_request \<Rightarrow> bool" where
  "patch_is_empty r = (qq_slug r = UNSET \<and> qq_title r = UNSET \<and> qq_description r = UNSET
     \<and> qq_delivery_url r = UNSET \<and> qq_photo_file_id r = UNSET \<and> qq_price_stars r = UNSET
     \<and> qq_price_usdt r = UNSET \<and> qq_is_active r = UNSET)"

subsection \<open>Responses\<close>

record product_response =
  prs_id :: uuid
  prs_slug :: string
  prs_title :: string
  prs_description :: string
  prs_photo_file_id :: "string option"
  prs_delivery_url :: string
  prs_price_stars :: "int option"
  prs_price_usdt :: "rat option"
  prs_is_active :: bool
  prs_deep_link :: string
  prs_created_at :: datetime
  prs_updated_at :: datetime

definition product_response_of :: "product \<Rightarrow> string \<Rightarrow> product_response" where
  "product_response_of p link = \<lparr>prs_id = pr_id p, prs_slug = pr_slug p, prs_title = pr_title p,
     prs_description = pr_description p, prs_photo_file_id = pr_photo_file_id p,
     prs_delivery_url = pr_delivery_url p, prs_price_stars = pr_price_stars p,
     prs_price_usdt = pr_price_usdt p, prs_is_active = pr_is_active p, prs_deep_link = link,
     prs_created_at = pr_created_at p, prs_updated_at = pr_updated_at p\<rparr>"

record buyer_response =
  brs_telegram_id :: int
  brs_username :: "string option"
  brs_first_name :: "string option"
  brs_display_name :: string

definition buyer_response_of :: "user \<Rightarrow> buyer_response" where
  "buyer_response_of u = \<lparr>brs_telegram_id = us_telegram_id u, brs_username = us_username u,
     brs_first_name = us_first_name u, brs_display_name = display_name u\<rparr>"

record product_summary_response =
  pss_id :: uuid
  pss_slug :: string
  pss_title :: string

definition product_summary_of :: "product \<Rightarrow> product_summary_response" where
  "product_summary_of p = \<lparr>pss_id = pr_id p, pss_slug = pr_slug p, pss_title = pr_title p\<rparr>"

record purchase_response =
  ps_id :: uuid
  ps_user_id :: int
  ps_product_id :: uuid
  ps_provider :: payment_provider
  ps_status :: purchase_status
  ps_amount :: rat
  ps_currency :: currency_t
  ps_external_id :: string
  ps_telegram_charge_id :: "string option"
  ps_delivered_url :: "string option"
  ps_created_at :: datetime
  ps_paid_at :: "datetime option"
  ps_delivered_at :: "datetime option"

definition purchase_response_of :: "purchase \<Rightarrow> purchase_response" where
  "purchase_response_of p = \<lparr>ps_id = pu_id p, ps_user_id = pu_user_id p,
     ps_product_id = pu_product_id p, ps_provider = pu_provider p, ps_status = pu_status p,
     ps_amount = pu_amount p, ps_currency = pu_currency p, ps_external_id = pu_external_id p,
     ps_telegram_charge_id = pu_telegram_charge_id p, ps_delivered_url = pu_delivered_url p,
     ps_created_at = pu_created_at p, ps_paid_at = pu_paid_at p, ps_delivered_at = pu_delivered_at p\<rparr>"

record purchase_record_response =
  prr_purchase :: purchase_response
  prr_buyer :: buyer_response
  prr_product :: product_summary_response

definition purchase_record_response_of :: "purchase_record \<Rightarrow> purchase_record_response" where
  "purchase_record_response_of r = \<lparr>prr_purchase = purchase_response_of (rec_purchase r),
     prr_buyer = buyer_response_of (rec_user r), prr_product = product_summary_of (rec_product r)\<rparr>"

record delivery_attempt_response =
  das_status :: delivery_status
  das_attempts :: nat
  das_error :: "string option"

definition delivery_attempt_of :: "delivery_result \<Rightarrow> delivery_attempt_response" where
  "delivery_attempt_of r = \<lparr>das_status = res_status r, das_attempts = res_attempts r, das_error = res_error r\<rparr>"

record verification_response =
  vrs_purchase_id :: uuid
  vrs_provider :: payment_provider
  vrs_outcome :: verification_outcome
  vrs_resolved :: bool
  vrs_status_before :: purchase_status
  vrs_status_after :: purchase_status
  vrs_provider_state :: "payment_state option"
  vrs_delivery :: "delivery_attempt_response option"
  vrs_detail :: "string option"

definition verification_response_of :: "verification_report \<Rightarrow> verification_response" where
  "verification_response_of r = \<lparr>vrs_purchase_id = vr_purchase_id r, vrs_provider = vr_provider r,
     vrs_outcome = vr_outcome r, vrs_resolved = is_resolved (vr_outcome r),
     vrs_status_before = vr_status_before r, vrs_status_after = vr_status_after r,
     vrs_provider_state = vr_provider_state r,
     vrs_delivery = map_option delivery_attempt_of (vr_delivery r), vrs_detail = vr_detail r\<rparr>"

record revenue_response =
  rvs_period :: stats_period
  rvs_purchases_count :: nat
  rvs_stars_amount :: int
  rvs_usdt_amount :: rat

definition revenue_response_of :: "revenue_summary \<Rightarrow> revenue_response" where
  "revenue_response_of r = \<lparr>rvs_period = rv_period r, rvs_purchases_count = rv_purchases_count r,
     rvs_stars_amount = rv_stars_amount r, rvs_usdt_amount = rv_usdt_amount r\<rparr>"

record top_product_response =
  tps_product_id :: uuid
  tps_slug :: string
  tps_title :: string
  tps_purchases_count :: nat
  tps_stars_amount :: int
  tps_usdt_amount :: rat

definition top_product_response_of :: "top_product \<Rightarrow> top_product_response" where
  "top_product_response_of p = \<lparr>tps_product_id = tp_product_id p, tps_slug = tp_slug p,
     tps_title = tp_title p, tps_purchases_count = tp_purchases_count p,
     tps_stars_amount = tp_stars_amount p, tps_usdt_amount = tp_usdt_amount p\<rparr>"

record overview_response =
  ors_today :: revenue_response
  ors_week :: revenue_response
  ors_month :: revenue_response
  ors_total :: revenue_response
  ors_top_products :: "top_product_response list"
  ors_recent_purchases :: "purchase_record_response list"
  ors_products_total :: nat
  ors_products_active :: nat
  ors_users_total :: nat

definition overview_response_of :: "stats_overview \<Rightarrow> overview_response" where
  "overview_response_of v = \<lparr>ors_today = revenue_response_of (ov_today v),
     ors_week = revenue_response_of (ov_week v), ors_month = revenue_response_of (ov_month v),
     ors_total = revenue_response_of (ov_total v),
     ors_top_products = map top_product_response_of (ov_top_products v),
     ors_recent_purchases = map purchase_record_response_of (ov_recent_purchases v),
     ors_products_total = ov_products_total v, ors_products_active = ov_products_active v,
     ors_users_total = ov_users_total v\<rparr>"

record page_meta =
  pm_total :: int
  pm_limit :: int
  pm_offset :: int
  pm_has_more :: bool

record 'i page_response =
  prp_items :: "'i list"
  prp_meta :: page_meta

definition page_response_of :: "('a \<Rightarrow> 'b) \<Rightarrow> 'a page \<Rightarrow> 'b page_response" where
  "page_response_of f p = \<lparr>prp_items = map f (page_items p),
     prp_meta = \<lparr>pm_total = page_total p, pm_limit = page_limit p, pm_offset = page_offset p,
       pm_has_more = has_more p\<rparr>\<rparr>"

record token_response =
  trs_access_token :: string
  trs_refresh_token :: string
  trs_token_type :: string
  trs_access_expires_in :: int
  trs_refresh_expires_in :: int

definition token_response_of :: "token_pair \<Rightarrow> token_response" where
  "token_response_of t = \<lparr>trs_access_token = tp_access_token t, trs_refresh_token = tp_refresh_token t,
     trs_token_type = ''bearer'', trs_access_expires_in = tp_access_expires_in t,
     trs_refresh_expires_in = tp_refresh_expires_in t\<rparr>"

subsection \<open>Facts\<close>

text \<open>A validated creation request always makes a draft, and it keeps every field.\<close>

lemma to_draft_ok:
  "create_request_ok r \<Longrightarrow> \<exists>d. to_draft r = Inr d \<and> pd_slug d = cq_slug r \<and> pd_price_stars d = cq_price_stars r
     \<and> pd_price_usdt d = cq_price_usdt r"
  by (simp add: create_request_ok_def at_least_one_price_def to_draft_def mk_product_draft_def)

text \<open>A validated patch becomes an update that supplies exactly the fields of the body.\<close>

lemma is_set_unwrap: "not_null x \<Longrightarrow> is_set (unwrap x) = is_set x"
  by (cases x rule: unwrap.cases) (auto simp: not_null_def)

lemma candidate_Nil: "candidate k t x = [] \<longleftrightarrow> x = UNSET"
  by (cases x) simp_all

lemma unwrap_UNSET: "not_null x \<Longrightarrow> unwrap x = UNSET \<longleftrightarrow> x = UNSET"
  by (cases x rule: unwrap.cases) (auto simp: not_null_def)

lemma patch_is_empty_update:
  "patch_request_ok r \<Longrightarrow> update_is_empty (to_update r) = patch_is_empty r"
  by (auto simp: patch_request_ok_def nulls_ok_def update_is_empty_def changes_def to_update_def
      candidate_Nil unwrap_UNSET patch_is_empty_def)

end
