(* ===== verification/Api.thy ===== *)
theory Api
  imports ApiSchemas
begin

section \<open>The admin API\<close>

text \<open>
  \<^verbatim>\<open>api/errors.py\<close>, \<^verbatim>\<open>api/deps.py\<close> and \<^verbatim>\<open>api/v1/endpoints/\<close>. A call carries the caller's
  address, the bearer credentials of its \<open>Authorization\<close> header, the refresh cookie and the request
  itself, already of the right types. FastAPI resolves the dependencies of an endpoint, the
  administrator among them, before it reports what is wrong with the parameters and the body; what it
  then reports is pydantic's list of errors, an argument of the model. \<open>serve\<close> is the application:
  it always answers, and every exception becomes the uniform envelope.
\<close>

subsection \<open>Responses\<close>

record cookie =
  ck_name :: string
  ck_value :: string
  ck_max_age :: int
  ck_httponly :: bool
  ck_secure :: bool
  ck_samesite :: string
  ck_path :: string

record error_body =
  eb_code :: string
  eb_message :: string
  eb_details :: "(string \<times> json) list"

datatype component_status = OK | FAIL

record readiness_response =
  rr_ready :: bool
  rr_environment :: environment
  rr_components :: "(string \<times> component_status) list"

datatype body =
  NoBody
| ErrorB error_body
| TokenB token_response
| AdminB string
| ProductB product_response
| ProductsB "product_response page_response"
| PurchasesB "purchase_record_response page_response"
| VerificationB verification_response
| DeliveryB delivery_attempt_response
| OverviewB overview_response
| ReadinessB readiness_response
| AliveB

record http_response =
  hr_status :: nat
  hr_body :: body
  hr_cookie :: "cookie option"

definition respond :: "nat \<Rightarrow> body \<Rightarrow> http_response" where
  "respond status b = \<lparr>hr_status = status, hr_body = b, hr_cookie = None\<rparr>"

subsection \<open>Errors\<close>

definition render :: "nat \<Rightarrow> string \<Rightarrow> string \<Rightarrow> (string \<times> json) list \<Rightarrow> http_response" where
  "render status code message details =
     respond status (ErrorB \<lparr>eb_code = code, eb_message = message, eb_details = details\<rparr>)"

definition handle_app_error :: "exn \<Rightarrow> http_response" where
  "handle_app_error e = render (status_code e) (exn_code e) (exn_message e) (exn_details e)"

definition handle_unexpected_error :: http_response where
  "handle_unexpected_error = render 500 ''internal_error'' ''Internal server error'' []"

definition error_response :: "exn \<Rightarrow> http_response" where
  \<comment> \<open>\<open>register_exception_handlers\<close>: the handler of the nearest registered class of the exception\<close>
  "error_response e = (if isinstance e AppError then handle_app_error e else handle_unexpected_error)"

record pydantic_error =
  pe_loc :: "string list"
  pe_type :: "string option"
  pe_msg :: "string option"

definition describe :: "pydantic_error \<Rightarrow> json" where
  "describe e =
     (let location = join_with ''.'' (filter (\<lambda>part. part \<noteq> ''body'') (pe_loc e)) in
      JObj [(''field'', JStr (if location \<noteq> [] then location else ''body'')),
            (''type'', JStr (case pe_type e of Some t \<Rightarrow> t | None \<Rightarrow> ''invalid'')),
            (''message'', JStr (case pe_msg e of Some m \<Rightarrow> m | None \<Rightarrow> ''Invalid value''))])"

definition handle_validation_error :: "pydantic_error list \<Rightarrow> http_response" where
  "handle_validation_error errors = render 422 ''validation_error'' ''Request payload is invalid''
     [(''fields'', JList (map describe errors))]"

subsection \<open>Calls\<close>

datatype api_request =
  Login login_request
| Refresh "refresh_request option"
| Logout "refresh_request option"
| Me
| ListProducts int int "string option" "bool option"
| CreateProduct product_create_request
| GetProduct uuid
| PatchProduct uuid product_patch_request
| DeleteProduct uuid
| SearchPurchases int int "string option" "purchase_status list option"
| VerifyPayment uuid
| ResendDelivery uuid
| Overview
| Live
| Ready

record api_call =
  ac_host :: "string option"
  ac_bearer :: "string option"
  ac_cookie :: "string option"
  ac_request :: api_request

definition page_ok :: "int \<Rightarrow> int \<Rightarrow> bool" where
  "page_ok limit offset = (1 \<le> limit \<and> limit \<le> max_page_size \<and> 0 \<le> offset)"

definition search_ok :: "string option \<Rightarrow> bool" where
  "search_ok s = (case s of None \<Rightarrow> True | Some t \<Rightarrow> length t \<le> 255)"

fun request_ok :: "api_request \<Rightarrow> bool" where
  \<comment> \<open>the constraints on the query parameters and the body\<close>
  "request_ok (Login r) = login_request_ok r"
| "request_ok (Refresh p) = (case p of None \<Rightarrow> True | Some r \<Rightarrow> refresh_request_ok r)"
| "request_ok (Logout p) = (case p of None \<Rightarrow> True | Some r \<Rightarrow> refresh_request_ok r)"
| "request_ok (ListProducts limit offset search _) = (page_ok limit offset \<and> search_ok search)"
| "request_ok (CreateProduct r) = create_request_ok r"
| "request_ok (PatchProduct _ r) = patch_request_ok r"
| "request_ok (SearchPurchases limit offset search _) = (page_ok limit offset \<and> search_ok search)"
| "request_ok _ = True"

definition get_current_admin :: "env \<Rightarrow> string option \<Rightarrow> admin_identity action" where
  "get_current_admin E credentials = (case credentials of
      Some token \<Rightarrow> (if token \<noteq> [] then authenticate E token ACCESS
         else throw (err_msg InvalidTokenError ''Authorization header is missing'' []))
    | None \<Rightarrow> throw (err_msg InvalidTokenError ''Authorization header is missing'' []))"

definition get_page_request :: "int \<Rightarrow> int \<Rightarrow> page_request action" where
  "get_page_request limit offset = liftE (mk_page_request limit offset)"

subsection \<open>\<^verbatim>\<open>endpoints/auth.py\<close>\<close>

definition client_key :: "string option \<Rightarrow> string \<Rightarrow> string" where
  "client_key host username =
     ''login:'' @ (case host of Some h \<Rightarrow> h | None \<Rightarrow> ''unknown'') @ '':'' @ py_lower username"

definition refresh_cookie :: "env \<Rightarrow> string \<Rightarrow> int \<Rightarrow> cookie" where
  "refresh_cookie E val max_age = \<lparr>ck_name = sec_cookie_name (security E), ck_value = val,
     ck_max_age = max_age, ck_httponly = True, ck_secure = sec_cookie_secure (security E),
     ck_samesite = ''strict'', ck_path = app_api_prefix (cfg_app (env_settings E))\<rparr>"

definition token_reply :: "env \<Rightarrow> token_pair \<Rightarrow> http_response" where
  \<comment> \<open>\<open>_set_refresh_cookie\<close> and the body\<close>
  "token_reply E tokens = (respond 200 (TokenB (token_response_of tokens)))
     \<lparr>hr_cookie := Some (refresh_cookie E (tp_refresh_token tokens) (tp_refresh_expires_in tokens))\<rparr>"

definition login :: "env \<Rightarrow> string option \<Rightarrow> login_request \<Rightarrow> http_response action" where
  "login E host payload =
     (let key = client_key host (lq_username payload) in
      bindM (rate_hit key (sec_login_rate_limit (security E)) (sec_login_rate_window_seconds (security E))) (\<lambda>allowed.
      if \<not> allowed then throw (err TooManyLoginAttemptsError [])
      else bindM (auth_login E (lq_username payload) (lq_password payload)) (\<lambda>tokens.
           thenM (rate_reset key) (ret (token_reply E tokens)))))"

definition supplied_token :: "refresh_request option \<Rightarrow> string option \<Rightarrow> string option" where
  \<comment> \<open>\<open>(payload.refresh_token if payload else None) or request.cookies.get(...)\<close>\<close>
  "supplied_token payload ck =
     (let t = (case payload of Some r \<Rightarrow> rq_refresh_token r | None \<Rightarrow> None) in if truthy t then t else ck)"

definition refresh :: "env \<Rightarrow> refresh_request option \<Rightarrow> string option \<Rightarrow> http_response action" where
  "refresh E payload ck =
     (let token = supplied_token payload ck in
      if \<not> truthy token then throw (err_msg InvalidTokenError ''No refresh token was supplied'' [])
      else bindM (auth_refresh E (the token)) (\<lambda>tokens. ret (token_reply E tokens)))"

definition logout :: "env \<Rightarrow> refresh_request option \<Rightarrow> string option \<Rightarrow> http_response action" where
  \<comment> \<open>\<open>delete_cookie\<close> sends an empty cookie that expires at once\<close>
  "logout E payload ck =
     (let token = supplied_token payload ck;
          reply = (respond 204 NoBody)\<lparr>hr_cookie := Some (refresh_cookie E [] 0)\<rparr>
      in if \<not> truthy token then ret reply
         else thenM (catchM (auth_logout E (the token)) (on_class [InvalidTokenError] (\<lambda>_. ret ())))
                (ret reply))"

subsection \<open>\<^verbatim>\<open>endpoints/products.py\<close>\<close>

definition product_reply :: "env \<Rightarrow> product \<Rightarrow> product_response" where
  \<comment> \<open>\<open>_to_response\<close>\<close>
  "product_reply E p = product_response_of p (svc_deep_link E (pr_slug p))"

definition list_products_page :: "env \<Rightarrow> int \<Rightarrow> int \<Rightarrow> string option \<Rightarrow> bool option \<Rightarrow> http_response action" where
  "list_products_page E limit offset search is_active =
     bindM (get_page_request limit offset) (\<lambda>page.
     bindM (svc_list_products \<lparr>pf_search = search, pf_is_active = is_active\<rparr> page) (\<lambda>result.
       ret (respond 200 (ProductsB (page_response_of (product_reply E) result)))))"

definition create_product :: "env \<Rightarrow> product_create_request \<Rightarrow> http_response action" where
  "create_product E payload =
     bindM (liftE (to_draft payload)) (\<lambda>draft.
     bindM (svc_create_product E draft) (\<lambda>p. ret (respond 201 (ProductB (product_reply E p)))))"

definition get_product :: "env \<Rightarrow> uuid \<Rightarrow> http_response action" where
  "get_product E product_id =
     bindM (svc_get_product product_id) (\<lambda>p. ret (respond 200 (ProductB (product_reply E p))))"

definition update_product :: "env \<Rightarrow> uuid \<Rightarrow> product_patch_request \<Rightarrow> http_response action" where
  "update_product E product_id payload =
     (if patch_is_empty payload
      then bindM (svc_get_product product_id) (\<lambda>p. ret (respond 200 (ProductB (product_reply E p))))
      else bindM (svc_update_product E product_id (to_update payload)) (\<lambda>p.
             ret (respond 200 (ProductB (product_reply E p)))))"

definition delete_product :: "uuid \<Rightarrow> http_response action" where
  "delete_product product_id = thenM (svc_delete_product product_id) (ret (respond 204 NoBody))"

subsection \<open>\<^verbatim>\<open>endpoints/purchases.py\<close>, \<^verbatim>\<open>stats.py\<close> and \<^verbatim>\<open>health.py\<close>\<close>

definition search_purchases_page ::
  "int \<Rightarrow> int \<Rightarrow> string option \<Rightarrow> purchase_status list option \<Rightarrow> http_response action" where
  "search_purchases_page limit offset search status_filter =
     bindM (get_page_request limit offset) (\<lambda>page.
     bindM (svc_search_purchases \<lparr>uf_search = search,
         uf_statuses = (case status_filter of None \<Rightarrow> [] | Some xs \<Rightarrow> xs)\<rparr> page) (\<lambda>result.
       ret (respond 200 (PurchasesB (page_response_of purchase_record_response_of result)))))"

definition verify_payment_manually :: "env \<Rightarrow> uuid \<Rightarrow> http_response action" where
  "verify_payment_manually E purchase_id =
     bindM (verify_payment E purchase_id) (\<lambda>rep. ret (respond 200 (VerificationB (verification_response_of rep))))"

definition resend_delivery :: "env \<Rightarrow> uuid \<Rightarrow> http_response action" where
  "resend_delivery E purchase_id =
     bindM (checkout_redeliver E purchase_id) (\<lambda>res. ret (respond 200 (DeliveryB (delivery_attempt_of res))))"

definition default_top_products :: nat where "default_top_products = 10"

definition default_recent_purchases :: nat where "default_recent_purchases = 10"

definition overview :: "http_response action" where
  "overview = bindM (svc_overview default_top_products default_recent_purchases) (\<lambda>v.
     ret (respond 200 (OverviewB (overview_response_of v))))"

definition readiness :: "env \<Rightarrow> (string \<times> bool) list \<Rightarrow> http_response" where
  \<comment> \<open>\<open>checks\<close> is what \<open>Resources.check\<close> answers: whether the database and Redis answer a ping\<close>
  "readiness E checks =
     (let healthy = list_all snd checks in
      respond (if healthy then 200 else 503) (ReadinessB \<lparr>rr_ready = healthy,
        rr_environment = app_environment (cfg_app (env_settings E)),
        rr_components = map (\<lambda>(name, up). (name, if up then OK else FAIL)) checks\<rparr>))"

subsection \<open>The application\<close>

definition validated :: "(api_request \<Rightarrow> pydantic_error list) \<Rightarrow> api_request \<Rightarrow> http_response action \<Rightarrow> http_response action" where
  "validated errors rq m = (if request_ok rq then m else ret (handle_validation_error (errors rq)))"

definition as_admin :: "env \<Rightarrow> api_call \<Rightarrow> (admin_identity \<Rightarrow> http_response action) \<Rightarrow> http_response action" where
  \<comment> \<open>the dependency \<open>CurrentAdmin\<close>\<close>
  "as_admin E call m = bindM (get_current_admin E (ac_bearer call)) m"

definition open_endpoint :: "env \<Rightarrow> (string \<times> bool) list \<Rightarrow> api_call \<Rightarrow> http_response action option" where
  \<comment> \<open>the endpoints that need no administrator\<close>
  "open_endpoint E checks call = (case ac_request call of
      Login r \<Rightarrow> Some (login E (ac_host call) r)
    | Refresh p \<Rightarrow> Some (refresh E p (ac_cookie call))
    | Logout p \<Rightarrow> Some (logout E p (ac_cookie call))
    | Live \<Rightarrow> Some (ret (respond 200 AliveB))
    | Ready \<Rightarrow> Some (ret (readiness E checks))
    | _ \<Rightarrow> None)"

fun admin_endpoint :: "env \<Rightarrow> api_request \<Rightarrow> admin_identity \<Rightarrow> http_response action" where
  "admin_endpoint E (ListProducts limit offset search is_active) admin = list_products_page E limit offset search is_active"
| "admin_endpoint E (CreateProduct r) admin = create_product E r"
| "admin_endpoint E (GetProduct i) admin = get_product E i"
| "admin_endpoint E (PatchProduct i r) admin = update_product E i r"
| "admin_endpoint E (DeleteProduct i) admin = delete_product i"
| "admin_endpoint E (SearchPurchases limit offset search status_filter) admin =
     search_purchases_page limit offset search status_filter"
| "admin_endpoint E (VerifyPayment i) admin = verify_payment_manually E i"
| "admin_endpoint E (ResendDelivery i) admin = resend_delivery E i"
| "admin_endpoint E Overview admin = overview"
| "admin_endpoint E _ admin = ret (respond 200 (AdminB (ai_username admin)))"

definition endpoint ::
  "env \<Rightarrow> (string \<times> bool) list \<Rightarrow> (api_request \<Rightarrow> pydantic_error list) \<Rightarrow> api_call \<Rightarrow> http_response action" where
  "endpoint E checks errors call = (case open_endpoint E checks call of
      Some m \<Rightarrow> validated errors (ac_request call) m
    | None \<Rightarrow> as_admin E call (\<lambda>admin.
        validated errors (ac_request call) (admin_endpoint E (ac_request call) admin)))"

definition serve ::
  "env \<Rightarrow> (string \<times> bool) list \<Rightarrow> (api_request \<Rightarrow> pydantic_error list) \<Rightarrow> api_call \<Rightarrow> http_response action" where
  "serve E checks errors call =
     catchM (endpoint E checks errors call) (\<lambda>e. Some (ret (error_response e)))"

subsection \<open>Every answer\<close>

definition yields :: "('a \<Rightarrow> bool) \<Rightarrow> 'a action \<Rightarrow> bool" where
  "yields P m = (\<forall>w r w'. m w = (Inr r, w') \<longrightarrow> P r)"

lemma yields_ret: "yields P (ret x) = P x"
  by (simp add: yields_def)

lemma yields_throw: "yields P (throw e)"
  by (simp add: yields_def)

lemma yields_bindM: "(\<And>x. yields P (f x)) \<Longrightarrow> yields P (bindM m f)"
  unfolding yields_def bindM_run by (force split: prod.splits sum.splits)

lemma yields_thenM: "yields P k \<Longrightarrow> yields P (thenM m k)"
  unfolding thenM_def by (rule yields_bindM)

lemma yields_if: "yields P m \<Longrightarrow> yields P k \<Longrightarrow> yields P (if b then m else k)"
  by simp

lemmas yields_rules = yields_bindM yields_thenM yields_if yields_throw

definition enveloped :: "http_response \<Rightarrow> bool" where
  \<comment> \<open>a success without an error body, or a documented failure with one; only the readiness probe
      fails without\<close>
  "enveloped r = (case hr_body r of
      ErrorB b \<Rightarrow> hr_status r \<in> {401, 404, 409, 422, 429, 500, 502, 503} \<and> eb_code b \<noteq> [] \<and> hr_cookie r = None
    | ReadinessB b \<Rightarrow> hr_status r = (if rr_ready b then 200 else 503)
    | _ \<Rightarrow> hr_status r \<in> {200, 201, 204})"

lemma enveloped_simps [simp]:
  "enveloped (token_reply E t)"
  "enveloped (respond 200 (AdminB u))" "enveloped (respond 200 (ProductB p))"
  "enveloped (respond 201 (ProductB p))" "enveloped (respond 204 NoBody)"
  "enveloped ((respond 204 NoBody)\<lparr>hr_cookie := c\<rparr>)" "enveloped (respond 200 (ProductsB ps))"
  "enveloped (respond 200 (PurchasesB us))" "enveloped (respond 200 (VerificationB v))"
  "enveloped (respond 200 (DeliveryB a))" "enveloped (respond 200 (OverviewB ov))"
  "enveloped (respond 200 AliveB)" "enveloped (readiness E checks)"
  "enveloped (handle_validation_error es)"
  by (simp_all add: enveloped_def respond_def token_reply_def readiness_def handle_validation_error_def
      render_def Let_def)

lemma app_error_table:
  "is_subclass c AppError \<Longrightarrow> (case class_attr own_status c of Some n \<Rightarrow> n | None \<Rightarrow> 500)
       \<in> {401, 404, 409, 422, 429, 500, 502, 503}
     \<and> (case class_attr own_code c of Some x \<Rightarrow> x | None \<Rightarrow> []) \<noteq> []"
  by (cases c) (simp_all add: class_attr_step)

lemma enveloped_error: "enveloped (error_response e)"
  using app_error_table [of "exn_cls e"]
  by (simp add: error_response_def isinstance_def handle_app_error_def handle_unexpected_error_def render_def
      enveloped_def respond_def status_code_def exn_code_def)

lemma yields_login: "yields enveloped (login E host r)"
  unfolding login_def Let_def by (intro yields_rules) (simp add: yields_ret)

lemma yields_refresh: "yields enveloped (refresh E p c)"
  unfolding refresh_def Let_def by (intro yields_rules) (simp add: yields_ret)

lemma yields_logout: "yields enveloped (logout E p c)"
  unfolding logout_def Let_def by (intro yields_rules) (simp_all add: yields_ret)

lemma yields_admin_endpoint: "yields enveloped (admin_endpoint E rq admin)"
  by (cases "(E, rq, admin)" rule: admin_endpoint.cases)
    (simp_all add: list_products_page_def create_product_def get_product_def update_product_def delete_product_def
      search_purchases_page_def verify_payment_manually_def resend_delivery_def overview_def yields_ret
      yields_rules)

lemma yields_open_endpoint: "open_endpoint E checks call = Some m \<Longrightarrow> yields enveloped m"
  by (auto simp: open_endpoint_def yields_ret yields_login yields_refresh yields_logout split: api_request.splits)

lemma yields_endpoint: "yields enveloped (endpoint E checks errors call)"
  by (auto simp: endpoint_def validated_def as_admin_def yields_ret yields_open_endpoint yields_admin_endpoint
      intro: yields_bindM split: option.split)

lemma serve_run:
  "serve E checks errors call w = (case endpoint E checks errors call w of
      (Inl e, w') \<Rightarrow> (Inr (error_response e), w') | (Inr r, w') \<Rightarrow> (Inr r, w'))"
  by (auto simp: serve_def catchM_run split: prod.split sum.split)

text \<open>The application always answers; an exception it does not know is reported without any of its content.\<close>

lemma serve_enveloped:
  "\<exists>r w'. serve E checks errors call w = (Inr r, w') \<and> enveloped r
     \<and> (\<forall>e. fst (endpoint E checks errors call w) = Inl e \<and> \<not> isinstance e AppError \<longrightarrow>
          hr_status r = 500 \<and> hr_body r = ErrorB \<lparr>eb_code = ''internal_error'',
            eb_message = ''Internal server error'', eb_details = []\<rparr>)"
proof -
  obtain x w' where run: "endpoint E checks errors call w = (x, w')" by (cases "endpoint E checks errors call w")
  have "enveloped r" if "x = Inr r" for r
    using yields_endpoint [of E checks errors call] run that by (auto simp: yields_def)
  with run enveloped_error show ?thesis
    by (cases x) (auto simp: serve_run error_response_def handle_unexpected_error_def render_def respond_def)
qed

subsection \<open>Guarded endpoints\<close>

lemma get_current_admin_run:
  assumes "\<And>token i. cred = Some token \<Longrightarrow> token \<noteq> [] \<Longrightarrow> \<not> token_accepted E token ACCESS w i"
  shows "\<exists>e. get_current_admin E cred w = (Inl e, w) \<and> exn_cls e = InvalidTokenError"
proof (cases cred)
  case (Some token)
  obtain r w' where run: "authenticate E token ACCESS w = (r, w')" by (cases "authenticate E token ACCESS w")
  from authenticate_run [OF run] assms [OF Some] Some show ?thesis
    by (cases "token = []") (auto simp: get_current_admin_def run split: sum.splits)
qed (simp add: get_current_admin_def)

lemma guarded_call_refused:
  assumes "open_endpoint E checks call = None"
    and "\<And>token i. ac_bearer call = Some token \<Longrightarrow> token \<noteq> [] \<Longrightarrow> \<not> token_accepted E token ACCESS w i"
  shows "\<exists>message details. serve E checks errors call w = (Inr (render 401 ''invalid_token'' message details), w)"
proof -
  from get_current_admin_run [of "ac_bearer call" E w, OF assms(2)] obtain e where
    e: "get_current_admin E (ac_bearer call) w = (Inl e, w)" "exn_cls e = InvalidTokenError" by blast
  then have "endpoint E checks errors call w = (Inl e, w)"
    using assms(1) by (simp add: endpoint_def as_admin_def bindM_run)
  with e(2) show ?thesis
    by (auto simp: serve_run error_response_def isinstance_def handle_app_error_def status_code_def exn_code_def
        class_attr_step)
qed

text \<open>
  C15. Nothing of the shop is reachable without an access token: on every endpoint but the five open
  ones a call whose bearer token is missing, empty or not accepted at this moment is answered 401,
  whatever its parameters and its body, and changes nothing at all: no row, no key, no message.
\<close>

theorem guarded_endpoints_need_a_token:
  assumes "open_endpoint E checks call = None"
    and "\<And>token i. ac_bearer call = Some token \<Longrightarrow> token \<noteq> [] \<Longrightarrow> \<not> token_accepted E token ACCESS w i"
  shows "\<exists>message details. serve E checks errors call w = (Inr (render 401 ''invalid_token'' message details), w)"
  using assms by (rule guarded_call_refused)

theorem guarded_endpoints_need_a_token_witness:
  "\<exists>message details. serve sample_env [] (\<lambda>_. [])
       \<lparr>ac_host = None, ac_bearer = Some ''forged'', ac_cookie = None, ac_request = ResendDelivery 10\<rparr>
       (sample_world [sample_purchase PAID])
     = (Inr (render 401 ''invalid_token'' message details), sample_world [sample_purchase PAID])"
  by (rule guarded_endpoints_need_a_token) (simp_all add: open_endpoint_def token_accepted_def sample_env_def)

end
