(* ===== verification/ApiFacts.thy ===== *)
theory ApiFacts
  imports Api
begin

section \<open>Sessions and products through the API\<close>

text \<open>
  What a client of the API sees over several calls: the login limit, the logout, and a product read
  back after it was created.
\<close>

subsection \<open>Login\<close>

lemma issue_pair_succeeds:
  "\<exists>pair. issue_pair E u w = (Inr pair, w\<lparr>uuids_drawn := Suc (Suc (uuids_drawn w))\<rparr>)"
  by (simp add: issue_pair_def bindM_run utc_now_def encode_token_run)

definition attempts_in_window :: "string \<Rightarrow> rat \<Rightarrow> int \<Rightarrow> int \<Rightarrow> world \<Rightarrow> bool" where
  \<comment> \<open>\<open>n\<close> attempts were counted in the window that ends at \<open>e\<close>\<close>
  "attempts_in_window key window n e w =
     (counter_at (rate_name key) n e w
      \<or> (n = 0 \<and> e = now_ms (clock w) + millis window \<and> r_get (now_ms (clock w)) (rate_name key) (redis w) = None))"

definition counted :: "string \<Rightarrow> int \<Rightarrow> int \<Rightarrow> world \<Rightarrow> world" where
  "counted key n e w = w\<lparr>redis := (redis w)(rate_name key \<mapsto> \<lparr>r_value = RInt n, r_expires_at = Some e\<rparr>)\<rparr>"

lemma rate_hit_counts:
  "attempts_in_window key window n e w \<Longrightarrow> rate_hit key limit window w = (Inr (n < limit), counted key (n + 1) e w)"
  by (auto simp: attempts_in_window_def rate_hit_live rate_hit_fresh counted_def)

text \<open>
  C31. Login is limited before it is checked: the attempt is counted first; beyond the limit the answer
  is 429 whatever the credentials are; below it wrong credentials are answered 401 and stay counted,
  and the right ones get a token pair, the refresh token also as a cookie for its whole lifetime that
  scripts cannot read, and the count starts afresh.
\<close>

theorem login_outcome:
  assumes "request_ok (Login payload)" and "ac_request call = Login payload"
    and key: "key = client_key (ac_host call) (lq_username payload)"
    and "attempts_in_window key (sec_login_rate_window_seconds (security E)) n e w"
  shows "if sec_login_rate_limit (security E) \<le> n
     then serve E checks errors call w = (Inr (render 429 ''too_many_attempts''
       ''Too many login attempts, please wait and try again'' []), counted key (n + 1) e w)
     else if lq_username payload = sec_admin_username (security E) \<and> verify_password E (lq_password payload)
     then \<exists>pair. issue_pair E (lq_username payload) (counted key (n + 1) e w) =
           (Inr pair, (counted key (n + 1) e w)\<lparr>uuids_drawn := Suc (Suc (uuids_drawn w))\<rparr>)
         \<and> serve E checks errors call w =
             (Inr \<lparr>hr_status = 200, hr_body = TokenB (token_response_of pair), hr_cookie =
                Some (refresh_cookie E (tp_refresh_token pair) (tp_refresh_expires_in pair))\<rparr>,
              w\<lparr>redis := (redis w)(rate_name key := None), uuids_drawn := Suc (Suc (uuids_drawn w))\<rparr>)
     else serve E checks errors call w = (Inr (render 401 ''invalid_credentials''
       ''Invalid username or password'' []), counted key (n + 1) e w)"
proof -
  let ?w = "counted key (n + 1) e w" and ?s = "security E"
  have serve: "serve E checks errors call w = (case login E (ac_host call) payload w of
      (Inl e, w') \<Rightarrow> (Inr (error_response e), w') | (Inr r, w') \<Rightarrow> (Inr r, w'))"
    using assms(1,2) by (simp add: serve_run endpoint_def open_endpoint_def validated_def)
  have login: "login E (ac_host call) payload w = (if \<not> n < sec_login_rate_limit ?s
      then throw (err TooManyLoginAttemptsError [])
      else bindM (auth_login E (lq_username payload) (lq_password payload)) (\<lambda>tokens.
           thenM (rate_reset key) (ret (token_reply E tokens)))) ?w"
    unfolding login_def Let_def key [symmetric] by (simp add: bindM_run rate_hit_counts [OF assms(4)])
  obtain pair where pair: "issue_pair E (sec_admin_username ?s) ?w = (Inr pair, ?w\<lparr>uuids_drawn := Suc (Suc (uuids_drawn ?w))\<rparr>)"
    using issue_pair_succeeds by blast
  consider (limited) "sec_login_rate_limit ?s \<le> n"
    | (wrong) "\<not> sec_login_rate_limit ?s \<le> n"
        "\<not> (lq_username payload = sec_admin_username ?s \<and> verify_password E (lq_password payload))"
    | (right) "\<not> sec_login_rate_limit ?s \<le> n" "lq_username payload = sec_admin_username ?s"
        "verify_password E (lq_password payload)"
    by blast
  then show ?thesis
  proof cases
    case limited
    then show ?thesis
      unfolding if_P [OF limited] serve login
      by (simp add: error_response_def handle_app_error_def status_code_def exn_code_def class_attr_step
          err_def app_error_def class_message_def isinstance_def)
  next
    case wrong
    then show ?thesis
      unfolding if_not_P [OF wrong(1)] if_not_P [OF wrong(2)] serve login
      by (simp add: auth_login_def Let_def constant_time_equals_def bindM_run error_response_def
          handle_app_error_def status_code_def exn_code_def class_attr_step err_def app_error_def class_message_def
          isinstance_def)
  next
    case right
    then show ?thesis
      unfolding if_not_P [OF right(1)] serve login
      using pair
      by (simp add: auth_login_def Let_def constant_time_equals_def bindM_run thenM_run rate_reset_def
          token_reply_def respond_def counted_def r_del_def)
  qed
qed

theorem login_outcome_witness:
  "serve sample_env [] (\<lambda>_. [])
     \<lparr>ac_host = Some ''h'', ac_bearer = None, ac_cookie = None,
      ac_request = Login \<lparr>lq_username = ''admin'', lq_password = ''wrong''\<rparr>\<rparr> (sample_world [])
   = (Inr (render 401 ''invalid_credentials'' ''Invalid username or password'' []),
      counted ''login:h:admin'' 1 61000 (sample_world []))"
proof -
  have key: "''login:h:admin'' = client_key (Some ''h'') ''admin''" by code_simp
  have sec: "sec_login_rate_limit (security sample_env) = 5" "sec_login_rate_window_seconds (security sample_env) = 60"
    "sec_admin_password (security sample_env) = ''correct horse''"
    "sec_admin_username (security sample_env) = ''admin''"
    by (simp_all add: security_def sample_env_def sample_settings_def)
  have "attempts_in_window ''login:h:admin'' 60 0 61000 (sample_world [])"
    by (simp add: attempts_in_window_def sample_world_def r_get_def now_ms_def millis_def)
  with login_outcome [where E = sample_env and payload = "\<lparr>lq_username = ''admin'', lq_password = ''wrong''\<rparr>"
      and call = "\<lparr>ac_host = Some ''h'', ac_bearer = None, ac_cookie = None,
        ac_request = Login \<lparr>lq_username = ''admin'', lq_password = ''wrong''\<rparr>\<rparr>"
      and key = "''login:h:admin''" and n = 0 and e = 61000 and w = "sample_world []" and checks = "[]"
      and errors = "\<lambda>_. []"] sec key
  show ?thesis by (simp add: login_request_ok_def verify_password_def) (simp add: sample_env_def)
qed

subsection \<open>Logout\<close>

text \<open>
  Logging out always works and really ends the session: a well-formed logout is answered 204 with
  the refresh cookie cleared, whether the presented token is good, stale, forged or absent; a good one
  is on the revocation list afterwards, and neither the database nor anybody outside is touched.
\<close>

theorem logout_always_answers:
  assumes "request_ok (Logout payload)" and "ac_request call = Logout payload"
  shows "\<exists>w'. serve E checks errors call w =
       (Inr \<lparr>hr_status = 204, hr_body = NoBody, hr_cookie = Some (refresh_cookie E [] 0)\<rparr>, w')
     \<and> db w' = db w \<and> effects w' = effects w
     \<and> (\<forall>token i. supplied_token payload (ac_cookie call) = Some token \<and> token \<noteq> []
           \<and> token_accepted E token REFRESH w i \<longrightarrow> is_revoked i w' = (Inr True, w'))"
proof -
  let ?t = "supplied_token payload (ac_cookie call)"
  have serve: "serve E checks errors call w = (case logout E payload (ac_cookie call) w of
      (Inl e, w') \<Rightarrow> (Inr (error_response e), w') | (Inr r, w') \<Rightarrow> (Inr r, w'))"
    using assms by (simp add: serve_run endpoint_def open_endpoint_def validated_def)
  show ?thesis
  proof (cases "truthy ?t")
    case False
    then show ?thesis
      unfolding serve logout_def Let_def by (auto simp: respond_def truthy_def)
  next
    case True
    then obtain token where token: "?t = Some token" "token \<noteq> []" by (auto simp: truthy_def split: option.splits)
    obtain r u where auth: "authenticate E token REFRESH w = (r, u)" by (cases "authenticate E token REFRESH w")
    note run = authenticate_run [OF auth]
    let ?w = "case r of Inl _ \<Rightarrow> w | Inr a \<Rightarrow> snd (auth_revoke E (ai_token_id a) REFRESH w)"
    have out: "logout E payload (ac_cookie call) w =
        (Inr \<lparr>hr_status = 204, hr_body = NoBody, hr_cookie = Some (refresh_cookie E [] 0)\<rparr>, ?w)"
      using True token run auth
      by (auto simp: logout_def Let_def respond_def thenM_run catchM_run auth_logout_def bindM_run on_class_def
          isinstance_def auth_revoke_def revoke_run split: sum.splits)
    have frame: "db ?w = db w" "effects ?w = effects w" "clock ?w = clock w"
      by (auto simp: auth_revoke_def revoke_run split: sum.split)
    have "is_revoked i ?w = (Inr True, ?w)" if acc: "token_accepted E token REFRESH w i" for i
    proof -
      from run acc obtain a where a: "r = Inr a" "token_accepted E token REFRESH w (ai_token_id a)"
        by (auto split: sum.splits)
      with acc have "ai_token_id a = i" by (auto simp: token_accepted_def split: sum.splits)
      then have "?w = snd (revoke i (of_int (refresh_ttl E)) w)" using a(1) by (simp add: auth_revoke_def)
      then show ?thesis using frame(3)
        by (intro revoked_until [where w = w and ttl = "of_int (refresh_ttl E)"]) (simp_all add: millis_pos)
    qed
    with out frame token show ?thesis unfolding serve by auto
  qed
qed

theorem logout_always_answers_witness:
  "\<exists>w'. serve expiring_env [] (\<lambda>_. [])
      \<lparr>ac_host = None, ac_bearer = None, ac_cookie = Some ''tok'', ac_request = Logout None\<rparr> (sample_world [])
    = (Inr \<lparr>hr_status = 204, hr_body = NoBody, hr_cookie = Some (refresh_cookie expiring_env [] 0)\<rparr>, w')
    \<and> is_revoked ''id'' w' = (Inr True, w')"
proof -
  have "token_accepted expiring_env ''tok'' REFRESH (sample_world []) ''id''"
    by (simp add: token_accepted_def expiring_env_def json_get_def security_def sample_env_def sample_settings_def
        sample_world_def r_get_def)
  moreover have "supplied_token None (Some ''tok'') = Some ''tok''" by code_simp
  ultimately show ?thesis
    using logout_always_answers [where E = expiring_env and payload = None and checks = "[]" and errors = "\<lambda>_. []"
        and w = "sample_world []" and call = "\<lparr>ac_host = None, ac_bearer = None, ac_cookie = Some ''tok'',
          ac_request = Logout None\<rparr>"] by auto
qed

subsection \<open>A created product reads back\<close>

lemma numeric_round_cents:
  assumes "0 < r" and "r * 100 = of_int \<lfloor>r * 100\<rfloor>"
  shows "numeric_round 2 r = r"
proof -
  define k where "k = \<lfloor>r * 100\<rfloor>"
  have r: "r * 100 = of_int k" using assms(2) by (simp add: k_def)
  have "\<lfloor>of_int k + (1 / 2 :: rat)\<rfloor> = k" by linarith
  then have "numeric_round 2 r = of_int k / 100" using assms(1) r by (simp add: numeric_round_def)
  also have "\<dots> = r" using r by simp
  finally show ?thesis .
qed

lemma product_create_success:
  assumes "product_create new_id now dr d = (Inr q, e)"
  shows "q = product_stored (new_product new_id now dr) \<and> pr_id q = new_id \<and> e = d\<lparr>products := products d @ [q]\<rparr>
     \<and> List.find (\<lambda>p. pr_id p = new_id) (products e) = Some q"
proof -
  let ?r = "product_stored (new_product new_id now dr)"
  from assms have viol: "product_violation (products d) ?r = None"
    and e: "e = d\<lparr>products := products d @ [?r]\<rparr>"
    and q: "List.find (\<lambda>p. pr_id p = new_id) (products e) = Some q"
    by (auto simp: product_create_def thenM_run slug_savepoint_run insert_product_def Let_def reread_product_run
        split: sum.splits option.splits)
  from product_violation_keys(1) [OF viol] have "\<forall>p\<in>set (products d). pr_id p \<noteq> new_id"
    by (auto simp: key_free_def list_all_iff new_product_def)
  then have "List.find (\<lambda>p. pr_id p = new_id) (products d) = None"
    by (auto simp: find_None_iff)
  with q have "q = ?r" by (simp add: e find_append new_product_def)
  with e q show ?thesis by (simp add: new_product_def)
qed

lemma create_product_success:
  assumes "create_product E r w = (Inr resp, w')"
  shows "\<exists>q slug url. resp = respond 201 (ProductB (product_reply E q))
     \<and> normalise_slug (cq_slug r) = Inr slug \<and> validate_delivery_url (env_netloc_ok E) (cq_delivery_url r) = Inr url
     \<and> pr_slug q = slug \<and> pr_delivery_url q = url \<and> pr_title q = py_strip (cq_title r)
     \<and> pr_description q = cq_description r \<and> pr_photo_file_id q = cq_photo_file_id r
     \<and> pr_price_stars q = cq_price_stars r \<and> pr_price_usdt q = map_option (numeric_round 2) (cq_price_usdt r)
     \<and> pr_is_active q = cq_is_active r
     \<and> db w' = (db w)\<lparr>products := products (db w) @ [q]\<rparr> \<and> clock w' = clock w \<and> redis w' = redis w
     \<and> List.find (\<lambda>p. pr_id p = pr_id q) (products (db w')) = Some q"
proof -
  from assms obtain draft q v where draft: "to_draft r = Inr draft"
    and create: "svc_create_product E draft w = (Inr q, w')" and resp: "resp = respond 201 (ProductB (product_reply E q))"
    by (auto simp: create_product_def bindM_run split: sum.splits prod.splits)
  from create obtain prepared u d where prep: "prepare_draft E draft = Inr prepared"
    and row: "product_create (env_uuid4 E (uuids_drawn w)) (clock w) prepared (db w) = (Inr q, d)"
    and w': "w' = w\<lparr>uuids_drawn := u, db := d\<rparr>"
    by (auto simp: svc_create_product_def bindM_run new_uuid_def in_uow_def split: sum.splits prod.splits)
  from product_create_success [OF row] draft prep show ?thesis
    unfolding resp w'
    by (auto simp: prepare_draft_def to_draft_def mk_product_draft_def product_stored_def new_product_def
        split: sum.splits if_splits)
qed

text \<open>
  The lengths are checked before the title is stripped: a title of spaces is accepted, and the product
  is stored without a title.
\<close>

lemma blank_title_is_stored:
  "title_ok ''   '' \<and> py_strip ''   '' = []"
  "create_product E r w = (Inr resp, w') \<Longrightarrow> py_strip (cq_title r) = [] \<Longrightarrow>
     \<exists>q\<in>set (products (db w')). pr_title q = []"
proof -
  show "title_ok ''   '' \<and> py_strip ''   '' = []" by code_simp
  show "create_product E r w = (Inr resp, w') \<Longrightarrow> py_strip (cq_title r) = [] \<Longrightarrow>
     \<exists>q\<in>set (products (db w')). pr_title q = []"
    by (drule create_product_success) auto
qed

text \<open>
  C32. What a creation answers is what a later read answers: when creating a product succeeds, exactly
  one row was added, with the prices and the flag of the request unchanged (the money column loses no
  cent of a validated price), the normalised slug, the validated link and the trimmed title; and
  reading the product with the same credentials at that moment answers the very same body.
\<close>

theorem created_product_reads_back:
  assumes "ac_request call = CreateProduct r" and "serve E checks errors call w = (Inr resp, w')"
    and "hr_body resp = ProductB b"
  shows "hr_status resp = 201
     \<and> prs_price_stars b = cq_price_stars r \<and> prs_price_usdt b = cq_price_usdt r
     \<and> prs_is_active b = cq_is_active r \<and> prs_title b = py_strip (cq_title r)
     \<and> normalise_slug (cq_slug r) = Inr (prs_slug b)
     \<and> validate_delivery_url (env_netloc_ok E) (cq_delivery_url r) = Inr (prs_delivery_url b)
     \<and> prs_deep_link b = svc_deep_link E (prs_slug b)
     \<and> (\<exists>q. db w' = (db w)\<lparr>products := products (db w) @ [q]\<rparr> \<and> product_reply E q = b)
     \<and> serve E checks' errors' (call\<lparr>ac_request := GetProduct (prs_id b)\<rparr>) w' = (Inr (respond 200 (ProductB b)), w')"
proof -
  have err_body: "hr_body (error_response e) \<noteq> ProductB b" for e
    by (simp add: error_response_def handle_app_error_def handle_unexpected_error_def render_def respond_def)
  obtain x u where auth: "get_current_admin E (ac_bearer call) w = (x, u)" by (cases "get_current_admin E (ac_bearer call) w")
  then have u: "u = w" and pure: "\<And>v. clock v = clock w \<Longrightarrow> redis v = redis w \<Longrightarrow>
      get_current_admin E (ac_bearer call) v = (x, v)"
    by (auto simp: get_current_admin_def authenticate_def decode_token_def bindM_run utc_now_def is_revoked_run
        split: option.splits if_splits sum.splits json.splits)
  from assms auth u err_body obtain admin where x: "x = Inr admin"
    and valid: "create_request_ok r" and run: "create_product E r w = (Inr resp, w')"
    by (auto simp: serve_run endpoint_def open_endpoint_def as_admin_def bindM_run validated_def
        handle_validation_error_def render_def respond_def split: sum.splits prod.splits if_splits)
  from create_product_success [OF run] obtain q where q: "resp = respond 201 (ProductB (product_reply E q))"
    "normalise_slug (cq_slug r) = Inr (pr_slug q)"
    "validate_delivery_url (env_netloc_ok E) (cq_delivery_url r) = Inr (pr_delivery_url q)"
    "pr_title q = py_strip (cq_title r)"
    "pr_price_stars q = cq_price_stars r" "pr_price_usdt q = map_option (numeric_round 2) (cq_price_usdt r)"
    "pr_is_active q = cq_is_active r"
    "db w' = (db w)\<lparr>products := products (db w) @ [q]\<rparr>" "clock w' = clock w" "redis w' = redis w"
    "List.find (\<lambda>p. pr_id p = pr_id q) (products (db w')) = Some q"
    by blast
  have b: "b = product_reply E q" using assms(3) q(1) by (simp add: respond_def)
  have "map_option (numeric_round 2) (cq_price_usdt r) = cq_price_usdt r"
    using valid by (cases "cq_price_usdt r") (auto simp: create_request_ok_def usdt_ok_def intro: numeric_round_cents)
  moreover have "serve E checks' errors' (call\<lparr>ac_request := GetProduct (prs_id b)\<rparr>) w' = (Inr (respond 200 (ProductB b)), w')"
    using pure [OF q(9,10)] x q(11)
    by (simp add: serve_run endpoint_def open_endpoint_def as_admin_def bindM_run validated_def get_product_def
        svc_get_product_def in_uow_run product_found_def b product_reply_def product_response_of_def)
  ultimately show ?thesis
    using q b by (auto simp: respond_def product_reply_def product_response_of_def)
qed

definition admin_env :: env where
  \<comment> \<open>every token is an access token of the administrator\<close>
  "admin_env = sample_env\<lparr>env_jwt_decode := (\<lambda>_ _ _.
     Inr [(''sub'', JStr ''admin''), (''type'', JStr ''access''), (''jti'', JStr ''id'')])\<rparr>"

definition sample_request :: product_create_request where
  "sample_request = \<lparr>cq_slug = ''new-1'', cq_title = '' N '', cq_description = [], cq_delivery_url = ''https://e.io/y'',
     cq_photo_file_id = None, cq_price_stars = Some 50, cq_price_usdt = None, cq_is_active = True\<rparr>"

definition admin_call :: "api_request \<Rightarrow> api_call" where
  "admin_call rq = \<lparr>ac_host = None, ac_bearer = Some ''t'', ac_cookie = None, ac_request = rq\<rparr>"

lemma admin_env_lets_in:
  assumes "redis w = Map.empty"
  shows "\<exists>a. get_current_admin admin_env (Some ''t'') w = (Inr a, w)"
proof -
  have name: "sec_admin_username (security admin_env) = ''admin''"
    by (simp add: security_def admin_env_def sample_env_def sample_settings_def)
  have "env_jwt_decode admin_env k t x = Inr [(''sub'', JStr ''admin''), (''type'', JStr ''access''), (''jti'', JStr ''id'')]" for k t x
    by (simp add: admin_env_def)
  then have "token_accepted admin_env ''t'' ACCESS w ''id''"
    using assms name by (simp add: token_accepted_def json_get_def r_get_def)
  moreover obtain r v where run: "authenticate admin_env ''t'' ACCESS w = (r, v)"
    by (cases "authenticate admin_env ''t'' ACCESS w")
  ultimately show ?thesis
    using authenticate_run [OF run] by (cases r) (auto simp: get_current_admin_def)
qed

lemma sample_request_created:
  "\<exists>q w'. create_product admin_env sample_request (sample_world []) = (Inr (respond 201 (ProductB (product_reply admin_env q))), w')"
proof -
  have slug: "normalise_slug ''new-1'' = Inr ''new-1''" by code_simp
  have url: "validate_delivery_url (\<lambda>_. True) ''https://e.io/y'' = Inr ''https://e.io/y''" by code_simp
  have title: "py_strip '' N '' = ''N''" by code_simp
  have new: "product_violation [sample_product] (product_stored (new_product 1000 1000000
      \<lparr>pd_slug = ''new-1'', pd_title = ''N'', pd_description = [], pd_delivery_url = ''https://e.io/y'',
       pd_photo_file_id = None, pd_price_stars = Some 50, pd_price_usdt = None, pd_is_active = True\<rparr>)) = None"
    by code_simp
  have fits: "product_fits (new_product 1000 1000000
      \<lparr>pd_slug = ''new-1'', pd_title = ''N'', pd_description = [], pd_delivery_url = ''https://e.io/y'',
       pd_photo_file_id = None, pd_price_stars = Some 50, pd_price_usdt = None, pd_is_active = True\<rparr>)"
    by code_simp
  have env: "env_netloc_ok admin_env = (\<lambda>_. True)" "env_uuid4 admin_env 0 = 1000"
    by (simp_all add: admin_env_def sample_env_def)
  show ?thesis
    using new fits
    by (simp add: create_product_def bindM_run to_draft_def mk_product_draft_def sample_request_def
        svc_create_product_def prepare_draft_def slug url title env new_uuid_def in_uow_run sample_world_def
        product_create_def thenM_run slug_savepoint_run insert_product_def reread_product_run find_append flush_row_def
        new_product_def) blast
qed

theorem created_product_reads_back_witness:
  "\<exists>b w'. serve admin_env [] (\<lambda>_. []) (admin_call (CreateProduct sample_request)) (sample_world [])
       = (Inr (respond 201 (ProductB b)), w')
     \<and> prs_price_stars b = Some 50
     \<and> serve admin_env [] (\<lambda>_. []) (admin_call (GetProduct (prs_id b))) w' = (Inr (respond 200 (ProductB b)), w')"
proof -
  obtain q w' where create: "create_product admin_env sample_request (sample_world []) =
      (Inr (respond 201 (ProductB (product_reply admin_env q))), w')"
    using sample_request_created by blast
  obtain a where a: "get_current_admin admin_env (Some ''t'') (sample_world []) = (Inr a, sample_world [])"
    using admin_env_lets_in [of "sample_world []"] by (auto simp: sample_world_def)
  have ok: "create_request_ok sample_request" by code_simp
  have run: "serve admin_env [] (\<lambda>_. []) (admin_call (CreateProduct sample_request)) (sample_world []) =
      (Inr (respond 201 (ProductB (product_reply admin_env q))), w')"
    by (simp add: serve_run endpoint_def open_endpoint_def as_admin_def admin_call_def bindM_run a validated_def ok create)
  from created_product_reads_back [OF _ run, of sample_request "product_reply admin_env q" "[]" "\<lambda>_. []"]
  show ?thesis using run by (auto simp: respond_def admin_call_def sample_request_def)
qed

end
