(* ===== verification/System.thy ===== *)
theory System
  imports Billing Workers ApiFacts
begin

section \<open>The running shop\<close>

text \<open>
  The composition: the bot's dispatcher, the Crypto Pay webhook, the two background workers and the
  admin API over one database. Every one of them is shown, under the contract of the repositories, to
  move the database only by repository operations. Units of work of concurrently running handlers
  interleave; each repository operation is atomic here (row locks and unique indexes are the schema's),
  and a handler may be anywhere between two of them when another one acts, or may die there.
\<close>

subsection \<open>Every entry point under the contract\<close>

context shop_preorder
begin

lemma answers_move:
  "moves R (answer E n t)" "moves R (answer_callback E n u)" "moves R (answer_pre_checkout E u)"
  unfolding answer_def answer_callback_def answer_pre_checkout_def by (intro along_telegram_request)+

lemmas bot_rules = svc_rules answers_move

lemma shown_card_moves: "moves R (shown_card E chat profile payload)"
  unfolding shown_card_def
  by (intro bot_rules moves_catch open_card_moves)
    (erule moves_clause, intro bot_rules, erule moves_last_clause, intro bot_rules)

lemma redeliver_again_moves: "moves R (redeliver_again E chat i)"
  unfolding redeliver_again_def
  by (intro bot_rules moves_catch checkout_redeliver_moves) (erule moves_last_clause, intro bot_rules)

lemma handle_deep_link_moves: "moves R (handle_deep_link E chat profile args)"
  unfolding handle_deep_link_def Let_def by (intro bot_rules shown_card_moves redeliver_again_moves)

lemma start_checkout_moves: "moves R (start_checkout E user v p)"
  unfolding start_checkout_def by (intro bot_rules start_stars_checkout_moves start_crypto_checkout_moves)

lemma hand_link_over_again_moves: "moves R (hand_link_over_again E user p)"
  unfolding hand_link_over_again_def
  by (intro bot_rules find_owned_moves moves_catch checkout_redeliver_moves)
    (erule moves_last_clause, intro bot_rules)

lemma pay_errors_move:
  assumes "or_else (on_class [LockBusyError] (\<lambda>_. answer_callback E user (Some PAYMENT_IN_PROGRESS)))
          (or_else (on_class [DuplicatePurchaseError] (\<lambda>_. hand_link_over_again E user p))
          (or_else (on_class [ProviderNotSupportedError] (\<lambda>_. answer_callback E user (Some CARD_UNAVAILABLE)))
            (on_class [PaymentGatewayError] (\<lambda>_. answer_callback E user (Some PAYMENT_UNAVAILABLE))))) e = Some k"
  shows "moves R k"
  using assms answers_move(2) hand_link_over_again_moves by (auto simp: or_else_Some)

lemma handle_pay_pressed_moves: "moves R (handle_pay_pressed E user cb)"
proof -
  have "moves R (catchM (bindM (product_for_checkout i) (\<lambda>p. ret (Some p)))
        (on_class [ProductNotFoundError, ProductInactiveError]
           (\<lambda>_. thenM (answer_callback E user (Some CARD_UNAVAILABLE)) (ret None))))" for i
    by (intro bot_rules moves_catch product_for_checkout_moves) (erule moves_last_clause, intro bot_rules)
  moreover have "moves R (catchM (start_checkout E user v p)
          (or_else (on_class [LockBusyError] (\<lambda>_. answer_callback E user (Some PAYMENT_IN_PROGRESS)))
          (or_else (on_class [DuplicatePurchaseError] (\<lambda>_. hand_link_over_again E user p))
          (or_else (on_class [ProviderNotSupportedError] (\<lambda>_. answer_callback E user (Some CARD_UNAVAILABLE)))
            (on_class [PaymentGatewayError] (\<lambda>_. answer_callback E user (Some PAYMENT_UNAVAILABLE)))))))" for v p
    by (rule moves_catch [OF start_checkout_moves pay_errors_move])
  ultimately show ?thesis unfolding handle_pay_pressed_def by (intro bot_rules)
qed

lemma still_sold_moves: "moves R (still_sold E i)"
  unfolding still_sold_def
  by (intro bot_rules moves_catch product_for_checkout_moves) (erule moves_last_clause, intro bot_rules)

lemma handle_pre_checkout_moves: "moves R (handle_pre_checkout E x)"
  unfolding handle_pre_checkout_def
  by (intro bot_rules find_by_invoice_moves find_owned_moves still_sold_moves)

lemma handle_successful_payment_moves: "moves R (handle_successful_payment E chat x c)"
  unfolding handle_successful_payment_def
  by (intro bot_rules moves_catch settle_payment_moves)
    (erule moves_clause, intro bot_rules, erule moves_last_clause, intro bot_rules)

lemma handle_refunded_payment_moves: "moves R (handle_refunded_payment E chat c)"
  unfolding handle_refunded_payment_def
  by (intro bot_rules moves_catch refund_by_charge_id_moves) (erule moves_last_clause, intro bot_rules)

lemma throttle_moves: "moves R h \<Longrightarrow> moves R (throttle E ev u h)"
proof -
  have "moves R (notify_throttled E ev)"
    unfolding notify_throttled_def
    by (intro moves_catch) (auto split: event_kind.split option.split intro!: bot_rules)
  moreover assume "moves R h"
  ultimately show ?thesis
    unfolding throttle_def by (intro bot_rules moves_catch) (auto elim: moves_last_clause)
qed

lemma handle_update_moves: "moves R (handle_update E upd)"
proof (cases upd)
  case (StartPlain chat user)
  then show ?thesis
    by (simp add: throttle_moves answers_move handle_start_without_deep_link_def)
qed (simp_all add: throttle_moves handle_deep_link_moves handle_pay_pressed_moves handle_pre_checkout_moves
    handle_successful_payment_moves handle_refunded_payment_moves)

lemma settle_notified_moves: "moves R (settle_notified E x)"
  unfolding settle_notified_def
  by (intro svc_rules moves_catch settle_payment_moves) (auto simp: or_else_Some w.along_ret)

lemma handle_cryptobot_webhook_moves: "moves R (handle_cryptobot_webhook E raw_body signature)"
  unfolding handle_cryptobot_webhook_def
  by (auto split: option.split json.split intro!: settle_notified_moves w.along_ret)

lemma settle_polled_moves: "moves R (settle_polled E x)"
  unfolding settle_polled_def
  by (intro svc_rules moves_catch settle_payment_moves) (auto simp: or_else_Some w.along_ret)

lemma settle_paid_moves: "moves R (settle_paid E states n)"
proof (induction states arbitrary: n)
  case (Cons a rest)
  show ?case
    by (cases a) (simp, intro svc_rules settle_polled_moves Cons.IH conjI impI)
qed (simp add: along_def R_refl)

lemma reconcile_once_moves: "moves R (reconcile_once E)"
proof -
  have "moves R (catchM (bindM (fetch_states E xs) (\<lambda>s. ret (Some s))) (on_class [AppError] (\<lambda>_. ret None)))" for xs
    by (intro svc_rules moves_catch fetch_states_moves) (auto simp: w.along_ret)
  then show ?thesis
    unfolding reconcile_once_def by (intro svc_rules svc_list_pending_moves settle_paid_moves)
qed

lemma housekeep_once_moves: "moves R (housekeep_once E)"
  unfolding housekeep_once_def by (rule expire_stale_moves)

lemma authenticate_moves: "moves R (authenticate E token k)"
  using authenticate_run by (intro moves_same_db) (metis prod.collapse)

lemma issue_pair_moves: "moves R (issue_pair E u)"
proof (rule moves_same_db)
  fix w :: world
  show "db (snd (issue_pair E u w)) = db w" using issue_pair_succeeds [of E u w] by auto
qed

lemma auth_service_moves:
  "moves R (auth_login E u p)" "moves R (auth_refresh E t)" "moves R (auth_logout E t)"
  unfolding auth_login_def auth_refresh_def auth_logout_def auth_revoke_def Let_def
  by (intro svc_rules authenticate_moves issue_pair_moves)+

lemma open_endpoint_moves: "open_endpoint E checks call = Some m \<Longrightarrow> moves R m"
proof -
  have "moves R (login E host r)" "moves R (refresh E p c)" for host r p c
    unfolding login_def refresh_def Let_def by (intro svc_rules auth_service_moves)+
  moreover have "moves R (logout E p c)" for p c
    unfolding logout_def Let_def
    by (intro svc_rules moves_catch auth_service_moves) (auto simp: w.along_ret)
  moreover assume "open_endpoint E checks call = Some m"
  ultimately show ?thesis by (auto simp: open_endpoint_def w.along_ret split: api_request.splits)
qed

lemma overview_moves: "along R (overview_in n k now)"
proof -
  have "along R (top_products now period m)" for period m
    by (rule along_reads) (simp add: top_products_def Let_def split: sum.split)
  then show ?thesis
    unfolding overview_in_def revenue_def recent_purchases_def product_count_def user_count_def
    by (intro tx_rules)
qed

lemma search_purchases_moves: "along R (search_purchases f pq)"
  by (rule along_reads) (simp add: search_purchases_def split: sum.split)

lemma stats_move: "moves R (svc_overview n k)" "moves R (svc_search_purchases f pq)"
  unfolding svc_overview_def svc_search_purchases_def
  by (intro svc_rules overview_moves search_purchases_moves)+

lemma admin_endpoint_moves: "moves R (admin_endpoint E rq admin)"
  by (cases "(E, rq, admin)" rule: admin_endpoint.cases)
    (simp_all add: list_products_page_def get_page_request_def create_product_def get_product_def update_product_def
      delete_product_def search_purchases_page_def verify_payment_manually_def resend_delivery_def overview_def
      svc_rules svc_list_products_moves svc_create_product_moves svc_get_product_moves svc_update_product_moves
      svc_delete_product_moves verify_payment_moves checkout_redeliver_moves stats_move)

lemma serve_moves: "moves R (serve E checks errors call)"
proof -
  have admin: "moves R (get_current_admin E c)" for c
    unfolding get_current_admin_def by (intro svc_rules authenticate_moves)
  have "moves R (endpoint E checks errors call)"
  proof (cases "open_endpoint E checks call")
    case None
    then show ?thesis
      unfolding endpoint_def validated_def as_admin_def
      by (simp, intro svc_rules admin admin_endpoint_moves)
  next
    case (Some m)
    then show ?thesis
      using open_endpoint_moves [OF Some] by (simp add: endpoint_def validated_def w.along_ret)
  qed
  then show ?thesis unfolding serve_def by (rule moves_catch) (auto simp: w.along_ret)
qed

end

subsection \<open>Runs of the shop\<close>

inductive repo_step :: "database \<Rightarrow> database \<Rightarrow> bool" where
  \<comment> \<open>one writing operation of a repository, with any arguments and any outcome\<close>
  upsert: "user_upsert now dr seen_at d = (r, e) \<Longrightarrow> repo_step d e"
| create: "create_purchase new_id now draft d = (r', e) \<Longrightarrow> dr_status draft = None \<Longrightarrow> repo_step d e"
| paid: "mark_paid now i paid_at charge d = (r', e) \<Longrightarrow> repo_step d e"
| delivered: "mark_delivered now i url delivered_at d = (r', e) \<Longrightarrow> repo_step d e"
| refunded: "mark_refunded i d = (r', e) \<Longrightarrow> repo_step d e"
| expired: "expire_pending created_before d = (n, e) \<Longrightarrow> repo_step d e"
| product_created: "product_create new_id now prepared d = (q, e) \<Longrightarrow> repo_step d e"
| product_updated: "product_update_row now i changed d = (q, e) \<Longrightarrow> repo_step d e"
| product_deleted: "product_delete i d = (u, e) \<Longrightarrow> repo_step d e"

lemma repo_step_evolves: "repo_step d e \<Longrightarrow> evolves d e"
  by (induction rule: repo_step.induct)
    (blast intro: alongD_eq evolve.upsert_moves evolve.create_purchase_moves evolve.mark_paid_moves
      evolve.mark_delivered_moves evolve.mark_refunded_moves evolve.expire_pending_moves
      evolve.product_create_moves evolve.product_update_moves evolve.product_delete_moves)+

lemma steps_evolve: "repo_step\<^sup>*\<^sup>* d e \<Longrightarrow> evolves d e"
  by (induction rule: rtranclp_induct) (blast intro: evolves.R_refl evolves.R_trans repo_step_evolves)+

lemma along_step: "(\<And>d r e. m d = (r, e) \<Longrightarrow> repo_step d e) \<Longrightarrow> along repo_step\<^sup>*\<^sup>* m"
  unfolding along_def by (metis prod.collapse r_into_rtranclp)

interpretation stepwise: shop_preorder "repo_step\<^sup>*\<^sup>*"
proof unfold_locales
  show "repo_step\<^sup>*\<^sup>* d d" for d by simp
  show "repo_step\<^sup>*\<^sup>* d e \<Longrightarrow> repo_step\<^sup>*\<^sup>* e f \<Longrightarrow> repo_step\<^sup>*\<^sup>* d f" for d e f by simp
qed (blast intro: along_step repo_step.intros)+

datatype entry =
  BotUpdate bot_update
| CryptoWebhook string "string option"
| Reconciliation
| Housekeeping
| ApiCall "(string \<times> bool) list" "api_request \<Rightarrow> pydantic_error list" api_call

fun run_entry :: "env \<Rightarrow> entry \<Rightarrow> world \<Rightarrow> world" where
  "run_entry E (BotUpdate upd) w = snd (handle_update E upd w)"
| "run_entry E (CryptoWebhook raw_body signature) w = snd (handle_cryptobot_webhook E raw_body signature w)"
| "run_entry E Reconciliation w = snd (reconcile_once E w)"
| "run_entry E Housekeeping w = snd (housekeep_once E w)"
| "run_entry E (ApiCall checks errors call) w = snd (serve E checks errors call w)"

inductive shop_run :: "env \<Rightarrow> world \<Rightarrow> world \<Rightarrow> bool" for E where
  start: "shop_run E w w"
| entry: "shop_run E w v \<Longrightarrow> shop_run E w (run_entry E x v)"
| interleaved: "shop_run E w v \<Longrightarrow> repo_step (db v) (db u) \<Longrightarrow> shop_run E w u"
| elsewhere: "shop_run E w v \<Longrightarrow> db u = db v \<Longrightarrow> shop_run E w u"

context shop_preorder
begin

lemma entry_moves: "R (db w) (db (run_entry E x w))"
  by (cases x) (simp_all add: alongD [OF handle_update_moves] alongD [OF handle_cryptobot_webhook_moves]
      alongD [OF reconcile_once_moves] alongD [OF housekeep_once_moves] alongD [OF serve_moves])

end

lemma shop_run_steps: "shop_run E w v \<Longrightarrow> repo_step\<^sup>*\<^sup>* (db w) (db v)"
proof (induction rule: shop_run.induct)
  case (entry w v x)
  then show ?case using stepwise.entry_moves [of v E x] by simp
qed auto

lemma shop_run_evolves: "shop_run E w v \<Longrightarrow> evolves (db w) (db v)"
  by (rule steps_evolve) (rule shop_run_steps)


text \<open>
  C1. The shop never sells twice: in every state that any interleaving of bot updates, webhook calls,
  workers and API requests reaches from a well-formed database, a buyer has at most one purchase of a
  product that grants access, no invoice and no Telegram charge belongs to two purchases, and every
  purchase that grants access was paid for, by a known buyer, for a product that still exists; one that
  was delivered knows which link and when.
\<close>

theorem never_sold_twice:
  assumes "shop_run E w v" and "db_ok (db w)"
    and "p \<in> set (purchases (db v))" and "q \<in> set (purchases (db v))"
  shows "(grants_access p \<and> grants_access q \<and> pu_user_id p = pu_user_id q \<and> pu_product_id p = pu_product_id q
       \<longrightarrow> p = q)
     \<and> (pu_provider p = pu_provider q \<and> pu_external_id p = pu_external_id q \<longrightarrow> p = q)
     \<and> (pu_telegram_charge_id p \<noteq> None \<and> pu_telegram_charge_id p = pu_telegram_charge_id q \<longrightarrow> p = q)
     \<and> (grants_access p \<longrightarrow> pu_paid_at p \<noteq> None \<and> 0 < pu_amount p
         \<and> (\<exists>u\<in>set (users (db v)). us_telegram_id u = pu_user_id p)
         \<and> (\<exists>r\<in>set (products (db v)). pr_id r = pu_product_id p))
     \<and> (pu_status p = DELIVERED \<longrightarrow> pu_delivered_url p \<noteq> None \<and> pu_delivered_at p \<noteq> None)"
proof -
  have "db_ok (db v)" using shop_run_evolves [OF assms(1)] assms(2) by (simp add: evolves_def)
  note ok = db_okD [OF this]
  have unique: "unique_on (\<lambda>_. True) (\<lambda>q. (pu_provider q, pu_external_id q)) (purchases (db v))"
    "unique_on (\<lambda>q. pu_telegram_charge_id q \<noteq> None) pu_telegram_charge_id (purchases (db v))"
    "unique_on grants_access (\<lambda>q. (pu_user_id q, pu_product_id q)) (purchases (db v))"
    using ok(6) by (simp_all add: purchases_unique_def)
  have row: "purchase_row_ok (db v) p" using ok(7) assms(3) by (simp add: list_all_iff)
  have "grants_access p \<longrightarrow> pu_status p \<notin> {PENDING, EXPIRED}"
    by (auto simp: grants_access_def status_grants_access_def access_granting_statuses_def)
  then have "grants_access p \<longrightarrow> pu_paid_at p \<noteq> None \<and> 0 < pu_amount p
       \<and> (\<exists>u\<in>set (users (db v)). us_telegram_id u = pu_user_id p)
       \<and> (\<exists>r\<in>set (products (db v)). pr_id r = pu_product_id p)"
    and "pu_status p = DELIVERED \<longrightarrow> pu_delivered_url p \<noteq> None \<and> pu_delivered_at p \<noteq> None"
    using row by (auto simp: purchase_row_ok_def paid_at_present_def delivery_complete_def list_ex_iff)
  moreover have "pu_telegram_charge_id p \<noteq> None \<and> pu_telegram_charge_id p = pu_telegram_charge_id q \<longrightarrow> p = q"
    using unique_onD [OF unique(2) assms(3,4)] by metis
  moreover have "pu_provider p = pu_provider q \<and> pu_external_id p = pu_external_id q \<longrightarrow> p = q"
    using unique_onD [OF unique(1) assms(3,4)] by simp
  moreover have "grants_access p \<and> grants_access q \<and> pu_user_id p = pu_user_id q
      \<and> pu_product_id p = pu_product_id q \<longrightarrow> p = q"
    using unique_onD [OF unique(3) assms(3,4)] by simp
  ultimately show ?thesis by blast
qed

theorem never_sold_twice_witness:
  "shop_run sample_env (sample_world [sample_purchase PAID])
     (run_entry sample_env Reconciliation (run_entry sample_env Housekeeping (sample_world [sample_purchase PAID])))
   \<and> pu_paid_at (sample_purchase PAID) \<noteq> None"
proof -
  let ?w = "sample_world [sample_purchase PAID]"
  have "grants_access (sample_purchase PAID)" by (simp add: grants_access_def status_grants_access_def access_granting_statuses_def)
  with never_sold_twice [OF shop_run.start [of sample_env ?w], of "sample_purchase PAID" "sample_purchase PAID"]
  have "pu_paid_at (sample_purchase PAID) \<noteq> None" by (simp add: sample_world_def)
  moreover have "shop_run sample_env ?w (run_entry sample_env Reconciliation (run_entry sample_env Housekeeping ?w))"
    by (intro shop_run.intros)
  ultimately show ?thesis by blast
qed

text \<open>
  C2. A purchase is never rewritten: in every state reached, each purchase recorded before is still
  there, for the same buyer, product, provider and amount; its status only moves along the life cycle,
  so what was paid stays paid, delivered or
  refunded, a refund is final, and the payment time, the charge and the delivered link, once written,
  never change.
\<close>

theorem purchases_are_never_rewritten:
  assumes "shop_run E w v" and "db_ok (db w)" and "p \<in> set (purchases (db w))"
  shows "\<exists>q\<in>set (purchases (db v)). pu_id q = pu_id p \<and> pu_user_id q = pu_user_id p
     \<and> pu_product_id q = pu_product_id p \<and> pu_provider q = pu_provider p \<and> pu_amount q = pu_amount p
     \<and> life_step\<^sup>*\<^sup>* (pu_status p) (pu_status q)
     \<and> (pu_status p = PAID \<longrightarrow> pu_status q \<in> {PAID, DELIVERED, REFUNDED})
     \<and> (pu_status p = DELIVERED \<longrightarrow> pu_status q \<in> {DELIVERED, REFUNDED})
     \<and> (pu_status p = REFUNDED \<longrightarrow> pu_status q = REFUNDED)
     \<and> (\<forall>t. pu_paid_at p = Some t \<longrightarrow> pu_paid_at q = Some t)
     \<and> (\<forall>c. pu_telegram_charge_id p = Some c \<longrightarrow> pu_telegram_charge_id q = Some c)
     \<and> (\<forall>url. pu_delivered_url p = Some url \<longrightarrow> pu_delivered_url q = Some url)"
proof -
  from shop_run_evolves [OF assms(1)] assms(2) have "history_le (db w) (db v)" by (simp add: evolves_def)
  with assms(3) obtain q where "q \<in> set (purchases (db v))" and "row_le p q"
    unfolding history_le_def list_all_iff list_ex_iff by blast
  then show ?thesis by (intro bexI [of _ q]) (auto simp: row_le_def life_path_iff)
qed

theorem purchases_are_never_rewritten_witness:
  "\<exists>q\<in>set (purchases (db (run_entry sample_env Housekeeping (sample_world [sample_purchase REFUNDED])))).
     pu_id q = 10 \<and> pu_status q = REFUNDED"
proof -
  let ?w = "sample_world [sample_purchase REFUNDED]"
  have "shop_run sample_env ?w (run_entry sample_env Housekeeping ?w)"
    by (intro shop_run.intros)
  from purchases_are_never_rewritten [OF this, of "sample_purchase REFUNDED"]
  show ?thesis by (auto simp: sample_world_def)
qed

lemma fits_rounded: "fits_numeric p s x \<Longrightarrow> numeric_round s x = x \<Longrightarrow> x < 10 ^ (p - s)"
  by (simp add: fits_numeric_def)

lemma product_row_typed:
  "product_row_ok p \<Longrightarrow> slug_body (pr_slug p) \<and> length (pr_slug p) \<le> 64 \<and> length (pr_title p) \<le> 255
     \<and> (pr_price_stars p \<noteq> None \<or> pr_price_usdt p \<noteq> None)
     \<and> (\<forall>n. pr_price_stars p = Some n \<longrightarrow> 0 < n \<and> n < 2 ^ 31)
     \<and> (\<forall>x. pr_price_usdt p = Some x \<longrightarrow> 0 < x \<and> x < 10 ^ 10 \<and> numeric_round 2 x = x)"
proof -
  assume ok: "product_row_ok p"
  have "numeric_round 2 x = x" if "pr_price_usdt p = Some x" for x
  proof -
    from ok have "product_stored p = p" by (simp add: product_row_ok_def)
    then have "pr_price_usdt (product_stored p) = pr_price_usdt p" by simp
    with that show ?thesis by (simp add: product_stored_def)
  qed
  with ok show ?thesis
    using fits_rounded [of 12 2]
    by (auto simp: product_row_ok_def product_fits_def slug_max_length_def fits_int_def)
qed

lemma purchase_row_typed:
  "purchase_row_ok d p \<Longrightarrow> 0 < pu_amount p \<and> pu_amount p < 10 ^ 12 \<and> numeric_round 6 (pu_amount p) = pu_amount p
     \<and> length (pu_external_id p) \<le> 128 \<and> (\<forall>c. pu_telegram_charge_id p = Some c \<longrightarrow> length c \<le> 128)
     \<and> (\<exists>r\<in>set (products d). pr_id r = pu_product_id p) \<and> (\<exists>u\<in>set (users d). us_telegram_id u = pu_user_id p)"
proof -
  assume ok: "purchase_row_ok d p"
  then have "pu_amount (purchase_stored p) = pu_amount p" by (simp add: purchase_row_ok_def)
  then have "numeric_round 6 (pu_amount p) = pu_amount p" by (simp add: purchase_stored_def)
  with ok show ?thesis
    using fits_rounded [of 18 6 "pu_amount p"]
    by (auto simp: purchase_row_ok_def purchase_fits_def fits_string_def list_ex_iff)
qed



end
