(* ===== verification/Migration.thy ===== *)
theory Migration
  imports Schema
begin

section \<open>Migrations and models\<close>

text \<open>
  \<^verbatim>\<open>alembic/versions/0001_initial_schema.py\<close> and \<^verbatim>\<open>0002_search_trigram_indexes.py\<close> as lists of DDL
  statements, \<^verbatim>\<open>infrastructure/db/models.py\<close> and \<^verbatim>\<open>base.py\<close> as the schema their metadata declares
  (with the naming convention and the type map applied), and a catalogue on which the statements run
  with the errors PostgreSQL has for them: a name that exists already, a relation or a column that does
  not, a table that is still referenced, a type that outlives the table it was created with.
\<close>

subsection \<open>Tables, indexes, catalogues\<close>

datatype sql_type =
  SqlUuid | SqlString nat | SqlText | SqlInteger | SqlBigInteger | SqlNumeric nat nat
| SqlBoolean | SqlTimestamptz | SqlEnum string "string list"

record sql_column =
  col_name :: string
  col_type :: sql_type
  col_nullable :: bool
  col_default :: "string option"

datatype sql_constraint =
  PrimaryKey string "string list"
| Unique string "string list"
| Check string string
| ForeignKey string "string list" string "string list" string

record sql_table =
  tb_name :: string
  tb_columns :: "sql_column list"
  tb_constraints :: "sql_constraint list"

record sql_index =
  ix_name :: string
  ix_table :: string
  ix_columns :: "string list"
  ix_unique :: bool
  ix_where :: "string option"
  ix_ops :: "string option"

record catalogue =
  ct_tables :: "sql_table list"
  ct_indexes :: "sql_index list"
  ct_enums :: "(string \<times> string list) list"
  ct_extensions :: "string list"

datatype ddl =
  CreateTable sql_table
| CreateIndex sql_index
| DropIndex string
| DropTable string
| DropEnumIfExists string
| CreateExtensionIfNotExists string

fun constraint_name :: "sql_constraint \<Rightarrow> string" where
  "constraint_name (PrimaryKey n _) = n"
| "constraint_name (Unique n _) = n"
| "constraint_name (Check n _) = n"
| "constraint_name (ForeignKey n _ _ _ _) = n"

fun references :: "sql_constraint \<Rightarrow> string option" where
  "references (ForeignKey _ _ t _ _) = Some t"
| "references _ = None"

fun enum_of :: "sql_type \<Rightarrow> (string \<times> string list) option" where
  "enum_of (SqlEnum n vs) = Some (n, vs)"
| "enum_of _ = None"

definition table_enums :: "sql_table \<Rightarrow> (string \<times> string list) list" where
  "table_enums t = List.map_filter (\<lambda>c. enum_of (col_type c)) (tb_columns t)"

definition find_table :: "string \<Rightarrow> catalogue \<Rightarrow> sql_table option" where
  "find_table n c = List.find (\<lambda>t. tb_name t = n) (ct_tables c)"

definition relation_names :: "catalogue \<Rightarrow> string list" where
  \<comment> \<open>tables and indexes share one name space; so do the indexes behind keys\<close>
  "relation_names c = map tb_name (ct_tables c) @ map ix_name (ct_indexes c)
     @ concat (map (\<lambda>t. List.map_filter (\<lambda>k. case k of PrimaryKey n _ \<Rightarrow> Some n | Unique n _ \<Rightarrow> Some n | _ \<Rightarrow> None)
         (tb_constraints t)) (ct_tables c))"

definition indexable :: "sql_table \<Rightarrow> string \<Rightarrow> bool" where
  \<comment> \<open>a column, or the expression over one the program uses\<close>
  "indexable t x = list_ex (\<lambda>c. x = col_name c \<or> x = ''lower('' @ col_name c @ '')'') (tb_columns t)"

fun run_ddl :: "ddl \<Rightarrow> catalogue \<Rightarrow> catalogue option" where
  "run_ddl (CreateTable t) c =
     (if List.member (relation_names c) (tb_name t)
         \<or> list_ex (\<lambda>(n, _). List.member (map fst (ct_enums c)) n) (table_enums t)
         \<or> list_ex (\<lambda>k. case references k of None \<Rightarrow> False | Some r \<Rightarrow> find_table r c = None) (tb_constraints t)
      then None
      else Some (c\<lparr>ct_tables := ct_tables c @ [t], ct_enums := ct_enums c @ table_enums t\<rparr>))"
| "run_ddl (CreateIndex i) c =
     (case find_table (ix_table i) c of
        None \<Rightarrow> None
      | Some t \<Rightarrow> (if List.member (relation_names c) (ix_name i) \<or> \<not> list_all (indexable t) (ix_columns i)
            \<or> (ix_ops i = Some ''gin_trgm_ops'' \<and> \<not> List.member (ct_extensions c) ''pg_trgm'')
          then None else Some (c\<lparr>ct_indexes := ct_indexes c @ [i]\<rparr>)))"
| "run_ddl (DropIndex n) c =
     (if \<not> List.member (map ix_name (ct_indexes c)) n then None
      else Some (c\<lparr>ct_indexes := filter (\<lambda>i. ix_name i \<noteq> n) (ct_indexes c)\<rparr>))"
| "run_ddl (DropTable n) c =
     (if find_table n c = None
         \<or> list_ex (\<lambda>t. tb_name t \<noteq> n \<and> list_ex (\<lambda>k. references k = Some n) (tb_constraints t)) (ct_tables c)
      then None
      else Some (c\<lparr>ct_tables := filter (\<lambda>t. tb_name t \<noteq> n) (ct_tables c),
             ct_indexes := filter (\<lambda>i. ix_table i \<noteq> n) (ct_indexes c)\<rparr>))"
| "run_ddl (DropEnumIfExists n) c =
     (if list_ex (\<lambda>t. List.member (map fst (table_enums t)) n) (ct_tables c) then None
      else Some (c\<lparr>ct_enums := filter (\<lambda>e. fst e \<noteq> n) (ct_enums c)\<rparr>))"
| "run_ddl (CreateExtensionIfNotExists n) c =
     Some (if List.member (ct_extensions c) n then c else c\<lparr>ct_extensions := ct_extensions c @ [n]\<rparr>)"

fun migrate :: "ddl list \<Rightarrow> catalogue \<Rightarrow> catalogue option" where
  \<comment> \<open>one transaction: any failing statement undoes all of them\<close>
  "migrate [] c = Some c"
| "migrate (s # ss) c = (case run_ddl s c of None \<Rightarrow> None | Some c' \<Rightarrow> migrate ss c')"

definition empty_catalogue :: catalogue where
  "empty_catalogue = \<lparr>ct_tables = [], ct_indexes = [], ct_enums = [], ct_extensions = []\<rparr>"

subsection \<open>\<^verbatim>\<open>0001_initial_schema.py\<close>\<close>

definition column :: "string \<Rightarrow> sql_type \<Rightarrow> bool \<Rightarrow> sql_column" where
  \<comment> \<open>\<open>sa.Column(name, type, nullable=...)\<close>\<close>
  "column n ty nullable = \<lparr>col_name = n, col_type = ty, col_nullable = nullable, col_default = None\<rparr>"

definition column_default :: "string \<Rightarrow> sql_type \<Rightarrow> string \<Rightarrow> sql_column" where
  \<comment> \<open>\<open>sa.Column(name, type, server_default=sa.text(...), nullable=False)\<close>\<close>
  "column_default n ty dflt = (column n ty False)\<lparr>col_default := Some dflt\<rparr>"

definition plain_index :: "string \<Rightarrow> string \<Rightarrow> string list \<Rightarrow> sql_index" where
  "plain_index n t cols = \<lparr>ix_name = n, ix_table = t, ix_columns = cols, ix_unique = False, ix_where = None, ix_ops = None\<rparr>"

definition unique_where :: "string \<Rightarrow> string \<Rightarrow> string list \<Rightarrow> string \<Rightarrow> sql_index" where
  "unique_where n t cols cond =
     \<lparr>ix_name = n, ix_table = t, ix_columns = cols, ix_unique = True, ix_where = Some cond, ix_ops = None\<rparr>"

definition create_products :: sql_table where
  "create_products = \<lparr>tb_name = ''products'', tb_columns =
     [column ''id'' SqlUuid False, column ''slug'' (SqlString 64) False, column ''title'' (SqlString 255) False,
      column_default ''description'' SqlText [CHR 0x27, CHR 0x27], column ''photo_file_id'' (SqlString 255) True,
      column ''delivery_url'' SqlText False, column ''price_stars'' SqlInteger True,
      column ''price_usdt'' (SqlNumeric 12 2) True, column_default ''is_active'' SqlBoolean ''true'',
      column_default ''created_at'' SqlTimestamptz ''now()'', column_default ''updated_at'' SqlTimestamptz ''now()''],
     tb_constraints =
     [Check ''ck_products_slug_format'' (''slug ~ '' @ [CHR 0x27] @ ''^[A-Za-z0-9_-]{1,64}$'' @ [CHR 0x27]),
      Check ''ck_products_price_present'' ''price_stars IS NOT NULL OR price_usdt IS NOT NULL'',
      Check ''ck_products_price_stars_positive'' ''price_stars IS NULL OR price_stars > 0'',
      Check ''ck_products_price_usdt_positive'' ''price_usdt IS NULL OR price_usdt > 0'',
      PrimaryKey ''pk_products'' [''id''], Unique ''uq_products_slug'' [''slug'']]\<rparr>"

definition create_users :: sql_table where
  "create_users = \<lparr>tb_name = ''users'', tb_columns =
     [column ''telegram_id'' SqlBigInteger False, column ''username'' (SqlString 32) True,
      column ''first_name'' (SqlString 255) True, column ''language_code'' (SqlString 16) True,
      column_default ''created_at'' SqlTimestamptz ''now()'', column_default ''last_seen_at'' SqlTimestamptz ''now()''],
     tb_constraints =
     [Check ''ck_users_telegram_id_positive'' ''telegram_id > 0'', PrimaryKey ''pk_users'' [''telegram_id'']]\<rparr>"

definition sql_quote :: "string \<Rightarrow> string" where
  "sql_quote s = [CHR 0x27] @ s @ [CHR 0x27]"

definition create_purchases :: sql_table where
  "create_purchases = \<lparr>tb_name = ''purchases'', tb_columns =
     [column ''id'' SqlUuid False, column ''user_id'' SqlBigInteger False, column ''product_id'' SqlUuid False,
      column ''provider'' (SqlEnum ''payment_provider'' [''stars'', ''crypto'']) False,
      column_default ''status'' (SqlEnum ''purchase_status''
        [''pending'', ''paid'', ''delivered'', ''refunded'', ''expired'']) (sql_quote ''pending''),
      column ''amount'' (SqlNumeric 18 6) False, column ''currency'' (SqlEnum ''currency'' [''XTR'', ''USDT'']) False,
      column ''external_id'' (SqlString 128) False, column ''telegram_charge_id'' (SqlString 128) True,
      column ''delivered_url'' SqlText True, column_default ''created_at'' SqlTimestamptz ''now()'',
      column ''paid_at'' SqlTimestamptz True, column ''delivered_at'' SqlTimestamptz True],
     tb_constraints =
     [Check ''ck_purchases_delivery_complete'' (''status <> '' @ sql_quote ''delivered''
        @ '' OR (delivered_at IS NOT NULL AND delivered_url IS NOT NULL)''),
      Check ''ck_purchases_paid_at_present'' (''status IN ('' @ sql_quote ''pending'' @ '', '' @ sql_quote ''expired''
        @ '') OR paid_at IS NOT NULL''),
      Check ''ck_purchases_amount_positive'' ''amount > 0'',
      ForeignKey ''fk_purchases_product_id_products'' [''product_id''] ''products'' [''id''] ''RESTRICT'',
      ForeignKey ''fk_purchases_user_id_users'' [''user_id''] ''users'' [''telegram_id''] ''RESTRICT'',
      PrimaryKey ''pk_purchases'' [''id''],
      Unique ''uq_purchases_provider_external_id'' [''provider'', ''external_id'']]\<rparr>"

definition upgrade_0001 :: "ddl list" where
  "upgrade_0001 =
     [CreateTable create_products,
      CreateIndex (plain_index ''ix_products_is_active_created_at'' ''products'' [''is_active'', ''created_at'']),
      CreateTable create_users,
      CreateIndex (plain_index ''ix_users_username_lower'' ''users'' [''lower(username)'']),
      CreateTable create_purchases,
      CreateIndex (plain_index ''ix_purchases_created_at'' ''purchases'' [''created_at'']),
      CreateIndex (plain_index ''ix_purchases_paid_at'' ''purchases'' [''paid_at'']),
      CreateIndex (plain_index ''ix_purchases_product_id_status'' ''purchases'' [''product_id'', ''status'']),
      CreateIndex (plain_index ''ix_purchases_status_created_at'' ''purchases'' [''status'', ''created_at'']),
      CreateIndex (plain_index ''ix_purchases_user_id'' ''purchases'' [''user_id'']),
      CreateIndex (unique_where ''uq_purchases_telegram_charge_id'' ''purchases'' [''telegram_charge_id'']
        ''telegram_charge_id IS NOT NULL''),
      CreateIndex (unique_where ''uq_purchases_user_product_paid'' ''purchases'' [''user_id'', ''product_id'']
        (''status IN ('' @ sql_quote ''paid'' @ '', '' @ sql_quote ''delivered'' @ '')''))]"

definition downgrade_0001 :: "ddl list" where
  "downgrade_0001 =
     [DropIndex ''uq_purchases_user_product_paid'', DropIndex ''uq_purchases_telegram_charge_id'',
      DropIndex ''ix_purchases_user_id'', DropIndex ''ix_purchases_status_created_at'',
      DropIndex ''ix_purchases_product_id_status'', DropIndex ''ix_purchases_paid_at'',
      DropIndex ''ix_purchases_created_at'', DropTable ''purchases'',
      DropIndex ''ix_users_username_lower'', DropTable ''users'',
      DropIndex ''ix_products_is_active_created_at'', DropTable ''products'',
      DropEnumIfExists ''purchase_status'', DropEnumIfExists ''payment_provider'', DropEnumIfExists ''currency'']"

subsection \<open>\<^verbatim>\<open>0002_search_trigram_indexes.py\<close>\<close>

definition trigram_indexes :: "(string \<times> string \<times> string) list" where
  "trigram_indexes =
     [(''ix_products_title_trgm'', ''products'', ''title''), (''ix_products_slug_trgm'', ''products'', ''slug''),
      (''ix_products_description_trgm'', ''products'', ''description''),
      (''ix_users_username_trgm'', ''users'', ''username''),
      (''ix_purchases_external_id_trgm'', ''purchases'', ''external_id''),
      (''ix_purchases_telegram_charge_id_trgm'', ''purchases'', ''telegram_charge_id'')]"

definition gin_index :: "string \<Rightarrow> string \<Rightarrow> string \<Rightarrow> sql_index" where
  "gin_index n t col = (plain_index n t [col])\<lparr>ix_ops := Some ''gin_trgm_ops''\<rparr>"

definition upgrade_0002 :: "ddl list" where
  "upgrade_0002 = CreateExtensionIfNotExists ''pg_trgm''
     # map (\<lambda>(n, t, col). CreateIndex (gin_index n t col)) trigram_indexes"

definition downgrade_0002 :: "ddl list" where
  "downgrade_0002 = map (\<lambda>(n, t, col). DropIndex n) (rev trigram_indexes)"

subsection \<open>The models\<close>

text \<open>The naming convention of \<^verbatim>\<open>base.py\<close>.\<close>

definition conv_ck :: "string \<Rightarrow> string \<Rightarrow> string" where
  "conv_ck table n = ''ck_'' @ table @ ''_'' @ n"

definition conv_pk :: "string \<Rightarrow> string" where
  "conv_pk table = ''pk_'' @ table"

definition conv_fk :: "string \<Rightarrow> string \<Rightarrow> string \<Rightarrow> string" where
  "conv_fk table col referred = ''fk_'' @ table @ ''_'' @ col @ ''_'' @ referred"

text \<open>\<open>type_annotation_map\<close>: what a mapped column without a type of its own gets.\<close>

definition mapped_datetime :: sql_type where "mapped_datetime = SqlTimestamptz"
definition mapped_decimal :: sql_type where "mapped_decimal = SqlNumeric 18 6"
definition mapped_uuid :: sql_type where "mapped_uuid = SqlUuid"

definition enum_column :: "string \<Rightarrow> ('e \<Rightarrow> string) \<Rightarrow> 'e list \<Rightarrow> sql_type" where
  \<comment> \<open>\<open>_enum_column\<close>: a native enum of the values\<close>
  "enum_column n val members = SqlEnum n (map val members)"

definition timestamps :: "sql_column list" where
  \<comment> \<open>\<open>TimestampMixin\<close>\<close>
  "timestamps = [column_default ''created_at'' mapped_datetime ''now()'', column_default ''updated_at'' mapped_datetime ''now()'']"

definition slug_pattern :: string where
  "slug_pattern = ''^[A-Za-z0-9_-]{1,64}$''"

definition product_model :: sql_table where
  "product_model = \<lparr>tb_name = ''products'', tb_columns =
     [column ''id'' mapped_uuid False, column ''slug'' (SqlString slug_max_length) False,
      column ''title'' (SqlString 255) False, column_default ''description'' SqlText (sql_quote []),
      column ''photo_file_id'' (SqlString 255) True, column ''delivery_url'' SqlText False,
      column ''price_stars'' SqlInteger True, column ''price_usdt'' (SqlNumeric 12 2) True,
      column_default ''is_active'' SqlBoolean ''true''] @ timestamps,
     tb_constraints =
     [PrimaryKey (conv_pk ''products'') [''id''], Unique ''uq_products_slug'' [''slug''],
      Check (conv_ck ''products'' ''slug_format'') (''slug ~ '' @ sql_quote slug_pattern),
      Check (conv_ck ''products'' ''price_present'') ''price_stars IS NOT NULL OR price_usdt IS NOT NULL'',
      Check (conv_ck ''products'' ''price_stars_positive'') ''price_stars IS NULL OR price_stars > 0'',
      Check (conv_ck ''products'' ''price_usdt_positive'') ''price_usdt IS NULL OR price_usdt > 0'']\<rparr>"

definition user_model :: sql_table where
  "user_model = \<lparr>tb_name = ''users'', tb_columns =
     [column ''telegram_id'' SqlBigInteger False, column ''username'' (SqlString 32) True,
      column ''first_name'' (SqlString 255) True, column ''language_code'' (SqlString 16) True,
      column_default ''created_at'' mapped_datetime ''now()'', column_default ''last_seen_at'' mapped_datetime ''now()''],
     tb_constraints =
     [PrimaryKey (conv_pk ''users'') [''telegram_id''],
      Check (conv_ck ''users'' ''telegram_id_positive'') ''telegram_id > 0'']\<rparr>"

definition access_status_sql :: string where
  "access_status_sql = ''status IN ('' @ sql_quote ''paid'' @ '', '' @ sql_quote ''delivered'' @ '')''"

definition purchase_model :: sql_table where
  "purchase_model = \<lparr>tb_name = ''purchases'', tb_columns =
     [column ''id'' mapped_uuid False, column ''user_id'' SqlBigInteger False, column ''product_id'' mapped_uuid False,
      column ''provider'' (enum_column ''payment_provider'' provider_value [STARS, CRYPTO]) False,
      column_default ''status'' (enum_column ''purchase_status'' status_value [PENDING, PAID, DELIVERED, REFUNDED, EXPIRED])
        (sql_quote ''pending''),
      column ''amount'' mapped_decimal False,
      column ''currency'' (enum_column ''currency'' currency_value [XTR, USDT]) False,
      column ''external_id'' (SqlString 128) False, column ''telegram_charge_id'' (SqlString 128) True,
      column ''delivered_url'' SqlText True, column_default ''created_at'' mapped_datetime ''now()'',
      column ''paid_at'' mapped_datetime True, column ''delivered_at'' mapped_datetime True],
     tb_constraints =
     [PrimaryKey (conv_pk ''purchases'') [''id''],
      ForeignKey (conv_fk ''purchases'' ''user_id'' ''users'') [''user_id''] ''users'' [''telegram_id''] ''RESTRICT'',
      ForeignKey (conv_fk ''purchases'' ''product_id'' ''products'') [''product_id''] ''products'' [''id''] ''RESTRICT'',
      Unique ''uq_purchases_provider_external_id'' [''provider'', ''external_id''],
      Check (conv_ck ''purchases'' ''amount_positive'') ''amount > 0'',
      Check (conv_ck ''purchases'' ''paid_at_present'')
        (''status IN ('' @ sql_quote ''pending'' @ '', '' @ sql_quote ''expired'' @ '') OR paid_at IS NOT NULL''),
      Check (conv_ck ''purchases'' ''delivery_complete'') (''status <> '' @ sql_quote ''delivered''
        @ '' OR (delivered_at IS NOT NULL AND delivered_url IS NOT NULL)'')]\<rparr>"

definition model_indexes :: "sql_index list" where
  "model_indexes =
     [plain_index ''ix_products_is_active_created_at'' ''products'' [''is_active'', ''created_at''],
      gin_index ''ix_products_title_trgm'' ''products'' ''title'',
      gin_index ''ix_products_slug_trgm'' ''products'' ''slug'',
      gin_index ''ix_products_description_trgm'' ''products'' ''description'',
      plain_index ''ix_users_username_lower'' ''users'' [''lower(username)''],
      gin_index ''ix_users_username_trgm'' ''users'' ''username'',
      unique_where ''uq_purchases_user_product_paid'' ''purchases'' [''user_id'', ''product_id''] access_status_sql,
      unique_where ''uq_purchases_telegram_charge_id'' ''purchases'' [''telegram_charge_id'']
        ''telegram_charge_id IS NOT NULL'',
      plain_index ''ix_purchases_paid_at'' ''purchases'' [''paid_at''],
      plain_index ''ix_purchases_created_at'' ''purchases'' [''created_at''],
      plain_index ''ix_purchases_product_id_status'' ''purchases'' [''product_id'', ''status''],
      plain_index ''ix_purchases_user_id'' ''purchases'' [''user_id''],
      plain_index ''ix_purchases_status_created_at'' ''purchases'' [''status'', ''created_at''],
      gin_index ''ix_purchases_external_id_trgm'' ''purchases'' ''external_id'',
      gin_index ''ix_purchases_telegram_charge_id_trgm'' ''purchases'' ''telegram_charge_id'']"

definition same_table :: "sql_table \<Rightarrow> sql_table \<Rightarrow> bool" where
  \<comment> \<open>the same columns in the same order, the same constraints in any order\<close>
  "same_table t u = (tb_name t = tb_name u \<and> tb_columns t = tb_columns u
     \<and> set (tb_constraints t) = set (tb_constraints u))"

subsection \<open>The migrations build what the models expect\<close>

definition migrated :: catalogue where
  "migrated = \<lparr>ct_tables = [create_products, create_users, create_purchases],
     ct_indexes = List.map_filter (\<lambda>s. case s of CreateIndex i \<Rightarrow> Some i | _ \<Rightarrow> None) (upgrade_0001 @ upgrade_0002),
     ct_enums = concat (map table_enums [create_products, create_users, create_purchases]),
     ct_extensions = [''pg_trgm'']\<rparr>"

lemma upgrade_runs: "migrate (upgrade_0001 @ upgrade_0002) empty_catalogue = Some migrated"
  by code_simp

lemma tables_agree:
  "same_table create_products product_model" "same_table create_users user_model"
  "same_table create_purchases purchase_model"
  by code_simp+

lemma indexes_agree: "set (ct_indexes migrated) = set model_indexes" "distinct (map ix_name model_indexes)"
  by code_simp+

text \<open>
  C38. The migrations build exactly what the models declare: on an empty database both revisions run
  without an error, and the result has the tables of the metadata with the same columns (type, width,
  nullability, default), the same named constraints with the same conditions (the slug pattern of the
  domain, the values of the enums among them), and the same indexes, unique and partial ones included.
  The downgrades take it back to an empty schema, but for the extension, and from there the upgrades
  build the very same schema again.
\<close>

theorem migrations_build_the_models:
  "\<exists>c. migrate (upgrade_0001 @ upgrade_0002) empty_catalogue = Some c
     \<and> list_all2 same_table (ct_tables c) [product_model, user_model, purchase_model]
     \<and> set (ct_indexes c) = set model_indexes \<and> distinct (map ix_name (ct_indexes c))
     \<and> migrate (downgrade_0002 @ downgrade_0001) c = Some (empty_catalogue\<lparr>ct_extensions := [''pg_trgm'']\<rparr>)
     \<and> migrate (upgrade_0001 @ upgrade_0002) (empty_catalogue\<lparr>ct_extensions := [''pg_trgm'']\<rparr>) = Some c"
proof -
  have "distinct (map ix_name (ct_indexes migrated))" by code_simp
  moreover have "ct_tables migrated = [create_products, create_users, create_purchases]" by (simp add: migrated_def)
  moreover have "migrate (downgrade_0002 @ downgrade_0001) migrated = Some (empty_catalogue\<lparr>ct_extensions := [''pg_trgm'']\<rparr>)"
    by code_simp
  moreover have "migrate (upgrade_0001 @ upgrade_0002) (empty_catalogue\<lparr>ct_extensions := [''pg_trgm'']\<rparr>) = Some migrated"
    by code_simp
  ultimately show ?thesis
    using upgrade_runs tables_agree indexes_agree(1) by (intro exI [of _ migrated]) simp
qed

definition after_downgrade :: catalogue where
  \<comment> \<open>the extension is left installed on purpose\<close>
  "after_downgrade = empty_catalogue\<lparr>ct_extensions := [''pg_trgm'']\<rparr>"

text \<open>
  Downgrading undoes upgrading: the two downgrades take the migrated schema back to an empty one,
  but for the extension, and from there the upgrades run again to the very same schema. The explicit
  drops of the enum types are what makes that possible: without them the tables go, and the second
  upgrade fails because a type exists already.
\<close>

theorem downgrade_undoes_upgrade:
  "migrate (upgrade_0001 @ upgrade_0002) empty_catalogue = Some migrated
   \<and> migrate (downgrade_0002 @ downgrade_0001) migrated = Some after_downgrade
   \<and> migrate (upgrade_0001 @ upgrade_0002) after_downgrade = Some migrated
   \<and> (let careless = filter (\<lambda>s. case s of DropEnumIfExists _ \<Rightarrow> False | _ \<Rightarrow> True) (downgrade_0002 @ downgrade_0001)
      in \<exists>c. migrate careless migrated = Some c \<and> ct_tables c = [] \<and> migrate upgrade_0001 c = None)"
proof -
  have "migrate (downgrade_0002 @ downgrade_0001) migrated = Some after_downgrade" by code_simp
  moreover have "migrate (upgrade_0001 @ upgrade_0002) after_downgrade = Some migrated" by code_simp
  moreover have "migrate (filter (\<lambda>s. case s of DropEnumIfExists _ \<Rightarrow> False | _ \<Rightarrow> True) (downgrade_0002 @ downgrade_0001))
      migrated = Some (after_downgrade\<lparr>ct_enums := ct_enums migrated\<rparr>)" by code_simp
  moreover have "migrate upgrade_0001 (after_downgrade\<lparr>ct_enums := ct_enums migrated\<rparr>) = None" by code_simp
  moreover have "ct_tables (after_downgrade\<lparr>ct_enums := ct_enums migrated\<rparr>) = []"
    by (simp add: after_downgrade_def empty_catalogue_def)
  ultimately show ?thesis
    using upgrade_runs unfolding Let_def by blast
qed

text \<open>The constraints the row checks of \<open>Schema\<close> report are the declared ones.\<close>

definition declared :: "string \<Rightarrow> string list" where
  \<comment> \<open>the names an \<open>IntegrityError\<close> on this table can carry\<close>
  "declared table = concat (map (\<lambda>t. if tb_name t = table then map constraint_name (tb_constraints t) else [])
       (ct_tables migrated))
     @ map ix_name (filter (\<lambda>i. ix_table i = table \<and> ix_unique i) (ct_indexes migrated))"

lemma first_violation_listed: "first_violation cs = Some c \<Longrightarrow> c \<in> fst ` set cs"
  by (force simp: first_violation_def dest: find_SomeD)

lemma declared_names:
  "set (declared ''products'') = {''ck_products_slug_format'', ''ck_products_price_present'',
     ''ck_products_price_stars_positive'', ''ck_products_price_usdt_positive'', ''pk_products'', ''uq_products_slug''}"
  "set (declared ''users'') = {''ck_users_telegram_id_positive'', ''pk_users''}"
  "set (declared ''purchases'') = {''ck_purchases_delivery_complete'', ''ck_purchases_paid_at_present'',
     ''ck_purchases_amount_positive'', ''fk_purchases_product_id_products'', ''fk_purchases_user_id_users'',
     ''pk_purchases'', ''uq_purchases_provider_external_id'', ''uq_purchases_telegram_charge_id'',
     ''uq_purchases_user_product_paid''}"
  by code_simp+

text \<open>
  The model of the constraints speaks of the migrated schema: whatever constraint a write of a
  product, a user or a purchase is reported to violate is one the migrations declare on that table,
  under the very name the repositories translate into an application error.
\<close>

theorem reported_constraints_are_declared:
  "(product_violation others p = Some c \<longrightarrow> c \<in> set (declared ''products''))
   \<and> (user_violation u = Some c \<longrightarrow> c \<in> set (declared ''users''))
   \<and> (purchase_violation d ps q = Some c \<longrightarrow> c \<in> set (declared ''purchases''))"
  unfolding declared_names product_violation_def user_violation_def purchase_violation_def
  by (auto dest: first_violation_listed)

theorem reported_constraints_are_declared_witness:
  "user_violation \<lparr>us_telegram_id = 0, us_username = None, us_first_name = None, us_language_code = None,
     us_created_at = 0, us_last_seen_at = 0\<rparr> = Some ''ck_users_telegram_id_positive''
   \<and> ''ck_users_telegram_id_positive'' \<in> set (declared ''users'')"
proof -
  have "user_violation \<lparr>us_telegram_id = 0, us_username = None, us_first_name = None, us_language_code = None,
     us_created_at = 0, us_last_seen_at = 0\<rparr> = Some ''ck_users_telegram_id_positive''"
    by (simp add: user_violation_def first_violation_def)
  with reported_constraints_are_declared show ?thesis by blast
qed

end
