(* ===== verification/Dsn.thy ===== *)
theory Dsn
  imports Config
begin

section \<open>Connection strings\<close>

text \<open>
  The connection strings \<^verbatim>\<open>core/config.py\<close> builds, read back the way SQLAlchemy and redis-py read
  them: split at the delimiters, then \<open>urllib.parse.unquote\<close> on each part.
\<close>

subsection \<open>unquote\<close>

definition hex_value :: "char \<Rightarrow> nat" where
  "hex_value c = (if ord c < 58 then ord c - 48 else ord c - 55)"

fun unquote_bytes :: "string \<Rightarrow> nat list" where
  "unquote_bytes (c # d # e # s) =
     (if c = CHR ''%'' then (16 * hex_value d + hex_value e) # unquote_bytes s
      else ord c # unquote_bytes (d # e # s))"
| "unquote_bytes s = map ord s"

fun decode_utf8 :: "nat list \<Rightarrow> string" where
  "decode_utf8 [] = []"
| "decode_utf8 [n] = [char_of n]"
| "decode_utf8 (n # m # ns) =
     (if n < 128 then char_of n # decode_utf8 (m # ns)
      else char_of ((n - 192) * 64 + (m - 128)) # decode_utf8 ns)"

definition unquote :: "string \<Rightarrow> string" where
  "unquote s = decode_utf8 (unquote_bytes s)"

lemma hex_value_upper: "n < 16 \<Longrightarrow> hex_value (hex_upper n) = n"
  by (auto simp: hex_value_def hex_upper_def)

lemma unquote_bytes_other: "c \<noteq> CHR ''%'' \<Longrightarrow> unquote_bytes (c # s) = ord c # unquote_bytes s"
  by (cases s rule: unquote_bytes.cases) auto

lemma unquote_percent: "b < 256 \<Longrightarrow> unquote_bytes (percent b @ s) = b # unquote_bytes s"
proof -
  assume "b < 256"
  then have "b div 16 < 16" "b mod 16 < 16" by simp_all
  then show ?thesis by (simp add: percent_def hex_value_upper)
qed

lemma utf8_bytes: "b \<in> set (utf8 c) \<Longrightarrow> b < 256"
proof -
  have "ord c div 64 < 64" using nat_of_char_less_256 [of c] by linarith
  then show "b \<in> set (utf8 c) \<Longrightarrow> b < 256" by (auto simp: utf8_def Let_def split: if_splits)
qed

lemma unquote_percents:
  "(\<And>b. b \<in> set bs \<Longrightarrow> b < 256) \<Longrightarrow> unquote_bytes (concat (map percent bs) @ s) = bs @ unquote_bytes s"
  by (induction bs) (simp_all add: unquote_percent)

lemma unreserved_char: "unreserved c \<Longrightarrow> c \<noteq> CHR ''%'' \<and> utf8 c = [ord c]"
  by (auto simp: unreserved_def is_ascii_letter_def is_ascii_digit_def utf8_def Let_def)

lemma quote_Cons: "quote (c # s) = (if unreserved c then [c] else concat (map percent (utf8 c))) @ quote s"
  by (simp add: quote_def)

lemma unquote_bytes_quote: "unquote_bytes (quote s) = concat (map utf8 s)"
proof (induction s)
  case (Cons c s)
  then show ?case
    using unquote_percents [of "utf8 c" "quote s", OF utf8_bytes] unreserved_char [of c]
    by (auto simp: quote_Cons unquote_bytes_other)
qed (simp add: quote_def)

lemma decode_utf8_char: "decode_utf8 (utf8 c @ ns) = c # decode_utf8 ns"
proof (cases "ord c < 128")
  case True
  then show ?thesis by (cases ns) (simp_all add: utf8_def Let_def)
next
  case False
  have "(ord c div 64) * 64 + ord c mod 64 = ord c" by simp
  then show ?thesis using False by (simp add: utf8_def Let_def)
qed

lemma unquote_quote: "unquote (quote s) = s"
proof -
  have "decode_utf8 (concat (map utf8 s)) = s" by (induction s) (simp_all add: decode_utf8_char)
  then show ?thesis by (simp add: unquote_def unquote_bytes_quote)
qed

lemma hex_upper_unreserved: "n < 16 \<Longrightarrow> unreserved (hex_upper n)"
  by (auto simp: unreserved_def hex_upper_def is_ascii_letter_def is_ascii_digit_def)

lemma percent_chars: "b < 256 \<Longrightarrow> c \<in> set (percent b) \<Longrightarrow> unreserved c \<or> c = CHR ''%''"
  by (auto simp: percent_def hex_upper_unreserved)

lemma quote_chars: "c \<in> set (quote s) \<Longrightarrow> unreserved c \<or> c = CHR ''%''"
proof (induction s)
  case (Cons d s)
  then show ?case using percent_chars utf8_bytes by (auto simp: quote_Cons split: if_splits)
qed (simp add: quote_def)

lemma not_unreserved: "\<not> unreserved (CHR '':'')" "\<not> unreserved (CHR ''@'')" "\<not> unreserved (CHR ''/'')"
  by code_simp+

lemma quote_delimiters: "CHR '':'' \<notin> set (quote s)" "CHR ''@'' \<notin> set (quote s)" "CHR ''/'' \<notin> set (quote s)"
  using quote_chars not_unreserved by fastforce+

subsection \<open>Reading a connection string\<close>

definition before :: "char \<Rightarrow> string \<Rightarrow> string" where "before c s = takeWhile (\<lambda>x. x \<noteq> c) s"

definition after :: "char \<Rightarrow> string \<Rightarrow> string" where "after c s = drop 1 (dropWhile (\<lambda>x. x \<noteq> c) s)"

definition read_postgres_dsn :: "string \<Rightarrow> (string \<times> string) \<times> (string \<times> string) \<times> string" where
  \<comment> \<open>user and password, host and port, database\<close>
  "read_postgres_dsn dsn =
     (let rest = drop (length ''postgresql+asyncpg://'') dsn;
          userinfo = before (CHR ''@'') rest; location = after (CHR ''@'') rest;
          authority = before (CHR ''/'') location
      in ((unquote (before (CHR '':'') userinfo), unquote (after (CHR '':'') userinfo)),
          (before (CHR '':'') authority, after (CHR '':'') authority),
          unquote (after (CHR ''/'') location)))"

lemma split_at: "c \<notin> set s \<Longrightarrow> before c (s @ c # t) = s \<and> after c (s @ c # t) = t"
  by (induction s) (auto simp: before_def after_def)



end
