(* ===== verification/Routes.thy ===== *)
theory Routes
  imports Api
begin

section \<open>Routing\<close>

text \<open>
  The routes the decorators of \<^verbatim>\<open>api/v1/endpoints/\<close> declare, put together as \<^verbatim>\<open>api/v1/router.py\<close> and
  \<open>create_app\<close> do, with the method and path the admin panel (\<^verbatim>\<open>frontend/src/api/\<close>) uses for each
  request. Every template of the program consists of whole segments: a literal, or a parameter in braces that
  matches one non-empty segment. Starlette takes the first route whose path and method match; a path
  known under another method is answered 405; otherwise a path that differs from a known one in its
  final slash is redirected, and anything else is 404.
\<close>

subsection \<open>The declared routes\<close>

datatype endpoint_name =
  EpLive | EpReady | EpLogin | EpRefresh | EpLogout | EpMe | EpListProducts | EpCreateProduct
| EpGetProduct | EpUpdateProduct | EpDeleteProduct | EpSearchPurchases | EpVerifyPayment
| EpResendDelivery | EpOverview

record route =
  rt_method :: string
  rt_path :: string
  rt_status :: nat
  rt_name :: endpoint_name
  rt_guarded :: bool

definition mk_route :: "string \<Rightarrow> string \<Rightarrow> nat \<Rightarrow> endpoint_name \<Rightarrow> bool \<Rightarrow> route" where
  "mk_route meth path status name guarded =
     \<lparr>rt_method = meth, rt_path = path, rt_status = status, rt_name = name, rt_guarded = guarded\<rparr>"

definition live_route :: route where
  "live_route = mk_route ''GET'' ''/health/live'' 200 EpLive False"

definition ready_route :: route where
  "ready_route = mk_route ''GET'' ''/health/ready'' 200 EpReady False"

definition login_route :: route where
  "login_route = mk_route ''POST'' ''/login'' 200 EpLogin False"

definition refresh_route :: route where
  "refresh_route = mk_route ''POST'' ''/refresh'' 200 EpRefresh False"

definition logout_route :: route where
  "logout_route = mk_route ''POST'' ''/logout'' 204 EpLogout False"

definition me_route :: route where
  "me_route = mk_route ''GET'' ''/me'' 200 EpMe True"

definition list_products_route :: route where
  "list_products_route = mk_route ''GET'' [] 200 EpListProducts True"

definition create_product_route :: route where
  "create_product_route = mk_route ''POST'' [] 201 EpCreateProduct True"

definition get_product_route :: route where
  "get_product_route = mk_route ''GET'' ''/{product_id}'' 200 EpGetProduct True"

definition update_product_route :: route where
  "update_product_route = mk_route ''PATCH'' ''/{product_id}'' 200 EpUpdateProduct True"

definition delete_product_route :: route where
  "delete_product_route = mk_route ''DELETE'' ''/{product_id}'' 204 EpDeleteProduct True"

definition search_purchases_route :: route where
  "search_purchases_route = mk_route ''GET'' [] 200 EpSearchPurchases True"

definition verify_payment_route :: route where
  "verify_payment_route = mk_route ''POST'' ''/{purchase_id}/verify'' 200 EpVerifyPayment True"

definition resend_delivery_route :: route where
  "resend_delivery_route = mk_route ''POST'' ''/{purchase_id}/resend'' 200 EpResendDelivery True"

definition overview_route :: route where
  "overview_route = mk_route ''GET'' ''/overview'' 200 EpOverview True"

definition under :: "string \<Rightarrow> route list \<Rightarrow> route list" where
  \<comment> \<open>\<open>APIRouter(prefix=...)\<close> and \<open>include_router(prefix=...)\<close>\<close>
  "under base rs = map (\<lambda>r. r\<lparr>rt_path := base @ rt_path r\<rparr>) rs"

definition api_router :: "route list" where
  "api_router =
     [live_route, ready_route]
     @ under ''/auth'' [login_route, refresh_route, logout_route, me_route]
     @ under ''/products'' [list_products_route, create_product_route, get_product_route,
         update_product_route, delete_product_route]
     @ under ''/purchases'' [search_purchases_route, verify_payment_route, resend_delivery_route]
     @ under ''/stats'' [overview_route]"

definition app_routes :: "settings \<Rightarrow> route list" where
  "app_routes S = under (app_api_prefix (cfg_app S)) api_router"

lemmas route_defs = mk_route_def live_route_def ready_route_def login_route_def refresh_route_def
  logout_route_def me_route_def list_products_route_def create_product_route_def get_product_route_def
  update_product_route_def delete_product_route_def search_purchases_route_def verify_payment_route_def
  resend_delivery_route_def overview_route_def

subsection \<open>Matching\<close>

definition segments :: "string \<Rightarrow> string list" where
  "segments path = split_on (CHR ''/'') path"

definition is_parameter :: "string \<Rightarrow> bool" where
  "is_parameter t = (t \<noteq> [] \<and> hd t = CHR ''{'')"

definition segment_matches :: "string \<Rightarrow> string \<Rightarrow> bool" where
  "segment_matches t s = (if is_parameter t then s \<noteq> [] else t = s)"

definition path_matches :: "string \<Rightarrow> string \<Rightarrow> bool" where
  "path_matches template path = list_all2 segment_matches (segments template) (segments path)"

definition path_params :: "string \<Rightarrow> string \<Rightarrow> string list" where
  "path_params template path =
     map snd (filter (\<lambda>(t, s). is_parameter t) (zip (segments template) (segments path)))"

datatype resolution = Found route "string list" | WrongMethod | RedirectTo string | UnknownPath

definition other_slash :: "string \<Rightarrow> string" where
  "other_slash path = (if path \<noteq> [] \<and> last path = CHR ''/'' then rstrip_char (CHR ''/'') path else path @ ''/'')"

definition resolve :: "route list \<Rightarrow> string \<Rightarrow> string \<Rightarrow> resolution" where
  "resolve rs meth path =
     (case List.find (\<lambda>r. path_matches (rt_path r) path \<and> rt_method r = meth) rs of
        Some r \<Rightarrow> Found r (path_params (rt_path r) path)
      | None \<Rightarrow>
          (if list_ex (\<lambda>r. path_matches (rt_path r) path) rs then WrongMethod
           else if path \<noteq> ''/'' \<and> list_ex (\<lambda>r. path_matches (rt_path r) (other_slash path)) rs
           then RedirectTo (other_slash path)
           else UnknownPath))"

subsection \<open>The requests of the panel\<close>

fun request_line :: "api_request \<Rightarrow> string \<times> string" where
  "request_line (Login r) = (''POST'', ''/auth/login'')"
| "request_line (Refresh p) = (''POST'', ''/auth/refresh'')"
| "request_line (Logout p) = (''POST'', ''/auth/logout'')"
| "request_line Me = (''GET'', ''/auth/me'')"
| "request_line (ListProducts limit offset search is_active) = (''GET'', ''/products'')"
| "request_line (CreateProduct r) = (''POST'', ''/products'')"
| "request_line (GetProduct i) = (''GET'', ''/products/'' @ uuid_str i)"
| "request_line (PatchProduct i r) = (''PATCH'', ''/products/'' @ uuid_str i)"
| "request_line (DeleteProduct i) = (''DELETE'', ''/products/'' @ uuid_str i)"
| "request_line (SearchPurchases limit offset search statuses) = (''GET'', ''/purchases'')"
| "request_line (VerifyPayment i) = (''POST'', ''/purchases/'' @ uuid_str i @ ''/verify'')"
| "request_line (ResendDelivery i) = (''POST'', ''/purchases/'' @ uuid_str i @ ''/resend'')"
| "request_line Overview = (''GET'', ''/stats/overview'')"
| "request_line Live = (''GET'', ''/health/live'')"
| "request_line Ready = (''GET'', ''/health/ready'')"

fun endpoint_of :: "api_request \<Rightarrow> endpoint_name" where
  "endpoint_of (Login r) = EpLogin"
| "endpoint_of (Refresh p) = EpRefresh"
| "endpoint_of (Logout p) = EpLogout"
| "endpoint_of Me = EpMe"
| "endpoint_of (ListProducts limit offset search is_active) = EpListProducts"
| "endpoint_of (CreateProduct r) = EpCreateProduct"
| "endpoint_of (GetProduct i) = EpGetProduct"
| "endpoint_of (PatchProduct i r) = EpUpdateProduct"
| "endpoint_of (DeleteProduct i) = EpDeleteProduct"
| "endpoint_of (SearchPurchases limit offset search statuses) = EpSearchPurchases"
| "endpoint_of (VerifyPayment i) = EpVerifyPayment"
| "endpoint_of (ResendDelivery i) = EpResendDelivery"
| "endpoint_of Overview = EpOverview"
| "endpoint_of Live = EpLive"
| "endpoint_of Ready = EpReady"

fun path_ids :: "api_request \<Rightarrow> uuid list" where
  "path_ids (GetProduct i) = [i]"
| "path_ids (PatchProduct i r) = [i]"
| "path_ids (DeleteProduct i) = [i]"
| "path_ids (VerifyPayment i) = [i]"
| "path_ids (ResendDelivery i) = [i]"
| "path_ids rq = []"

subsection \<open>Segments\<close>

lemma split_on_nonempty [simp]: "split_on c s \<noteq> []"
  by (induction s) (auto split: list.split)

lemma split_on_append [simp]: "split_on c (a @ c # b) = split_on c a @ split_on c b"
  by (induction a) (auto split: list.split)

lemma split_on_single [simp]: "c \<notin> set a \<Longrightarrow> split_on c a = [a]"
  by (induction a) auto

lemma hex_char_no_slash: "n < 16 \<Longrightarrow> hex_char n \<noteq> CHR ''/''"
proof -
  assume "n < 16"
  then have "n \<in> set [0..<16]" by simp
  moreover have "\<forall>k\<in>set [0..<16]. hex_char k \<noteq> CHR ''/''" by code_simp
  ultimately show ?thesis by blast
qed

lemma uuid_hex_no_slash: "CHR ''/'' \<notin> set (uuid_hex u)"
  using hex_char_no_slash [OF nibble_less] unfolding uuid_hex_def by (metis (no_types, lifting) in_set_conv_nth length_map nth_map)

lemma uuid_segment [simp]: "split_on (CHR ''/'') (uuid_str u) = [uuid_str u]"
proof (rule split_on_single)
  show "CHR ''/'' \<notin> set (uuid_str u)"
    using uuid_hex_no_slash [of u] by (auto simp: uuid_str_def Let_def dest: in_set_takeD in_set_dropD)
qed

lemma uuid_str_nonempty [simp]: "uuid_str u \<noteq> []"
  by (simp add: uuid_str_def Let_def)

lemma uuid_then_slash [simp]:
  "split_on (CHR ''/'') (uuid_str u @ CHR ''/'' # b) = uuid_str u # split_on (CHR ''/'') b"
  by simp

subsection \<open>Every request reaches its endpoint\<close>

text \<open>A prefix that the configuration accepts: literal segments after a leading slash.\<close>

definition literal_prefix :: "string \<Rightarrow> bool" where
  "literal_prefix base = list_all (\<lambda>t. \<not> is_parameter t) (segments base)"

lemma literal_matches: "literal_prefix base \<Longrightarrow> list_all2 segment_matches (segments base) (segments base)"
  by (simp add: literal_prefix_def list_all_iff list_all2_same segment_matches_def)

lemma literal_params: "literal_prefix base \<Longrightarrow> filter (\<lambda>(t, s). is_parameter t) (zip (segments base) (segments base)) = []"
  by (auto simp: literal_prefix_def list_all_iff filter_empty_conv dest: set_zip_leftD)

lemma is_parameter_Nil [simp]: "\<not> is_parameter []"
  by (simp add: is_parameter_def)

lemma segments_under: "segments (base @ CHR ''/'' # p) = segments base @ segments p"
  by (simp add: segments_def)

lemma segments_slash: "segments (CHR ''/'' # p) = [] # segments p"
  by (simp add: segments_def)

lemma matches_under:
  "literal_prefix base \<Longrightarrow>
     path_matches (base @ CHR ''/'' # t) (base @ CHR ''/'' # p) = path_matches (CHR ''/'' # t) (CHR ''/'' # p)"
  by (simp add: path_matches_def segments_under segments_slash list_all2_append literal_matches
      segment_matches_def)

lemma params_under:
  "literal_prefix base \<Longrightarrow>
     path_params (base @ CHR ''/'' # t) (base @ CHR ''/'' # p) = path_params (CHR ''/'' # t) (CHR ''/'' # p)"
  by (simp add: path_params_def segments_under segments_slash literal_params)

definition rooted :: "route list \<Rightarrow> bool" where
  "rooted rs = list_all (\<lambda>r. rt_path r \<noteq> [] \<and> hd (rt_path r) = CHR ''/'') rs"

lemma find_under:
  assumes "literal_prefix base" and "rooted rs"
  shows "List.find (\<lambda>r. path_matches (rt_path r) (base @ CHR ''/'' # p) \<and> rt_method r = meth) (under base rs) =
    map_option (\<lambda>r. r\<lparr>rt_path := base @ rt_path r\<rparr>)
      (List.find (\<lambda>r. path_matches (rt_path r) (CHR ''/'' # p) \<and> rt_method r = meth) rs)"
  using assms(2)
proof (induction rs)
  case (Cons r rs)
  then obtain t where "rt_path r = CHR ''/'' # t" by (cases "rt_path r") (auto simp: rooted_def)
  with Cons matches_under [OF assms(1)] show ?case by (simp add: under_def rooted_def)
qed (simp add: under_def)

lemma resolve_under:
  assumes "literal_prefix base" and "rooted rs" and "resolve rs meth (CHR ''/'' # p) = Found r ids"
  shows "resolve (under base rs) meth (base @ CHR ''/'' # p) = Found (r\<lparr>rt_path := base @ rt_path r\<rparr>) ids"
proof -
  from assms(3) have r: "List.find (\<lambda>r. path_matches (rt_path r) (CHR ''/'' # p) \<and> rt_method r = meth) rs = Some r"
    and ids: "ids = path_params (rt_path r) (CHR ''/'' # p)"
    by (auto simp: resolve_def split: option.splits if_splits)
  from r assms(2) have "rt_path r \<noteq> []" "hd (rt_path r) = CHR ''/''"
    by (auto simp: rooted_def list_all_iff dest!: find_SomeD)
  then obtain t where "rt_path r = CHR ''/'' # t" by (cases "rt_path r") auto
  with r ids show ?thesis
    by (simp add: resolve_def find_under [OF assms(1,2)] params_under [OF assms(1)])
qed

lemma api_router_rooted: "rooted api_router"
  by (simp add: rooted_def api_router_def under_def route_defs)

lemmas match_defs = path_matches_def path_params_def segments_def segment_matches_def is_parameter_def

lemma request_resolves:
  "\<exists>r. resolve api_router (fst (request_line rq)) (snd (request_line rq)) = Found r (map uuid_str (path_ids rq))
     \<and> rt_name r = endpoint_of rq"
  by (cases rq) (simp_all add: api_router_def under_def route_defs resolve_def match_defs)

subsection \<open>What the routes declare\<close>

definition as_declared :: "nat \<Rightarrow> http_response \<Rightarrow> bool" where
  \<comment> \<open>the declared status, except for an error and for the readiness probe that is not ready\<close>
  "as_declared status r = (case hr_body r of
      ErrorB _ \<Rightarrow> True
    | ReadinessB b \<Rightarrow> hr_status r = (if rr_ready b then status else 503)
    | _ \<Rightarrow> hr_status r = status)"

fun declared_status :: "endpoint_name \<Rightarrow> nat" where
  "declared_status EpCreateProduct = 201"
| "declared_status EpDeleteProduct = 204"
| "declared_status EpLogout = 204"
| "declared_status _ = 200"

fun open_names :: "endpoint_name \<Rightarrow> bool" where
  "open_names EpLogin = True"
| "open_names EpRefresh = True"
| "open_names EpLogout = True"
| "open_names EpLive = True"
| "open_names EpReady = True"
| "open_names _ = False"

lemma api_router_declares:
  "r \<in> set api_router \<Longrightarrow> rt_status r = declared_status (rt_name r) \<and> rt_guarded r = (\<not> open_names (rt_name r))"
  by (auto simp: api_router_def under_def route_defs)

lemma open_endpoint_names: "open_endpoint E checks call = None \<longleftrightarrow> \<not> open_names (endpoint_of (ac_request call))"
  by (cases "ac_request call") (simp_all add: open_endpoint_def)

lemma declared_error: "as_declared n (error_response e)" "as_declared n (handle_validation_error es)"
  by (simp_all add: as_declared_def error_response_def handle_app_error_def handle_unexpected_error_def
      handle_validation_error_def render_def respond_def)

lemma declared_admin:
  "\<not> open_names (endpoint_of rq) \<Longrightarrow> yields (as_declared (declared_status (endpoint_of rq))) (admin_endpoint E rq admin)"
  by (cases rq)
    (simp_all add: list_products_page_def create_product_def get_product_def update_product_def delete_product_def
      search_purchases_page_def verify_payment_manually_def resend_delivery_def overview_def yields_ret
      yields_rules as_declared_def respond_def)

lemma declared_open:
  "open_endpoint E checks call = Some m \<Longrightarrow> yields (as_declared (declared_status (endpoint_of (ac_request call)))) m"
  by (auto simp: open_endpoint_def yields_ret as_declared_def respond_def readiness_def login_def refresh_def
      logout_def token_reply_def Let_def intro!: yields_rules split: api_request.splits)

lemma declared_endpoint:
  "yields (as_declared (declared_status (endpoint_of (ac_request call)))) (endpoint E checks errors call)"
  by (auto simp: endpoint_def validated_def as_admin_def yields_ret declared_open declared_admin declared_error
      open_endpoint_names
      intro: yields_bindM split: option.split)

lemma declared_serve:
  "serve E checks errors call w = (Inr r, w') \<Longrightarrow> as_declared (declared_status (endpoint_of (ac_request call))) r"
  using declared_endpoint [of call E checks errors]
  by (auto simp: serve_run yields_def declared_error split: prod.splits sum.splits)

text \<open>
  C20. Every request reaches its endpoint: under any prefix without parameters, the method and path the
  panel uses for a request resolve to the route of that request's endpoint, with exactly the ids of the
  request as path parameters, so no route shadows another; the route is marked as guarded exactly when the
  application asks for an administrator; and whatever is answered has the status the route declares,
  unless it is an error or the probe that is not ready.
\<close>

theorem requests_reach_their_endpoint:
  assumes "literal_prefix (app_api_prefix (cfg_app S))"
  shows "\<exists>r. resolve (app_routes S) (fst (request_line (ac_request call)))
         (app_api_prefix (cfg_app S) @ snd (request_line (ac_request call)))
       = Found r (map uuid_str (path_ids (ac_request call)))
     \<and> rt_name r = endpoint_of (ac_request call)
     \<and> (rt_guarded r \<longleftrightarrow> open_endpoint E checks call = None)
     \<and> (\<forall>res w'. serve E checks errors call w = (Inr res, w') \<longrightarrow> as_declared (rt_status r) res)"
proof -
  let ?rq = "ac_request call"
  obtain r where r: "resolve api_router (fst (request_line ?rq)) (snd (request_line ?rq))
      = Found r (map uuid_str (path_ids ?rq))" "rt_name r = endpoint_of ?rq"
    using request_resolves by blast
  obtain p where p: "snd (request_line ?rq) = CHR ''/'' # p" by (cases ?rq) auto
  from r(1) have "r \<in> set api_router"
    by (auto simp: resolve_def split: option.splits if_splits dest!: find_SomeD)
  note says = api_router_declares [OF this]
  have "resolve (app_routes S) (fst (request_line ?rq)) (app_api_prefix (cfg_app S) @ snd (request_line ?rq))
      = Found (r\<lparr>rt_path := app_api_prefix (cfg_app S) @ rt_path r\<rparr>) (map uuid_str (path_ids ?rq))"
    using resolve_under [OF assms api_router_rooted] r(1) unfolding p app_routes_def by simp
  with says r(2) show ?thesis
    by (intro exI [of _ "r\<lparr>rt_path := app_api_prefix (cfg_app S) @ rt_path r\<rparr>"])
      (auto simp: open_endpoint_names dest: declared_serve)
qed

theorem requests_reach_their_endpoint_witness:
  "\<exists>r. resolve (app_routes sample_settings) ''POST'' (''/api/v1/purchases/'' @ uuid_str 10 @ ''/verify'')
       = Found r [uuid_str 10] \<and> rt_name r = EpVerifyPayment \<and> rt_guarded r"
proof -
  have pre: "app_api_prefix (cfg_app sample_settings) = ''/api/v1''" by (simp add: sample_settings_def)
  have "literal_prefix ''/api/v1''" by code_simp
  with requests_reach_their_endpoint [of sample_settings
      "\<lparr>ac_host = None, ac_bearer = None, ac_cookie = None, ac_request = VerifyPayment 10\<rparr>" sample_env "[]" "\<lambda>_. []"
      "sample_world []"]
  show ?thesis by (simp add: pre open_endpoint_def) blast
qed

end
