(* ===== verification/Runtime.thy ===== *)
theory Runtime
  imports Samples
begin

section \<open>Process life cycle\<close>

text \<open>
  \<^verbatim>\<open>bot/runner.py\<close>, \<^verbatim>\<open>core/resources.py\<close>, the pings of \<^verbatim>\<open>infrastructure/db/engine.py\<close> and
  \<^verbatim>\<open>infrastructure/cache/redis.py\<close>, and \<open>lifespan\<close> of \<^verbatim>\<open>main.py\<close>: what a process opens, which
  background tasks it runs, what it serves, and what is left of all that when it ends.

  A \<open>host\<close> holds what is outside \<^verbatim>\<open>src/\<close>: the answer of every awaited call of a library (each is made
  at most once in a run), whether a stop signal comes before the polling ends by itself, and how the
  polling ends. A run that is never stopped has no outcome and is not a run of the model. The
  workers end only by cancellation (\<open>Workers\<close>), so stopping them never raises.
\<close>

subsection \<open>The state of a process\<close>

datatype rt_call =
  PingDatabase
| PingRedis
| DeleteWebhook bool
| SetWebhook string string bool "string list"
| SetupRunner
| StartSite string int
| CleanupRunner
| StopPolling
| CloseBotSession
| CloseCryptoPay
| DisposeDatabase
| CloseRedis

datatype resource = DatabasePool | RedisPool | CryptoPayClient | BotSession

datatype task = Reconciliation | Housekeeping | Polling

datatype http_handler = TelegramUpdates string | CryptoPayNotifications | Liveness

type_synonym web_app = "(string \<times> string \<times> http_handler) list"

record process =
  ps_open :: "resource list"
  ps_tasks :: "task list"
  ps_listening :: "web_app option"
  ps_calls :: "(rt_call \<times> bool) list"

definition new_process :: process where
  "new_process = \<lparr>ps_open = [], ps_tasks = [], ps_listening = None, ps_calls = []\<rparr>"

record host =
  ho_answer :: "rt_call \<Rightarrow> exn option"
  ho_signalled :: bool
  ho_polling :: "exn option"

type_synonym 'a proc = "(exn, process, 'a) prog"

definition await :: "host \<Rightarrow> rt_call \<Rightarrow> unit proc" where
  "await H c = (\<lambda>p. case ho_answer H c of
      None \<Rightarrow> (Inr (), p\<lparr>ps_calls := ps_calls p @ [(c, True)]\<rparr>)
    | Some e \<Rightarrow> (Inl e, p\<lparr>ps_calls := ps_calls p @ [(c, False)]\<rparr>))"

definition opened :: "resource list \<Rightarrow> unit proc" where
  "opened rs = modifyM (\<lambda>p. p\<lparr>ps_open := ps_open p @ rs\<rparr>)"

definition spawn :: "task list \<Rightarrow> unit proc" where
  "spawn ts = modifyM (\<lambda>p. p\<lparr>ps_tasks := ps_tasks p @ ts\<rparr>)"

definition ended :: "task list \<Rightarrow> unit proc" where
  "ended ts = modifyM (\<lambda>p. p\<lparr>ps_tasks := filter (\<lambda>t. t \<notin> set ts) (ps_tasks p)\<rparr>)"

definition closed_by :: "host \<Rightarrow> rt_call \<Rightarrow> resource \<Rightarrow> unit proc" where
  \<comment> \<open>a resource whose closing raises is still held\<close>
  "closed_by H c r = thenM (await H c) (modifyM (\<lambda>p. p\<lparr>ps_open := filter (\<lambda>x. x \<noteq> r) (ps_open p)\<rparr>))"

subsection \<open>Resources\<close>

definition database_ping :: "host \<Rightarrow> bool proc" where
  "database_ping H = catchM (thenM (await H PingDatabase) (ret True))
     (on_class [SQLAlchemyError, OSError] (\<lambda>_. ret False))"

definition redis_ping :: "host \<Rightarrow> bool proc" where
  "redis_ping H = catchM (thenM (await H PingRedis) (ret True))
     (on_class [RedisError, OSError] (\<lambda>_. ret False))"

definition create_resources :: "unit proc" where
  \<comment> \<open>the two connection pools\<close>
  "create_resources = opened [DatabasePool, RedisPool]"

definition resources_check :: "host \<Rightarrow> (string \<times> bool) list proc" where
  "resources_check H =
     bindM (database_ping H) (\<lambda>database.
     bindM (redis_ping H) (\<lambda>redis.
       ret [(''database'', database), (''redis'', redis)]))"

definition close_resources :: "host \<Rightarrow> unit proc" where
  "close_resources H = thenM (closed_by H DisposeDatabase DatabasePool) (closed_by H CloseRedis RedisPool)"

definition release_all :: "host \<Rightarrow> unit proc" where
  \<comment> \<open>the \<open>finally\<close> block both processes end with\<close>
  "release_all H =
     thenM (closed_by H CloseBotSession BotSession)
      (thenM (closed_by H CloseCryptoPay CryptoPayClient) (close_resources H))"

subsection \<open>Workers and the transport\<close>

definition workers :: "task list" where
  "workers = [Reconciliation, Housekeeping]"

definition start_workers :: "unit proc" where
  "start_workers = spawn workers"

definition stop_workers :: "unit proc" where
  "stop_workers = ended workers"

definition wait_for_shutdown :: "host \<Rightarrow> unit proc" where
  \<comment> \<open>a polling that ended on its own passes on its exception\<close>
  "wait_for_shutdown H =
     (if ho_signalled H then ret ()
      else thenM (ended [Polling]) (case ho_polling H of None \<Rightarrow> ret () | Some e \<Rightarrow> throw e))"

definition stop_transport :: "host \<Rightarrow> unit proc" where
  "stop_transport H =
     bindM (getsM (\<lambda>p. Polling \<in> set (ps_tasks p))) (\<lambda>running.
       if running
       then thenM (await H StopPolling)
             (thenM (ended [Polling]) (case ho_polling H of None \<Rightarrow> ret () | Some e \<Rightarrow> throw e))
       else ret ())"

definition run_polling :: "host \<Rightarrow> settings \<Rightarrow> unit proc" where
  "run_polling H S =
     thenM (await H (DeleteWebhook (tg_drop_pending_updates (cfg_telegram S))))
      (thenM start_workers
      (thenM (spawn [Polling])
        (finallyM (wait_for_shutdown H) (thenM (stop_transport H) stop_workers))))"

definition health_path :: string where
  "health_path = ''/internal/health''"

definition register_cryptobot_webhook :: "string \<Rightarrow> web_app \<Rightarrow> web_app" where
  "register_cryptobot_webhook path app = app @ [(''POST'', path, CryptoPayNotifications)]"

definition register_health_route :: "web_app \<Rightarrow> web_app" where
  "register_health_route app = app @ [(''GET'', health_path, Liveness)]"

definition build_webhook_app :: "settings \<Rightarrow> web_app" where
  "build_webhook_app S = register_health_route (register_cryptobot_webhook (cb_webhook_path (cfg_cryptobot S))
     [(''POST'', tg_webhook_path (cfg_telegram S), TelegramUpdates (tg_webhook_secret (cfg_telegram S)))])"

definition allowed_updates :: "string list" where
  "allowed_updates = [''message'', ''callback_query'', ''pre_checkout_query'']"

definition run_webhook :: "host \<Rightarrow> settings \<Rightarrow> unit proc" where
  \<comment> \<open>\<open>stop.wait()\<close> returns once a signal has come\<close>
  "run_webhook H S =
     bindM (liftE (webhook_url (cfg_telegram S))) (\<lambda>url.
     thenM (await H (SetWebhook url (tg_webhook_secret (cfg_telegram S))
               (tg_drop_pending_updates (cfg_telegram S)) allowed_updates))
      (thenM start_workers
      (thenM (await H SetupRunner)
      (thenM (await H (StartSite (bot_webhook_host (cfg_bot S)) (bot_webhook_port (cfg_bot S))))
      (thenM (modifyM (\<lambda>p. p\<lparr>ps_listening := Some (build_webhook_app S)\<rparr>))
        (finallyM (ret ())
          (thenM stop_workers
          (thenM (await H CleanupRunner) (modifyM (\<lambda>p. p\<lparr>ps_listening := None\<rparr>))))))))))"

subsection \<open>The two processes\<close>

definition bot_main :: "host \<Rightarrow> settings \<Rightarrow> unit proc" where
  "bot_main H S =
     thenM create_resources (thenM (opened [CryptoPayClient, BotSession])
      (bindM (resources_check H) (\<lambda>checks.
        finallyM (if tg_use_webhook (cfg_telegram S) then run_webhook H S else run_polling H S)
          (release_all H))))"

definition lifespan :: "host \<Rightarrow> unit proc \<Rightarrow> unit proc" where
  \<comment> \<open>\<open>serving\<close> is what happens between start-up and shutdown of the admin API\<close>
  "lifespan H serving =
     thenM create_resources (thenM (opened [CryptoPayClient, BotSession])
      (bindM (resources_check H) (\<lambda>checks. finallyM serving (release_all H))))"

subsection \<open>What is left when a process ends\<close>

lemma await_run:
  "await H c p = (case ho_answer H c of
      None \<Rightarrow> (Inr (), p\<lparr>ps_calls := ps_calls p @ [(c, True)]\<rparr>)
    | Some e \<Rightarrow> (Inl e, p\<lparr>ps_calls := ps_calls p @ [(c, False)]\<rparr>))"
  by (simp add: await_def)

definition probes_answer :: "host \<Rightarrow> bool" where
  \<comment> \<open>a ping fails only in the ways its \<open>except\<close> clause names\<close>
  "probes_answer H \<longleftrightarrow>
     (\<forall>e. ho_answer H PingDatabase = Some e \<longrightarrow> isinstance e SQLAlchemyError \<or> isinstance e OSError)
     \<and> (\<forall>e. ho_answer H PingRedis = Some e \<longrightarrow> isinstance e RedisError \<or> isinstance e OSError)"

lemma resources_check_run:
  assumes "probes_answer H"
  shows "resources_check H p =
     (Inr [(''database'', ho_answer H PingDatabase = None), (''redis'', ho_answer H PingRedis = None)],
      p\<lparr>ps_calls := ps_calls p @ [(PingDatabase, ho_answer H PingDatabase = None),
         (PingRedis, ho_answer H PingRedis = None)]\<rparr>)"
  using assms
  by (auto simp: resources_check_def database_ping_def redis_ping_def prog_simps await_run on_class_def
      probes_answer_def split: option.splits)

definition closings :: "rt_call list" where
  "closings = [CloseBotSession, CloseCryptoPay, DisposeDatabase, CloseRedis]"

definition closings_succeed :: "host \<Rightarrow> bool" where
  "closings_succeed H \<longleftrightarrow> (\<forall>c\<in>set closings. ho_answer H c = None)"

definition holds_all :: "process \<Rightarrow> bool" where
  "holds_all p \<longleftrightarrow> ps_open p = [DatabasePool, RedisPool, CryptoPayClient, BotSession]"

lemma release_all_run:
  assumes "closings_succeed H" and "holds_all p"
  shows "release_all H p = (Inr (), p\<lparr>ps_open := [], ps_calls := ps_calls p @ map (\<lambda>c. (c, True)) closings\<rparr>)"
  using assms
  by (simp add: release_all_def close_resources_def closed_by_def thenM_run await_run closings_succeed_def
      closings_def holds_all_def)

text \<open>The transports neither open nor close a resource, and only append to the calls.\<close>

definition only_calls :: "process \<Rightarrow> process \<Rightarrow> bool" where
  "only_calls p q \<longleftrightarrow> ps_open q = ps_open p \<and> (\<exists>cs. ps_calls q = ps_calls p @ cs)"

interpretation calls: state_preorder only_calls
  by unfold_locales (auto simp: only_calls_def)

lemma await_only_calls: "along only_calls (await H c)"
  by (auto simp: along_def await_run only_calls_def split: option.split)

lemma modify_only_calls:
  "(\<And>p. ps_open (f p) = ps_open p \<and> ps_calls (f p) = ps_calls p) \<Longrightarrow> along only_calls (modifyM f)"
  by (rule calls.along_modifyM) (simp add: only_calls_def)

lemma tasks_only_calls: "along only_calls (spawn ts)" "along only_calls (ended ts)"
  by (simp_all add: spawn_def ended_def modify_only_calls)

lemmas transport_rules = calls.along_rules await_only_calls tasks_only_calls modify_only_calls

lemma run_polling_only_calls: "along only_calls (run_polling H S)"
  unfolding run_polling_def wait_for_shutdown_def stop_transport_def start_workers_def stop_workers_def
  by (intro transport_rules)

lemma run_webhook_only_calls: "along only_calls (run_webhook H S)"
  unfolding run_webhook_def start_workers_def stop_workers_def by (intro transport_rules) simp_all

definition ready_process :: "host \<Rightarrow> process" where
  \<comment> \<open>a process that has started up\<close>
  "ready_process H = \<lparr>ps_open = [DatabasePool, RedisPool, CryptoPayClient, BotSession], ps_tasks = [],
     ps_listening = None, ps_calls = [(PingDatabase, ho_answer H PingDatabase = None),
     (PingRedis, ho_answer H PingRedis = None)]\<rparr>"

lemma protected_run:
  assumes "probes_answer H" and "closings_succeed H" and "along only_calls m"
  shows "\<exists>r q. m (ready_process H) = (r, q)
     \<and> lifespan H m new_process = (r, q\<lparr>ps_open := [], ps_calls := ps_calls q @ map (\<lambda>c. (c, True)) closings\<rparr>)"
proof -
  obtain r q where run: "m (ready_process H) = (r, q)" by (cases "m (ready_process H)")
  from alongD_eq [OF assms(3) run] have "holds_all q" by (simp add: only_calls_def holds_all_def ready_process_def)
  from release_all_run [OF assms(2) this] run show ?thesis
    by (auto simp: lifespan_def create_resources_def opened_def new_process_def ready_process_def
        prog_simps resources_check_run [OF assms(1)])
qed

lemma bot_main_lifespan:
  "bot_main H S = lifespan H (if tg_use_webhook (cfg_telegram S) then run_webhook H S else run_polling H S)"
  by (simp add: bot_main_def lifespan_def)

lemma run_webhook_tasks:
  assumes "run_webhook H S p = (r, q)" and "ps_tasks p = []"
  shows "ps_tasks q = (if (\<exists>url. webhook_url (cfg_telegram S) = Inr url
       \<and> ho_answer H (SetWebhook url (tg_webhook_secret (cfg_telegram S))
            (tg_drop_pending_updates (cfg_telegram S)) allowed_updates) = None)
       \<and> (ho_answer H SetupRunner \<noteq> None
          \<or> ho_answer H (StartSite (bot_webhook_host (cfg_bot S)) (bot_webhook_port (cfg_bot S))) \<noteq> None)
     then workers else [])"
  using assms
  by (auto simp: run_webhook_def start_workers_def stop_workers_def spawn_def ended_def workers_def prog_simps
      await_run split: option.splits sum.splits)

lemma run_polling_tasks:
  assumes "run_polling H S p = (r, q)" and "ps_tasks p = []"
  shows "ps_tasks q = (if ho_answer H (DeleteWebhook (tg_drop_pending_updates (cfg_telegram S))) \<noteq> None then []
     else if ho_signalled H \<and> ho_answer H StopPolling \<noteq> None then workers @ [Polling]
     else if ho_signalled H \<and> ho_polling H \<noteq> None then workers else [])"
  using assms
  by (auto simp: run_polling_def start_workers_def stop_workers_def spawn_def ended_def workers_def prog_simps
      wait_for_shutdown_def stop_transport_def await_run split: option.splits sum.splits if_splits)

definition leaked_workers :: "host \<Rightarrow> settings \<Rightarrow> bool" where
  \<comment> \<open>the ways a run ends without the workers having been stopped first\<close>
  "leaked_workers H S =
     (if tg_use_webhook (cfg_telegram S)
      then (\<exists>url. webhook_url (cfg_telegram S) = Inr url
         \<and> ho_answer H (SetWebhook url (tg_webhook_secret (cfg_telegram S))
              (tg_drop_pending_updates (cfg_telegram S)) allowed_updates) = None)
         \<and> (ho_answer H SetupRunner \<noteq> None
            \<or> ho_answer H (StartSite (bot_webhook_host (cfg_bot S)) (bot_webhook_port (cfg_bot S))) \<noteq> None)
      else ho_answer H (DeleteWebhook (tg_drop_pending_updates (cfg_telegram S))) = None
         \<and> ho_signalled H \<and> (ho_answer H StopPolling \<noteq> None \<or> ho_polling H \<noteq> None))"

lemma transport_leaks:
  assumes "(if tg_use_webhook (cfg_telegram S) then run_webhook H S else run_polling H S) p = (r, q)"
    and "ps_tasks p = []"
  shows "ps_tasks q \<noteq> [] \<longleftrightarrow> leaked_workers H S"
  using assms run_webhook_tasks [of H S p r q] run_polling_tasks [of H S p r q]
  by (auto simp: leaked_workers_def workers_def split: if_splits)

lemma transport_clean:
  assumes "\<And>c. ho_answer H c = None" and "ho_polling H = None"
    and "tg_use_webhook (cfg_telegram S) \<Longrightarrow> tg_webhook_base_url (cfg_telegram S) \<noteq> None"
    and "(if tg_use_webhook (cfg_telegram S) then run_webhook H S else run_polling H S) p = (r, q)"
  shows "r = Inr ()"
  using assms
  by (auto simp: run_webhook_def run_polling_def start_workers_def stop_workers_def spawn_def ended_def
      prog_simps wait_for_shutdown_def stop_transport_def await_run webhook_url_def split: if_splits)

text \<open>
  C36. A bot process gives everything back: when the dependency probe answers and the four closing
  calls succeed, then whatever else raises, the run ends with nothing open, and its last four calls
  close the Telegram session, the Crypto Pay client, the database and Redis, in this order. The
  background workers are stopped before that, except exactly when the webhook server could not be
  set up after they had been started, or a signalled polling could not be stopped or raised. A run in
  which nothing fails ends normally, with no task left.
\<close>

theorem bot_process_releases_everything:
  assumes "probes_answer H" and "closings_succeed H"
  shows "\<exists>r p. bot_main H S new_process = (r, p) \<and> ps_open p = []
    \<and> (\<exists>before. ps_calls p = before
         @ [(CloseBotSession, True), (CloseCryptoPay, True), (DisposeDatabase, True), (CloseRedis, True)])
    \<and> (ps_tasks p \<noteq> [] \<longleftrightarrow> leaked_workers H S)
    \<and> ((\<forall>c. ho_answer H c = None) \<and> ho_polling H = None
         \<and> (tg_use_webhook (cfg_telegram S) \<longrightarrow> tg_webhook_base_url (cfg_telegram S) \<noteq> None)
       \<longrightarrow> r = Inr () \<and> ps_tasks p = [])"
proof -
  let ?m = "if tg_use_webhook (cfg_telegram S) then run_webhook H S else run_polling H S"
  have "along only_calls ?m" by (simp add: run_webhook_only_calls run_polling_only_calls)
  from protected_run [OF assms this] obtain r q where run: "?m (ready_process H) = (r, q)"
    and main: "bot_main H S new_process = (r, q\<lparr>ps_open := [], ps_calls := ps_calls q @ map (\<lambda>c. (c, True)) closings\<rparr>)"
    unfolding bot_main_lifespan by blast
  have leak: "ps_tasks q \<noteq> [] \<longleftrightarrow> leaked_workers H S"
    using transport_leaks [OF run] by (simp add: ready_process_def)
  have "r = Inr () \<and> ps_tasks q = []" if "\<forall>c. ho_answer H c = None" "ho_polling H = None"
      "tg_use_webhook (cfg_telegram S) \<longrightarrow> tg_webhook_base_url (cfg_telegram S) \<noteq> None"
    using transport_clean [OF _ _ _ run] leak that by (auto simp: leaked_workers_def split: if_splits)
  with main leak show ?thesis by (auto simp: closings_def)
qed

text \<open>A busy port: the pools are closed under two running workers.\<close>

theorem bot_process_releases_everything_witness:
  "\<exists>r p. bot_main
        \<lparr>ho_answer = (\<lambda>c. if c = StartSite ''0.0.0.0'' 8080 then Some (other_exn OSError ''in use'') else None),
         ho_signalled = True, ho_polling = None\<rparr>
        (sample_settings\<lparr>cfg_telegram := (cfg_telegram sample_settings)\<lparr>tg_use_webhook := True,
           tg_webhook_base_url := Some ''https://shop.example''\<rparr>\<rparr>) new_process = (r, p)
     \<and> ps_open p = [] \<and> ps_tasks p \<noteq> []"
proof -
  let ?H = "\<lparr>ho_answer = (\<lambda>c. if c = StartSite ''0.0.0.0'' 8080 then Some (other_exn OSError ''in use'') else None),
         ho_signalled = True, ho_polling = None\<rparr>"
  let ?S = "sample_settings\<lparr>cfg_telegram := (cfg_telegram sample_settings)\<lparr>tg_use_webhook := True,
           tg_webhook_base_url := Some ''https://shop.example''\<rparr>\<rparr>"
  have "probes_answer ?H" "closings_succeed ?H"
    by (simp_all add: probes_answer_def closings_succeed_def closings_def)
  moreover have "leaked_workers ?H ?S"
    by (simp add: leaked_workers_def sample_settings_def webhook_url_def allowed_updates_def)
  ultimately show ?thesis
    using bot_process_releases_everything [of ?H ?S] by blast
qed

end
