(* ===== verification/Asgi.thy ===== *)
theory Asgi
  imports Routes Runtime
begin

section \<open>The ASGI application\<close>

text \<open>
  What surrounds the endpoints: \<open>_handle_http_exception\<close> of \<^verbatim>\<open>api/errors.py\<close>, the
  \<open>RequestContextMiddleware\<close> of \<^verbatim>\<open>api/middleware.py\<close>, the readiness probe over the pings, and
  \<open>create_app\<close> of \<^verbatim>\<open>main.py\<close>. Starlette's stack is, from the outside in: its error middleware
  with the handler of \<open>Exception\<close>, the middlewares of the program, its exception middleware with the
  other handlers, the router. So a known exception has become a response when it reaches the request
  context, and an unknown one passes through it and is answered outside.
\<close>

subsection \<open>Exceptions of the framework\<close>

definition http_statuses :: "(nat \<times> string \<times> string) list" where
  \<comment> \<open>\<open>http.HTTPStatus\<close>: value, name and phrase\<close>
  "http_statuses =
     [(100, ''CONTINUE'', ''Continue''),
      (101, ''SWITCHING_PROTOCOLS'', ''Switching Protocols''),
      (102, ''PROCESSING'', ''Processing''),
      (103, ''EARLY_HINTS'', ''Early Hints''),
      (200, ''OK'', ''OK''),
      (201, ''CREATED'', ''Created''),
      (202, ''ACCEPTED'', ''Accepted''),
      (203, ''NON_AUTHORITATIVE_INFORMATION'', ''Non-Authoritative Information''),
      (204, ''NO_CONTENT'', ''No Content''),
      (205, ''RESET_CONTENT'', ''Reset Content''),
      (206, ''PARTIAL_CONTENT'', ''Partial Content''),
      (207, ''MULTI_STATUS'', ''Multi-Status''),
      (208, ''ALREADY_REPORTED'', ''Already Reported''),
      (226, ''IM_USED'', ''IM Used''),
      (300, ''MULTIPLE_CHOICES'', ''Multiple Choices''),
      (301, ''MOVED_PERMANENTLY'', ''Moved Permanently''),
      (302, ''FOUND'', ''Found''),
      (303, ''SEE_OTHER'', ''See Other''),
      (304, ''NOT_MODIFIED'', ''Not Modified''),
      (305, ''USE_PROXY'', ''Use Proxy''),
      (307, ''TEMPORARY_REDIRECT'', ''Temporary Redirect''),
      (308, ''PERMANENT_REDIRECT'', ''Permanent Redirect''),
      (400, ''BAD_REQUEST'', ''Bad Request''),
      (401, ''UNAUTHORIZED'', ''Unauthorized''),
      (402, ''PAYMENT_REQUIRED'', ''Payment Required''),
      (403, ''FORBIDDEN'', ''Forbidden''),
      (404, ''NOT_FOUND'', ''Not Found''),
      (405, ''METHOD_NOT_ALLOWED'', ''Method Not Allowed''),
      (406, ''NOT_ACCEPTABLE'', ''Not Acceptable''),
      (407, ''PROXY_AUTHENTICATION_REQUIRED'', ''Proxy Authentication Required''),
      (408, ''REQUEST_TIMEOUT'', ''Request Timeout''),
      (409, ''CONFLICT'', ''Conflict''),
      (410, ''GONE'', ''Gone''),
      (411, ''LENGTH_REQUIRED'', ''Length Required''),
      (412, ''PRECONDITION_FAILED'', ''Precondition Failed''),
      (413, ''REQUEST_ENTITY_TOO_LARGE'', ''Request Entity Too Large''),
      (414, ''REQUEST_URI_TOO_LONG'', ''Request-URI Too Long''),
      (415, ''UNSUPPORTED_MEDIA_TYPE'', ''Unsupported Media Type''),
      (416, ''REQUESTED_RANGE_NOT_SATISFIABLE'', ''Requested Range Not Satisfiable''),
      (417, ''EXPECTATION_FAILED'', ''Expectation Failed''),
      (418, ''IM_A_TEAPOT'', ''I'' @ CHR 0x27 # ''m a Teapot''),
      (421, ''MISDIRECTED_REQUEST'', ''Misdirected Request''),
      (422, ''UNPROCESSABLE_ENTITY'', ''Unprocessable Entity''),
      (423, ''LOCKED'', ''Locked''),
      (424, ''FAILED_DEPENDENCY'', ''Failed Dependency''),
      (425, ''TOO_EARLY'', ''Too Early''),
      (426, ''UPGRADE_REQUIRED'', ''Upgrade Required''),
      (428, ''PRECONDITION_REQUIRED'', ''Precondition Required''),
      (429, ''TOO_MANY_REQUESTS'', ''Too Many Requests''),
      (431, ''REQUEST_HEADER_FIELDS_TOO_LARGE'', ''Request Header Fields Too Large''),
      (451, ''UNAVAILABLE_FOR_LEGAL_REASONS'', ''Unavailable For Legal Reasons''),
      (500, ''INTERNAL_SERVER_ERROR'', ''Internal Server Error''),
      (501, ''NOT_IMPLEMENTED'', ''Not Implemented''),
      (502, ''BAD_GATEWAY'', ''Bad Gateway''),
      (503, ''SERVICE_UNAVAILABLE'', ''Service Unavailable''),
      (504, ''GATEWAY_TIMEOUT'', ''Gateway Timeout''),
      (505, ''HTTP_VERSION_NOT_SUPPORTED'', ''HTTP Version Not Supported''),
      (506, ''VARIANT_ALSO_NEGOTIATES'', ''Variant Also Negotiates''),
      (507, ''INSUFFICIENT_STORAGE'', ''Insufficient Storage''),
      (508, ''LOOP_DETECTED'', ''Loop Detected''),
      (510, ''NOT_EXTENDED'', ''Not Extended''),
      (511, ''NETWORK_AUTHENTICATION_REQUIRED'', ''Network Authentication Required'')]"

datatype http_exception = HTTPException nat json

definition handle_http_exception :: "http_exception \<Rightarrow> exn + http_response" where
  \<comment> \<open>\<open>HTTPStatus\<close> of an unknown number raises\<close>
  "handle_http_exception x = (case x of HTTPException status detail \<Rightarrow>
     (case map_of http_statuses status of
        None \<Rightarrow> Inl (other_exn ValueError (int_str (int status) @ '' is not a valid HTTPStatus''))
      | Some (name, phrase) \<Rightarrow>
          Inr (render status (py_lower name) (case detail of JStr m \<Rightarrow> m | _ \<Rightarrow> phrase) [])))"

datatype target = Routed api_call | Refused http_exception

definition known :: "exn \<Rightarrow> bool" where
  \<comment> \<open>the exceptions with a handler in the exception middleware\<close>
  "known e = isinstance e AppError"

definition exception_middleware ::
  "env \<Rightarrow> (string \<times> bool) list \<Rightarrow> (api_request \<Rightarrow> pydantic_error list) \<Rightarrow> target \<Rightarrow> http_response action" where
  "exception_middleware E checks errors tgt = (case tgt of
      Routed call \<Rightarrow> catchM (endpoint E checks errors call)
        (\<lambda>e. if known e then Some (ret (handle_app_error e)) else None)
    | Refused x \<Rightarrow> liftE (handle_http_exception x))"

subsection \<open>The request context\<close>

datatype asgi_message =
  ResponseStart nat "cookie option" "(string \<times> string) list"
| ResponseBody body

definition messages :: "http_response \<Rightarrow> asgi_message list" where
  \<comment> \<open>what a response sends\<close>
  "messages r = [ResponseStart (hr_status r) (hr_cookie r) [], ResponseBody (hr_body r)]"

record scope =
  sc_type :: string
  sc_headers :: "(string \<times> string) list"
  sc_method :: string
  sc_path :: string

record access_log =
  al_level :: log_level
  al_request_id :: string
  al_http_method :: string
  al_http_path :: string
  al_status_code :: nat

record answered =
  an_sent :: "asgi_message list"
  an_raised :: "exn option"
  an_log :: "access_log option"

definition request_id_header :: string where
  "request_id_header = ''x-request-id''"

definition request_id :: "env \<Rightarrow> scope \<Rightarrow> string action" where
  \<comment> \<open>\<open>Headers(scope=scope).get(...) or uuid4().hex\<close>; the names of a scope are in lower case\<close>
  "request_id E sc =
     (let given = map_of (sc_headers sc) request_id_header in
      if truthy given then ret (the given) else bindM (new_uuid E) (\<lambda>u. ret (uuid_hex u)))"

definition level_of :: "nat \<Rightarrow> log_level" where
  "level_of status = (if 500 \<le> status then ERROR else if 400 \<le> status then WARNING else INFO)"

fun tagged :: "string \<Rightarrow> asgi_message \<Rightarrow> asgi_message" where
  \<comment> \<open>\<open>send_wrapper\<close>\<close>
  "tagged rid (ResponseStart status ck hs) = ResponseStart status ck (hs @ [(request_id_header, rid)])"
| "tagged rid msg = msg"

fun status_seen :: "nat \<Rightarrow> asgi_message \<Rightarrow> nat" where
  "status_seen status (ResponseStart s ck hs) = s"
| "status_seen status msg = status"

definition request_context ::
  "env \<Rightarrow> (world \<Rightarrow> (asgi_message list \<times> exn option) \<times> world) \<Rightarrow> scope \<Rightarrow> world \<Rightarrow> answered \<times> world" where
  "request_context E app sc w =
     (if sc_type sc \<noteq> ''http''
      then (case app w of ((ms, x), w') \<Rightarrow> (\<lparr>an_sent = ms, an_raised = x, an_log = None\<rparr>, w'))
      else (case request_id E sc w of
          (Inl e, w1) \<Rightarrow> (\<lparr>an_sent = [], an_raised = Some e, an_log = None\<rparr>, w1)
        | (Inr rid, w1) \<Rightarrow> (case app w1 of ((ms, x), w2) \<Rightarrow>
            (let status = foldl status_seen 500 ms in
             (\<lparr>an_sent = map (tagged rid) ms, an_raised = x,
               an_log = Some \<lparr>al_level = level_of status, al_request_id = rid, al_http_method = sc_method sc,
                 al_http_path = sc_path sc, al_status_code = status\<rparr>\<rparr>, w2)))))"

definition send_response :: "http_response action \<Rightarrow> world \<Rightarrow> (asgi_message list \<times> exn option) \<times> world" where
  "send_response m w = (case m w of
      (Inl e, w') \<Rightarrow> (([], Some e), w') | (Inr r, w') \<Rightarrow> ((messages r, None), w'))"

definition asgi_app ::
  "env \<Rightarrow> (string \<times> bool) list \<Rightarrow> (api_request \<Rightarrow> pydantic_error list) \<Rightarrow> target \<Rightarrow> scope \<Rightarrow> world \<Rightarrow> answered \<times> world" where
  \<comment> \<open>the error middleware sends the handler's response when nothing has been sent, and raises on\<close>
  "asgi_app E checks errors tgt sc w =
     (case request_context E (send_response (exception_middleware E checks errors tgt)) sc w of (a, w') \<Rightarrow>
       (if an_raised a \<noteq> None \<and> an_sent a = []
        then (a\<lparr>an_sent := messages handle_unexpected_error\<rparr>, w') else (a, w')))"

subsection \<open>The application object\<close>

record cors_middleware =
  co_allow_origins :: "string list"
  co_allow_credentials :: bool
  co_allow_methods :: "string list"
  co_allow_headers :: "string list"

record fastapi =
  fa_title :: string
  fa_docs_url :: "string option"
  fa_redoc_url :: "string option"
  fa_openapi_url :: "string option"
  fa_cors :: "cors_middleware option"
  fa_prefix :: string

definition docs_enabled :: "app_settings \<Rightarrow> bool" where
  "docs_enabled s = (app_docs_enabled s \<and> \<not> is_production (app_environment s))"

definition create_app :: "settings \<Rightarrow> fastapi" where
  "create_app S =
     \<lparr>fa_title = app_name (cfg_app S),
      fa_docs_url = (if docs_enabled (cfg_app S) then Some ''/docs'' else None),
      fa_redoc_url = None,
      fa_openapi_url = (if docs_enabled (cfg_app S) then Some ''/openapi.json'' else None),
      fa_cors = (if sec_cors_origins (cfg_security S) \<noteq> []
        then Some \<lparr>co_allow_origins = sec_cors_origins (cfg_security S), co_allow_credentials = True,
          co_allow_methods = [''GET'', ''POST'', ''PATCH'', ''DELETE'', ''OPTIONS''],
          co_allow_headers = [''Authorization'', ''Content-Type'', ''X-Request-ID'']\<rparr>
        else None),
      fa_prefix = app_api_prefix (cfg_app S)\<rparr>"

subsection \<open>Every call\<close>

lemma request_id_run:
  "\<exists>rid v. request_id E sc w = (Inr rid, v) \<and> rid \<noteq> [] \<and> db v = db w \<and> redis v = redis w \<and> effects v = effects w
     \<and> (case map_of (sc_headers sc) request_id_header of
          Some given \<Rightarrow> (if given \<noteq> [] then rid = given else rid = uuid_hex (env_uuid4 E (uuids_drawn w)))
        | None \<Rightarrow> rid = uuid_hex (env_uuid4 E (uuids_drawn w)))"
proof -
  have "uuid_hex u \<noteq> []" for u
    using length_uuid_hex [of u] by (metis list.size(3) zero_neq_numeral)
  then show ?thesis
    by (auto simp: request_id_def Let_def truthy_def new_uuid_def bindM_run split: option.split)
qed

lemma error_response_known: "known e \<Longrightarrow> error_response e = handle_app_error e"
  "\<not> known e \<Longrightarrow> error_response e = handle_unexpected_error"
  by (simp_all add: known_def error_response_def)

lemma exception_middleware_run:
  "exception_middleware E checks errors (Routed call) w = (case endpoint E checks errors call w of
      (Inl e, w') \<Rightarrow> if known e then (Inr (error_response e), w') else (Inl e, w')
    | (Inr r, w') \<Rightarrow> (Inr r, w'))"
  by (auto simp: exception_middleware_def catchM_run error_response_known split: prod.split sum.split)

lemma asgi_app_run:
  assumes "sc_type sc = ''http''" and "request_id E sc w = (Inr rid, v)"
  shows "asgi_app E checks errors tgt sc w = (case exception_middleware E checks errors tgt v of
      (Inl e, w') \<Rightarrow> (\<lparr>an_sent = messages handle_unexpected_error, an_raised = Some e,
         an_log = Some \<lparr>al_level = ERROR, al_request_id = rid, al_http_method = sc_method sc,
           al_http_path = sc_path sc, al_status_code = 500\<rparr>\<rparr>, w')
    | (Inr r, w') \<Rightarrow> (\<lparr>an_sent = [ResponseStart (hr_status r) (hr_cookie r) [(request_id_header, rid)], ResponseBody (hr_body r)],
         an_raised = None,
         an_log = Some \<lparr>al_level = level_of (hr_status r), al_request_id = rid, al_http_method = sc_method sc,
           al_http_path = sc_path sc, al_status_code = hr_status r\<rparr>\<rparr>, w'))"
  using assms
  by (auto simp: asgi_app_def request_context_def send_response_def messages_def level_of_def Let_def
      split: prod.split sum.split)



text \<open>A request the router refuses is answered in the same envelope, with the name of its status as the code.\<close>

lemma refused_request:
  assumes "sc_type sc = ''http''" and "map_of http_statuses status = Some (name, phrase)"
  shows "\<exists>a w'. asgi_app E checks errors (Refused (HTTPException status detail)) sc w = (a, w')
     \<and> an_raised a = None
     \<and> (\<exists>start message. an_sent a = [start, ResponseBody (ErrorB \<lparr>eb_code = py_lower name,
           eb_message = message, eb_details = []\<rparr>)])
     \<and> db w' = db w \<and> redis w' = redis w \<and> effects w' = effects w"
proof -
  obtain rid v where id: "request_id E sc w = (Inr rid, v)" "db v = db w" "redis v = redis w" "effects v = effects w"
    using request_id_run by blast
  note run = asgi_app_run [OF assms(1) id(1), of checks errors "Refused (HTTPException status detail)"]
  show ?thesis
    unfolding run using assms(2) id
    by (simp add: exception_middleware_def handle_http_exception_def render_def respond_def)
qed

lemma http_status_names:
  "distinct (map fst http_statuses)" "distinct (map (fst \<circ> snd) http_statuses)"
  by (simp_all add: http_statuses_def)

lemma not_found_code: "map_of http_statuses 404 = Some (''NOT_FOUND'', ''Not Found'')"
  "map_of http_statuses 405 = Some (''METHOD_NOT_ALLOWED'', ''Method Not Allowed'')"
  by (simp_all add: http_statuses_def)

text \<open>
  From a method and a path to a response: \<open>parse\<close> stands for FastAPI's extraction of the typed parameters. A
  path under another method is a 405, an unknown one a 404; a redirection is not an answer of the program.
\<close>

definition dispatch :: "settings \<Rightarrow> (endpoint_name \<Rightarrow> string list \<Rightarrow> api_call) \<Rightarrow> string \<Rightarrow> string \<Rightarrow> target option" where
  "dispatch S parse meth path = (case resolve (app_routes S) meth path of
      Found r ids \<Rightarrow> Some (Routed (parse (rt_name r) ids))
    | WrongMethod \<Rightarrow> Some (Refused (HTTPException 405 (JStr ''Method Not Allowed'')))
    | UnknownPath \<Rightarrow> Some (Refused (HTTPException 404 (JStr ''Not Found'')))
    | RedirectTo _ \<Rightarrow> None)"

lemma lower_names: "py_lower ''NOT_FOUND'' = ''not_found''" "py_lower ''METHOD_NOT_ALLOWED'' = ''method_not_allowed''"
  by code_simp+

lemma unrouted_is_enveloped:
  assumes "sc_type sc = ''http''" and "resolve (app_routes S) (sc_method sc) (sc_path sc) \<in> {WrongMethod, UnknownPath}"
  shows "\<exists>tgt a w' start message. dispatch S parse (sc_method sc) (sc_path sc) = Some tgt
     \<and> asgi_app E checks errors tgt sc w = (a, w') \<and> an_raised a = None \<and> db w' = db w
     \<and> an_sent a = [start, ResponseBody (ErrorB \<lparr>eb_code =
          (if resolve (app_routes S) (sc_method sc) (sc_path sc) = UnknownPath then ''not_found'' else ''method_not_allowed''),
          eb_message = message, eb_details = []\<rparr>)]"
  using assms(2) refused_request [OF assms(1) not_found_code(1), of E checks errors "JStr ''Not Found''" w]
    refused_request [OF assms(1) not_found_code(2), of E checks errors "JStr ''Method Not Allowed''" w]
  by (auto simp: dispatch_def lower_names)

text \<open>The readiness probe over the pings: it answers 200 exactly when both dependencies answer.\<close>

lemma readiness_over_pings:
  assumes "probes_answer H"
  shows "\<exists>checks p'. resources_check H p = (Inr checks, p')
     \<and> (hr_status (readiness E checks) = 200 \<longleftrightarrow> ho_answer H PingDatabase = None \<and> ho_answer H PingRedis = None)"
  by (simp add: resources_check_run [OF assms] readiness_def respond_def Let_def)

text \<open>Nothing describes the API of a production process.\<close>

lemma production_hides_docs:
  "app_environment (cfg_app S) = PRODUCTION \<Longrightarrow>
     fa_docs_url (create_app S) = None \<and> fa_openapi_url (create_app S) = None"
  by (simp add: create_app_def docs_enabled_def is_production_def)

end
