(* ===== verification/Panel.thy ===== *)
theory Panel
  imports Routes
begin

section \<open>The session of the admin panel\<close>

text \<open>
  \<^verbatim>\<open>frontend/src/api/client.ts\<close>, composed with the API it talks to. The panel keeps the access token in
  memory and the browser keeps the refresh cookie; \<open>ApiClient.request\<close> sends a request, and on a 401
  refreshes once through the cookie and replays it. A request is sent to \<open>serve\<close>; the network is up and
  answers in order. Requests are sent one after the other, so the promise that parallel refreshes share is
  not needed.
\<close>

subsection \<open>The browser\<close>

record panel =
  pn_token :: "string option"
  pn_cookie :: "(string \<times> int) option"
  pn_expired :: nat
  pn_sent :: "api_request list"

record server =
  sv_env :: env
  sv_host :: "string option"
  sv_checks :: "(string \<times> bool) list"
  sv_errors :: "api_request \<Rightarrow> pydantic_error list"

type_synonym session = "panel \<times> world"

definition live_cookie :: "panel \<Rightarrow> int \<Rightarrow> string option" where
  "live_cookie b t = (case pn_cookie b of Some (c, expires) \<Rightarrow> (if t < expires then Some c else None) | None \<Rightarrow> None)"

definition store_cookie :: "http_response \<Rightarrow> int \<Rightarrow> (string \<times> int) option \<Rightarrow> (string \<times> int) option" where
  \<comment> \<open>\<open>Set-Cookie\<close> with \<open>Max-Age\<close>\<close>
  "store_cookie r t old = (case hr_cookie r of
      None \<Rightarrow> old
    | Some c \<Rightarrow> (if ck_max_age c \<le> 0 then None else Some (ck_value c, t + ck_max_age c * 1000000)))"

definition call_of :: "server \<Rightarrow> panel \<Rightarrow> int \<Rightarrow> api_request \<Rightarrow> api_call" where
  "call_of V b t rq = \<lparr>ac_host = sv_host V, ac_bearer = (if truthy (pn_token b) then pn_token b else None),
     ac_cookie = live_cookie b t, ac_request = rq\<rparr>"

definition fetch :: "server \<Rightarrow> api_request \<Rightarrow> session \<Rightarrow> http_response \<times> session" where
  "fetch V rq s = (case s of (b, w) \<Rightarrow>
     (case serve (sv_env V) (sv_checks V) (sv_errors V) (call_of V b (clock w) rq) w of
        (Inl e, w') \<Rightarrow> (error_response e, (b, w'))
      | (Inr r, w') \<Rightarrow> (r, (b\<lparr>pn_cookie := store_cookie r (clock w') (pn_cookie b), pn_sent := pn_sent b @ [rq]\<rparr>, w'))))"

subsection \<open>The client\<close>

definition refresh_call :: api_request where
  \<comment> \<open>\<open>POST /auth/refresh\<close> with the body \<open>{}\<close>\<close>
  "refresh_call = Refresh (Some \<lparr>rq_refresh_token = None\<rparr>)"

definition response_ok :: "http_response \<Rightarrow> bool" where
  "response_ok r = (200 \<le> hr_status r \<and> hr_status r \<le> 299)"

definition perform_refresh :: "server \<Rightarrow> session \<Rightarrow> bool \<times> session" where
  "perform_refresh V s = (case fetch V refresh_call s of (r, (b, w)) \<Rightarrow>
     (case hr_body r of
        TokenB t \<Rightarrow> (if response_ok r then (True, (b\<lparr>pn_token := Some (trs_access_token t)\<rparr>, w)) else (False, (b, w)))
      | _ \<Rightarrow> (False, (b, w))))"

fun is_refresh :: "api_request \<Rightarrow> bool" where
  "is_refresh (Refresh p) = True"
| "is_refresh rq = False"

definition client_request :: "server \<Rightarrow> api_request \<Rightarrow> session \<Rightarrow> http_response \<times> session" where
  "client_request V rq s = (case fetch V rq s of (r, s1) \<Rightarrow>
     (if hr_status r = 401 \<and> \<not> is_refresh rq
      then (case perform_refresh V s1 of (refreshed, (b, w)) \<Rightarrow>
        (if refreshed then fetch V rq (b, w)
         else (r, (b\<lparr>pn_token := None, pn_expired := Suc (pn_expired b)\<rparr>, w))))
      else (r, s1)))"

subsection \<open>The pieces of a session\<close>

lemma fetch_run:
  "serve (sv_env V) (sv_checks V) (sv_errors V) (call_of V b (clock w) rq) w = (Inr r, w') \<Longrightarrow>
     fetch V rq (b, w) = (r, (b\<lparr>pn_cookie := store_cookie r (clock w') (pn_cookie b), pn_sent := pn_sent b @ [rq]\<rparr>, w'))"
  by (simp add: fetch_def)

lemma fetch_error:
  assumes "serve (sv_env V) (sv_checks V) (sv_errors V) (call_of V b (clock w) rq) w = (Inr (render n c m d), w')"
  shows "fetch V rq (b, w) = (render n c m d, (b\<lparr>pn_sent := pn_sent b @ [rq]\<rparr>, w'))"
  using fetch_run [OF assms] by (simp add: store_cookie_def render_def respond_def)

lemma accepted_identity:
  assumes "token_accepted E token kind w i"
  shows "authenticate E token kind w =
    (Inr \<lparr>ai_username = sec_admin_username (security E), ai_token_id = i, ai_token_type = kind\<rparr>, w)"
  using assms
  by (auto simp: token_accepted_def authenticate_def decode_token_def bindM_run utc_now_def is_revoked_run
      constant_time_equals_def split: sum.splits)

lemma rejected_identity:
  assumes "\<And>i. \<not> token_accepted E token kind w i"
  shows "\<exists>e. authenticate E token kind w = (Inl e, w) \<and> exn_cls e = InvalidTokenError"
  using authenticate_run [of E token kind w] assms
  by (cases "authenticate E token kind w") (auto split: sum.splits)

lemma refresh_serve:
  "serve E checks errors call w = (case refresh E (Some \<lparr>rq_refresh_token = None\<rparr>) (ac_cookie call) w of
      (Inl e, w') \<Rightarrow> (Inr (error_response e), w') | (Inr r, w') \<Rightarrow> (Inr r, w'))"
  if "ac_request call = refresh_call"
  using that by (simp add: serve_run endpoint_def open_endpoint_def validated_def refresh_call_def refresh_request_ok_def)

lemma invalid_token_response:
  "exn_cls e = InvalidTokenError \<Longrightarrow> \<exists>m d. error_response e = render 401 ''invalid_token'' m d"
  by (auto simp: error_response_def isinstance_def handle_app_error_def status_code_def exn_code_def class_attr_step)

lemma supplied_cookie: "supplied_token (Some \<lparr>rq_refresh_token = None\<rparr>) c = c"
  by (simp add: supplied_token_def truthy_def)

lemma refresh_refused:
  assumes "ac_request call = refresh_call"
    and "\<And>c i. ac_cookie call = Some c \<Longrightarrow> c \<noteq> [] \<Longrightarrow> \<not> token_accepted E c REFRESH w i"
  shows "\<exists>m d. serve E checks errors call w = (Inr (render 401 ''invalid_token'' m d), w)"
proof -
  have "\<exists>e. refresh E (Some \<lparr>rq_refresh_token = None\<rparr>) (ac_cookie call) w = (Inl e, w) \<and> exn_cls e = InvalidTokenError"
  proof (cases "truthy (ac_cookie call)")
    case True
    then obtain c where c: "ac_cookie call = Some c" "c \<noteq> []" by (auto simp: truthy_def split: option.splits)
    from rejected_identity [OF assms(2) [OF c]] show ?thesis
      using c by (auto simp: refresh_def supplied_cookie Let_def truthy_def auth_refresh_def bindM_run)
  qed (auto simp: refresh_def supplied_cookie Let_def)
  with invalid_token_response show ?thesis by (fastforce simp: refresh_serve [OF assms(1)])
qed

definition retired :: "env \<Rightarrow> string \<Rightarrow> world \<Rightarrow> world" where
  \<comment> \<open>the world in which a refresh token has been revoked and two ids have been drawn\<close>
  "retired E j w = (snd (auth_revoke E j REFRESH w))\<lparr>uuids_drawn := Suc (Suc (uuids_drawn w))\<rparr>"

lemma retired_frame:
  "db (retired E j w) = db w" "effects (retired E j w) = effects w" "clock (retired E j w) = clock w"
  by (simp_all add: retired_def auth_revoke_def revoke_run)

definition renewed_pair :: "env \<Rightarrow> world \<Rightarrow> token_pair" where
  "renewed_pair E w =
     (let token = (\<lambda>kind ttl n. env_jwt_encode E (sec_jwt_secret (security E))
            (token_claims (sec_admin_username (security E)) kind (uuid_hex (env_uuid4 E (uuids_drawn w + n)))
              (clock w) (clock w + ttl * 1000000)))
      in \<lparr>tp_access_token = token ACCESS (access_ttl E) 0, tp_refresh_token = token REFRESH (refresh_ttl E) 1,
          tp_access_expires_in = access_ttl E, tp_refresh_expires_in = refresh_ttl E\<rparr>)"

lemma refresh_granted:
  assumes "ac_request call = refresh_call" and "ac_cookie call = Some c" and "c \<noteq> []"
    and "token_accepted E c REFRESH w j"
  shows "serve E checks errors call w = (Inr (token_reply E (renewed_pair E w)), retired E j w)"
  using accepted_identity [OF assms(4)] assms(2,3)
  by (simp add: refresh_serve [OF assms(1)] refresh_def supplied_cookie Let_def truthy_def auth_refresh_def
      bindM_run thenM_run auth_revoke_def revoke_run issue_pair_def utc_now_def encode_token_run renewed_pair_def
      retired_def)

lemma whole_seconds: "0 < ttl \<Longrightarrow> t < (t + ttl * 1000000) div 1000000 * 1000000" for t ttl :: int
proof -
  assume "0 < ttl"
  have "(t + ttl * 1000000) div 1000000 = t div 1000000 + ttl" by simp
  moreover have "t < (t div 1000000 + 1) * 1000000"
    using pos_mod_bound [of 1000000 t] div_mult_mod_eq [of t 1000000] by (simp add: algebra_simps)
  moreover have "(t div 1000000 + 1) * 1000000 \<le> (t div 1000000 + ttl) * 1000000"
    using \<open>0 < ttl\<close> by simp
  ultimately show ?thesis by simp
qed

lemma renewed_access_accepted:
  assumes "jwt_round_trip E" and "0 < access_ttl E"
    and "uuid_hex (env_uuid4 E (uuids_drawn w)) \<noteq> j"
    and "r_get (now_ms (clock w)) (revoked_name (uuid_hex (env_uuid4 E (uuids_drawn w)))) (redis w) = None"
  shows "token_accepted E (tp_access_token (renewed_pair E w)) ACCESS (retired E j w)
     (uuid_hex (env_uuid4 E (uuids_drawn w)))"
proof -
  let ?id = "uuid_hex (env_uuid4 E (uuids_drawn w))"
  have "redis (retired E j w) (revoked_name ?id) = redis w (revoked_name ?id)"
    using assms(3) by (simp add: retired_def auth_revoke_def revoke_run r_set_px_def revoked_name_def)
  then have "r_get (now_ms (clock (retired E j w))) (revoked_name ?id) (redis (retired E j w)) = None"
    using assms(4) by (simp add: retired_frame r_get_def)
  moreover have "clock (retired E j w) < (clock w + access_ttl E * 1000000) div 1000000 * 1000000"
    using whole_seconds [OF assms(2)] by (simp add: retired_frame)
  ultimately show ?thesis
    using issued_token_accepted [OF assms(1), of "retired E j w" "clock w" "access_ttl E" ACCESS w]
    by (simp add: encode_token_run renewed_pair_def Let_def)
qed

text \<open>A guarded call with an accepted token is served as the administrator.\<close>

lemma guarded_call_served:
  assumes "open_endpoint E checks call = None" and "ac_bearer call = Some token" and "token \<noteq> []"
    and "token_accepted E token ACCESS w i"
  shows "endpoint E checks errors call w = validated errors (ac_request call) (admin_endpoint E (ac_request call)
     \<lparr>ai_username = sec_admin_username (security E), ai_token_id = i, ai_token_type = ACCESS\<rparr>) w"
  using accepted_identity [OF assms(4)] assms(1,2,3)
  by (simp add: endpoint_def as_admin_def get_current_admin_def bindM_run)

lemma yields_no_cookie: "yields (\<lambda>r. hr_cookie r = None) (validated errors rq (admin_endpoint E rq admin))"
  by (cases "(E, rq, admin)" rule: admin_endpoint.cases)
    (simp_all add: validated_def list_products_page_def create_product_def get_product_def update_product_def
      delete_product_def search_purchases_page_def verify_payment_manually_def resend_delivery_def overview_def
      yields_ret yields_rules respond_def handle_validation_error_def render_def)

lemma error_no_cookie: "hr_cookie (error_response e) = None"
  by (simp add: error_response_def handle_app_error_def handle_unexpected_error_def render_def respond_def)

lemma guarded_serve:
  assumes "open_endpoint E checks call = None" and "ac_bearer call = Some token" and "token \<noteq> []"
    and "token_accepted E token ACCESS w i"
    and "validated errors (ac_request call) (admin_endpoint E (ac_request call)
      \<lparr>ai_username = sec_admin_username (security E), ai_token_id = i, ai_token_type = ACCESS\<rparr>) w = (x, w')"
  shows "serve E checks errors call w = (Inr (case x of Inl e \<Rightarrow> error_response e | Inr r \<Rightarrow> r), w')
     \<and> hr_cookie (case x of Inl e \<Rightarrow> error_response e | Inr r \<Rightarrow> r) = None"
  using guarded_call_served [OF assms(1-4), of errors] assms(5)
    yields_no_cookie [of errors "ac_request call" E "\<lparr>ai_username = sec_admin_username (security E),
      ai_token_id = i, ai_token_type = ACCESS\<rparr>"]
  by (auto simp: serve_run yields_def error_no_cookie split: sum.split)

subsection \<open>The session goes on\<close>

definition session_pair :: "server \<Rightarrow> world \<Rightarrow> token_pair" where
  "session_pair V w = renewed_pair (sv_env V) w"

lemma perform_refresh_granted:
  assumes "live_cookie b (clock w) = Some c" and "c \<noteq> []" and "token_accepted (sv_env V) c REFRESH w j"
    and "0 < refresh_ttl (sv_env V)"
  shows "perform_refresh V (b, w) = (True, (b\<lparr>pn_token := Some (tp_access_token (session_pair V w)),
     pn_cookie := Some (tp_refresh_token (session_pair V w), clock w + refresh_ttl (sv_env V) * 1000000),
     pn_sent := pn_sent b @ [refresh_call]\<rparr>, retired (sv_env V) j w))"
proof -
  have "serve (sv_env V) (sv_checks V) (sv_errors V) (call_of V b (clock w) refresh_call) w
      = (Inr (token_reply (sv_env V) (renewed_pair (sv_env V) w)), retired (sv_env V) j w)"
    by (rule refresh_granted) (use assms in \<open>simp_all add: call_of_def\<close>)
  from fetch_run [OF this] show ?thesis
    using assms(4)
    by (simp add: perform_refresh_def token_reply_def respond_def response_ok_def store_cookie_def
        refresh_cookie_def retired_frame token_response_of_def session_pair_def renewed_pair_def Let_def)
qed

lemma perform_refresh_refused:
  assumes "\<And>c i. live_cookie b (clock w) = Some c \<Longrightarrow> c \<noteq> [] \<Longrightarrow> \<not> token_accepted (sv_env V) c REFRESH w i"
  shows "perform_refresh V (b, w) = (False, (b\<lparr>pn_sent := pn_sent b @ [refresh_call]\<rparr>, w))"
proof -
  let ?call = "call_of V b (clock w) refresh_call"
  have "ac_request ?call = refresh_call" "ac_cookie ?call = live_cookie b (clock w)" by (simp_all add: call_of_def)
  with refresh_refused [of ?call "sv_env V" w "sv_checks V" "sv_errors V"] assms obtain m d where
    "serve (sv_env V) (sv_checks V) (sv_errors V) ?call w = (Inr (render 401 ''invalid_token'' m d), w)" by auto
  from fetch_error [OF this] show ?thesis by (simp add: perform_refresh_def render_def respond_def)
qed

lemma guarded_not_refresh: "\<not> open_names (endpoint_of rq) \<Longrightarrow> \<not> is_refresh rq"
  by (cases rq) simp_all

lemma stale_fetch:
  assumes "\<not> open_names (endpoint_of rq)"
    and "\<And>token i. pn_token b = Some token \<Longrightarrow> token \<noteq> [] \<Longrightarrow> \<not> token_accepted (sv_env V) token ACCESS w i"
  shows "\<exists>m d. fetch V rq (b, w) = (render 401 ''invalid_token'' m d, (b\<lparr>pn_sent := pn_sent b @ [rq]\<rparr>, w))"
proof -
  have "open_endpoint (sv_env V) (sv_checks V) (call_of V b (clock w) rq) = None"
    using assms(1) by (simp add: open_endpoint_names call_of_def)
  moreover have "\<not> token_accepted (sv_env V) token ACCESS w i"
    if "ac_bearer (call_of V b (clock w) rq) = Some token" "token \<noteq> []" for token i
    using that assms(2) by (auto simp: call_of_def split: if_splits)
  ultimately obtain m d where
    "serve (sv_env V) (sv_checks V) (sv_errors V) (call_of V b (clock w) rq) w = (Inr (render 401 ''invalid_token'' m d), w)"
    using guarded_call_refused [of "sv_env V" "sv_checks V" "call_of V b (clock w) rq" w "sv_errors V"] by blast
  from fetch_error [OF this] show ?thesis by blast
qed

definition renewed_panel :: "server \<Rightarrow> panel \<Rightarrow> world \<Rightarrow> panel" where
  \<comment> \<open>the panel after a refresh that was sent in the world \<open>w\<close>\<close>
  "renewed_panel V b w = b\<lparr>pn_token := Some (tp_access_token (session_pair V w)),
     pn_cookie := Some (tp_refresh_token (session_pair V w), clock w + refresh_ttl (sv_env V) * 1000000),
     pn_sent := pn_sent b @ [refresh_call]\<rparr>"

lemma replay_served:
  assumes "jwt_round_trip (sv_env V)" and "\<And>secret claims. env_jwt_encode (sv_env V) secret claims \<noteq> []"
    and "0 < access_ttl (sv_env V)" and "\<not> open_names (endpoint_of rq)"
    and "uuid_hex (env_uuid4 (sv_env V) (uuids_drawn w)) \<noteq> j"
    and "r_get (now_ms (clock w)) (revoked_name (uuid_hex (env_uuid4 (sv_env V) (uuids_drawn w)))) (redis w) = None"
    and "validated (sv_errors V) rq (admin_endpoint (sv_env V) rq
        \<lparr>ai_username = sec_admin_username (security (sv_env V)),
         ai_token_id = uuid_hex (env_uuid4 (sv_env V) (uuids_drawn w)), ai_token_type = ACCESS\<rparr>)
        (retired (sv_env V) j w) = (x, w')"
  shows "fetch V rq (renewed_panel V b w, retired (sv_env V) j w) =
     (case x of Inl e \<Rightarrow> error_response e | Inr r \<Rightarrow> r,
      ((renewed_panel V b w)\<lparr>pn_sent := pn_sent b @ [refresh_call, rq]\<rparr>, w'))"
proof -
  let ?E = "sv_env V" and ?v = "retired (sv_env V) j w" and ?access = "tp_access_token (session_pair V w)"
  let ?call = "call_of V (renewed_panel V b w) (clock ?v) rq" and ?r = "case x of Inl e \<Rightarrow> error_response e | Inr r \<Rightarrow> r"
  have token: "token_accepted ?E ?access ACCESS ?v (uuid_hex (env_uuid4 ?E (uuids_drawn w)))"
    unfolding session_pair_def by (rule renewed_access_accepted [OF assms(1,3,5,6)])
  have some: "?access \<noteq> []" using assms(2) by (simp add: session_pair_def renewed_pair_def Let_def)
  have guarded: "open_endpoint ?E (sv_checks V) ?call = None" using assms(4) by (simp add: open_endpoint_names call_of_def)
  have call: "ac_request ?call = rq" "ac_bearer ?call = Some ?access"
    using some by (simp_all add: call_of_def renewed_panel_def truthy_def)
  have "serve ?E (sv_checks V) (sv_errors V) ?call ?v = (Inr ?r, w') \<and> hr_cookie ?r = None"
    by (rule guarded_serve [OF guarded call(2) some token]) (simp add: call(1) assms(7))
  with fetch_run [of V "renewed_panel V b w" ?v rq ?r w'] show ?thesis
    by (simp add: store_cookie_def renewed_panel_def)
qed


text \<open>
  The rule that replays after a 401 applies to a wrong password as well: with a live cookie in the browser the
  panel refreshes the old session and sends the wrong password a second time, which the login limit counts.
\<close>

lemma refused_login_is_sent_twice:
  assumes "fetch V (Login p) (b, w) = (r, (c, v))" and "hr_status r = 401"
    and "live_cookie c (clock v) = Some k" and "k \<noteq> []" and "token_accepted (sv_env V) k REFRESH v j"
    and "0 < refresh_ttl (sv_env V)"
  shows "\<exists>res d u. client_request V (Login p) (b, w) = (res, (d, u))
     \<and> pn_sent d = pn_sent b @ [Login p, refresh_call, Login p]"
proof -
  have sent: "pn_sent (fst (snd (fetch V rq (b', w')))) = pn_sent b' @ [rq]" for rq b' w'
    by (auto simp: fetch_def serve_run split: prod.split sum.split)
  have c: "pn_sent c = pn_sent b @ [Login p]" using sent [of "Login p" b w] assms(1) by simp
  note renewed = perform_refresh_granted [OF assms(3-6)]
  let ?c = "c\<lparr>pn_token := Some (tp_access_token (session_pair V v)),
     pn_cookie := Some (tp_refresh_token (session_pair V v), clock v + refresh_ttl (sv_env V) * 1000000),
     pn_sent := pn_sent c @ [refresh_call]\<rparr>"
  obtain res d u where last: "fetch V (Login p) (?c, retired (sv_env V) j v) = (res, (d, u))" by (metis prod.exhaust)
  have "pn_sent d = pn_sent c @ [refresh_call, Login p]"
    using sent [of "Login p" ?c "retired (sv_env V) j v"] unfolding last by simp
  with c last show ?thesis by (simp add: client_request_def assms(1,2) renewed)
qed

definition sample_server :: server where
  "sample_server = \<lparr>sv_env = jwt_env, sv_host = None, sv_checks = [], sv_errors = (\<lambda>_. [])\<rparr>"

definition sample_panel :: panel where
  \<comment> \<open>no access token, and a live refresh cookie\<close>
  "sample_panel = \<lparr>pn_token = None,
     pn_cookie = Some (concat (map field [''admin'', ''refresh'', ''old'']), 2000000), pn_expired = 0, pn_sent = []\<rparr>"


end
