(* ===== verification/Settings.thy ===== *)
theory Settings
  imports Samples
begin

section \<open>The settings a process runs with\<close>

text \<open>
  \<open>get_settings\<close> of \<^verbatim>\<open>core/config.py\<close>: every group is loaded and validated in turn, and the first invalid
  one stops the process. \<open>raw\<close> is what the environment supplies, before validation.
\<close>

subsection \<open>Loading\<close>

definition load_group :: "exn + 'a \<Rightarrow> ('a \<Rightarrow> exn + 'b) \<Rightarrow> exn + 'b" where
  "load_group r k = (case r of Inl e \<Rightarrow> Inl e | Inr x \<Rightarrow> k x)"

definition get_settings :: "settings \<Rightarrow> exn + settings" where
  "get_settings raw =
     load_group (load_app (cfg_app raw)) (\<lambda>app.
     load_group (load_postgres (cfg_postgres raw)) (\<lambda>postgres.
     load_group (load_redis (cfg_redis raw)) (\<lambda>redis.
     load_group (load_telegram (cfg_telegram raw)) (\<lambda>telegram.
     load_group (load_cryptobot (cfg_cryptobot raw)) (\<lambda>cryptobot.
     load_group (load_bot (cfg_bot raw)) (\<lambda>bot.
     load_group (load_delivery (cfg_delivery raw)) (\<lambda>delivery.
     load_group (load_security (cfg_security raw)) (\<lambda>security.
       Inr \<lparr>cfg_app = app, cfg_postgres = postgres, cfg_redis = redis, cfg_telegram = telegram,
         cfg_cryptobot = cryptobot, cfg_bot = bot, cfg_delivery = delivery, cfg_security = security\<rparr>))))))))"

lemma load_group_Inr: "load_group r k = Inr y \<longleftrightarrow> (\<exists>x. r = Inr x \<and> k x = Inr y)"
  by (simp add: load_group_def split: sum.split)

lemma get_settings_groups:
  "get_settings raw = Inr S \<longleftrightarrow>
     load_app (cfg_app raw) = Inr (cfg_app S) \<and> load_postgres (cfg_postgres raw) = Inr (cfg_postgres S)
     \<and> load_redis (cfg_redis raw) = Inr (cfg_redis S) \<and> load_telegram (cfg_telegram raw) = Inr (cfg_telegram S)
     \<and> load_cryptobot (cfg_cryptobot raw) = Inr (cfg_cryptobot S) \<and> load_bot (cfg_bot raw) = Inr (cfg_bot S)
     \<and> load_delivery (cfg_delivery raw) = Inr (cfg_delivery S) \<and> load_security (cfg_security raw) = Inr (cfg_security S)"
  by (cases S) (auto simp: get_settings_def load_group_Inr)

subsection \<open>What a loaded group satisfies\<close>

lemma rstrip_char_last:
  assumes "rstrip_char c s \<noteq> []"
  shows "last (rstrip_char c s) \<noteq> c"
proof -
  from assms have "dropWhile (\<lambda>x. x = c) (rev s) \<noteq> []" by (simp add: rstrip_char_def)
  from hd_dropWhile [OF this] this show ?thesis by (simp add: rstrip_char_def last_rev)
qed

lemma rstrip_char_idem: "s = [] \<or> last s \<noteq> c \<Longrightarrow> rstrip_char c s = s"
  by (cases s rule: rev_cases) (auto simp: rstrip_char_def)

lemma rstrip_starts:
  assumes "starts_with ''/'' s" and "rstrip_char c s \<noteq> []"
  shows "starts_with ''/'' (rstrip_char c s)"
proof -
  have "s = rstrip_char c s @ rev (takeWhile (\<lambda>x. x = c) (rev s))"
    unfolding rstrip_char_def by (metis rev_append rev_rev_ident takeWhile_dropWhile_id)
  then obtain t where t: "s = rstrip_char c s @ t" by blast
  obtain x r where r: "rstrip_char c s = x # r" using assms(2) by (cases "rstrip_char c s") auto
  have "starts_with ''/'' ((x # r) @ t)" using assms(1) t unfolding r by simp
  then show ?thesis unfolding r by (simp add: starts_with_def)
qed

text \<open>A path that was accepted has no slash at its end, and unless nothing is left of it is accepted again.\<close>

lemma absolute_path_Inr:
  assumes "absolute_path msg value = Inr p"
  shows "(p = [] \<or> last p \<noteq> CHR ''/'' \<and> hd p = CHR ''/'') \<and> (p \<noteq> [] \<longrightarrow> absolute_path msg p = Inr p)"
proof -
  from assms have p: "starts_with ''/'' value" "p = rstrip_char (CHR ''/'') value"
    by (auto simp: absolute_path_def split: if_splits)
  have "last p \<noteq> CHR ''/''" "starts_with ''/'' p" if "p \<noteq> []"
    using that p rstrip_char_last rstrip_starts by auto
  then show ?thesis
    by (cases p) (auto simp: absolute_path_def rstrip_char_idem starts_with_def)
qed

lemma username_letters: "bot_username_body s \<Longrightarrow> list_all (\<lambda>c. \<not> py_isspace c) s \<and> hd s \<noteq> CHR ''@''"
  unfolding bot_username_body_def
  by (cases s) (auto simp: list_all_iff is_ascii_letter_def is_ascii_digit_def py_isspace_def Let_def)

lemma normalise_username_Inr:
  assumes "normalise_username raw_name = Inr u"
  shows "bot_username_body u \<and> normalise_username u = Inr u"
proof -
  let ?u = "removeprefix_at (py_strip raw_name)"
  from assms have u: "u = ?u" "re_dollar bot_username_body ?u"
    by (auto simp: normalise_username_def Let_def split: if_splits)
  have "last ?u \<noteq> newline" if "?u \<noteq> []"
  proof -
    from that have "py_strip raw_name \<noteq> []" "last ?u = last (py_strip raw_name)"
      by (auto simp: removeprefix_at_def last_tl split: if_splits)
    with py_strip_last [of raw_name] newline_space show ?thesis by metis
  qed
  with u have body: "bot_username_body u" by (auto simp: re_dollar_def)
  with username_letters [OF this] have "py_strip u = u" "removeprefix_at u = u"
    by (simp add: py_strip_no_space) (cases u; use username_letters [OF body] in \<open>simp add: removeprefix_at_def starts_with_def\<close>)
  with body show ?thesis by (simp add: normalise_username_def re_dollar_def)
qed

lemma load_app_Inr:
  "load_app s = Inr t \<Longrightarrow> port_ok (app_port t) \<and> \<not> (app_environment t = PRODUCTION \<and> app_debug t)
     \<and> (app_api_prefix t \<noteq> [] \<longrightarrow> load_app t = Inr t)"
  by (auto simp: load_app_def harden_production_def is_production_def dest: absolute_path_Inr split: if_splits sum.splits)

lemma load_redis_Inr: "load_redis s = Inr t \<Longrightarrow> load_redis t = Inr t \<and> rs_password t \<noteq> Some []"
  by (auto simp: load_redis_def blank_password_means_none_def py_strip_def py_lstrip_def py_rstrip_def
      split: if_splits option.splits)

lemma load_telegram_Inr:
  "load_telegram s = Inr t \<Longrightarrow> min_webhook_secret_length \<le> length (tg_webhook_secret t)
     \<and> bot_username_body (tg_bot_username t) \<and> (tg_use_webhook t \<longrightarrow> truthy (tg_webhook_base_url t))
     \<and> (tg_webhook_path t \<noteq> [] \<longrightarrow> load_telegram t = Inr t)"
proof -
  assume "load_telegram s = Inr t"
  then obtain u p where parts: "re_dollar bot_token_body (tg_bot_token s)" "normalise_username (tg_bot_username s) = Inr u"
      "absolute_path (''webhook_path must start with '' @ in_quotes ''/'') (tg_webhook_path s) = Inr p"
      "min_webhook_secret_length \<le> length (tg_webhook_secret s)"
      "tg_use_webhook s \<longrightarrow> truthy (tg_webhook_base_url s)"
    and t: "t = s\<lparr>tg_bot_username := u, tg_webhook_path := p\<rparr>"
    by (auto simp: load_telegram_def not_less split: if_splits sum.splits)
  from parts normalise_username_Inr [OF parts(2)] absolute_path_Inr [OF parts(3)] show ?thesis
    unfolding t by (auto simp: load_telegram_def)
qed

lemma load_cryptobot_Inr:
  "load_cryptobot s = Inr t \<Longrightarrow> 60 \<le> cb_invoice_ttl_seconds t \<and> cb_invoice_ttl_seconds t \<le> 86400
     \<and> (cb_webhook_path t \<noteq> [] \<longrightarrow> load_cryptobot t = Inr t)"
  by (auto simp: load_cryptobot_def dest: absolute_path_Inr split: if_splits sum.splits)

lemma load_bot_Inr:
  "load_bot s = Inr t \<Longrightarrow> t = s \<and> port_ok (bot_webhook_port s) \<and> 0 \<le> bot_throttle_seconds s
     \<and> 5 \<le> bot_reconciliation_interval_seconds s \<and> 10 \<le> bot_housekeeping_interval_seconds s
     \<and> 1 \<le> bot_reconciliation_batch_size s \<and> bot_reconciliation_batch_size s \<le> 200"
  by (auto simp: load_bot_def split: if_splits)

lemma load_delivery_Inr:
  "load_delivery s = Inr t \<Longrightarrow> t = s \<and> 1 \<le> dl_max_attempts s \<and> dl_max_attempts s \<le> 10
     \<and> 0 < dl_initial_backoff_seconds s \<and> dl_initial_backoff_seconds s \<le> dl_max_backoff_seconds s
     \<and> dl_max_backoff_seconds s \<le> 300 \<and> 0 \<le> dl_jitter_ratio s \<and> dl_jitter_ratio s \<le> 1"
  by (auto simp: load_delivery_def check_backoff_bounds_def split: if_splits)

lemma load_security_Inr:
  "load_security s = Inr t \<Longrightarrow> t = s \<and> 32 \<le> length (sec_jwt_secret s) \<and> 12 \<le> length (sec_admin_password s)
     \<and> 1 \<le> sec_access_token_ttl_minutes s \<and> 1 \<le> sec_refresh_token_ttl_days s \<and> 1 \<le> sec_login_rate_limit s
     \<and> 1 \<le> sec_login_rate_window_seconds s \<and> 3 \<le> length (sec_admin_username s)"
  by (auto simp: load_security_def split: if_splits)

lemma load_postgres_Inr:
  "load_postgres s = Inr t \<Longrightarrow> t = s \<and> port_ok (pg_port s) \<and> 1 \<le> pg_pool_size s \<and> 0 \<le> pg_max_overflow s"
  by (auto simp: load_postgres_def split: if_splits)


text \<open>The sample installation, with slashes to strip and a blank Redis password.\<close>

definition raw_settings :: settings where
  "raw_settings = sample_settings
     \<lparr>cfg_app := (cfg_app sample_settings)\<lparr>app_api_prefix := ''/api/v1/''\<rparr>,
      cfg_redis := (cfg_redis sample_settings)\<lparr>rs_password := Some ''  ''\<rparr>,
      cfg_telegram := (cfg_telegram sample_settings)\<lparr>tg_bot_username := ''@shop_bot ''\<rparr>\<rparr>"


end
