(* ===== verification/Logging.thy ===== *)
theory Logging
  imports Config
begin

section \<open>Logging\<close>

text \<open>
  \<^verbatim>\<open>core/logging.py\<close>, and the log context of \<^verbatim>\<open>bot/middlewares.py\<close>. The state is that of Python's
  \<open>logging\<close> (a logger per dotted name; one that nobody configured has level 0, no handler and propagates)
  and of structlog. A record goes to the handlers of its logger and of the ancestors of its name, as far
  up as loggers propagate; whether it is made at all is decided by the first level on that way that is set.
\<close>

subsection \<open>Loggers\<close>

datatype processor =
  MergeContextvars | AddLogLevel | AddLoggerName | TimeStamper | StackInfoRenderer | UnicodeDecoder
| WrapForFormatter | RemoveProcessorsMeta | FormatExcInfo | JSONRenderer | ConsoleRenderer

record formatter =
  fm_foreign_pre_chain :: "processor list"
  fm_processors :: "processor list"

record logger =
  lg_level :: int
  lg_handlers :: "formatter list"
  lg_propagate :: bool

definition fresh_logger :: logger where
  "fresh_logger = \<lparr>lg_level = 0, lg_handlers = [], lg_propagate = True\<rparr>"

record logging =
  ls_loggers :: "string \<Rightarrow> logger"
  ls_processors :: "processor list"
  ls_min_level :: int

fun level_number :: "log_level \<Rightarrow> int" where
  "level_number DEBUG = 10"
| "level_number INFO = 20"
| "level_number WARNING = 30"
| "level_number ERROR = 40"
| "level_number CRITICAL = 50"

definition third_party_loggers :: "string list" where
  "third_party_loggers = [''uvicorn'', ''uvicorn.error'', ''uvicorn.access'', ''fastapi'', ''sqlalchemy.engine'',
     ''sqlalchemy.pool'', ''alembic'', ''aiogram'', ''aiogram.event'', ''httpx'']"

definition shared_processors :: "processor list" where
  "shared_processors = [MergeContextvars, AddLogLevel, AddLoggerName, TimeStamper, StackInfoRenderer, UnicodeDecoder]"

definition renderer :: "log_format \<Rightarrow> processor" where
  "renderer fmt = (if fmt = JSON_FORMAT then JSONRenderer else ConsoleRenderer)"

definition stdout_handler :: "log_format \<Rightarrow> formatter" where
  "stdout_handler fmt = \<lparr>fm_foreign_pre_chain = shared_processors,
     fm_processors = [RemoveProcessorsMeta, FormatExcInfo, renderer fmt]\<rparr>"

definition adjust :: "string \<Rightarrow> (logger \<Rightarrow> logger) \<Rightarrow> logging \<Rightarrow> logging" where
  "adjust name f st = st\<lparr>ls_loggers := (ls_loggers st)(name := f (ls_loggers st name))\<rparr>"

definition configure_logging :: "log_level \<Rightarrow> log_format \<Rightarrow> logging \<Rightarrow> logging" where
  "configure_logging level fmt st =
     (let st1 = st\<lparr>ls_processors := shared_processors @ [WrapForFormatter], ls_min_level := level_number level\<rparr>;
          st2 = adjust [] (\<lambda>root. root\<lparr>lg_handlers := [stdout_handler fmt], lg_level := level_number level\<rparr>) st1;
          st3 = fold (\<lambda>name. adjust name (\<lambda>l. l\<lparr>lg_handlers := [], lg_propagate := True\<rparr>)) third_party_loggers st2
      in adjust ''sqlalchemy.engine'' (\<lambda>l. l\<lparr>lg_level := 30\<rparr>) st3)"

subsection \<open>What becomes of a record\<close>

definition parent_name :: "string \<Rightarrow> string" where
  \<comment> \<open>up to the last dot\<close>
  "parent_name name = rev (drop 1 (dropWhile (\<lambda>c. c \<noteq> CHR ''.'') (rev name)))"

lemma length_parent: "name \<noteq> [] \<Longrightarrow> length (parent_name name) < length name"
proof -
  assume "name \<noteq> []"
  then have "0 < length name" by simp
  moreover have "length (dropWhile (\<lambda>c. c \<noteq> CHR ''.'') (rev name)) \<le> length name"
    by (metis length_dropWhile_le length_rev)
  ultimately show ?thesis unfolding parent_name_def by (simp only: length_rev length_drop)
qed

function lineage :: "string \<Rightarrow> string list" where
  "lineage name = (if name = [] then [[]] else name # lineage (parent_name name))"
  by pat_completeness auto
termination
  by (relation "measure length") (simp_all add: length_parent)

declare lineage.simps [simp del]

fun reached :: "logger list \<Rightarrow> formatter list" where
  "reached [] = []"
| "reached (l # ls) = lg_handlers l @ (if lg_propagate l then reached ls else [])"

fun effective_level :: "logger list \<Rightarrow> int" where
  "effective_level [] = 0"
| "effective_level (l # ls) = (if lg_level l \<noteq> 0 then lg_level l else effective_level ls)"

definition emitted :: "logging \<Rightarrow> string \<Rightarrow> int \<Rightarrow> formatter list" where
  \<comment> \<open>the handlers that print a record of this logger and level\<close>
  "emitted st name n = (let chain = map (ls_loggers st) (lineage name) in
     if effective_level chain \<le> n then reached chain else [])"

definition structlog_emitted :: "logging \<Rightarrow> string \<Rightarrow> int \<Rightarrow> formatter list" where
  \<comment> \<open>a record made through \<open>get_logger\<close>: the bound logger filters before the standard library does\<close>
  "structlog_emitted st name n = (if ls_min_level st \<le> n then emitted st name n else [])"

subsection \<open>One stream\<close>

lemma adjust_loggers [simp]:
  "ls_loggers (adjust name f st) n = (if n = name then f (ls_loggers st name) else ls_loggers st n)"
  "ls_processors (adjust name f st) = ls_processors st" "ls_min_level (adjust name f st) = ls_min_level st"
  by (simp_all add: adjust_def)

lemma fold_adjust:
  "distinct names \<Longrightarrow> ls_loggers (fold (\<lambda>name. adjust name f) names st) n =
     (if n \<in> set names then f (ls_loggers st n) else ls_loggers st n)"
  "ls_processors (fold (\<lambda>name. adjust name f) names st) = ls_processors st"
  "ls_min_level (fold (\<lambda>name. adjust name f) names st) = ls_min_level st"
  by (induction names arbitrary: st) auto

definition configured_logger :: "log_level \<Rightarrow> log_format \<Rightarrow> string \<Rightarrow> logger \<Rightarrow> logger" where
  "configured_logger level fmt name l =
     (if name = [] then l\<lparr>lg_handlers := [stdout_handler fmt], lg_level := level_number level\<rparr>
      else if name \<in> set third_party_loggers
      then l\<lparr>lg_handlers := [], lg_propagate := True, lg_level := (if name = ''sqlalchemy.engine'' then 30 else lg_level l)\<rparr>
      else l)"

lemma third_party_names: "distinct third_party_loggers" "[] \<notin> set third_party_loggers"
    "''sqlalchemy.engine'' \<in> set third_party_loggers"
  by (simp_all add: third_party_loggers_def)

lemma configure_run:
  "configure_logging level fmt st = \<lparr>ls_loggers = (\<lambda>n. configured_logger level fmt n (ls_loggers st n)),
     ls_processors = shared_processors @ [WrapForFormatter], ls_min_level = level_number level\<rparr>"
  using third_party_names
  by (auto intro!: logging.equality simp: fun_eq_iff configure_logging_def Let_def fold_adjust configured_logger_def)

text \<open>Configuring again simply replaces what the first call installed.\<close>

lemma configure_again:
  "configure_logging level fmt (configure_logging level' fmt' st) = configure_logging level fmt st"
  by (auto simp: configure_run configured_logger_def fun_eq_iff)

lemma lineage_root: "[] \<in> set (lineage name)"
proof (induction name rule: lineage.induct)
  case (1 name)
  then show ?case by (subst lineage.simps) auto
qed

text \<open>
  Every record is printed once: whatever was configured before, a record of the root, of a third-party
  logger or of any logger below loggers nobody touched goes to the one handler on stdout, in the
  configured format, and to nothing else.
\<close>

definition untouched :: "logger \<Rightarrow> bool" where
  "untouched l = (lg_handlers l = [] \<and> lg_propagate l)"

lemma reached_once:
  "\<forall>n\<in>set (lineage name). n = [] \<or> n \<in> set third_party_loggers \<or> untouched (ls_loggers st n) \<Longrightarrow>
     reached (map (ls_loggers (configure_logging level fmt st)) (lineage name)) =
       [stdout_handler fmt]"
proof (induction name rule: lineage.induct)
  case (1 name)
  show ?case
  proof (cases "name = []")
    case True
    then show ?thesis by (subst lineage.simps) (simp add: configure_run configured_logger_def)
  next
    case False
    have lin: "lineage name = name # lineage (parent_name name)" using False by (subst lineage.simps) simp
    with "1.prems" have "name \<in> set third_party_loggers \<or> untouched (ls_loggers st name)"
      and up: "\<forall>n\<in>set (lineage (parent_name name)). n = [] \<or> n \<in> set third_party_loggers \<or> untouched (ls_loggers st n)"
      using False by auto
    then have "untouched (ls_loggers (configure_logging level fmt st) name)"
      using False by (auto simp: configure_run configured_logger_def untouched_def)
    with "1.IH" [OF False up] show ?thesis by (simp add: lin untouched_def)
  qed
qed

lemma one_log_stream:
  assumes "\<forall>n\<in>set (lineage name). n = [] \<or> n \<in> set third_party_loggers \<or> untouched (ls_loggers st n)"
  shows "configure_logging level fmt (configure_logging level' fmt' st) = configure_logging level fmt st
     \<and> reached (map (ls_loggers (configure_logging level fmt st)) (lineage name)) = [stdout_handler fmt]
     \<and> set (emitted (configure_logging level fmt st) name n) \<subseteq> {stdout_handler fmt}"
  using configure_again [of level fmt level' fmt' st] reached_once [OF assms, of level fmt]
  by (auto simp: emitted_def Let_def)

subsection \<open>The log context of an update\<close>

type_synonym log_context = "(string \<times> int) list"

definition log_context_middleware ::
  "int option \<Rightarrow> int option \<Rightarrow> ('e, 's \<times> log_context, 'a) prog \<Rightarrow> ('e, 's \<times> log_context, 'a) prog" where
  \<comment> \<open>\<open>LogContextMiddleware\<close>: the id of the update, if it is one, and of its user, if it has one\<close>
  "log_context_middleware update_id telegram_id handler =
     thenM (modifyM (\<lambda>(s, _). (s, [])))
      (thenM (modifyM (\<lambda>(s, _). (s,
          (case update_id of Some i \<Rightarrow> [(''update_id'', i)] | None \<Rightarrow> [])
          @ (case telegram_id of Some i \<Rightarrow> [(''telegram_id'', i)] | None \<Rightarrow> []))))
        (finallyM handler (modifyM (\<lambda>(s, _). (s, [])))))"

text \<open>The handler logs under exactly the ids of its update, and nothing is left for the next one.\<close>

lemma log_context_middleware_run:
  "log_context_middleware update_id telegram_id handler (s, old) =
     (case handler (s, (case update_id of Some i \<Rightarrow> [(''update_id'', i)] | None \<Rightarrow> [])
          @ (case telegram_id of Some i \<Rightarrow> [(''telegram_id'', i)] | None \<Rightarrow> [])) of
        (r, (t, _)) \<Rightarrow> (r, (t, [])))"
  by (simp add: log_context_middleware_def prog_simps split: prod.split)

end
