(* ===== verification/Ports.thy ===== *)
theory Ports
  imports ProductService Stats
begin

section \<open>The repository ports and the errors they declare\<close>

text \<open>
  \<^verbatim>\<open>domain/repositories.py\<close>: the four \<open>Protocol\<close> classes, one constructor per method, with the errors
  their docstrings declare. The services depend on these types only. The implementations are run
  through them, so that what the contract says of its errors can be compared with what is raised.
\<close>

subsection \<open>The methods\<close>

datatype product_call =
  ProductById uuid
| ProductBySlug string bool
| ProductPage product_filters page_request
| ProductCreate product_draft
| ProductUpdate uuid product_update
| ProductDelete uuid
| ProductCount "bool option"

datatype user_call =
  UserById int
| UserUpsert user_draft "datetime option"
| UserCount

datatype purchase_call =
  PurchaseCreate purchase_draft
| PurchaseById uuid
| PurchaseByInvoice payment_provider string
| PurchaseByCharge string
| AccessGranting int uuid
| MarkPaid uuid "datetime option" "string option"
| MarkDelivered uuid string "datetime option"
| MarkRefunded uuid
| ExpirePending datetime
| ListPending payment_provider nat
| PurchaseSearch purchase_filters page_request

datatype stats_call =
  Revenue stats_period
| TopProducts stats_period nat
| RecentPurchases nat

datatype repo_call =
  ProductPort product_call | UserPort user_call | PurchasePort purchase_call | StatsPort stats_call

subsection \<open>What the docstrings declare\<close>

fun product_errors :: "product_call \<Rightarrow> exn_class list" where
  "product_errors (ProductCreate dr) = [SlugAlreadyExistsError]"
| "product_errors (ProductUpdate i u) = [ProductNotFoundError, SlugAlreadyExistsError]"
| "product_errors (ProductDelete i) = [ProductNotFoundError, ConflictError]"
| "product_errors _ = []"

fun purchase_errors :: "purchase_call \<Rightarrow> exn_class list" where
  "purchase_errors (PurchaseCreate dr) = [DuplicatePurchaseError]"
| "purchase_errors (MarkPaid i paid_at charge) = [PurchaseNotFoundError, ConflictError]"
| "purchase_errors (MarkDelivered i url delivered_at) = [PurchaseNotFoundError, ConflictError]"
| "purchase_errors (MarkRefunded i) = [PurchaseNotFoundError]"
| "purchase_errors _ = []"

fun declared_errors :: "repo_call \<Rightarrow> exn_class list" where
  "declared_errors (ProductPort c) = product_errors c"
| "declared_errors (UserPort c) = []"
| "declared_errors (PurchasePort c) = purchase_errors c"
| "declared_errors (StatsPort c) = []"

subsection \<open>What the implementations do\<close>

definition ends :: "(exn, database, 'a) prog \<Rightarrow> database \<Rightarrow> exn option \<times> database" where
  "ends m d = (case m d of (Inl e, d') \<Rightarrow> (Some e, d') | (Inr x, d') \<Rightarrow> (None, d'))"

fun run_product :: "uuid \<Rightarrow> datetime \<Rightarrow> product_call \<Rightarrow> database \<Rightarrow> exn option \<times> database" where
  "run_product new_id now (ProductById i) = ends (product_get i)"
| "run_product new_id now (ProductBySlug slug only_active) = ends (product_get_by_slug slug only_active)"
| "run_product new_id now (ProductPage f pq) = ends (list_products f pq)"
| "run_product new_id now (ProductCreate dr) = ends (product_create new_id now dr)"
| "run_product new_id now (ProductUpdate i u) = ends (product_update_row now i u)"
| "run_product new_id now (ProductDelete i) = ends (product_delete i)"
| "run_product new_id now (ProductCount only_active) = ends (product_count only_active)"

fun run_user :: "datetime \<Rightarrow> user_call \<Rightarrow> database \<Rightarrow> exn option \<times> database" where
  "run_user now (UserById i) = ends (user_get i)"
| "run_user now (UserUpsert dr seen_at) = ends (user_upsert now dr seen_at)"
| "run_user now UserCount = ends user_count"

fun run_purchase :: "uuid \<Rightarrow> datetime \<Rightarrow> purchase_call \<Rightarrow> database \<Rightarrow> exn option \<times> database" where
  "run_purchase new_id now (PurchaseCreate dr) = ends (create_purchase new_id now dr)"
| "run_purchase new_id now (PurchaseById i) = ends (purchase_get i)"
| "run_purchase new_id now (PurchaseByInvoice v x) = ends (get_by_external_id v x)"
| "run_purchase new_id now (PurchaseByCharge c) = ends (get_by_charge_id c)"
| "run_purchase new_id now (AccessGranting u i) = ends (find_access_granting u i)"
| "run_purchase new_id now (MarkPaid i paid_at charge) = ends (mark_paid now i paid_at charge)"
| "run_purchase new_id now (MarkDelivered i url delivered_at) = ends (mark_delivered now i url delivered_at)"
| "run_purchase new_id now (MarkRefunded i) = ends (mark_refunded i)"
| "run_purchase new_id now (ExpirePending older_than) = ends (expire_pending older_than)"
| "run_purchase new_id now (ListPending v limit) = ends (list_pending v limit)"
| "run_purchase new_id now (PurchaseSearch f pq) = ends (search_purchases f pq)"

fun run_stats :: "datetime \<Rightarrow> stats_call \<Rightarrow> database \<Rightarrow> exn option \<times> database" where
  "run_stats now (Revenue period) = ends (revenue now period)"
| "run_stats now (TopProducts period limit) = ends (top_products now period limit)"
| "run_stats now (RecentPurchases limit) = ends (recent_purchases limit)"

fun run_repo :: "uuid \<Rightarrow> datetime \<Rightarrow> repo_call \<Rightarrow> database \<Rightarrow> exn option \<times> database" where
  "run_repo new_id now (ProductPort c) = run_product new_id now c"
| "run_repo new_id now (UserPort c) = run_user now c"
| "run_repo new_id now (PurchasePort c) = run_purchase new_id now c"
| "run_repo new_id now (StatsPort c) = run_stats now c"

subsection \<open>Which exceptions a program raises\<close>

definition fails_as :: "('e \<Rightarrow> bool) \<Rightarrow> ('e, 's, 'a) prog \<Rightarrow> 's \<Rightarrow> bool" where
  \<comment> \<open>every exception it ends with, started in this state, is one of these\<close>
  "fails_as Q m s = (case fst (m s) of Inl e \<Rightarrow> Q e | Inr _ \<Rightarrow> True)"

lemma fails_as_iff: "fails_as Q m s \<longleftrightarrow> (\<forall>e s'. m s = (Inl e, s') \<longrightarrow> Q e)"
  by (cases "m s") (auto simp: fails_as_def split: sum.split)

lemma fails_as_simps [simp]:
  "fails_as Q (ret x) s" "fails_as Q (throw e) s = Q e" "fails_as Q (getsM f) s" "fails_as Q (modifyM g) s"
  "fails_as Q (liftE r) s = (case r of Inl e \<Rightarrow> Q e | Inr _ \<Rightarrow> True)"
  by (simp_all add: fails_as_def)

lemma fails_as_bindM:
  "fails_as Q m s \<Longrightarrow> (\<And>x s'. m s = (Inr x, s') \<Longrightarrow> fails_as Q (f x) s') \<Longrightarrow> fails_as Q (bindM m f) s"
  by (cases "m s"; cases "fst (m s)") (auto simp: fails_as_def bindM_run)

lemma fails_as_thenM:
  "fails_as Q m s \<Longrightarrow> (\<And>x s'. m s = (Inr x, s') \<Longrightarrow> fails_as Q k s') \<Longrightarrow> fails_as Q (thenM m k) s"
  unfolding thenM_def by (rule fails_as_bindM)

lemma fails_as_in_uow:
  "fails_as Q (body (clock w)) (db w) \<Longrightarrow> fails_as Q (in_uow body) w"
  by (auto simp: fails_as_def in_uow_def split: prod.splits sum.splits)

lemma fails_as_catchM:
  assumes "fails_as P m s" and "\<And>e s'. P e \<Longrightarrow> (case h e of None \<Rightarrow> Q e | Some k \<Rightarrow> fails_as Q k s')"
  shows "fails_as Q (catchM m h) s"
proof (cases "fst (m s)")
  case (Inl e)
  then have m: "m s = (Inl e, snd (m s))" by (metis prod.collapse)
  from Inl assms have "case h e of None \<Rightarrow> Q e | Some k \<Rightarrow> fails_as Q k (snd (m s))" by (simp add: fails_as_def)
  then show ?thesis by (subst fails_as_def, subst catchM_run, subst m) (simp add: fails_as_def split: option.splits)
next
  case (Inr x)
  then have m: "m s = (Inr x, snd (m s))" by (metis prod.collapse)
  show ?thesis by (subst fails_as_def, subst catchM_run, subst m) simp
qed

lemma fails_as_mono: "fails_as P m s \<Longrightarrow> (\<And>e. P e \<Longrightarrow> Q e) \<Longrightarrow> fails_as Q m s"
  by (auto simp: fails_as_def split: sum.splits)

lemmas fails_rules = fails_as_bindM fails_as_thenM fails_as_in_uow

lemma ends_errors: "ends m d = (Some e, d') \<longleftrightarrow> m d = (Inl e, d')"
  by (auto simp: ends_def split: prod.splits sum.splits)

subsection \<open>Products\<close>

definition slug_taken :: "database \<Rightarrow> product \<Rightarrow> bool" where
  "slug_taken d p = list_ex (\<lambda>q. pr_slug q = pr_slug p \<and> pr_id q \<noteq> pr_id p) (products d)"

definition storable_product :: "product \<Rightarrow> bool" where
  \<comment> \<open>the row fits its columns and passes the CHECK constraints\<close>
  "storable_product p = (product_fits p \<and> product_violation [] (product_stored p) = None)"

lemma violation_of_storable:
  assumes "storable_product p" and "\<And>q. q \<in> set others \<Longrightarrow> pr_id q \<noteq> pr_id p"
  shows "product_violation others (product_stored p) =
     (if list_ex (\<lambda>q. pr_slug q = pr_slug p) others then Some ''uq_products_slug'' else None)"
proof -
  let ?r = "product_stored p"
  from assms(1) have checks: "pr_price_stars ?r \<noteq> None \<or> pr_price_usdt ?r \<noteq> None"
      "case pr_price_stars ?r of None \<Rightarrow> True | Some n \<Rightarrow> 0 < n"
      "case pr_price_usdt ?r of None \<Rightarrow> True | Some x \<Rightarrow> 0 < x" "slug_body (pr_slug ?r)"
    by (simp_all add: storable_product_def product_violation_def first_violation_def split: if_splits)
  have "key_free (\<lambda>_. True) pr_id ?r others" using assms(2) by (simp add: key_free_def list_all_iff)
  moreover have "key_free (\<lambda>_. True) pr_slug ?r others \<longleftrightarrow> \<not> list_ex (\<lambda>q. pr_slug q = pr_slug p) others"
    by (simp add: key_free_def list_all_iff list_ex_iff)
  ultimately show ?thesis using checks unfolding product_violation_def by (simp add: first_violation_def)
qed

lemma insert_storable:
  assumes "storable_product p" and "\<And>q. q \<in> set (products d) \<Longrightarrow> pr_id q \<noteq> pr_id p"
  shows "insert_product p d = (if slug_taken d p then Inl (integrity_error ''uq_products_slug'')
     else Inr (d\<lparr>products := products d @ [product_stored p]\<rparr>))"
proof -
  have "slug_taken d p \<longleftrightarrow> list_ex (\<lambda>q. pr_slug q = pr_slug p) (products d)"
    using assms(2) by (auto simp: slug_taken_def list_ex_iff)
  then show ?thesis
    using assms(1) violation_of_storable [OF assms]
    by (simp add: insert_product_def Let_def flush_row_def storable_product_def)
qed

lemma write_storable:
  assumes "storable_product p"
  shows "write_product p d = (if slug_taken d p then Inl (integrity_error ''uq_products_slug'')
     else Inr (d\<lparr>products := replace_row pr_id (product_stored p) (products d)\<rparr>))"
proof -
  have "list_ex (\<lambda>q. pr_slug q = pr_slug p) (rows_but pr_id (product_stored p) (products d)) \<longleftrightarrow> slug_taken d p"
    by (auto simp: rows_but_def list_ex_iff slug_taken_def)
  then show ?thesis
    using assms violation_of_storable [OF assms, of "rows_but pr_id (product_stored p) (products d)"]
    by (simp add: write_product_def Let_def flush_row_def storable_product_def rows_but_def)
qed

lemma product_create_run:
  assumes "storable_product (new_product new_id now dr)" and "\<And>q. q \<in> set (products d) \<Longrightarrow> pr_id q \<noteq> new_id"
  shows "product_create new_id now dr d =
     (if slug_taken d (new_product new_id now dr)
      then (Inl (err SlugAlreadyExistsError [(''slug'', JStr (pd_slug dr))]), d)
      else (Inr (product_stored (new_product new_id now dr)),
            d\<lparr>products := products d @ [product_stored (new_product new_id now dr)]\<rparr>))"
proof -
  have id: "pr_id (new_product new_id now dr) = new_id" by (simp add: new_product_def)
  have "List.find (\<lambda>p. pr_id p = new_id) (products d) = None"
    using assms(2) by (auto simp: find_None_iff)
  then show ?thesis
    using insert_storable [OF assms(1), of d] assms(2)
    by (simp add: product_create_def thenM_run slug_savepoint_run reread_product_run find_append id)
qed

lemma product_update_run:
  assumes "db_ok d" and "p \<in> set (products d)" and "storable_product (patched p u)"
  shows "\<exists>q e. product_update_row now (pr_id p) u d = (Inr q, e)
     \<or> slug_taken d (patched p u)
       \<and> product_update_row now (pr_id p) u d = (Inl (err SlugAlreadyExistsError [(''slug'', JStr (applied_slug (changes u)))]), d)"
proof -
  let ?q = "(patched p u)\<lparr>pr_updated_at := now\<rparr>"
  have q: "storable_product ?q" "slug_taken d ?q = slug_taken d (patched p u)" "pr_id (product_stored ?q) = pr_id p"
    using assms(3) by (simp_all add: storable_product_def product_fits_def product_violation_def key_free_def slug_taken_def)
  note here = product_found_by_id [OF assms(1,2)]
  then have "List.find (\<lambda>r. pr_id r = pr_id p) (replace_row pr_id (product_stored ?q) (products d)) \<noteq> None"
    by (simp add: find_replace_row q(3))
  with here show ?thesis
    using write_storable [OF q(1), of d] q(2)
    by (auto simp: product_update_row_def bindM_run reread_product_run set_fields_patched Let_def thenM_run
        slug_savepoint_run split: option.split)
qed

subsection \<open>Purchases and statistics\<close>

lemma mark_paid_again:
  assumes "db_ok d" and "p \<in> set (purchases d)" and "pu_status p \<in> {PAID, DELIVERED}" and "fits_string 128 charge"
  shows "fst (mark_paid now (pu_id p) paid_at charge d) =
     (if truthy charge \<and> pu_telegram_charge_id p = None
      then (if charge_taken d charge then Inl (integrity_error ''uq_purchases_telegram_charge_id'')
            else Inr (p\<lparr>pu_telegram_charge_id := charge\<rparr>))
      else Inr p)
   \<and> (\<forall>e. fst (mark_paid now (pu_id p) paid_at charge d) = Inl e \<longrightarrow> snd (mark_paid now (pu_id p) paid_at charge d) = d)"
proof (cases "truthy charge \<and> pu_telegram_charge_id p = None")
  case True
  let ?q = "p\<lparr>pu_telegram_charge_id := charge\<rparr>"
  have "purchase_row_ok d p" using db_okD(7) [OF assms(1)] assms(2) by (simp add: list_all_iff)
  then have "delivery_complete ?q" "paid_at_present ?q"
    by (simp_all add: purchase_row_ok_def delivery_complete_def paid_at_present_def)
  moreover have "grants_access p" using assms(3) by auto
  moreover have "charge \<noteq> None" using True by (cases charge) auto
  ultimately have w: "write_purchase ?q d = (if charge_taken d charge
      then Inl (integrity_error ''uq_purchases_telegram_charge_id'')
      else Inr (d\<lparr>purchases := replace_row pu_id ?q (purchases d)\<rparr>))"
    using write_status_run [OF assms(1,2), of ?q] assms(4) True by auto
  have "mark_paid now (pu_id p) paid_at charge d = thenM (flush (write_purchase ?q)) (ret ?q) d"
    using assms(3) True
    by (auto simp: mark_paid_def bindM_run lock_purchase_found [OF assms(1,2)] terminal_for_payment_def Let_def)
  then show ?thesis using True by (simp add: thenM_run flush_run w)
next
  case False
  then have "mark_paid now (pu_id p) paid_at charge d = (Inr p, d)"
    by (intro mark_paid_settled [OF assms(1-3)]) auto
  with False show ?thesis by auto
qed

lemma no_such_purchase:
  assumes "\<forall>p\<in>set (purchases d). pu_id p \<noteq> i"
  shows "mark_paid now i paid_at charge d = (Inl (err PurchaseNotFoundError [(''purchase_id'', JStr (uuid_str i))]), d)"
    "mark_delivered now i url delivered_at d = (Inl (err PurchaseNotFoundError [(''purchase_id'', JStr (uuid_str i))]), d)"
    "mark_refunded i d = (Inl (err PurchaseNotFoundError [(''purchase_id'', JStr (uuid_str i))]), d)"
  by (simp_all add: mark_paid_def mark_delivered_def mark_refunded_def bindM_run lock_purchase_missing [OF assms])

lemma matching_ids_readable: "readable_term t \<Longrightarrow> \<exists>ids. matching_ids d t = Inr ids"
  by (simp add: matching_ids_def Let_def telegram_id_branch_def readable_term_def)

definition sums_overflow :: "database \<Rightarrow> bool" where
  \<comment> \<open>all amounts together exceed NUMERIC(18, 6)\<close>
  "sums_overflow d = (\<not> fits_numeric 18 6 (sum_list (map pu_amount (purchases d))))"

lemma sum_list_part:
  fixes f g :: "'a \<Rightarrow> rat"
  assumes "\<And>x. x \<in> set xs \<Longrightarrow> 0 \<le> f x \<and> g x \<le> f x \<and> 0 \<le> g x"
  shows "0 \<le> sum_list (map g (filter P xs)) \<and> sum_list (map g (filter P xs)) \<le> sum_list (map f xs)"
  using assms by (induction xs) force+

lemma amount_in_overflow:
  assumes "db_ok d" and "amount_in c (filter P (purchases d)) = Inl x"
  shows "x = data_error \<and> sums_overflow d"
proof -
  let ?f = "\<lambda>p. if pu_currency p = c then pu_amount p else 0"
  have pos: "0 < pu_amount p" if "p \<in> set (purchases d)" for p
    using that db_okD(7) [OF assms(1)] by (simp add: list_all_iff purchase_row_ok_def)
  have "0 \<le> sum_list (map ?f (filter P (purchases d)))"
      "sum_list (map ?f (filter P (purchases d))) \<le> sum_list (map pu_amount (purchases d))"
    using sum_list_part [of "purchases d" pu_amount ?f P] pos by (force simp: less_imp_le)+
  moreover from this have "numeric_round 6 (sum_list (map ?f (filter P (purchases d)))) \<le> numeric_round 6 (sum_list (map pu_amount (purchases d)))"
    by (rule numeric_round_mono)
  moreover have "0 \<le> numeric_round 6 (sum_list (map ?f (filter P (purchases d))))"
    using numeric_round_mono [of 0 "sum_list (map ?f (filter P (purchases d)))" 6] calculation(1)
    by (simp add: numeric_round_def)
  ultimately show ?thesis
    using assms(2) by (auto simp: amount_in_def sums_overflow_def fits_numeric_def Let_def split: if_splits)
qed

subsection \<open>The errors of the ports\<close>

fun storable :: "uuid \<Rightarrow> datetime \<Rightarrow> database \<Rightarrow> repo_call \<Rightarrow> bool" where
  \<comment> \<open>the values of a writing call fit the columns, pass the CHECK constraints and have a fresh id\<close>
  "storable new_id now d (ProductPort (ProductCreate dr)) =
     (storable_product (new_product new_id now dr) \<and> list_all (\<lambda>q. pr_id q \<noteq> new_id) (products d))"
| "storable new_id now d (ProductPort (ProductUpdate i u)) =
     list_all (\<lambda>p. pr_id p \<noteq> i \<or> storable_product (patched p u)) (products d)"
| "storable new_id now d (UserPort (UserUpsert dr seen_at)) =
     (fits_int 64 (ud_telegram_id dr) \<and> fits_string 32 (ud_username dr) \<and> fits_string 255 (ud_first_name dr)
      \<and> fits_string 16 (ud_language_code dr) \<and> 0 < ud_telegram_id dr)"
| "storable new_id now d (PurchasePort (PurchaseCreate dr)) =
     (draft_storable d dr \<and> dr_status dr = None \<and> list_all (\<lambda>p. pu_id p \<noteq> new_id) (purchases d))"
| "storable new_id now d (PurchasePort (MarkPaid i paid_at charge)) = fits_string 128 charge"
| "storable new_id now d _ = True"

fun undeclared :: "database \<Rightarrow> repo_call \<Rightarrow> exn \<Rightarrow> bool" where
  \<comment> \<open>the errors the docstrings do not declare, with their cause\<close>
  "undeclared d (PurchasePort (PurchaseCreate dr)) e =
     (exn_cls e = ConflictError \<and> invoice_recorded d (dr_provider dr) (dr_external_id dr))"
| "undeclared d (PurchasePort (MarkPaid i paid_at charge)) e =
     (e = integrity_error ''uq_purchases_telegram_charge_id'' \<and> charge_taken d charge
      \<and> list_ex (\<lambda>p. pu_id p = i \<and> pu_status p \<in> {PAID, DELIVERED} \<and> pu_telegram_charge_id p = None) (purchases d))"
| "undeclared d (PurchasePort (MarkRefunded i)) e =
     (e = integrity_error ''ck_purchases_paid_at_present''
      \<and> list_ex (\<lambda>p. pu_id p = i \<and> pu_status p \<in> {PENDING, EXPIRED}) (purchases d))"
| "undeclared d (PurchasePort (PurchaseSearch f pq)) e =
     (truthy (uf_search f) \<and> \<not> readable_term (search_term (the (uf_search f))))"
| "undeclared d (StatsPort c) e = (e = data_error \<and> sums_overflow d)"
| "undeclared d _ e = False"

definition keeps_port :: "database \<Rightarrow> repo_call \<Rightarrow> exn option \<times> database \<Rightarrow> bool" where
  "keeps_port d c r = (case r of
      (None, d') \<Rightarrow> evolves d d'
    | (Some e, d') \<Rightarrow> d' = d \<and> (list_ex (isinstance e) (declared_errors c) \<or> undeclared d c e))"

lemma keeps_port_ends:
  assumes "along evolves m" and "\<And>e d'. m d = (Inl e, d') \<Longrightarrow> d' = d \<and> (list_ex (isinstance e) (declared_errors c) \<or> undeclared d c e)"
  shows "keeps_port d c (ends m d)"
  using assms alongD_eq [OF assms(1), of d]
  by (cases "m d"; cases "fst (m d)") (auto simp: keeps_port_def ends_def)

lemma keeps_port_reads: "(\<And>d. snd (m d) = d) \<Longrightarrow> (\<And>e. fst (m d) \<noteq> Inl e) \<Longrightarrow> keeps_port d c (ends m d)"
  by (rule keeps_port_ends) (auto simp: along_def evolves.R_refl intro: fst_conv [THEN sym])

lemma by_slug_port_kept:
  assumes "db_ok d"
  shows "keeps_port d (ProductPort (ProductBySlug slug only_active)) (run_product new_id now (ProductBySlug slug only_active) d)"
proof -
  have "distinct (map pr_slug (products d))" by (rule db_okD [OF assms])
  then have "unique_on (\<lambda>p. only_active \<longrightarrow> pr_is_active p) pr_slug (products d)"
    by (auto simp: unique_on_def distinct_map intro: inj_on_subset)
  from select_one_unique_on [where table = products and d = d, OF this, of slug]
  have "product_get_by_slug slug only_active d = (Inr (List.find (\<lambda>p. (only_active \<longrightarrow> pr_is_active p) \<and> pr_slug p = slug) (products d)), d)"
    by (simp add: product_get_by_slug_def conj_commute)
  then show ?thesis unfolding run_product.simps
    by (intro keeps_port_reads) (simp_all add: product_get_by_slug_def select_one_same)
qed

lemma product_port_kept:
  assumes "db_ok d" and "storable new_id now d (ProductPort c)"
  shows "keeps_port d (ProductPort c) (run_product new_id now c d)"
proof (cases c)
  case (ProductBySlug slug only_active)
  then show ?thesis using by_slug_port_kept [OF assms(1)] by simp
next
  case (ProductCreate dr)
  show ?thesis unfolding ProductCreate run_product.simps
    by (rule keeps_port_ends [OF product_create_evolves])
      (use product_create_run [of new_id now dr d] assms(2) ProductCreate in
        \<open>auto simp: list_all_iff isinstance_def split: if_splits\<close>)
next
  case (ProductUpdate i u)
  show ?thesis
  proof (cases "\<exists>p\<in>set (products d). pr_id p = i")
    case True
    then obtain p where "p \<in> set (products d)" "pr_id p = i" by blast
    moreover from this have "storable_product (patched p u)"
      using assms(2) ProductUpdate by (auto simp: list_all_iff)
    ultimately show ?thesis unfolding ProductUpdate run_product.simps
      using product_update_run [OF assms(1), of p u now]
      by (intro keeps_port_ends [OF product_update_evolves]) (auto simp: isinstance_def)
  next
    case False
    then have "List.find (\<lambda>p. pr_id p = i) (products d) = None" by (auto simp: find_None_iff)
    then show ?thesis unfolding ProductUpdate run_product.simps
      by (intro keeps_port_ends [OF product_update_evolves])
        (auto simp: product_update_row_def bindM_run reread_product_run isinstance_def)
  qed
next
  case (ProductDelete i)
  show ?thesis unfolding ProductDelete run_product.simps
    by (rule keeps_port_ends [OF product_delete_evolves])
      (auto simp: product_delete_def bindM_run reread_product_run flush_run delete_product_row_def isinstance_def
        sold_def filter_empty_conv list_ex_iff split: option.splits if_splits)
qed (auto intro!: keeps_port_reads simp: list_products_def product_count_def)

lemma user_port_kept:
  assumes "db_ok d" and "storable new_id now d (UserPort c)"
  shows "keeps_port d (UserPort c) (run_user now c d)"
proof (cases c)
  case (UserUpsert dr seen_at)
  then have "fst (user_upsert now dr seen_at d) \<noteq> Inl e" for e
    using assms(2)
    by (auto simp: user_upsert_def Let_def thenM_run flush_run insert_user_def write_user_def flush_row_def
        user_fits_def user_violation_def first_violation_def split: option.split dest: find_SomeD)
  then show ?thesis unfolding UserUpsert run_user.simps
    by (intro keeps_port_ends [OF user_upsert_evolves]) (metis fst_conv)
qed (auto intro!: keeps_port_reads simp: user_count_def)

lemma unpaid_port_kept:
  assumes "db_ok d" and "p \<in> set (purchases d)" and "fits_string 128 charge"
  shows "keeps_port d (PurchasePort (MarkPaid (pu_id p) paid_at charge)) (ends (mark_paid now (pu_id p) paid_at charge) d)"
proof (rule keeps_port_ends [OF mark_paid_evolves])
  fix e d'
  assume run: "mark_paid now (pu_id p) paid_at charge d = (Inl e, d')"
  consider (unpaid) "pu_status p \<in> {PENDING, EXPIRED}" | (paid) "pu_status p \<in> {PAID, DELIVERED}" | (refunded) "pu_status p = REFUNDED"
    by (cases "pu_status p") auto
  then show "d' = d \<and> (list_ex (isinstance e) (declared_errors (PurchasePort (MarkPaid (pu_id p) paid_at charge)))
      \<or> undeclared d (PurchasePort (MarkPaid (pu_id p) paid_at charge)) e)"
  proof cases
    case unpaid
    from mark_paid_unpaid [OF assms(1,2) this assms(3), of now paid_at] run show ?thesis
      by (auto simp: isinstance_def split: if_splits)
  next
    case paid
    from mark_paid_again [OF assms(1,2) this assms(3), of now paid_at] run paid assms(2) show ?thesis
      by (auto simp: list_ex_iff split: if_splits)
  next
    case refunded
    with run show ?thesis
      by (auto simp: mark_paid_def bindM_run lock_purchase_found [OF assms(1,2)] terminal_for_payment_def conflict_def
          isinstance_def)
  qed
qed

lemma create_port_kept:
  assumes "db_ok d" and "storable new_id now d (PurchasePort (PurchaseCreate dr))"
  shows "keeps_port d (PurchasePort (PurchaseCreate dr)) (run_purchase new_id now (PurchaseCreate dr) d)"
proof -
  have draft: "draft_storable d dr" "dr_status dr = None" "\<forall>p\<in>set (purchases d). pu_id p \<noteq> new_id"
    using assms(2) by (simp_all add: list_all_iff)
  show ?thesis unfolding run_purchase.simps
    by (rule keeps_port_ends [OF create_purchase_evolves])
      (use draft create_purchase_run [OF assms(1) draft] in \<open>auto simp: Let_def split: if_splits\<close>)
qed

lemma mark_paid_port_kept:
  assumes "db_ok d" and "storable new_id now d (PurchasePort (MarkPaid i paid_at charge))"
  shows "keeps_port d (PurchasePort (MarkPaid i paid_at charge)) (run_purchase new_id now (MarkPaid i paid_at charge) d)"
proof (cases "\<exists>p\<in>set (purchases d). pu_id p = i")
  case True
  with assms unpaid_port_kept [of d _ charge paid_at now] show ?thesis by auto
next
  case False
  then show ?thesis unfolding run_purchase.simps
    by (intro keeps_port_ends [OF mark_paid_evolves]) (auto simp: no_such_purchase isinstance_def)
qed

lemma mark_delivered_port_kept:
  assumes "db_ok d"
  shows "keeps_port d (PurchasePort (MarkDelivered i url time)) (run_purchase new_id now (MarkDelivered i url time) d)"
proof (cases "\<exists>p\<in>set (purchases d). pu_id p = i")
  case True
  then obtain p where p: "p \<in> set (purchases d)" "i = pu_id p" by blast
  show ?thesis unfolding run_purchase.simps p(2)
    by (rule keeps_port_ends [OF mark_delivered_evolves])
      (auto simp: mark_delivered_run [OF assms p(1)] conflict_def isinstance_def split: purchase_status.splits)
next
  case False
  then show ?thesis unfolding run_purchase.simps
    by (intro keeps_port_ends [OF mark_delivered_evolves]) (auto simp: no_such_purchase isinstance_def)
qed

lemma mark_refunded_port_kept:
  assumes "db_ok d"
  shows "keeps_port d (PurchasePort (MarkRefunded i)) (run_purchase new_id now (MarkRefunded i) d)"
proof (cases "\<exists>p\<in>set (purchases d). pu_id p = i")
  case True
  then obtain p where p: "p \<in> set (purchases d)" "i = pu_id p" by blast
  then show ?thesis unfolding run_purchase.simps p(2)
    by (intro keeps_port_ends [OF mark_refunded_evolves])
      (cases "pu_status p"; auto simp: mark_refunded_run [OF assms p(1)] list_ex_iff)
next
  case False
  then show ?thesis unfolding run_purchase.simps
    by (intro keeps_port_ends [OF mark_refunded_evolves]) (auto simp: no_such_purchase isinstance_def)
qed

lemma search_port_kept:
  "keeps_port d (PurchasePort (PurchaseSearch f pq)) (run_purchase new_id now (PurchaseSearch f pq) d)"
proof -
  have "snd (search_purchases f pq e) = e" for e by (simp add: search_purchases_def split: sum.split)
  then have "along evolves (search_purchases f pq)" by (simp add: along_def evolves.R_refl)
  then show ?thesis unfolding run_purchase.simps
    using matching_ids_readable [of "search_term (the (uf_search f))" d]
    by (intro keeps_port_ends)
      (auto simp: search_purchases_def purchase_conditions_def Let_def split: sum.splits if_splits)
qed

lemma unique_lookups_port_kept:
  assumes "db_ok d"
  shows "keeps_port d (PurchasePort (PurchaseByInvoice v x)) (run_purchase new_id now (PurchaseByInvoice v x) d)"
    and "keeps_port d (PurchasePort (PurchaseByCharge x)) (run_purchase new_id now (PurchaseByCharge x) d)"
    and "keeps_port d (PurchasePort (AccessGranting u i)) (run_purchase new_id now (AccessGranting u i) d)"
  unfolding run_purchase.simps
  using get_by_external_id_run [OF assms, of v x] get_by_charge_id_run [OF assms, of x]
    find_access_granting_run [OF assms, of u i]
  by (intro keeps_port_reads;
      simp add: get_by_external_id_def get_by_charge_id_def find_access_granting_def select_one_same)+

lemma purchase_port_kept:
  assumes "db_ok d" and "storable new_id now d (PurchasePort c)"
  shows "keeps_port d (PurchasePort c) (run_purchase new_id now c d)"
proof (cases c)
  case (ExpirePending t)
  show ?thesis unfolding ExpirePending run_purchase.simps
    by (rule keeps_port_ends [OF expire_pending_evolves]) (simp add: expire_pending_def)
qed (use assms create_port_kept mark_paid_port_kept mark_delivered_port_kept mark_refunded_port_kept search_port_kept
    unique_lookups_port_kept in \<open>blast | auto intro!: keeps_port_reads simp: purchase_get_def get_by_key_def list_pending_def\<close>)+

lemma collect_error: "collect rs = Inl e \<Longrightarrow> Inl e \<in> set rs"
  by (induction rs) (auto split: sum.splits)

lemma product_sales_overflow:
  assumes "db_ok d" and "product_sales q (filter P (purchases d)) = Inl x"
  shows "x = data_error \<and> sums_overflow d"
  using assms(2) amount_in_overflow [OF assms(1), of XTR P] amount_in_overflow [OF assms(1), of USDT P]
  by (auto simp: product_sales_def split: sum.splits)

lemma top_products_overflow:
  assumes "db_ok d" and "top_products now period limit d = (Inl x, d')"
  shows "d' = d \<and> x = data_error \<and> sums_overflow d"
proof -
  let ?sales = "\<lambda>q. filter (\<lambda>p. pu_product_id p = pr_id q \<and> in_window period now p) (purchases d)"
  from assms(2) have "d' = d"
    and "collect (map (\<lambda>q. product_sales q (?sales q)) (filter (\<lambda>q. ?sales q \<noteq> []) (products d))) = Inl x"
    by (auto simp: top_products_def Let_def split: sum.splits)
  from this(1) collect_error [OF this(2)] product_sales_overflow [OF assms(1)] show ?thesis
    by (metis (no_types, lifting) imageE list.set_map)
qed

lemma stats_port_kept:
  assumes "db_ok d"
  shows "keeps_port d (StatsPort c) (run_stats now c d)"
proof (cases c)
  case (Revenue period)
  have "snd (revenue now period e) = e" for e by (simp add: revenue_def bindM_run split: sum.split)
  then have "along evolves (revenue now period)" by (simp add: along_def evolves.R_refl)
  then show ?thesis unfolding Revenue run_stats.simps
    by (rule keeps_port_ends)
      (auto simp: revenue_def bindM_run split: sum.splits dest: amount_in_overflow [OF assms])
next
  case (TopProducts period limit)
  have "snd (top_products now period limit e) = e" for e by (simp add: top_products_def Let_def split: sum.split)
  then have "along evolves (top_products now period limit)" by (simp add: along_def evolves.R_refl)
  then show ?thesis unfolding TopProducts run_stats.simps
    by (rule keeps_port_ends) (use top_products_overflow [OF assms] in fastforce)
qed (auto intro!: keeps_port_reads simp: recent_purchases_def)



end
