(* ===== verification/Faults.thy ===== *)
theory Faults
  imports ApiFacts Ports
begin

section \<open>Internal errors of the admin API\<close>

text \<open>
  Which calls can end in the envelope of an unknown exception. Everything the shop's own data can raise
  is a domain error with a status of its own, in the services, in the repositories (by their contract,
  \<open>Ports\<close>) and in the constraints of the tables: what the schemas of \<^verbatim>\<open>api/schemas/\<close> let through can be
  stored. The two endpoints that talk to Telegram and Crypto Pay are left out here.
\<close>

subsection \<open>Client errors\<close>

definition client_error :: "exn \<Rightarrow> bool" where
  "client_error e = (isinstance e AppError \<and> 400 \<le> status_code e \<and> status_code e < 500)"

lemma client_error_classes:
  "exn_cls e \<in> {InvalidTokenError, AuthenticationError, TooManyLoginAttemptsError, ProductNotFoundError,
     SlugAlreadyExistsError, ConflictError, InvalidSlugError, InvalidPriceError, InvalidDeliveryUrlError} \<Longrightarrow> client_error e"
  by (auto simp: client_error_def isinstance_def status_code_def class_attr_step)

lemma client_errors [simp]:
  "client_error (err InvalidTokenError ds)" "client_error (err_msg InvalidTokenError m ds)"
  "client_error (err AuthenticationError ds)" "client_error (err TooManyLoginAttemptsError ds)"
  "client_error (err ProductNotFoundError ds)" "client_error (err SlugAlreadyExistsError ds)"
  "client_error (err_msg ConflictError m ds)" "client_error (err_msg InvalidSlugError m ds)"
  "client_error (err InvalidPriceError ds)" "client_error (err InvalidDeliveryUrlError ds)"
  by (rule client_error_classes, simp)+

lemma client_error_status: "client_error e \<Longrightarrow> hr_status (error_response e) \<noteq> 500"
  by (auto simp: client_error_def error_response_def handle_app_error_def render_def respond_def)

subsection \<open>What the schemas let through can be stored\<close>

definition url_unreadable :: "env \<Rightarrow> string \<Rightarrow> bool" where
  \<comment> \<open>\<open>urlparse\<close> raises\<close>
  "url_unreadable E url = (case urlparse (env_netloc_ok E) (py_strip url) of Inl e \<Rightarrow> True | Inr _ \<Rightarrow> False)"

lemma delivery_url_error:
  "validate_delivery_url (env_netloc_ok E) url = Inl e \<Longrightarrow> client_error e \<or> url_unreadable E url"
  by (auto simp: validate_delivery_url_def Let_def url_unreadable_def split: sum.splits prod.splits if_splits)

lemma length_py_strip: "length (py_strip s) \<le> length s"
proof -
  have "length (dropWhile P s) \<le> length s" for P and s :: string by (rule length_dropWhile_le)
  then show ?thesis unfolding py_strip_def py_lstrip_def py_rstrip_def by (metis length_rev le_trans)
qed

lemma slug_body_length: "slug_body s \<Longrightarrow> length s \<le> slug_max_length"
  by (simp add: slug_body_def)

lemma stars_fit: "stars_ok (Some n) \<Longrightarrow> 0 < n \<and> fits_int 32 n"
  by (simp add: stars_ok_def fits_int_def)

lemma usdt_fit: "usdt_ok (Some x) \<Longrightarrow> 0 < x \<and> numeric_round 2 x = x \<and> fits_numeric 12 2 x"
proof -
  assume ok: "usdt_ok (Some x)"
  then have "numeric_round 2 x = x" by (intro numeric_round_cents) (simp_all add: usdt_ok_def)
  with ok show ?thesis by (simp add: usdt_ok_def fits_numeric_def)
qed

lemma storable_fields:
  assumes "slug_body (pr_slug p)" and "length (pr_title p) \<le> 255" and "photo_ok (pr_photo_file_id p)"
    and "pr_price_stars p \<noteq> None \<or> pr_price_usdt p \<noteq> None"
    and "\<And>n. pr_price_stars p = Some n \<Longrightarrow> 0 < n \<and> fits_int 32 n"
    and "\<And>x. pr_price_usdt p = Some x \<Longrightarrow> 0 < x \<and> numeric_round 2 x = x \<and> fits_numeric 12 2 x"
  shows "storable_product p"
proof -
  have "product_fits p"
    using assms slug_body_length by (auto simp: product_fits_def photo_ok_def fits_string_def split: option.splits)
  moreover have "product_violation [] (product_stored p) = None"
    using assms by (auto simp: product_violation_def first_violation_def key_free_def split: option.splits)
  ultimately show ?thesis by (simp add: storable_product_def)
qed

lemma storable_draft:
  assumes "create_request_ok r" and "to_draft r = Inr draft" and "prepare_draft E draft = Inr prepared"
  shows "storable_product (new_product new_id now prepared)"
proof -
  from assms(2,3) have p: "pd_title prepared = py_strip (cq_title r)" "slug_body (pd_slug prepared)"
    "pd_photo_file_id prepared = cq_photo_file_id r" "pd_price_stars prepared = cq_price_stars r"
    "pd_price_usdt prepared = cq_price_usdt r"
    by (auto simp: to_draft_def prepare_draft_def mk_product_draft_def split: sum.splits if_splits
        dest: normalise_slug_ok)
  have "length (cq_title r) \<le> 255" using assms(1) by (simp add: create_request_ok_def title_ok_def)
  then have "length (py_strip (cq_title r)) \<le> 255" using length_py_strip le_trans by blast
  moreover have "0 < n \<and> fits_int 32 n" if "cq_price_stars r = Some n" for n
    using assms(1) that by (intro stars_fit) (simp add: create_request_ok_def)
  moreover have "0 < x \<and> numeric_round 2 x = x \<and> fits_numeric 12 2 x" if "cq_price_usdt r = Some x" for x
    using assms(1) that by (intro usdt_fit) (simp add: create_request_ok_def)
  ultimately show ?thesis
    using assms(1) p
    by (intro storable_fields) (auto simp: new_product_def create_request_ok_def at_least_one_price_def)
qed

lemma prepare_draft_error:
  "to_draft r = Inr draft \<Longrightarrow> prepare_draft E draft = Inl e \<Longrightarrow> client_error e \<or> url_unreadable E (cq_delivery_url r)"
  using delivery_url_error [of E "cq_delivery_url r"]
  by (auto simp: to_draft_def prepare_draft_def mk_product_draft_def normalise_slug_cases split: sum.splits if_splits)

lemma create_product_errors:
  assumes "create_request_ok r" and "\<And>p. p \<in> set (products (db w)) \<Longrightarrow> pr_id p \<noteq> env_uuid4 E (uuids_drawn w)"
  shows "fails_as (\<lambda>e. client_error e \<or> url_unreadable E (cq_delivery_url r)) (create_product E r) w"
  unfolding create_product_def svc_create_product_def
proof (intro fails_rules, goal_cases)
  case 1
  show ?case by (auto simp: to_draft_def mk_product_draft_def)
next
  case (2 draft s)
  then show ?case using prepare_draft_error by (auto split: sum.split)
next
  case (3 draft s prepared s')
  then show ?case by (simp add: new_uuid_def fails_as_def)
next
  case (4 draft s prepared s' new_id v)
  then have v: "new_id = env_uuid4 E (uuids_drawn w)" "db v = db w" "storable_product (new_product new_id (clock v) prepared)"
    using storable_draft [OF assms(1)] by (auto simp: new_uuid_def)
  show ?case
    using product_create_run [OF v(3)] assms(2) v(1,2) by (simp add: fails_as_def)
next
  case (5 draft s p s')
  then show ?case by simp
qed

definition patch_url_unreadable :: "env \<Rightarrow> product_patch_request \<Rightarrow> bool" where
  "patch_url_unreadable E r = (case qq_delivery_url r of Supplied (Some url) \<Rightarrow> url_unreadable E url | _ \<Rightarrow> False)"

lemma prepare_changes_error:
  assumes "prepare_changes E (to_update r) = Inl e"
  shows "client_error e \<or> patch_url_unreadable E r"
proof -
  from assms consider (slug) s where "normalise_slug s = Inl e"
    | (url) url where "qq_delivery_url r = Supplied (Some url)" "validate_delivery_url (env_netloc_ok E) url = Inl e"
    by (auto simp: prepare_changes_def to_update_def split: sum.splits maybe.splits elim!: unwrap.elims)
  then show ?thesis
  proof cases
    case slug
    then show ?thesis by (auto simp: normalise_slug_cases split: if_splits)
  next
    case url
    then show ?thesis using delivery_url_error by (auto simp: patch_url_unreadable_def)
  qed
qed

lemma prepared_fields:
  assumes "prepare_changes E (to_update r) = Inr u"
  shows "up_slug u = Supplied s \<Longrightarrow> slug_body s"
    and "up_title u = (case qq_title r of Supplied (Some t) \<Rightarrow> Supplied (py_strip t) | _ \<Rightarrow> UNSET)"
    and "up_photo_file_id u = qq_photo_file_id r" "up_price_stars u = qq_price_stars r" "up_price_usdt u = qq_price_usdt r"
  using assms
  by (auto simp: prepare_changes_def to_update_def normalise_slug_cases
      split: sum.splits maybe.splits option.splits if_splits elim!: unwrap.elims)

lemma maybe_or_cases: "maybe_or m x = y \<Longrightarrow> (m = UNSET \<Longrightarrow> x = y \<Longrightarrow> P) \<Longrightarrow> (m = Supplied y \<Longrightarrow> P) \<Longrightarrow> P"
  by (cases m) auto

lemma storable_patch:
  assumes "patch_request_ok r" and "prepare_changes E (to_update r) = Inr u"
    and "product_row_ok p" and "ensure_still_purchasable p u = Inr ()"
  shows "storable_product (patched p u)"
proof (rule storable_fields)
  have fits: "product_fits p" and stored: "product_stored p = p" using assms(3) by (simp_all add: product_row_ok_def)
  note u = prepared_fields [OF assms(2)]
  show "slug_body (pr_slug (patched p u))"
    using u(1) assms(3) by (cases "up_slug u") (simp_all add: patched_def product_row_ok_def)
  have "length (py_strip t) \<le> 255" if "qq_title r = Supplied (Some t)" for t
    using assms(1) that length_py_strip [of t] by (simp add: patch_request_ok_def title_ok_def)
  then show "length (pr_title (patched p u)) \<le> 255"
    using fits by (auto simp: patched_def u(2) product_fits_def split: maybe.split option.split)
  show "photo_ok (pr_photo_file_id (patched p u))"
    using fits assms(1)
    by (auto simp: patched_def u(3) product_fits_def fits_string_def photo_ok_def patch_request_ok_def
        split: option.splits elim!: maybe_or_cases)
  show "pr_price_stars (patched p u) \<noteq> None \<or> pr_price_usdt (patched p u) \<noteq> None"
    using assms(4) by (auto simp: patched_def ensure_still_purchasable_def split: if_splits)
  show "0 < n \<and> fits_int 32 n" if "pr_price_stars (patched p u) = Some n" for n
    using that assms(1,3) stars_fit [of n]
    by (auto simp: patched_def u(4) patch_request_ok_def product_row_ok_def product_fits_def elim!: maybe_or_cases)
  have "numeric_round 2 x = x" if "pr_price_usdt p = Some x" for x
    using arg_cong [OF stored, of pr_price_usdt] that by simp
  then show "0 < x \<and> numeric_round 2 x = x \<and> fits_numeric 12 2 x" if "pr_price_usdt (patched p u) = Some x" for x
    using that assms(1,3) usdt_fit [of x]
    by (auto simp: patched_def u(5) patch_request_ok_def product_row_ok_def product_fits_def elim!: maybe_or_cases)
qed

lemma svc_get_product_errors: "fails_as client_error (svc_get_product i) w"
  unfolding svc_get_product_def
  by (intro fails_rules) (auto simp: fails_as_def product_found_def split: option.split)

lemma update_in_uow_errors:
  assumes "db_ok d" and "patch_request_ok r" and "prepare_changes E (to_update r) = Inr u"
  shows "fails_as client_error (bindM (product_get i) (\<lambda>m. bindM (product_or_404 i m) (\<lambda>current.
     thenM (liftE (ensure_still_purchasable current u)) (product_update_row now i u)))) d"
proof (cases "List.find (\<lambda>p. pr_id p = i) (products d)")
  case None
  then show ?thesis by (simp add: fails_as_def bindM_run product_or_404_def)
next
  case (Some p)
  then have p: "p \<in> set (products d)" "pr_id p = i" using find_SomeD by fastforce+
  have "product_row_ok p" using db_okD(3) [OF assms(1)] p(1) by (simp add: list_all_iff)
  then have "fails_as client_error (product_update_row now i u) d" if "ensure_still_purchasable p u = Inr ()"
    using product_update_run [OF assms(1) p(1) storable_patch [OF assms(2,3) _ that], of now] p(2)
    by (auto simp: fails_as_def)
  then show ?thesis
    by (auto simp: fails_as_def bindM_run thenM_run product_or_404_def Some ensure_still_purchasable_def
        split: sum.split prod.split)
qed

lemma update_product_errors:
  assumes "db_ok (db w)" and "patch_request_ok r"
  shows "fails_as (\<lambda>e. client_error e \<or> patch_url_unreadable E r) (update_product E i r) w"
proof (cases "patch_is_empty r")
  case True
  show ?thesis unfolding update_product_def if_P [OF True]
    by (rule fails_as_bindM [OF fails_as_mono [OF svc_get_product_errors]]) simp_all
next
  case False
  have "fails_as (\<lambda>e. client_error e \<or> patch_url_unreadable E r) (svc_update_product E i (to_update r)) w"
    unfolding svc_update_product_def
  proof (rule fails_as_bindM)
    show "fails_as (\<lambda>e. client_error e \<or> patch_url_unreadable E r) (liftE (prepare_changes E (to_update r))) w"
      using prepare_changes_error by (auto split: sum.split)
  next
    fix u v
    assume "liftE (prepare_changes E (to_update r)) w = (Inr u, v)"
    then have u: "prepare_changes E (to_update r) = Inr u" and v: "v = w" by simp_all
    show "fails_as (\<lambda>e. client_error e \<or> patch_url_unreadable E r) (in_uow (\<lambda>now. bindM (product_get i) (\<lambda>m.
         bindM (product_or_404 i m) (\<lambda>current. thenM (liftE (ensure_still_purchasable current u)) (product_update_row now i u))))) v"
      unfolding v by (rule fails_as_in_uow, rule fails_as_mono [OF update_in_uow_errors [OF assms u]]) simp
  qed
  then show ?thesis unfolding update_product_def if_not_P [OF False] by (rule fails_as_bindM) simp
qed

subsection \<open>The other endpoints\<close>

lemma page_request_errors: "page_ok limit offset \<Longrightarrow> fails_as Q (get_page_request limit offset) w"
  by (simp add: get_page_request_def mk_page_request_def page_ok_def)

lemma list_products_errors: "page_ok limit offset \<Longrightarrow> fails_as Q (list_products_page E limit offset search is_active) w"
  unfolding list_products_page_def svc_list_products_def list_products_def
  by (intro fails_rules page_request_errors) simp_all

lemma get_product_errors: "fails_as client_error (get_product E i) w"
  unfolding get_product_def by (rule fails_as_bindM [OF svc_get_product_errors]) simp

lemma delete_product_errors: "fails_as client_error (delete_product i) w"
  unfolding delete_product_def svc_delete_product_def product_delete_def
  by (intro fails_rules)
    (auto simp: fails_as_def reread_product_run flush_run delete_product_row_def sold_def list_ex_iff filter_empty_conv
      split: option.splits)

lemma matching_ids_error: "matching_ids d t = Inl e \<Longrightarrow> \<not> readable_term t"
  using matching_ids_readable [of t d] by auto

lemma search_purchases_errors:
  assumes "page_ok limit offset"
  shows "fails_as (\<lambda>e. truthy search \<and> \<not> readable_term (search_term (the search)))
     (search_purchases_page limit offset search statuses) w"
  unfolding search_purchases_page_def svc_search_purchases_def
  by (intro fails_rules page_request_errors [OF assms])
    (auto simp: fails_as_def search_purchases_def purchase_conditions_def Let_def split: sum.splits if_splits
      dest: matching_ids_error)

lemma revenue_errors: "db_ok d \<Longrightarrow> fails_as (\<lambda>_. sums_overflow d) (revenue now period) d"
  by (auto simp: fails_as_iff revenue_def bindM_run split: sum.splits dest: amount_in_overflow)

lemma overview_reads:
  "revenue now period d = (Inr x, d') \<Longrightarrow> d' = d" "top_products now period limit d = (Inr y, d') \<Longrightarrow> d' = d"
  by (auto simp: revenue_def bindM_run top_products_def Let_def split: sum.splits)

lemma overview_in_errors:
  assumes "db_ok d"
  shows "fails_as (\<lambda>_. sums_overflow d) (overview_in top_limit recent_limit now) d"
proof -
  have top: "fails_as (\<lambda>_. sums_overflow d) (top_products now period limit) d" for period limit
    using top_products_overflow [OF assms] by (auto simp: fails_as_iff)
  show ?thesis unfolding overview_in_def
    by (intro fails_rules)
      (auto simp: recent_purchases_def product_count_def user_count_def revenue_errors [OF assms] top dest!: overview_reads)
qed

lemma overview_errors: "db_ok (db w) \<Longrightarrow> fails_as (\<lambda>_. sums_overflow (db w)) overview w"
  unfolding overview_def svc_overview_def by (intro fails_rules overview_in_errors) simp_all

lemma authenticate_errors: "fails_as (\<lambda>e. exn_cls e = InvalidTokenError) (authenticate E token kind) w"
  unfolding fails_as_iff using authenticate_run [of E token kind w] by fastforce

lemma current_admin_errors: "fails_as client_error (get_current_admin E cred) w"
  by (auto simp: get_current_admin_def split: option.split
      intro: fails_as_mono [OF authenticate_errors] client_error_classes)

lemma current_admin_same: "get_current_admin E cred w = (r, w') \<Longrightarrow> w' = w"
  by (auto simp: get_current_admin_def split: option.splits if_splits dest: authenticate_run)

lemma issue_pair_errors: "fails_as Q (issue_pair E username) w"
  unfolding issue_pair_def by (intro fails_rules) (simp_all add: fails_as_def utc_now_def encode_token_run)

definition counter_broken :: "world \<Rightarrow> string \<Rightarrow> bool" where
  \<comment> \<open>the key of the limiter holds something INCR cannot count\<close>
  "counter_broken w key = (r_incr (now_ms (clock w)) (rate_name key) (redis w) = None)"

lemma login_errors:
  "fails_as (\<lambda>e. client_error e \<or> counter_broken w (client_key host (lq_username p))) (login E host p) w"
  unfolding login_def Let_def
proof (rule fails_as_bindM)
  show "fails_as (\<lambda>e. client_error e \<or> counter_broken w (client_key host (lq_username p)))
    (rate_hit (client_key host (lq_username p)) (sec_login_rate_limit (security E)) (sec_login_rate_window_seconds (security E))) w"
    by (simp add: fails_as_def rate_hit_def counter_broken_def Let_def split: option.split prod.split)
qed (auto simp: auth_login_def Let_def rate_reset_def intro!: fails_rules issue_pair_errors)

lemma refresh_errors: "fails_as client_error (refresh E p c) w"
proof -
  have "fails_as client_error (auth_refresh E token) w" for token
    unfolding auth_refresh_def auth_revoke_def revoke_def
    by (intro fails_rules fails_as_mono [OF authenticate_errors] issue_pair_errors) (simp_all add: client_error_classes)
  from fails_as_bindM [OF this, of _ "\<lambda>tokens. ret (token_reply E tokens)"] show ?thesis
    by (simp add: refresh_def Let_def)
qed

lemma logout_errors: "fails_as Q (logout E p c) w"
proof -
  have "fails_as (\<lambda>e. exn_cls e = InvalidTokenError) (auth_logout E token) v" for token v
    unfolding auth_logout_def auth_revoke_def revoke_def
    by (intro fails_rules authenticate_errors) simp
  then have "fails_as Q (catchM (auth_logout E token) (on_class [InvalidTokenError] (\<lambda>_. ret ()))) v" for token v
    by (rule fails_as_catchM) (simp add: on_class_def isinstance_def)
  then have "fails_as Q (thenM (catchM (auth_logout E token) (on_class [InvalidTokenError] (\<lambda>_. ret ()))) (ret x)) v" for token v and x :: http_response
    by (rule fails_as_thenM) simp
  then show ?thesis by (simp add: logout_def Let_def)
qed

subsection \<open>When a call is answered with 500\<close>

definition internal :: "api_request \<Rightarrow> bool" where
  \<comment> \<open>everything but the two endpoints that talk to a payment provider or to Telegram\<close>
  "internal rq = (case rq of VerifyPayment i \<Rightarrow> False | ResendDelivery i \<Rightarrow> False | _ \<Rightarrow> True)"

definition crash_cause :: "env \<Rightarrow> world \<Rightarrow> api_call \<Rightarrow> bool" where
  "crash_cause E w call = (case ac_request call of
      Login p \<Rightarrow> counter_broken w (client_key (ac_host call) (lq_username p))
    | CreateProduct r \<Rightarrow> url_unreadable E (cq_delivery_url r)
    | PatchProduct i r \<Rightarrow> patch_url_unreadable E r
    | SearchPurchases limit offset search statuses \<Rightarrow> truthy search \<and> \<not> readable_term (search_term (the search))
    | Overview \<Rightarrow> sums_overflow (db w)
    | _ \<Rightarrow> False)"

lemma validated_errors:
  "(request_ok rq \<Longrightarrow> fails_as Q m w) \<Longrightarrow> fails_as Q (validated errors rq m) w"
  by (simp add: validated_def)

lemma admin_endpoint_errors:
  assumes "db_ok (db w)" and "\<And>p. p \<in> set (products (db w)) \<Longrightarrow> pr_id p \<noteq> env_uuid4 E (uuids_drawn w)"
    and "internal (ac_request call)" and "request_ok (ac_request call)"
  shows "fails_as (\<lambda>e. client_error e \<or> crash_cause E w call) (admin_endpoint E (ac_request call) admin) w"
proof (cases "ac_request call")
  case (CreateProduct r)
  then show ?thesis using create_product_errors [of r w E] assms(2,4) by (simp add: crash_cause_def)
next
  case (PatchProduct i r)
  then show ?thesis using update_product_errors [OF assms(1), of r E i] assms(4) by (simp add: crash_cause_def)
next
  case (SearchPurchases limit offset search statuses)
  then show ?thesis
    using assms(4) by (auto simp: crash_cause_def intro: fails_as_mono [OF search_purchases_errors])
next
  case Overview
  then show ?thesis by (auto simp: crash_cause_def intro: fails_as_mono [OF overview_errors [OF assms(1)]])
next
  case (ListProducts limit offset search is_active)
  then show ?thesis using assms(4) by (simp add: list_products_errors)
next
  case (GetProduct i)
  then show ?thesis by (auto intro: fails_as_mono [OF get_product_errors])
next
  case (DeleteProduct i)
  then show ?thesis by (auto intro: fails_as_mono [OF delete_product_errors])
qed (use assms(3) in \<open>simp_all add: internal_def\<close>)

lemma open_endpoint_errors:
  assumes "open_endpoint E checks call = Some m"
  shows "fails_as (\<lambda>e. client_error e \<or> crash_cause E w call) m w"
  using assms login_errors [of w "ac_host call" _ E] refresh_errors logout_errors
  by (auto simp: open_endpoint_def crash_cause_def split: api_request.splits intro: fails_as_mono)

lemma endpoint_errors:
  assumes "db_ok (db w)" and "\<And>p. p \<in> set (products (db w)) \<Longrightarrow> pr_id p \<noteq> env_uuid4 E (uuids_drawn w)"
    and "internal (ac_request call)"
  shows "fails_as (\<lambda>e. client_error e \<or> crash_cause E w call) (endpoint E checks errors call) w"
proof (cases "open_endpoint E checks call")
  case (Some m)
  then show ?thesis unfolding endpoint_def
    by (simp add: validated_errors open_endpoint_errors)
next
  case None
  have "fails_as (\<lambda>e. client_error e \<or> crash_cause E w call) (as_admin E call (\<lambda>admin.
      validated errors (ac_request call) (admin_endpoint E (ac_request call) admin))) w"
    unfolding as_admin_def
  proof (rule fails_as_bindM [OF fails_as_mono [OF current_admin_errors]])
    fix admin v
    assume "get_current_admin E (ac_bearer call) w = (Inr admin, v)"
    then have "v = w" by (rule current_admin_same)
    then show "fails_as (\<lambda>e. client_error e \<or> crash_cause E w call)
        (validated errors (ac_request call) (admin_endpoint E (ac_request call) admin)) v"
      using admin_endpoint_errors [OF assms] by (simp add: validated_errors)
  qed simp
  with None show ?thesis by (simp add: endpoint_def)
qed

lemma yields_status: "yields (\<lambda>r. hr_status r \<noteq> 500) (endpoint E checks errors call)"
proof -
  have reply: "hr_status (handle_validation_error es) \<noteq> 500" for es
    by (simp add: handle_validation_error_def render_def respond_def)
  have "yields (\<lambda>r. hr_status r \<noteq> 500) (admin_endpoint E rq admin)" for rq admin
    by (cases "(E, rq, admin)" rule: admin_endpoint.cases)
      (simp_all add: list_products_page_def create_product_def get_product_def update_product_def
        delete_product_def search_purchases_page_def verify_payment_manually_def resend_delivery_def overview_def
        yields_ret yields_rules respond_def)
  moreover have "yields (\<lambda>r. hr_status r \<noteq> 500) m" if "open_endpoint E checks call = Some m" for m
    using that
    by (auto simp: open_endpoint_def login_def refresh_def logout_def Let_def yields_ret respond_def token_reply_def
        readiness_def split: api_request.splits intro!: yields_rules)
  ultimately show ?thesis
    by (auto simp: endpoint_def as_admin_def validated_def yields_ret reply split: option.split intro!: yields_bindM)
qed



text \<open>The first cause is real: an administrator who sends such a link, in a valid request, gets the 500.\<close>

lemma unreadable_link_is_internal_error:
  assumes "create_request_ok r" and "url_unreadable E (cq_delivery_url r)" and "get_current_admin E cred w = (Inr a, w)"
  shows "serve E checks errors \<lparr>ac_host = h, ac_bearer = cred, ac_cookie = c, ac_request = CreateProduct r\<rparr> w
     = (Inr handle_unexpected_error, w)"
proof -
  have slug: "normalise_slug (cq_slug r) = Inr (cq_slug r)"
    using assms(1) by (simp add: create_request_ok_def normalise_slug_cases py_strip_slug_body)
  obtain e where url: "urlparse (env_netloc_ok E) (py_strip (cq_delivery_url r)) = Inl e" "exn_cls e = ValueError"
    using assms(2) by (auto simp: url_unreadable_def urlparse_def Let_def split: sum.splits prod.splits if_splits)
  obtain draft where draft: "to_draft r = Inr draft" "pd_slug draft = cq_slug r" "pd_delivery_url draft = cq_delivery_url r"
    using assms(1) by (auto simp: to_draft_def mk_product_draft_def create_request_ok_def at_least_one_price_def)
  then have "prepare_draft E draft = Inl e"
    using slug url by (simp add: prepare_draft_def validate_delivery_url_def Let_def)
  then have "create_product E r w = (Inl e, w)"
    using draft by (simp add: create_product_def bindM_run svc_create_product_def)
  moreover have "error_response e = handle_unexpected_error" using url(2) by (simp add: error_response_def isinstance_def)
  ultimately show ?thesis
    using assms(1,3) by (simp add: serve_run endpoint_def open_endpoint_def as_admin_def bindM_run validated_def)
qed

end
