(* ===== verification/UnitOfWork.thy ===== *)
theory UnitOfWork
  imports PurchaseRepo
begin

section \<open>The unit of work under faults\<close>

text \<open>
  \<^verbatim>\<open>infrastructure/db/uow.py\<close> and \<open>Database.session\<close> of \<^verbatim>\<open>infrastructure/db/engine.py\<close>, over a session of
  SQLAlchemy: what is committed, and what the open transaction sees. A \<open>line\<close> says how the connection
  behaves: whether a COMMIT or a ROLLBACK raises, and whether a COMMIT whose answer was lost took
  effect at the server. Closing a session gives its connection back and discards an open transaction.
  \<open>in_uow\<close>, in which all use cases are modelled, is what a unit of work does on a line that holds.
\<close>

subsection \<open>Sessions\<close>

record session_state =
  ss_committed :: database
  ss_transaction :: database

record line =
  ln_commit :: "exn option"
  ln_commit_reached :: bool
  ln_rollback :: "exn option"

type_synonym 'a on_session = "(exn, session_state, 'a) prog"

definition session_begin :: "database \<Rightarrow> session_state" where
  "session_begin d = \<lparr>ss_committed = d, ss_transaction = d\<rparr>"

definition session_commit :: "line \<Rightarrow> unit on_session" where
  "session_commit L = (\<lambda>s. case ln_commit L of
      None \<Rightarrow> (Inr (), s\<lparr>ss_committed := ss_transaction s\<rparr>)
    | Some e \<Rightarrow> (Inl e, if ln_commit_reached L then s\<lparr>ss_committed := ss_transaction s\<rparr> else s))"

definition session_rollback :: "line \<Rightarrow> unit on_session" where
  "session_rollback L = (\<lambda>s. case ln_rollback L of
      None \<Rightarrow> (Inr (), s\<lparr>ss_transaction := ss_committed s\<rparr>)
    | Some e \<Rightarrow> (Inl e, s))"

definition session_close :: "unit on_session" where
  "session_close = modifyM (\<lambda>s. s\<lparr>ss_transaction := ss_committed s\<rparr>)"

definition on_transaction :: "(exn, database, 'a) prog \<Rightarrow> 'a on_session" where
  \<comment> \<open>the repositories work on the session\<close>
  "on_transaction m = (\<lambda>s. case m (ss_transaction s) of (r, d) \<Rightarrow> (r, s\<lparr>ss_transaction := d\<rparr>))"

subsection \<open>The two context managers\<close>

definition uow_block :: "line \<Rightarrow> (exn, database, 'a) prog \<Rightarrow> 'a on_session" where
  \<comment> \<open>\<open>SqlAlchemyUnitOfWorkFactory.__call__\<close> around a block\<close>
  "uow_block L body =
     finallyM
       (bindM (catchM (on_transaction body)
                 (\<lambda>e. Some (thenM (session_rollback L) (throw e))))
         (\<lambda>x. thenM (session_commit L) (ret x)))
       session_close"

definition database_session :: "line \<Rightarrow> (exn, database, 'a) prog \<Rightarrow> 'a on_session" where
  \<comment> \<open>\<open>Database.session\<close>: here the COMMIT is inside the \<open>try\<close>\<close>
  "database_session L body =
     finallyM
       (catchM (bindM (on_transaction body) (\<lambda>x. thenM (session_commit L) (ret x)))
         (\<lambda>e. Some (thenM (session_rollback L) (throw e))))
       session_close"

definition run_uow :: "line \<Rightarrow> (datetime \<Rightarrow> (exn, database, 'a) prog) \<Rightarrow> 'a action" where
  "run_uow L body = (\<lambda>w. case uow_block L (body (clock w)) (session_begin (db w)) of
      (r, s) \<Rightarrow> (r, w\<lparr>db := ss_committed s\<rparr>))"

definition line_holds :: "line \<Rightarrow> bool" where
  "line_holds L = (ln_commit L = None \<and> ln_rollback L = None)"

subsection \<open>All or nothing\<close>

lemmas session_defs = on_transaction_def session_begin_def session_commit_def session_rollback_def session_close_def

lemma uow_block_run:
  "uow_block L body (session_begin d) = (case body d of
      (Inl e, d') \<Rightarrow> (Inl (case ln_rollback L of None \<Rightarrow> e | Some e' \<Rightarrow> e'), session_begin d)
    | (Inr x, d') \<Rightarrow> (case ln_commit L of
          None \<Rightarrow> (Inr x, session_begin d')
        | Some e \<Rightarrow> (Inl e, session_begin (if ln_commit_reached L then d' else d))))"
  by (simp add: uow_block_def prog_simps session_defs split: prod.split sum.split option.split)

lemma database_session_run:
  "ln_commit L = None \<Longrightarrow> database_session L body (session_begin d) = uow_block L body (session_begin d)"
  by (simp add: uow_block_def database_session_def prog_simps session_defs split: prod.split sum.split option.split)

lemma run_uow_run:
  "run_uow L body w = (case body (clock w) (db w) of
      (Inl e, d') \<Rightarrow> (Inl (case ln_rollback L of None \<Rightarrow> e | Some e' \<Rightarrow> e'), w)
    | (Inr x, d') \<Rightarrow> (case ln_commit L of
          None \<Rightarrow> (Inr x, w\<lparr>db := d'\<rparr>)
        | Some e \<Rightarrow> (Inl e, if ln_commit_reached L then w\<lparr>db := d'\<rparr> else w)))"
  unfolding run_uow_def uow_block_run by (simp add: session_begin_def split: prod.split sum.split option.split)

text \<open>The contract of \<open>UnitOfWorkFactory\<close> in \<^verbatim>\<open>domain/uow.py\<close>, which the services rely on, and who keeps it.\<close>

definition uow_contract :: "((datetime \<Rightarrow> (exn, database, 'a) prog) \<Rightarrow> 'a action) \<Rightarrow> bool" where
  \<comment> \<open>the scope commits when the block exits normally and rolls back on any exception\<close>
  "uow_contract run = (\<forall>body w. case body (clock w) (db w) of
      (Inr x, d) \<Rightarrow> run body w = (Inr x, w\<lparr>db := d\<rparr>)
    | (Inl e, d) \<Rightarrow> (\<exists>e'. run body w = (Inl e', w)))"

lemma factory_keeps_the_contract: "ln_commit L = None \<Longrightarrow> uow_contract (run_uow L)"
  by (auto simp: uow_contract_def run_uow_run split: prod.split sum.split)

lemma in_uow_keeps_the_contract: "uow_contract in_uow"
  by (auto simp: uow_contract_def in_uow_def split: prod.split sum.split)

text \<open>
  C4. A unit of work is atomic whatever the line does. Either everything its block did is committed or
  nothing is, and nothing outside the database changes; when it ends normally everything is committed,
  and when the block itself raised, nothing. The one doubtful case is a COMMIT that raises: then the
  caller gets the error of the COMMIT and cannot tell. On a line that holds it is exactly \<open>in_uow\<close>, the
  transaction all use cases of this development run in.
\<close>

theorem unit_of_work_is_atomic:
  assumes "run_uow L body w = (r, w')"
  shows "(w' = w \<or> (\<exists>x d. body (clock w) (db w) = (Inr x, d) \<and> w' = w\<lparr>db := d\<rparr>))
     \<and> (\<forall>x. r = Inr x \<longrightarrow> (\<exists>d. body (clock w) (db w) = (Inr x, d) \<and> w' = w\<lparr>db := d\<rparr>))
     \<and> (\<forall>e d. body (clock w) (db w) = (Inl e, d) \<longrightarrow> w' = w \<and> r \<in> {Inl e} \<union> Inl ` set_option (ln_rollback L))
     \<and> (line_holds L \<longrightarrow> (r, w') = in_uow body w)"
  using assms
  by (auto simp: run_uow_run in_uow_def line_holds_def split: prod.splits sum.splits option.splits if_splits)

text \<open>
  A payment notification whose COMMIT was answered by a broken connection: the payment is recorded, the
  caller sees the error.
\<close>

theorem unit_of_work_is_atomic_witness:
  "\<exists>r w'. run_uow \<lparr>ln_commit = Some (other_exn OSError ''gone''), ln_commit_reached = True, ln_rollback = None\<rparr>
       (\<lambda>now. mark_paid now 10 None (Some ''ch'')) (sample_world [sample_purchase EXPIRED]) = (r, w')
     \<and> r = Inl (other_exn OSError ''gone'') \<and> map pu_status (purchases (db w')) = [PAID]
     \<and> redis w' = redis (sample_world [])"
proof -
  let ?L = "\<lparr>ln_commit = Some (other_exn OSError ''gone''), ln_commit_reached = True, ln_rollback = None\<rparr>"
  let ?body = "\<lambda>now. mark_paid now 10 None (Some ''ch'')" and ?w = "sample_world [sample_purchase EXPIRED]"
  obtain r w' where run: "run_uow ?L ?body ?w = (r, w')" by (cases "run_uow ?L ?body ?w")
  have body: "mark_paid 1000000 10 None (Some ''ch'') (sample_db [sample_purchase EXPIRED]) =
      (Inr (paid_version 1000000 None (Some ''ch'') (sample_purchase EXPIRED)),
       sample_db [paid_version 1000000 None (Some ''ch'') (sample_purchase EXPIRED)])"
    using mark_paid_unpaid [of "sample_db [sample_purchase EXPIRED]" "sample_purchase EXPIRED" "Some ''ch''" 1000000 None]
    by (simp add: fits_string_def charge_taken_def owns_def replace_row_def)
  have "redis w' = redis ?w" using unit_of_work_is_atomic [OF run] by auto
  moreover have "r = Inl (other_exn OSError ''gone'') \<and> map pu_status (purchases (db w')) = [PAID]"
    using run by (auto simp: run_uow_run body)
  ultimately show ?thesis using run by (auto simp: sample_world_def)
qed

subsection \<open>A confirmation whose answer was lost\<close>

text \<open>
  Whoever confirms a payment and loses the connection at the COMMIT may simply confirm it again: either
  nothing was recorded, or the second confirmation finds the first one and returns the same purchase.
\<close>

lemma lost_commit_is_confirmed_again:
  assumes "db_ok (db w)" and "mark_paid (clock w) i paid_at charge (db w) = (Inr q, d)"
    and "run_uow L (\<lambda>now. mark_paid now i paid_at charge) w = (r, v)"
  shows "v = w \<or> in_uow (\<lambda>now. mark_paid now i paid_at' charge) (v\<lparr>clock := t\<rparr>) = (Inr q, v\<lparr>clock := t\<rparr>)"
  using assms(2,3) mark_paid_replay [OF assms(1,2), of t paid_at']
  by (auto simp: run_uow_run in_uow_run split: option.splits if_splits)

end
