(* ===== verification/Wiring.thy ===== *)
theory Wiring
  imports Runtime System
begin

section \<open>The composition root\<close>

text \<open>
  \<^verbatim>\<open>core/container.py\<close>, \<open>Resources.create\<close>, the constructors of the clients and services,
  \<^verbatim>\<open>infrastructure/telegram/factory.py\<close>, \<^verbatim>\<open>bot/factory.py\<close>, \<open>_start_workers\<close> and the dependency providers of
  \<^verbatim>\<open>api/deps.py\<close>. An object is the record of what it was constructed with; a pool is told apart by where it
  connects to. Elsewhere the operations of the services take the one record \<open>env\<close>: here is shown that the
  objects a process wires up hold exactly the settings those operations read from it.
\<close>

subsection \<open>Clients\<close>

record database_client =
  dc_dsn :: string
  dc_echo :: bool
  dc_pool_size :: int
  dc_max_overflow :: int
  dc_pool_timeout :: rat
  dc_pool_recycle :: int
  dc_pool_pre_ping :: bool
  dc_expire_on_commit :: bool
  dc_autoflush :: bool

definition database_init :: "postgres_settings \<Rightarrow> database_client" where
  "database_init s = \<lparr>dc_dsn = postgres_dsn s, dc_echo = pg_echo s, dc_pool_size = pg_pool_size s,
     dc_max_overflow = pg_max_overflow s, dc_pool_timeout = pg_pool_timeout s,
     dc_pool_recycle = pg_pool_recycle s, dc_pool_pre_ping = True, dc_expire_on_commit = False,
     dc_autoflush = False\<rparr>"

record redis_client =
  rc_dsn :: string
  rc_max_connections :: int
  rc_socket_timeout :: rat
  rc_socket_connect_timeout :: rat
  rc_decode_responses :: bool
  rc_health_check_interval :: int

definition redis_init :: "redis_settings \<Rightarrow> redis_client" where
  "redis_init s = \<lparr>rc_dsn = redis_dsn s, rc_max_connections = rs_max_connections s,
     rc_socket_timeout = rs_socket_timeout s, rc_socket_connect_timeout = rs_socket_timeout s,
     rc_decode_responses = True, rc_health_check_interval = 30\<rparr>"

record resources =
  re_settings :: settings
  re_database :: database_client
  re_cache :: redis_client

definition resources_create :: "settings \<Rightarrow> resources" where
  "resources_create S = \<lparr>re_settings = S, re_database = database_init (cfg_postgres S),
     re_cache = redis_init (cfg_redis S)\<rparr>"

record bot =
  bt_token :: string
  bt_parse_mode :: string

definition create_bot :: "settings \<Rightarrow> bot" where
  "create_bot S = \<lparr>bt_token = tg_bot_token (cfg_telegram S), bt_parse_mode = ''HTML''\<rparr>"

record telegram_gateway = tg_via :: bot

definition create_delivery_gateway :: "bot \<Rightarrow> telegram_gateway" where
  "create_delivery_gateway b = \<lparr>tg_via = b\<rparr>"

record stars_sender = ss_via :: bot

definition create_stars_sender :: "bot \<Rightarrow> stars_sender" where
  "create_stars_sender b = \<lparr>ss_via = b\<rparr>"

subsection \<open>Stores and services\<close>

record uow_factory = uf_database :: database_client

record lock_manager =
  lm_client :: redis_client
  lm_default_ttl :: rat
  lm_default_wait :: rat

definition lock_manager_init :: "redis_client \<Rightarrow> redis_settings \<Rightarrow> lock_manager" where
  "lock_manager_init client s = \<lparr>lm_client = client, lm_default_ttl = rs_lock_ttl_seconds s,
     lm_default_wait = rs_lock_wait_seconds s\<rparr>"

record rate_limiter = rl_client :: redis_client

record revocation_store = rv_client :: redis_client

record crypto_client =
  cc_settings :: cryptobot_settings
  cc_token :: string
  cc_base_url :: string
  cc_timeout :: rat

definition crypto_client_init :: "cryptobot_settings \<Rightarrow> crypto_client" where
  "crypto_client_init s = \<lparr>cc_settings = s, cc_token = cb_api_token s, cc_base_url = api_base_url s,
     cc_timeout = cb_request_timeout s\<rparr>"

record product_service =
  sp_uow_factory :: uow_factory
  sp_telegram :: telegram_settings

record purchase_service =
  su_uow_factory :: uow_factory
  su_locks :: lock_manager
  su_invoice_ttl :: int

record stats_service = st_uow_factory :: uow_factory

record auth_service =
  sa_settings :: security_settings
  sa_revocations :: revocation_store

record delivery_service =
  sd_uow_factory :: uow_factory
  sd_purchases :: purchase_service
  sd_gateway :: telegram_gateway
  sd_locks :: lock_manager
  sd_settings :: delivery_settings

record checkout_service =
  sc_purchases :: purchase_service
  sc_delivery :: delivery_service
  sc_stars :: stars_sender
  sc_crypto :: crypto_client

subsection \<open>The container\<close>

record container =
  ct_settings :: settings
  ct_uow_factory :: uow_factory
  ct_locks :: lock_manager
  ct_rate_limiter :: rate_limiter
  ct_crypto_payments :: crypto_client
  ct_products :: product_service
  ct_purchases :: purchase_service
  ct_stats :: stats_service
  ct_auth :: auth_service

definition container_create :: "resources \<Rightarrow> container" where
  "container_create R =
     (let S = re_settings R;
          factory = \<lparr>uf_database = re_database R\<rparr>;
          locks = lock_manager_init (re_cache R) (cfg_redis S)
      in \<lparr>ct_settings = S, ct_uow_factory = factory, ct_locks = locks,
          ct_rate_limiter = \<lparr>rl_client = re_cache R\<rparr>,
          ct_crypto_payments = crypto_client_init (cfg_cryptobot S),
          ct_products = \<lparr>sp_uow_factory = factory, sp_telegram = cfg_telegram S\<rparr>,
          ct_purchases = \<lparr>su_uow_factory = factory, su_locks = locks,
             su_invoice_ttl = cb_invoice_ttl_seconds (cfg_cryptobot S) * 1000000\<rparr>,
          ct_stats = \<lparr>st_uow_factory = factory\<rparr>,
          ct_auth = \<lparr>sa_settings = cfg_security S, sa_revocations = \<lparr>rv_client = re_cache R\<rparr>\<rparr>\<rparr>)"

definition build_delivery :: "container \<Rightarrow> telegram_gateway \<Rightarrow> delivery_service" where
  "build_delivery C gateway = \<lparr>sd_uow_factory = ct_uow_factory C, sd_purchases = ct_purchases C,
     sd_gateway = gateway, sd_locks = ct_locks C, sd_settings = cfg_delivery (ct_settings C)\<rparr>"

definition build_checkout :: "container \<Rightarrow> telegram_gateway \<Rightarrow> stars_sender \<Rightarrow> checkout_service" where
  "build_checkout C gateway stars = \<lparr>sc_purchases = ct_purchases C, sc_delivery = build_delivery C gateway,
     sc_stars = stars, sc_crypto = ct_crypto_payments C\<rparr>"

subsection \<open>The bot process\<close>

definition create_checkout :: "container \<Rightarrow> bot \<Rightarrow> checkout_service" where
  "create_checkout C b = build_checkout C (create_delivery_gateway b) (create_stars_sender b)"

record bot_services =
  bs_purchases :: purchase_service
  bs_checkout :: checkout_service

record throttle_middleware =
  tm_locks :: lock_manager
  tm_window :: rat

record dispatcher =
  dp_services :: bot_services
  dp_message_throttle :: throttle_middleware
  dp_callback_throttle :: throttle_middleware

definition create_dispatcher :: "container \<Rightarrow> checkout_service \<Rightarrow> dispatcher" where
  "create_dispatcher C checkout =
     (let services = \<lparr>bs_purchases = ct_purchases C, bs_checkout = checkout\<rparr>;
          throttle = \<lparr>tm_locks = ct_locks C, tm_window = bot_throttle_seconds (cfg_bot (ct_settings C))\<rparr>
      in \<lparr>dp_services = services, dp_message_throttle = throttle, dp_callback_throttle = throttle\<rparr>)"

record bot_runtime =
  br_settings :: settings
  br_container :: container
  br_bot :: bot
  br_dispatcher :: dispatcher
  br_checkout :: checkout_service

definition build_runtime :: "settings \<Rightarrow> bot_runtime" where
  \<comment> \<open>what \<open>main\<close> assembles\<close>
  "build_runtime S =
     (let C = container_create (resources_create S);
          b = create_bot S;
          checkout = create_checkout C b
      in \<lparr>br_settings = S, br_container = C, br_bot = b, br_dispatcher = create_dispatcher C checkout,
          br_checkout = checkout\<rparr>)"

record reconciliation_worker =
  rw_purchases :: purchase_service
  rw_checkout :: checkout_service
  rw_crypto :: crypto_client
  rw_settings :: bot_settings

record housekeeping_worker =
  hw_purchases :: purchase_service
  hw_settings :: bot_settings

definition wired_workers :: "bot_runtime \<Rightarrow> reconciliation_worker \<times> housekeeping_worker" where
  \<comment> \<open>\<open>_start_workers\<close>\<close>
  "wired_workers R =
     (\<lparr>rw_purchases = ct_purchases (br_container R), rw_checkout = br_checkout R,
       rw_crypto = ct_crypto_payments (br_container R), rw_settings = cfg_bot (br_settings R)\<rparr>,
      \<lparr>hw_purchases = ct_purchases (br_container R), hw_settings = cfg_bot (br_settings R)\<rparr>)"

subsection \<open>The API process\<close>

record app_state =
  as_resources :: "resources option"
  as_container :: "container option"
  as_checkout :: "checkout_service option"

definition fresh_app :: app_state where
  \<comment> \<open>what \<open>create_app\<close> leaves; the lifespan has not started\<close>
  "fresh_app = \<lparr>as_resources = None, as_container = None, as_checkout = None\<rparr>"

definition install :: "settings \<Rightarrow> app_state \<Rightarrow> app_state" where
  \<comment> \<open>the first half of \<open>lifespan\<close>\<close>
  "install S state =
     (let R = resources_create S; C = container_create R; b = create_bot S
      in \<lparr>as_resources = Some R, as_container = Some C,
          as_checkout = Some (build_checkout C (create_delivery_gateway b) (create_stars_sender b))\<rparr>)"

definition from_state :: "string \<Rightarrow> 'a option \<Rightarrow> exn + 'a" where
  "from_state key v = (case v of
      None \<Rightarrow> Inl (other_exn RuntimeError (''Application state '' @ in_quotes key @ '' is not initialised''))
    | Some x \<Rightarrow> Inr x)"

definition get_resources :: "app_state \<Rightarrow> exn + resources" where
  "get_resources state = from_state ''resources'' (as_resources state)"

definition get_container :: "app_state \<Rightarrow> exn + container" where
  "get_container state = from_state ''container'' (as_container state)"

definition get_checkout :: "app_state \<Rightarrow> exn + checkout_service" where
  "get_checkout state = from_state ''checkout'' (as_checkout state)"

definition get_settings_dep :: "app_state \<Rightarrow> exn + settings" where
  "get_settings_dep state = (case get_resources state of Inl e \<Rightarrow> Inl e | Inr R \<Rightarrow> Inr (re_settings R))"

subsection \<open>What the processes have wired up\<close>

lemmas wiring_defs = container_create_def resources_create_def build_runtime_def create_checkout_def build_checkout_def
  build_delivery_def create_dispatcher_def wired_workers_def install_def lock_manager_init_def crypto_client_init_def Let_def

text \<open>The operations modelled over \<open>env\<close> read the very settings the objects were constructed with.\<close>

lemma wired_settings:
  assumes "br = build_runtime (env_settings E)"
  shows "lock_ttl E None = lm_default_ttl (ct_locks (br_container br))"
    "lock_wait E None = lm_default_wait (ct_locks (br_container br))"
    "invoice_ttl E = su_invoice_ttl (ct_purchases (br_container br))"
    "delivery_conf E = sd_settings (sc_delivery (br_checkout br))"
    "crypto_conf E = cc_settings (ct_crypto_payments (br_container br))"
    "security E = sa_settings (ct_auth (br_container br))"
    "svc_deep_link E slug = deep_link (sp_telegram (ct_products (br_container br))) slug"
    "throttle_window E = tm_window (dp_message_throttle (br_dispatcher br))"
    "batch_size E = nat (bot_reconciliation_batch_size (rw_settings (fst (wired_workers br))))"
  by (simp_all add: assms wiring_defs lock_ttl_def lock_wait_def invoice_ttl_def delivery_conf_def crypto_conf_def
      security_def svc_deep_link_def throttle_window_def batch_size_def)

text \<open>
  All that must exclude one another takes its locks from one manager, and all that must see one another's
  rows works on one database: the throttle, the use cases, the delivery, the workers, in either process.
\<close>

lemma one_shop:
  assumes "br = build_runtime S"
  shows "sd_locks (sc_delivery (br_checkout br)) = ct_locks (br_container br)"
    "su_locks (sc_purchases (br_checkout br)) = ct_locks (br_container br)"
    "tm_locks (dp_message_throttle (br_dispatcher br)) = ct_locks (br_container br)"
    "dp_callback_throttle (br_dispatcher br) = dp_message_throttle (br_dispatcher br)"
    "sd_purchases (sc_delivery (br_checkout br)) = sc_purchases (br_checkout br)"
    "sd_uow_factory (sc_delivery (br_checkout br)) = su_uow_factory (sc_purchases (br_checkout br))"
    "bs_checkout (dp_services (br_dispatcher br)) = br_checkout br"
    "rw_checkout (fst (wired_workers br)) = br_checkout br"
    "rw_purchases (fst (wired_workers br)) = hw_purchases (snd (wired_workers br))"
    "get_container (install S state) = Inr (br_container br)"
    "get_checkout (install S state) = Inr (br_checkout br)"
  by (simp_all add: assms wiring_defs get_container_def get_checkout_def from_state_def)

text \<open>A provider answers once the lifespan has started, and fails loudly before.\<close>

lemma providers:
  "get_settings_dep (install S state) = Inr S"
  "\<exists>e. get_container fresh_app = Inl e \<and> exn_cls e = RuntimeError"
  "\<exists>e. get_resources fresh_app = Inl e \<and> exn_cls e = RuntimeError"
  "\<exists>e. get_checkout fresh_app = Inl e \<and> exn_cls e = RuntimeError"
  by (simp_all add: get_settings_dep_def get_resources_def get_container_def get_checkout_def from_state_def
      fresh_app_def wiring_defs)

end
