(* ===== verification/Tasks.thy ===== *)
theory Tasks
  imports RedisStore
begin

section \<open>Tasks that interleave\<close>

text \<open>
  The coroutines of the services as an event loop runs them: between two awaits nobody else gets a
  turn, at an await everybody may. A \<open>task\<close> is done, or awaits its next turn. Run without
  interruption a task is the program of the other theories (\<open>run_task\<close>); in a pool its turns
  interleave with those of other tasks, of this process or another one.

  The second half is \<^verbatim>\<open>infrastructure/cache/locks.py\<close> as a task: \<open>lock_task\<close> is the context manager
  \<open>RedisLockManager.lock\<close> around a block, and \<open>critical_section\<close> is the proof rule for blocks that run under the
  same lock.
\<close>

subsection \<open>Tasks\<close>

datatype ('s, 'a) task = Done "exn + 'a" | Await "'s \<Rightarrow> ('s, 'a) task \<times> 's"

definition atomic :: "(exn, 's, 'a) prog \<Rightarrow> ('s, 'a) task" where
  "atomic m = Await (\<lambda>s. case m s of (r, s') \<Rightarrow> (Done r, s'))"

primrec seqT :: "('s, 'a) task \<Rightarrow> (exn + 'a \<Rightarrow> ('s, 'b) task) \<Rightarrow> ('s, 'b) task" where
  "seqT (Done r) f = f r"
| "seqT (Await k) f = Await (\<lambda>s. map_prod (\<lambda>t. seqT t f) id (k s))"

definition bindT :: "('s, 'a) task \<Rightarrow> ('a \<Rightarrow> ('s, 'b) task) \<Rightarrow> ('s, 'b) task" where
  "bindT t f = seqT t (\<lambda>r. case r of Inl e \<Rightarrow> Done (Inl e) | Inr x \<Rightarrow> f x)"

definition finallyT :: "('s, 'a) task \<Rightarrow> ('s, unit) task \<Rightarrow> ('s, 'a) task" where
  "finallyT t c = seqT t (\<lambda>r. bindT c (\<lambda>_. Done r))"

primrec run_task :: "('s, 'a) task \<Rightarrow> (exn, 's, 'a) prog" where
  "run_task (Done r) = (\<lambda>s. (r, s))"
| "run_task (Await k) = (\<lambda>s. case map_prod run_task id (k s) of (m, s') \<Rightarrow> m s')"

fun is_done :: "('s, 'a) task \<Rightarrow> bool" where
  "is_done (Done r) = True"
| "is_done (Await k) = False"

lemma run_task_Await: "run_task (Await k) s = (case k s of (t, s') \<Rightarrow> run_task t s')"
  by (simp split: prod.split)

lemma run_seqT: "run_task (seqT t f) s = (case run_task t s of (r, s') \<Rightarrow> run_task (f r) s')"
proof (induction t arbitrary: s)
  case (Await k)
  obtain t s' where k: "k s = (t, s')" by (cases "k s")
  then have "run_task (seqT t f) s' = (case run_task t s' of (r, u) \<Rightarrow> run_task (f r) u)"
    by (intro Await.IH [OF rangeI, of _ s]) (simp add: k)
  with k show ?case by simp
qed simp

lemma run_atomic [simp]: "run_task (atomic m) = m"
  by (simp add: atomic_def fun_eq_iff split: prod.split)

lemma run_bindT: "run_task (bindT t f) s = bindM (run_task t) (\<lambda>x. run_task (f x)) s"
  by (simp add: bindT_def run_seqT bindM_run split: prod.split sum.split)

lemma run_finallyT: "run_task (finallyT t c) s = finallyM (run_task t) (run_task c) s"
  by (simp add: finallyT_def run_seqT run_bindT finallyM_run bindM_run split: prod.split sum.split)

lemma run_bindT_fun: "run_task (bindT t f) = bindM (run_task t) (\<lambda>x. run_task (f x))"
  by (simp add: fun_eq_iff run_bindT)

lemma bindT_Done [simp]:
  "bindT (Done (Inl e)) f = Done (Inl e)" "bindT (Done (Inr x)) f = f x"
  by (simp_all add: bindT_def)

lemma bindT_atomic: "bindT (atomic m) f = Await (\<lambda>s. case m s of
    (Inl e, s') \<Rightarrow> (Done (Inl e), s') | (Inr x, s') \<Rightarrow> (f x, s'))"
  by (auto simp: bindT_def atomic_def fun_eq_iff split: prod.split sum.split)

lemma bindT_Await: "bindT (Await k) f = Await (\<lambda>s. map_prod (\<lambda>t. bindT t f) id (k s))"
  by (simp add: bindT_def)

lemma finallyT_Await: "finallyT (Await k) c = Await (\<lambda>s. map_prod (\<lambda>t. finallyT t c) id (k s))"
  by (simp add: finallyT_def)

lemma finallyT_Done: "finallyT (Done r) c = bindT c (\<lambda>_. Done r)"
  by (simp add: finallyT_def)

lemma finallyT_not_done [simp]: "\<not> is_done (finallyT t (atomic m))"
  by (cases t) (simp_all add: finallyT_Done finallyT_Await bindT_atomic)

subsection \<open>Turns\<close>

type_synonym ('s, 'a) pool = "('s, 'a) task list \<times> 's"

fun resume :: "('s, 'a) task \<Rightarrow> 's \<Rightarrow> ('s, 'a) task \<times> 's" where
  "resume (Done r) s = (Done r, s)"
| "resume (Await k) s = k s"

fun turn :: "('s, 'a) pool \<Rightarrow> nat \<Rightarrow> ('s, 'a) pool" where
  \<comment> \<open>the event loop resumes one task up to its next await\<close>
  "turn (ts, s) i =
     (if i < length ts then (case resume (ts ! i) s of (t, s') \<Rightarrow> (ts[i := t], s')) else (ts, s))"

fun turns :: "nat list \<Rightarrow> ('s, 'a) pool \<Rightarrow> ('s, 'a) pool" where
  "turns [] P = P"
| "turns (i # is) P = turns is (turn P i)"

lemma resume_atomic [simp]:
  "resume (atomic m) s = (case m s of (r, s') \<Rightarrow> (Done r, s'))"
  "resume (bindT (atomic m) f) s =
     (case m s of (Inl e, s') \<Rightarrow> (Done (Inl e), s') | (Inr x, s') \<Rightarrow> (f x, s'))"
  by (simp_all add: atomic_def bindT_atomic [unfolded atomic_def])

lemma resume_bindT: "\<not> is_done t \<Longrightarrow> resume (bindT t f) s = (case resume t s of (t', s') \<Rightarrow> (bindT t' f, s'))"
  by (cases t) (simp_all add: bindT_Await split: prod.split)

lemma resume_finallyT: "\<not> is_done t \<Longrightarrow> resume (finallyT t c) s = (case resume t s of (t', s') \<Rightarrow> (finallyT t' c, s'))"
  by (cases t) (simp_all add: finallyT_Await split: prod.split)

lemma bindT_atomic_not_done [simp]: "\<not> is_done (bindT (atomic m) f)"
  by (simp add: bindT_atomic)

lemma bindT_not_done [simp]: "\<not> is_done t \<Longrightarrow> \<not> is_done (bindT t f)"
  by (cases t) (simp_all add: bindT_Await)

subsection \<open>The lock as a task\<close>

primrec acquire_task :: "string \<Rightarrow> string \<Rightarrow> int \<Rightarrow> int \<Rightarrow> nat \<Rightarrow> (world, bool) task" where
  \<comment> \<open>\<open>_acquire\<close>, with a bound on the turns of its loop\<close>
  "acquire_task name token px deadline 0 = Done (Inr False)"
| "acquire_task name token px deadline (Suc n) = Await (\<lambda>w.
     case set_nx name token px w of (ok, w') \<Rightarrow>
       if ok then (Done (Inr True), w')
       else if deadline \<le> clock w then (Done (Inr False), w)
       else (acquire_task name token px deadline n, w\<lparr>clock := clock w + retry_delay\<rparr>))"

definition acquire_turns :: "int \<Rightarrow> nat" where
  \<comment> \<open>every turn but the last one sleeps for the retry delay\<close>
  "acquire_turns wait = Suc (nat (wait div retry_delay + 1))"

definition try_lock_task :: "env \<Rightarrow> string \<Rightarrow> string \<Rightarrow> rat option \<Rightarrow> rat option \<Rightarrow> (world, bool) task" where
  "try_lock_task E name token ttl wait =
     (let waits = microseconds (lock_wait E wait) in
      bindT (atomic (getsM clock)) (\<lambda>now.
        acquire_task name token (millis (lock_ttl E ttl)) (now + waits) (acquire_turns waits)))"

definition under_lock :: "string \<Rightarrow> string \<Rightarrow> (world, 'a) task \<Rightarrow> bool \<Rightarrow> (world, 'a) task" where
  "under_lock key token body acquired =
     (if \<not> acquired then Done (Inl (err LockBusyError [(''lock_key'', JStr key)]))
      else finallyT body (atomic (release_safely (lock_name key) token)))"

definition lock_task ::
  "env \<Rightarrow> string \<Rightarrow> rat option \<Rightarrow> rat option \<Rightarrow> (world, 'a) task \<Rightarrow> (world, 'a) task" where
  \<comment> \<open>\<open>async with locks.lock(key, ...)\<close>\<close>
  "lock_task E key ttl wait body =
     bindT (atomic (new_uuid E)) (\<lambda>u.
       bindT (try_lock_task E (lock_name key) (uuid_hex u) ttl wait) (under_lock key (uuid_hex u) body))"

lemma acquire_task_run:
  assumes "deadline \<le> clock w + int n * retry_delay"
  shows "run_task (acquire_task name token px deadline (Suc n)) w
     = (case acquire name token px deadline w of (ok, w') \<Rightarrow> (Inr ok, w'))"
  using assms
proof (induction n arbitrary: w)
  case 0
  then show ?case
    by (auto simp: set_nx_def r_set_nx_px_def acquire.simps [of name] split: option.split)
next
  case (Suc n)
  have "run_task (acquire_task name token px deadline (Suc n)) (w\<lparr>clock := clock w + retry_delay\<rparr>)
      = (case acquire name token px deadline (w\<lparr>clock := clock w + retry_delay\<rparr>) of (ok, w') \<Rightarrow> (Inr ok, w'))"
    using Suc.prems by (intro Suc.IH) (simp add: algebra_simps)
  then show ?case
    by (subst acquire.simps, subst acquire_task.simps)
      (simp add: set_nx_def r_set_nx_px_def del: acquire_task.simps split: option.split)
qed

lemma try_lock_task_run: "run_task (try_lock_task E name token ttl wait) w = try_lock E name token ttl wait w"
proof -
  let ?waits = "microseconds (lock_wait E wait)"
  define n where "n = nat (?waits div retry_delay + 1)"
  have "?waits \<le> (?waits div retry_delay + 1) * retry_delay" by (simp add: retry_delay_def)
  also have "\<dots> \<le> int n * retry_delay" by (intro mult_right_mono) (simp_all add: n_def retry_delay_def)
  finally have "clock w + ?waits \<le> clock w + int n * retry_delay" by simp
  from acquire_task_run [OF this, of name token "millis (lock_ttl E ttl)"] show ?thesis
    by (simp add: try_lock_task_def try_lock_def Let_def run_bindT bindM_run acquire_turns_def n_def
        del: acquire_task.simps)
qed

text \<open>Nobody else taking a turn, the task is the \<open>with_lock\<close> of the other theories.\<close>

lemma lock_task_run:
  assumes "run_task body = m"
  shows "run_task (lock_task E key ttl wait body) = with_lock E key ttl wait m"
proof -
  have "run_task (under_lock key token body acquired) =
      (if \<not> acquired then throw (err LockBusyError [(''lock_key'', JStr key)])
       else finallyM m (release_safely (lock_name key) token))" for token acquired
    by (simp add: under_lock_def fun_eq_iff run_finallyT assms)
  moreover have "run_task (try_lock_task E name token ttl wait) = try_lock E name token ttl wait" for name token
    by (simp add: fun_eq_iff try_lock_task_run)
  ultimately show ?thesis by (simp add: lock_task_def with_lock_def run_bindT_fun Let_def)
qed

subsection \<open>The turns of a lock\<close>

lemma resume_lock_task:
  "resume (lock_task E key ttl wait b) w =
     (bindT (try_lock_task E (lock_name key) (uuid_hex (env_uuid4 E (uuids_drawn w))) ttl wait)
        (under_lock key (uuid_hex (env_uuid4 E (uuids_drawn w))) b), w\<lparr>uuids_drawn := Suc (uuids_drawn w)\<rparr>)"
  by (simp add: lock_task_def new_uuid_def)

lemma resume_try_lock:
  "resume (bindT (try_lock_task E name token ttl wait) f) w =
     (bindT (acquire_task name token (millis (lock_ttl E ttl)) (clock w + microseconds (lock_wait E wait))
        (acquire_turns (microseconds (lock_wait E wait)))) f, w)"
  by (simp add: try_lock_task_def Let_def resume_bindT del: acquire_task.simps)

lemma resume_acquire:
  "resume (bindT (acquire_task (lock_name key) token px deadline (Suc n)) (under_lock key token b)) w =
     (if r_get (now_ms (clock w)) (lock_name key) (redis w) = None
      then (finallyT b (atomic (release_safely (lock_name key) token)), w\<lparr>redis := (redis w)(lock_name key \<mapsto>
          \<lparr>r_value = RStr token, r_expires_at = Some (now_ms (clock w) + px)\<rparr>)\<rparr>)
      else if deadline \<le> clock w then (Done (Inl (err LockBusyError [(''lock_key'', JStr key)])), w)
      else (bindT (acquire_task (lock_name key) token px deadline n) (under_lock key token b),
        w\<lparr>clock := clock w + retry_delay\<rparr>))"
  by (auto simp: bindT_Await set_nx_def r_set_nx_px_def under_lock_def split: option.split)

lemma resume_release:
  "resume (finallyT (Done r) (atomic (release_safely name token))) w =
     (Done r, w\<lparr>redis := snd (r_release_script (now_ms (clock w)) name token (redis w))\<rparr>)"
  by (simp add: finallyT_Done release_safely_def)

lemmas resume_lock = resume_lock_task resume_try_lock resume_acquire resume_release

subsection \<open>Tasks that share a lock\<close>

definition in_time :: "string \<Rightarrow> world \<Rightarrow> bool" where
  \<comment> \<open>no lease of the lock has run out that nobody released\<close>
  "in_time key w = (case redis w (lock_name key) of None \<Rightarrow> True | Some e \<Rightarrow> entry_live (now_ms (clock w)) e)"

inductive lock_run ::
  "env \<Rightarrow> string \<Rightarrow> rat option \<Rightarrow> rat option \<Rightarrow> ((world, 'a) task \<Rightarrow> bool) \<Rightarrow> (world \<Rightarrow> world \<Rightarrow> bool)
     \<Rightarrow> world \<Rightarrow> (world, 'a) task list \<Rightarrow> world \<Rightarrow> bool"
  for E key ttl wait body outside w where
  \<comment> \<open>any number of tasks arrive at any time and take turns; \<open>outside\<close> is what everybody else does\<close>
  begins: "in_time key w \<Longrightarrow> lock_run E key ttl wait body outside w [] w"
| arrives: "lock_run E key ttl wait body outside w ts v \<Longrightarrow> body b \<Longrightarrow>
     lock_run E key ttl wait body outside w (ts @ [lock_task E key ttl wait b]) v"
| turn: "lock_run E key ttl wait body outside w ts v \<Longrightarrow> turn (ts, v) i = (ts', v') \<Longrightarrow> in_time key v' \<Longrightarrow>
     lock_run E key ttl wait body outside w ts' v'"
| others: "lock_run E key ttl wait body outside w ts v \<Longrightarrow> outside v v' \<Longrightarrow>
     redis v' (lock_name key) = redis v (lock_name key) \<Longrightarrow> in_time key v' \<Longrightarrow>
     lock_run E key ttl wait body outside w ts v'"

fun keeps_time :: "string \<Rightarrow> nat list \<Rightarrow> (world, 'a) pool \<Rightarrow> bool" where
  "keeps_time key [] P = True"
| "keeps_time key (i # is) P = (in_time key (snd (turn P i)) \<and> keeps_time key is (turn P i))"

lemma lock_run_turns:
  assumes "lock_run E key ttl wait body outside w ts v" and "keeps_time key is (ts, v)"
    and "turns is (ts, v) = (ts', v')"
  shows "lock_run E key ttl wait body outside w ts' v'"
  using assms
proof (induction "is" arbitrary: ts v)
  case (Cons i "is")
  obtain us u where t: "turn (ts, v) i = (us, u)" by (cases "turn (ts, v) i")
  have "lock_run E key ttl wait body outside w us u"
    by (rule lock_run.turn [OF Cons.prems(1) t]) (use Cons.prems(2) t in simp)
  then show ?case by (rule Cons.IH) (use Cons.prems(2,3) t in simp_all)
qed simp

inductive outside_lock ::
  "env \<Rightarrow> string \<Rightarrow> rat option \<Rightarrow> rat option \<Rightarrow> ((world, 'a) task \<Rightarrow> bool) \<Rightarrow> (world, 'a) task \<Rightarrow> bool"
  for E key ttl wait body where
  waits: "body b \<Longrightarrow> outside_lock E key ttl wait body (lock_task E key ttl wait b)"
| asks: "body b \<Longrightarrow> outside_lock E key ttl wait body
     (bindT (try_lock_task E (lock_name key) token ttl wait) (under_lock key token b))"
| tries: "body b \<Longrightarrow> outside_lock E key ttl wait body
     (bindT (acquire_task (lock_name key) token px deadline n) (under_lock key token b))"
| over: "outside_lock E key ttl wait body (Done r)"

lemma new_uuid_run: "new_uuid E w = (Inr (env_uuid4 E (uuids_drawn w)), w\<lparr>uuids_drawn := Suc (uuids_drawn w)\<rparr>)"
  by (simp add: new_uuid_def)

lemma outside_lock_turn:
  assumes "outside_lock E key ttl wait body t" and "t = Await k" and "k w = (t', w')"
  shows "db w' = db w \<and> effects w' = effects w
     \<and> (outside_lock E key ttl wait body t' \<and> redis w' = redis w
        \<or> (\<exists>b token x. body b \<and> t' = finallyT b (atomic (release_safely (lock_name key) token))
             \<and> r_get (now_ms (clock w)) (lock_name key) (redis w) = None
             \<and> redis w' (lock_name key) = Some \<lparr>r_value = RStr token, r_expires_at = Some x\<rparr>))"
  using assms
proof (cases rule: outside_lock.cases)
  case (waits b)
  then show ?thesis
    using assms(2,3) outside_lock.asks by (auto simp: lock_task_def bindT_atomic new_uuid_run)
next
  case (asks b token)
  then show ?thesis
    using assms(2,3) outside_lock.tries
    by (auto simp: try_lock_task_def Let_def bindT_atomic bindT_Await del: acquire_task.simps)
next
  case (tries b token px deadline n)
  have over: "outside_lock E key ttl wait body (Done r)" for r by (rule outside_lock.over)
  show ?thesis
    using tries assms(2,3) outside_lock.tries [where body = body and n = "n - 1"] over
    by (cases n) (auto simp: bindT_Await set_nx_def r_set_nx_px_def under_lock_def r_get_def
        split: option.splits if_splits)
qed simp

text \<open>
  The rule for blocks under one lock. \<open>stands p t\<close> says where in the block a task stands, and \<open>I\<close> is the
  invariant, given the point of the one task that holds the lock, or that nobody does. While every
  holder releases in time, the invariant may be broken inside and is whole outside.
\<close>

locale critical_section =
  fixes E :: env
    and key :: string
    and ttl :: "rat option"
    and wait :: "rat option"
    and body :: "(world, 'a) task \<Rightarrow> bool"
    and outside :: "world \<Rightarrow> world \<Rightarrow> bool"
    and stands :: "'p \<Rightarrow> (world, 'a) task \<Rightarrow> bool"
    and I :: "'p option \<Rightarrow> world \<Rightarrow> bool"
  assumes enters: "body b \<Longrightarrow> I None w \<Longrightarrow> \<exists>p. stands p b \<and> I (Some p) w"
    and works: "stands p (Await k) \<Longrightarrow> I (Some p) w \<Longrightarrow> k w = (t, w') \<Longrightarrow>
          \<exists>q. stands q t \<and> I (Some q) w' \<and> redis w' (lock_name key) = redis w (lock_name key)"
    and leaves: "stands p (Done r) \<Longrightarrow> I (Some p) w \<Longrightarrow> I None w"
    and frame: "I x w \<Longrightarrow> db w' = db w \<Longrightarrow> effects w' = effects w \<Longrightarrow> I x w'"
    and meanwhile: "I x w \<Longrightarrow> outside w w' \<Longrightarrow> I x w'"
begin

definition holds :: "'p \<Rightarrow> (world, 'a) task \<Rightarrow> world \<Rightarrow> bool" where
  "holds p t w = (\<exists>b token x. t = finallyT b (atomic (release_safely (lock_name key) token)) \<and> stands p b
     \<and> redis w (lock_name key) = Some \<lparr>r_value = RStr token, r_expires_at = Some x\<rparr>)"

definition guarded :: "(world, 'a) task list \<Rightarrow> world \<Rightarrow> bool" where
  "guarded ts w = (list_all (outside_lock E key ttl wait body) ts \<and> I None w
     \<or> (\<exists>j p. j < length ts \<and> holds p (ts ! j) w \<and> I (Some p) w
          \<and> (\<forall>i<length ts. i \<noteq> j \<longrightarrow> outside_lock E key ttl wait body (ts ! i))))"

lemma guarded_held:
  "j < length ts \<Longrightarrow> holds p (ts ! j) w \<Longrightarrow> I (Some p) w \<Longrightarrow>
     (\<And>i. i < length ts \<Longrightarrow> i \<noteq> j \<Longrightarrow> outside_lock E key ttl wait body (ts ! i)) \<Longrightarrow> guarded ts w"
  unfolding guarded_def by blast

lemma holds_same: "holds p t w \<Longrightarrow> redis w' (lock_name key) = redis w (lock_name key) \<Longrightarrow> holds p t w'"
  by (auto simp: holds_def)

lemma holder_turn:
  assumes "holds p (Await k) w" and "I (Some p) w" and "k w = (t, w')"
  shows "(\<exists>q. holds q t w' \<and> I (Some q) w') \<or> (\<exists>r. t = Done r) \<and> I None w'"
proof -
  obtain b token x where b: "Await k = finallyT b (atomic (release_safely (lock_name key) token))" "stands p b"
      "redis w (lock_name key) = Some \<lparr>r_value = RStr token, r_expires_at = Some x\<rparr>"
    using assms(1) by (auto simp: holds_def)
  show ?thesis
  proof (cases b)
    case (Done r)
    then have "t = Done r \<and> db w' = db w \<and> effects w' = effects w"
      using b(1) assms(3) by (auto simp: finallyT_Done bindT_atomic release_safely_def)
    moreover have "I None w" using leaves b(2) Done assms(2) by blast
    ultimately show ?thesis using frame [of None w w'] by blast
  next
    case (Await k')
    then obtain t' where t: "k' w = (t', w')" "t = finallyT t' (atomic (release_safely (lock_name key) token))"
      using b(1) assms(3) by (cases "k' w") (auto simp: finallyT_Await)
    with works [of p k' w] b(2) Await assms(2) obtain q where "stands q t'" "I (Some q) w'"
        "redis w' (lock_name key) = redis w (lock_name key)" by blast
    with b(3) t(2) show ?thesis unfolding holds_def by metis
  qed
qed

lemma outsider_turn:
  assumes "outside_lock E key ttl wait body (Await k)" and "k w = (t, w')" and "I x w"
  shows "I x w' \<and> (outside_lock E key ttl wait body t \<and> redis w' = redis w
     \<or> r_get (now_ms (clock w)) (lock_name key) (redis w) = None \<and> (x = None \<longrightarrow> (\<exists>p. holds p t w' \<and> I (Some p) w')))"
proof -
  note turned = outside_lock_turn [OF assms(1) refl assms(2)]
  then have I: "I x w'" using frame [OF assms(3)] by blast
  then show ?thesis using turned enters [of _ w'] unfolding holds_def by blast
qed

lemma held_is_taken:
  "holds p t w \<Longrightarrow> in_time key w \<Longrightarrow> r_get (now_ms (clock w)) (lock_name key) (redis w) \<noteq> None"
  by (auto simp: holds_def in_time_def r_get_def)

lemma guarded_turn:
  assumes "guarded ts w" and "in_time key w" and "turn (ts, w) i = (ts', w')"
  shows "guarded ts' w'"
proof (cases "i < length ts \<and> \<not> is_done (ts ! i)")
  case False
  have same: "ts[i := t] = ts" if "ts ! i = t" for t using that by auto
  have "ts' = ts \<and> w' = w" using False same assms(3) by (cases "ts ! i") (auto split: if_splits)
  then show ?thesis using assms(1) by simp
next
  case True
  then obtain k where k: "ts ! i = Await k" by (cases "ts ! i") simp_all
  obtain t where t: "k w = (t, w')" "ts' = ts[i := t]"
    using True k assms(3) by (auto split: prod.splits)
  from assms(1) consider (free) "list_all (outside_lock E key ttl wait body) ts" "I None w"
    | (taken) j p where "j < length ts" "holds p (ts ! j) w" "I (Some p) w"
        "\<forall>l<length ts. l \<noteq> j \<longrightarrow> outside_lock E key ttl wait body (ts ! l)"
    by (auto simp: guarded_def)
  then show ?thesis
  proof cases
    case free
    then have "outside_lock E key ttl wait body (Await k)" using True k by (metis list_all_length)
    from outsider_turn [OF this t(1) free(2)] show ?thesis
      using free(1) True unfolding guarded_def t(2)
      by (auto simp: list_all_length nth_list_update intro: exI [of _ i])
  next
    case taken
    show ?thesis
    proof (cases "i = j")
      case True
      then have h: "holds p (Await k) w" using taken(2) k by simp
      have over: "outside_lock E key ttl wait body (Done r)" for r by (rule outside_lock.over)
      from holder_turn [OF h taken(3) t(1)] show ?thesis
        using taken(1,4) True over unfolding guarded_def t(2)
        by (auto simp: list_all_length nth_list_update intro: exI [of _ j])
    next
      case False
      then have "outside_lock E key ttl wait body (Await k)" using taken(4) True k by metis
      from outsider_turn [OF this t(1) taken(3)] held_is_taken [OF taken(2) assms(2)]
      have "I (Some p) w'" "outside_lock E key ttl wait body t" "redis w' = redis w" by blast+
      with taken False True holds_same [OF taken(2), of w'] show ?thesis
        unfolding t(2) by (intro guarded_held [where j = j and p = p]) (auto simp: nth_list_update)
    qed
  qed
qed

lemma guarded_run:
  assumes "lock_run E key ttl wait body outside w ts v" and "I None w"
  shows "in_time key v \<and> guarded ts v"
  using assms(1)
proof (induction rule: lock_run.induct)
  case begins
  then show ?case using assms(2) by (simp add: guarded_def)
next
  case (arrives ts v b)
  have new: "outside_lock E key ttl wait body (lock_task E key ttl wait b)" using arrives(2) by (rule outside_lock.waits)
  from arrives.IH consider (free) "list_all (outside_lock E key ttl wait body) ts" "I None v"
    | (taken) j p where "j < length ts" "holds p (ts ! j) v" "I (Some p) v"
        "\<forall>i<length ts. i \<noteq> j \<longrightarrow> outside_lock E key ttl wait body (ts ! i)"
    unfolding guarded_def by blast
  then have "guarded (ts @ [lock_task E key ttl wait b]) v"
  proof cases
    case free
    then show ?thesis using new by (simp add: guarded_def)
  next
    case taken
    then show ?thesis using new
      by (intro guarded_held [where j = j and p = p]) (auto simp: nth_append less_Suc_eq)
  qed
  then show ?case using arrives.IH by simp
next
  case (turn ts v i ts' v')
  then show ?case using guarded_turn by blast
next
  case (others ts v v')
  then show ?case
    using meanwhile [of _ v v'] holds_same [of _ _ v v'] unfolding guarded_def by blast
qed

text \<open>Whatever the interleaving, the invariant holds, and it is whole when every task has ended.\<close>

lemma run_invariant:
  assumes "lock_run E key ttl wait body outside w ts v" and "I None w"
  obtains x where "I x v" and "list_all is_done ts \<Longrightarrow> x = None"
proof -
  have "\<not> is_done t" if "holds p t v" for p t
    using that by (auto simp: holds_def)
  moreover have "guarded ts v" using guarded_run [OF assms] by blast
  ultimately show thesis using that unfolding guarded_def list_all_length by blast
qed

end

end
