(* ===== verification/Concurrency.thy ===== *)
theory Concurrency
  imports Tasks DeliveryService Auth
begin

section \<open>Concurrent deliveries and token rotations\<close>

text \<open>
  \<open>DeliveryService\<close> of \<^verbatim>\<open>services/delivery.py\<close> and \<open>AuthService.refresh\<close> of \<^verbatim>\<open>services/auth.py\<close> as tasks, with an await at
  every request to Telegram, Redis and PostgreSQL and at every sleep. Run alone they are the programs of
  the theories \<open>DeliveryService\<close> and \<open>Auth\<close>. Run together: however the deliveries of one purchase interleave, the
  link is sent once while every holder of the delivery lock releases it in time, and is sent twice when a
  lease runs out under its holder; two rotations of one refresh token may both succeed.
\<close>

subsection \<open>Delivery as a task\<close>

definition retry_pause :: "env \<Rightarrow> nat \<Rightarrow> exn \<Rightarrow> unit action" where
  \<comment> \<open>\<open>await self.sleep(self._backoff(attempt, error.retry_after))\<close>\<close>
  "retry_pause E attempt e = bindM (getsM (\<lambda>w. env_jitter E (requests w))) (\<lambda>jitter.
     sleep_for (backoff (delivery_conf E) jitter attempt (exn_retry_after e)))"

fun send_loop_task :: "env \<Rightarrow> delivery_message \<Rightarrow> nat \<Rightarrow> nat \<Rightarrow> string option \<Rightarrow> (world, delivery_result) task" where
  "send_loop_task E msg 0 attempt last_error = Done (Inr (exhausted E msg last_error))"
| "send_loop_task E msg (Suc remaining) attempt last_error =
     bindT (atomic (attempt_send E msg)) (\<lambda>failure. case failure of
        None \<Rightarrow> Done (Inr \<lparr>res_status = SENT, res_purchase_id = dm_purchase_id msg,
            res_attempts = attempt, res_error = None\<rparr>)
      | Some e \<Rightarrow>
          if isinstance e DeliveryPermanentError
          then Done (Inr \<lparr>res_status = FAILED, res_purchase_id = dm_purchase_id msg,
              res_attempts = attempt, res_error = Some (exn_message e)\<rparr>)
          else if remaining = 0 then Done (Inr (exhausted E msg (Some (exn_message e))))
          else bindT (atomic (retry_pause E attempt e))
               (\<lambda>_. send_loop_task E msg remaining (Suc attempt) (Some (exn_message e))))"

definition send_task :: "env \<Rightarrow> delivery_message \<Rightarrow> (world, delivery_result) task" where
  "send_task E msg = send_loop_task E msg (dl_max_attempts (delivery_conf E)) 1 None"

definition record_task :: "uuid \<Rightarrow> delivery_context \<Rightarrow> delivery_result \<Rightarrow> (world, delivery_result) task" where
  \<comment> \<open>after the sends: \<open>mark_delivered\<close> unless the purchase was already delivered\<close>
  "record_task purchase_id c outcome =
     (if \<not> succeeded outcome then Done (Inr outcome)
      else if pu_status (cx_purchase c) \<noteq> DELIVERED
      then bindT (atomic (svc_mark_delivered purchase_id (pr_delivery_url (cx_product c)))) (\<lambda>_. Done (Inr outcome))
      else Done (Inr outcome))"

definition deliver_body_task :: "env \<Rightarrow> uuid \<Rightarrow> bool \<Rightarrow> bool \<Rightarrow> (world, delivery_result) task" where
  "deliver_body_task E purchase_id is_repeat resend_if_delivered =
     bindT (atomic (load_context purchase_id)) (\<lambda>c.
     let p = cx_purchase c in
     if pu_status p = DELIVERED \<and> \<not> resend_if_delivered
     then Done (Inr \<lparr>res_status = ALREADY_DELIVERED, res_purchase_id = purchase_id, res_attempts = 0,
            res_error = None\<rparr>)
     else if \<not> grants_access p
     then Done (Inl (conflict ''Only a paid purchase can be delivered'' purchase_id (pu_status p)))
     else bindT (send_task E (delivery_message_for c purchase_id is_repeat)) (record_task purchase_id c))"

definition deliver_task :: "env \<Rightarrow> uuid \<Rightarrow> bool \<Rightarrow> bool \<Rightarrow> (world, delivery_result) task" where
  "deliver_task E purchase_id is_repeat resend_if_delivered =
     lock_task E (delivery_lock_key purchase_id) None None
       (deliver_body_task E purchase_id is_repeat resend_if_delivered)"

lemma run_Done: "run_task (Done (Inr x)) = ret x" "run_task (Done (Inl e)) = throw e"
  by (simp_all add: fun_eq_iff)

lemma send_loop_task_run: "run_task (send_loop_task E msg n k le) = send_loop E msg n k le"
proof (induction n arbitrary: k le)
  case (Suc n)
  show ?case
    unfolding send_loop_task.simps send_loop.simps run_bindT_fun run_atomic
    by (rule arg_cong [where f = "bindM (attempt_send E msg)"], rule ext)
      (simp add: run_bindT_fun run_Done Suc.IH retry_pause_def bindM_assoc thenM_def del: run_task.simps split: option.split)
qed (simp add: run_Done del: run_task.simps)


subsection \<open>Deliveries of one purchase\<close>

definition sends_link :: "uuid \<Rightarrow> effect \<Rightarrow> bool" where
  \<comment> \<open>the first delivery of a purchase, not the repeat for its owner\<close>
  "sends_link i eff = (case eff of SendDelivery m \<Rightarrow> dm_purchase_id m = i \<and> \<not> dm_is_repeat m | _ \<Rightarrow> False)"

definition sent_links :: "uuid \<Rightarrow> world \<Rightarrow> nat" where
  "sent_links i w = length (filter (\<lambda>(eff, ok). ok \<and> sends_link i eff) (effects w))"

definition has_status :: "uuid \<Rightarrow> purchase_status set \<Rightarrow> database \<Rightarrow> bool" where
  "has_status i S d = list_ex (\<lambda>p. pu_id p = i \<and> pu_status p \<in> S) (purchases d)"

abbreviation settled :: "uuid \<Rightarrow> database \<Rightarrow> bool" where
  "settled i d \<equiv> has_status i {DELIVERED, REFUNDED} d"

abbreviation paid_for :: "uuid \<Rightarrow> database \<Rightarrow> bool" where
  "paid_for i d \<equiv> has_status i {PAID, DELIVERED, REFUNDED} d"

definition others_do :: "uuid \<Rightarrow> world \<Rightarrow> world \<Rightarrow> bool" where
  \<comment> \<open>whatever the rest of the shop does: it writes the database through the repositories and leaves
      the first delivery to these tasks\<close>
  "others_do i v w = (evolves (db v) (db w) \<and> sent_links i w = sent_links i v)"

definition delivery_bodies :: "env \<Rightarrow> uuid \<Rightarrow> (world, delivery_result) task \<Rightarrow> bool" where
  \<comment> \<open>\<open>deliver_purchase\<close> and \<open>redeliver\<close>\<close>
  "delivery_bodies E i b = (\<exists>again. b = deliver_body_task E i again again)"

datatype delivery_point = Loading bool | Sending bool | Marking bool | Leaving

inductive stands_at :: "env \<Rightarrow> uuid \<Rightarrow> delivery_point \<Rightarrow> (world, delivery_result) task \<Rightarrow> bool" for E i where
  loads: "stands_at E i (Loading again) (deliver_body_task E i again again)"
| sends: "again \<or> pu_status (cx_purchase c) = PAID \<Longrightarrow> stands_at E i (Sending again)
     (bindT (send_loop_task E (delivery_message_for c i again) n k le) (record_task i c))"
| pauses: "again \<or> pu_status (cx_purchase c) = PAID \<Longrightarrow> stands_at E i (Sending again)
     (bindT (bindT (atomic (retry_pause E attempt e)) (\<lambda>_. send_loop_task E (delivery_message_for c i again) n k le))
        (record_task i c))"
| records: "stands_at E i (Marking again)
     (bindT (atomic (svc_mark_delivered i url)) (\<lambda>_. Done (Inr outcome)))"
| leaves: "stands_at E i Leaving (Done r)"

definition delivery_inv :: "uuid \<Rightarrow> delivery_point option \<Rightarrow> world \<Rightarrow> bool" where
  "delivery_inv i x w =
     (db_ok (db w) \<and> sent_links i w \<le> 1
      \<and> (sent_links i w = 1 \<longrightarrow> settled i (db w) \<or> x = Some (Marking False))
      \<and> (x = Some (Sending False) \<longrightarrow> sent_links i w = 0 \<and> paid_for i (db w))
      \<and> (x = Some (Marking False) \<longrightarrow> paid_for i (db w)))"

lemma sent_links_same: "effects w' = effects w \<Longrightarrow> sent_links i w' = sent_links i w"
  by (simp add: sent_links_def)

lemma has_status_stable:
  assumes "evolves d e" and "db_ok d" and "has_status i S d" and "\<And>s. s \<in> S \<Longrightarrow> set (life_after s) \<subseteq> S"
  shows "has_status i S e"
proof -
  obtain p where p: "p \<in> set (purchases d)" "pu_id p = i" "pu_status p \<in> S"
    using assms(3) by (auto simp: has_status_def list_ex_iff)
  then obtain q where "q \<in> set (purchases e)" "row_le p q"
    using assms(1,2) by (auto simp: evolves_def history_le_def list_all_iff list_ex_iff)
  with p assms(4) show ?thesis by (auto simp: has_status_def list_ex_iff row_le_def)
qed

lemma settled_stable: "evolves d e \<Longrightarrow> db_ok d \<Longrightarrow> settled i d \<Longrightarrow> settled i e"
  by (erule (2) has_status_stable) auto

lemma paid_for_stable: "evolves d e \<Longrightarrow> db_ok d \<Longrightarrow> paid_for i d \<Longrightarrow> paid_for i e"
  by (erule (2) has_status_stable) auto

lemma delivery_inv_evolves:
  assumes "delivery_inv i x w" and "evolves (db w) (db w')" and "sent_links i w' = sent_links i w"
  shows "delivery_inv i x w'"
  using assms settled_stable [of "db w" "db w'" i] paid_for_stable [of "db w" "db w'" i]
  by (auto simp: delivery_inv_def evolves_def)

lemma load_context_reads:
  assumes "load_context i w = (r, w')"
  shows "w' = w \<and> (\<forall>c. r = Inr c \<longrightarrow> cx_purchase c \<in> set (purchases (db w)) \<and> pu_id (cx_purchase c) = i)"
  using assms
  by (auto simp: load_context_def in_uow_run context_tx_def bindM_run purchase_get_def product_get_def user_get_def
      get_by_key_def purchase_or_404_def product_or_404_def find_Some_iff
      split: option.splits prod.splits sum.splits)

lemma retry_pause_run: "\<exists>t. retry_pause E k e w = (Inr (), w\<lparr>clock := clock w + max 0 (microseconds t),
    effects := effects w @ [(Slept t, True)]\<rparr>)"
  by (auto simp: retry_pause_def bindM_run sleep_for_run)

lemma has_statusI: "p \<in> set (purchases d) \<Longrightarrow> pu_id p = i \<Longrightarrow> pu_status p \<in> S \<Longrightarrow> has_status i S d"
  by (auto simp: has_status_def list_ex_iff)

lemma replaced_row_in: "p \<in> set rows \<Longrightarrow> k p = k q \<Longrightarrow> q \<in> set (replace_row k q rows)"
  by (auto simp: replace_row_def in_update_rows)

lemma svc_mark_delivered_run:
  assumes "db_ok (db w)" and "svc_mark_delivered i url w = (r, w')"
  shows "evolves (db w) (db w') \<and> effects w' = effects w \<and> redis w' = redis w
     \<and> (paid_for i (db w) \<longrightarrow> settled i (db w'))"
proof -
  obtain r' d where run: "mark_delivered (clock w) i url None (db w) = (r', d)"
    by (cases "mark_delivered (clock w) i url None (db w)")
  have w': "w' = w \<or> w' = w\<lparr>db := d\<rparr>" and ev: "evolves (db w) d"
    using assms(2) run alongD_eq [OF mark_delivered_evolves run]
    by (auto simp: svc_mark_delivered_def in_uow_run split: sum.splits)
  have "paid_for i (db w) \<longrightarrow> settled i (db w')"
  proof
    assume paid: "paid_for i (db w)"
    obtain p where p: "p \<in> set (purchases (db w))" "pu_id p = i" "pu_status p \<in> {PAID, DELIVERED, REFUNDED}"
      using paid by (auto simp: has_status_def list_ex_iff)
    let ?q = "delivered_version (clock w) url None p"
    note run = mark_delivered_run [OF assms(1) p(1), of "clock w" url None]
    show "settled i (db w')"
    proof (cases "pu_status p = PAID")
      case True
      then have "purchases (db w') = replace_row pu_id ?q (purchases (db w))"
        using run p(2) assms(2) by (auto simp: svc_mark_delivered_def in_uow_run)
      then show ?thesis
        using p(2) replaced_row_in [OF p(1), of pu_id ?q]
        by (intro has_statusI [of ?q]) (simp_all add: delivered_version_def)
    next
      case False
      then show ?thesis
        using run p assms(2) by (auto simp: svc_mark_delivered_def in_uow_run intro!: has_statusI [of p])
    qed
  qed
  moreover have "evolves (db w) (db w')" using w' ev evolves.R_refl by auto
  ultimately show ?thesis using w' by auto
qed

lemma attempt_send_sent:
  assumes "attempt_send E (delivery_message_for c i again) w = (r, w')"
  shows "db w' = db w \<and> redis w' = redis w \<and> (\<exists>f. r = Inr f)
     \<and> sent_links i w' = sent_links i w + (if r = Inr None \<and> \<not> again then 1 else 0)"
  using assms by (auto simp: attempt_send_run after_request_def sent_links_def sends_link_def delivery_message_for_def
      split: option.splits)

lemma unique_status:
  assumes "db_ok d" and "p \<in> set (purchases d)" and "has_status (pu_id p) S d"
  shows "pu_status p \<in> S"
  using assms purchase_found_by_id [OF assms(1)] unfolding has_status_def list_ex_iff by (metis option.inject)

subsubsection \<open>The points of a delivery\<close>

lemma load_works:
  assumes "deliver_body_task E i again again = Await k" and "delivery_inv i (Some (Loading again)) w" and "k w = (t, w')"
  shows "\<exists>q. stands_at E i q t \<and> delivery_inv i (Some q) w' \<and> redis w' = redis w"
proof -
  obtain r v where load: "load_context i w = (r, v)" by (cases "load_context i w")
  note read = load_context_reads [OF load]
  have t: "w' = w" "t = (case r of Inl e \<Rightarrow> Done (Inl e) | Inr c \<Rightarrow>
      if pu_status (cx_purchase c) = DELIVERED \<and> \<not> again
      then Done (Inr \<lparr>res_status = ALREADY_DELIVERED, res_purchase_id = i, res_attempts = 0, res_error = None\<rparr>)
      else if \<not> grants_access (cx_purchase c)
      then Done (Inl (conflict ''Only a paid purchase can be delivered'' i (pu_status (cx_purchase c))))
      else bindT (send_task E (delivery_message_for c i again)) (record_task i c))"
    using assms(1,3) load read by (auto simp: deliver_body_task_def bindT_atomic Let_def split: sum.splits)
  show ?thesis
  proof (cases "\<exists>r'. t = Done r'")
    case True
    then show ?thesis
      using assms(2) t(1) stands_at.leaves by (auto simp: delivery_inv_def intro!: exI [of _ Leaving])
  next
    case False
    then obtain c where c: "r = Inr c" "grants_access (cx_purchase c)" "again \<or> pu_status (cx_purchase c) = PAID"
        "t = bindT (send_task E (delivery_message_for c i again)) (record_task i c)"
      using t(2) by (cases r; cases "pu_status (cx_purchase (projr r))") (auto simp: grants_access_def split: if_splits)
    have "stands_at E i (Sending again) t"
      unfolding c(4) send_task_def by (rule stands_at.sends) (rule c(3))
    moreover have "delivery_inv i (Some (Sending again)) w"
    proof -
      have p: "cx_purchase c \<in> set (purchases (db w))" "pu_id (cx_purchase c) = i" using read c(1) by simp_all
      have inv: "db_ok (db w)" "sent_links i w \<le> 1" "sent_links i w = 1 \<longrightarrow> settled i (db w)"
        using assms(2) by (simp_all add: delivery_inv_def)
      have "\<not> settled i (db w) \<and> paid_for i (db w)" if "\<not> again"
        using \<open>\<not> again\<close> c(3) p unique_status [OF inv(1) p(1), of "{DELIVERED, REFUNDED}"]
        by (auto simp: has_status_def list_ex_iff)
      with inv show ?thesis unfolding delivery_inv_def by (cases "sent_links i w"; cases again) auto
    qed
    ultimately show ?thesis using t(1) by blast
  qed
qed

lemma send_turn:
  assumes "bindT (send_loop_task E msg n a le) (record_task i c) = Await k" and "k w = (t, w')"
    and "msg = delivery_message_for c i again"
  obtains (sent) "attempt_send E msg w = (Inr None, w')" "t = record_task i c \<lparr>res_status = SENT,
        res_purchase_id = dm_purchase_id msg, res_attempts = a, res_error = None\<rparr>"
  | (gave_up) e r where "attempt_send E msg w = (Inr (Some e), w')" "t = Done r"
  | (retries) e m where "attempt_send E msg w = (Inr (Some e), w')"
      "t = bindT (bindT (atomic (retry_pause E a e)) (\<lambda>_. send_loop_task E msg m (Suc a) (Some (exn_message e))))
         (record_task i c)"
proof (cases n)
  case 0
  then show thesis using assms(1) by (simp add: record_task_def exhausted_def)
next
  case (Suc m)
  obtain f v where att: "attempt_send E msg w = (Inr f, v)"
    using attempt_send_sent assms(3) by (metis prod.exhaust)
  have "v = w'" using assms(1,2) Suc att by (auto simp: bindT_atomic bindT_Await)
  with att assms(1,2) Suc sent gave_up retries show thesis
    by (cases f) (auto simp: bindT_atomic bindT_Await record_task_def exhausted_def split: if_splits)
qed

lemma send_works:
  assumes "bindT (send_loop_task E (delivery_message_for c i again) n a le) (record_task i c) = Await k"
    and "again \<or> pu_status (cx_purchase c) = PAID"
    and "delivery_inv i (Some (Sending again)) w" and "k w = (t, w')"
  shows "\<exists>q. stands_at E i q t \<and> delivery_inv i (Some q) w' \<and> redis w' = redis w"
  using assms(1,4) refl
proof (cases rule: send_turn)
  case sent
  note w' = attempt_send_sent [OF sent(1)]
  show ?thesis
  proof (cases "pu_status (cx_purchase c) = DELIVERED")
    case True
    then have "stands_at E i Leaving t" using sent(2) stands_at.leaves by (simp add: record_task_def)
    moreover have "delivery_inv i (Some Leaving) w'" using assms(2,3) w' True by (auto simp: delivery_inv_def)
    ultimately show ?thesis using w' by auto
  next
    case False
    then have "stands_at E i (Marking again) t" using sent(2) stands_at.records by (simp add: record_task_def)
    moreover have "delivery_inv i (Some (Marking again)) w'" using assms(3) w' by (auto simp: delivery_inv_def)
    ultimately show ?thesis using w' by auto
  qed
next
  case (gave_up e r)
  note w' = attempt_send_sent [OF gave_up(1)]
  have "delivery_inv i (Some Leaving) w'" using assms(3) w' by (auto simp: delivery_inv_def)
  then show ?thesis using gave_up(2) stands_at.leaves w' by auto
next
  case (retries e m)
  note w' = attempt_send_sent [OF retries(1)]
  have "stands_at E i (Sending again) t" unfolding retries(2) by (rule stands_at.pauses) (rule assms(2))
  moreover have "delivery_inv i (Some (Sending again)) w'" using assms(3) w' by (auto simp: delivery_inv_def)
  ultimately show ?thesis using w' by auto
qed

lemma delivery_works:
  assumes "stands_at E i p (Await k)" and "delivery_inv i (Some p) w" and "k w = (t, w')"
  shows "\<exists>q. stands_at E i q t \<and> delivery_inv i (Some q) w' \<and> redis w' = redis w"
  using assms(1)
proof (cases rule: stands_at.cases)
  case (loads again)
  with load_works [of E i again k w t w'] assms show ?thesis by simp
next
  case (sends again c n le_k le)
  with send_works [of E c i again n le_k le k w t w'] assms show ?thesis by simp
next
  case (pauses again c a e n l le)
  obtain x where run: "retry_pause E a e w = (Inr (), w\<lparr>clock := clock w + max 0 (microseconds x),
      effects := effects w @ [(Slept x, True)]\<rparr>)" using retry_pause_run by blast
  then have "t = bindT (send_loop_task E (delivery_message_for c i again) n l le) (record_task i c)"
    and w': "w' = w\<lparr>clock := clock w + max 0 (microseconds x), effects := effects w @ [(Slept x, True)]\<rparr>"
    using pauses(2) assms(3) by (auto simp: bindT_atomic bindT_Await)
  then have "stands_at E i (Sending again) t" using stands_at.sends [OF pauses(3)] by simp
  moreover have "delivery_inv i (Some (Sending again)) w'"
    using assms(2) pauses(1) w' by (auto simp: delivery_inv_def sent_links_def sends_link_def)
  ultimately show ?thesis using w' by auto
next
  case (records again url outcome)
  obtain r v where run: "svc_mark_delivered i url w = (r, v)" by (cases "svc_mark_delivered i url w")
  have inv: "db_ok (db w)" "sent_links i w \<le> 1" "sent_links i w = 1 \<longrightarrow> settled i (db w) \<or> \<not> again"
      "\<not> again \<longrightarrow> paid_for i (db w)"
    using assms(2) records(1) by (auto simp: delivery_inv_def)
  note marked = svc_mark_delivered_run [OF inv(1) run]
  have t: "w' = v" "\<exists>r'. t = Done r'" using records(2) assms(3) run by (auto simp: bindT_atomic split: sum.splits)
  have "delivery_inv i (Some Leaving) v"
    using inv marked settled_stable [of "db w" "db v" i] sent_links_same [of v w i]
    by (auto simp: delivery_inv_def evolves_def)
  then show ?thesis using t marked stands_at.leaves by auto
qed

lemma delivery_inv_enter: "delivery_inv i None w \<Longrightarrow> delivery_inv i (Some (Loading again)) w"
  by (simp add: delivery_inv_def)

interpretation deliveries: critical_section E "delivery_lock_key i" None None "delivery_bodies E i" "others_do i"
  "stands_at E i" "delivery_inv i" for E i
proof unfold_locales
  fix b p x k t r and w w' :: world
  show "delivery_bodies E i b \<Longrightarrow> delivery_inv i None w \<Longrightarrow> \<exists>p. stands_at E i p b \<and> delivery_inv i (Some p) w"
    unfolding delivery_bodies_def using delivery_inv_enter stands_at.loads by blast
  show "stands_at E i p (Await k) \<Longrightarrow> delivery_inv i (Some p) w \<Longrightarrow> k w = (t, w') \<Longrightarrow>
      \<exists>q. stands_at E i q t \<and> delivery_inv i (Some q) w'
        \<and> redis w' (lock_name (delivery_lock_key i)) = redis w (lock_name (delivery_lock_key i))"
    using delivery_works [of E i p k w t w'] by auto
  show "stands_at E i p (Done r) \<Longrightarrow> delivery_inv i (Some p) w \<Longrightarrow> delivery_inv i None w"
    by (erule stands_at.cases)
      (auto simp: delivery_inv_def deliver_body_task_def bindT_atomic bindT_Await)
  show "delivery_inv i x w \<Longrightarrow> db w' = db w \<Longrightarrow> effects w' = effects w \<Longrightarrow> delivery_inv i x w'"
    by (simp add: delivery_inv_def sent_links_def)
  show "delivery_inv i x w \<Longrightarrow> others_do i w w' \<Longrightarrow> delivery_inv i x w'"
    by (simp add: others_do_def delivery_inv_evolves)
qed

text \<open>
  C6. Concurrent deliveries send the link once. Let any number of deliveries and redeliveries of one purchase
  arrive at any time, from any process, and interleave at every await, with each other and with anything
  the rest of the shop does to the database. If every holder of the delivery lock releases it before its
  lease runs out, the buyer gets the first delivery at most once; and when all of them have ended and
  it was sent, the purchase is recorded as delivered (or was refunded meanwhile).
\<close>

theorem deliveries_send_once:
  assumes "lock_run E (delivery_lock_key i) None None (delivery_bodies E i) (others_do i) w ts v"
    and "db_ok (db w)" and "sent_links i w = 0"
  shows "sent_links i v \<le> 1 \<and> (sent_links i v = 1 \<and> list_all is_done ts \<longrightarrow> settled i (db v))"
proof -
  have "delivery_inv i None w" using assms(2,3) by (simp add: delivery_inv_def)
  from deliveries.run_invariant [OF assms(1) this] show ?thesis unfolding delivery_inv_def by blast
qed

definition two_deliveries :: "env \<Rightarrow> (world, delivery_result) task list" where
  "two_deliveries E = [deliver_task E 10 False False, deliver_task E 10 False False]"

lemma two_deliveries_start:
  assumes "in_time (delivery_lock_key 10) w"
  shows "lock_run E (delivery_lock_key 10) None None (delivery_bodies E 10) (others_do 10) w (two_deliveries E) w"
proof -
  have b: "delivery_bodies E 10 (deliver_body_task E 10 False False)" by (auto simp: delivery_bodies_def)
  let ?run = "lock_run E (delivery_lock_key 10) None None (delivery_bodies E 10) (others_do 10) w"
  let ?t = "lock_task E (delivery_lock_key 10) None None (deliver_body_task E 10 False False)"
  have "?run [] w" using assms by (rule lock_run.begins)
  then have "?run ([] @ [?t]) w" using b by (rule lock_run.arrives)
  then have "?run (([] @ [?t]) @ [?t]) w" using b by (rule lock_run.arrives)
  then show ?thesis by (simp add: two_deliveries_def deliver_task_def)
qed

text \<open>A small installation in which every request of Telegram takes no time, with and without flood control.\<close>

definition flood_control :: exn where
  "flood_control = (other_exn TelegramRetryAfter ''Too Many Requests'')\<lparr>exn_retry_after := Some 90\<rparr>"

definition flooded_env :: env where
  \<comment> \<open>the first message meets flood control for ninety seconds\<close>
  "flooded_env = sample_env\<lparr>env_telegram := (\<lambda>n _. if n = 0 then Some flood_control else None)\<rparr>"

lemma flood_control_simps:
  "isinstance (to_delivery_error flood_control) DeliveryPermanentError = False"
  "exn_retry_after (to_delivery_error flood_control) = Some 90"
  by (simp_all add: flood_control_def to_delivery_error_def isinstance_def flood_wait_def transient_error_def)

lemma small_env:
  assumes "E \<in> {sample_env, flooded_env}"
  shows "env_uuid4 E = (\<lambda>n. of_nat (n + 1000))" and "env_latency E = (\<lambda>_. 0)" and "env_jitter E = (\<lambda>_. 1 / 2)"
    and "delivery_conf E = default_delivery" and "millis (lock_ttl E None) = 60000"
    and "microseconds (lock_wait E None) = 0"
  using assms by (auto simp: flooded_env_def sample_env_def delivery_conf_def sample_settings_def lock_ttl_def
      lock_wait_def millis_def microseconds_def)

lemma small_numbers:
  "acquire_turns 0 = Suc (Suc 0)" "dl_max_attempts default_delivery = Suc (Suc (Suc (Suc 0)))"
  "backoff default_delivery (1 / 2) (Suc 0) (Some 90) = 90" "microseconds 90 = 90000000"
  by (simp_all add: acquire_turns_def default_delivery_def backoff_def backoff_nominal_def microseconds_def)

lemma sample_load:
  "db w = sample_db [sample_purchase PAID] \<Longrightarrow> load_context 10 w = (Inr
     \<lparr>cx_purchase = sample_purchase PAID, cx_product = sample_product, cx_user = sample_user\<rparr>, w)"
  by (simp add: load_context_def in_uow_run context_tx_def bindM_run purchase_get_def product_get_def user_get_def
      get_by_key_def purchase_or_404_def product_or_404_def sample_db_def sample_purchase_def sample_product_def
      sample_user_def)

lemma sample_mark:
  assumes "db w = sample_db [sample_purchase PAID]"
  shows "svc_mark_delivered 10 url w = (Inr (delivered_version (clock w) url None (sample_purchase PAID)),
     w\<lparr>db := sample_db [delivered_version (clock w) url None (sample_purchase PAID)]\<rparr>)"
  using mark_delivered_run [of "db w" "sample_purchase PAID" "clock w" url None]
  by (simp add: svc_mark_delivered_def in_uow_run assms sample_db_def [of "[sample_purchase PAID]"]
      sample_db_ok [unfolded sample_db_def] replace_row_def)

lemmas delivery_turns = deliver_task_def two_deliveries_def resume_lock resume_bindT resume_finallyT
  sample_load sample_mark send_task_def attempt_send_run retry_pause_def bindM_run sleep_for_run after_request_def entry_live_def
  flood_control_simps small_numbers r_get_def now_ms_def deliver_body_task_def Let_def sent_links_def
  sends_link_def delivery_message_for_def

text \<open>
  The lease is too short: a holder that waits out the flood control of Telegram loses its lease, the
  next delivery finds the purchase still paid, and the buyer gets the link twice.
\<close>

lemma short_lease_sends_twice:
  "sent_links 10 (snd (turns [0, 0, 0, 0, 0, 0, 1, 1, 1, 1, 1, 0]
     (two_deliveries flooded_env, sample_world [sample_purchase PAID]))) = 2"
proof -
  have "env_telegram flooded_env n eff = (if n = 0 then Some flood_control else None)" for n eff
    by (simp add: flooded_env_def)
  then show ?thesis
    by (simp add: delivery_turns small_env [of flooded_env] del: acquire_task.simps)
qed

theorem deliveries_send_once_witness:
  "\<exists>ts v. turns [0, 0, 0, 1, 1, 0, 1, 0, 0, 0] (two_deliveries sample_env, sample_world [sample_purchase PAID]) = (ts, v)
     \<and> sent_links 10 v = 1 \<and> list_all is_done ts \<and> settled 10 (db v)"
proof -
  have telegram: "env_telegram sample_env n eff = None" for n eff by (simp add: sample_env_def)
  let ?P = "(two_deliveries sample_env, sample_world [sample_purchase PAID])"
  let ?is = "[0, 0, 0, 1, 1, 0, 1, 0, 0, 0]"
  obtain ts v where run: "turns ?is ?P = (ts, v)" by (cases "turns ?is ?P")
  note steps = delivery_turns telegram small_env [of sample_env] record_task_def
  have "sent_links 10 (snd (turns ?is ?P)) = 1" and "list_all is_done (fst (turns ?is ?P))"
    by (simp_all add: steps del: acquire_task.simps)
  then have sent: "sent_links 10 v = 1" "list_all is_done ts" unfolding run by simp_all
  have "keeps_time (delivery_lock_key 10) ?is ?P"
    by (simp add: steps in_time_def r_release_script_def r_del_def del: acquire_task.simps)
  moreover have "in_time (delivery_lock_key 10) (sample_world [sample_purchase PAID])" by (simp add: in_time_def)
  ultimately have "lock_run sample_env (delivery_lock_key 10) None None (delivery_bodies sample_env 10)
      (others_do 10) (sample_world [sample_purchase PAID]) ts v"
    using lock_run_turns [OF two_deliveries_start _ run] by blast
  then have "settled 10 (db v)" using deliveries_send_once sent by (force simp: sent_links_def)
  with run sent show ?thesis by blast
qed

subsection \<open>Token rotation\<close>

definition refresh_task :: "env \<Rightarrow> string \<Rightarrow> (world, token_pair) task" where
  \<comment> \<open>\<open>AuthService.refresh\<close>: one request to Redis looks the token up, a second one revokes it\<close>
  "refresh_task E token =
     bindT (atomic (authenticate E token REFRESH)) (\<lambda>a.
     bindT (atomic (auth_revoke E (ai_token_id a) REFRESH)) (\<lambda>_. atomic (issue_pair E (ai_username a))))"

lemma refresh_task_run: "run_task (refresh_task E token) = auth_refresh E token"
  by (simp add: refresh_task_def auth_refresh_def run_bindT_fun thenM_def)

fun result :: "('s, 'a) task \<Rightarrow> (exn + 'a) option" where
  "result (Done r) = Some r"
| "result (Await k) = None"

lemma issue_pair_total: "\<exists>pair v. issue_pair E u w = (Inr pair, v)"
  by (simp add: issue_pair_def encode_token_def utc_now_def bindM_run new_uuid_def)

text \<open>
  The look-up and the revocation are two requests, and the revocation does not look: two rotations of
  one good refresh token that look it up before either has revoked it both get a new pair. Whatever is
  sequential is safe (\<open>refresh_token_works_once\<close>).
\<close>

lemma concurrent_refreshes_both_succeed:
  assumes "authenticate E token REFRESH w = (Inr a, w)"
  shows "\<exists>p q. map result (fst (turns [0, 1, 0, 1, 0, 1] ([refresh_task E token, refresh_task E token], w)))
     = [Some (Inr p), Some (Inr q)]"
proof -
  obtain f where revoke: "auth_revoke E (ai_token_id a) REFRESH v = (Inr (), f v)" for v
    by (auto simp: auth_revoke_def revoke_def)
  obtain pair g where issue: "issue_pair E (ai_username a) v = (Inr (pair v), g v)" for v
    using issue_pair_total [of E "ai_username a"] by metis
  show ?thesis by (simp add: refresh_task_def assms revoke issue)
qed

lemma late_refresh_fails:
  \<comment> \<open>a rotation that looks the token up after another one has revoked it gets nothing\<close>
  assumes "authenticate E token REFRESH w = (Inr a, w)"
  shows "\<exists>p e. map result (fst (turns [0, 0, 1, 0] ([refresh_task E token, refresh_task E token], w)))
     = [Some (Inr p), Some (Inl e)] \<and> exn_cls e = InvalidTokenError"
proof -
  obtain u where revoke: "auth_revoke E (ai_token_id a) REFRESH w = (Inr (), u)" by (simp add: auth_revoke_def revoke_def)
  note acc = authenticate_run [OF assms]
  obtain r v where auth: "authenticate E token REFRESH u = (r, v)" by (cases "authenticate E token REFRESH u")
  have "\<not> token_accepted E token REFRESH u i" for i
    using acc revoke by (auto simp: token_accepted_def auth_revoke_def revoke_def r_set_px_def r_get_def entry_live_def
        split: sum.splits)
  then obtain e where r: "r = Inl e" "exn_cls e = InvalidTokenError" "v = u"
    using authenticate_run [OF auth] by (auto split: sum.splits)
  obtain pair g where issue: "issue_pair E (ai_username a) x = (Inr (pair x), g x)" for x
    using issue_pair_total [of E "ai_username a"] by metis
  show ?thesis by (simp add: refresh_task_def assms revoke auth r issue)
qed

end
