(* ===== verification/Scripts.thy ===== *)
theory Scripts
  imports Settings
begin

section \<open>The migration environment and the schema export\<close>

text \<open>
  \<^verbatim>\<open>alembic/env.py\<close>: where the migrations find their database, and the calls of Alembic and SQLAlchemy they
  run through, offline and online; what a call answers is a parameter, and the calls made are the
  state. \<^verbatim>\<open>scripts/export_openapi.py\<close>: the placeholder settings the schema is generated with.
\<close>

subsection \<open>The migration environment\<close>

datatype migration_call =
  CreateEngine string
| Connect
| CloseConnection
| DisposeEngine
| ConfigureOffline string
| ConfigureOnline bool
| BeginTransaction
| AdvisoryLock string
| RunMigrations
| Commit
| Rollback

type_synonym 'a migration_step = "(exn, migration_call list, 'a) prog"

definition calls :: "(migration_call \<Rightarrow> exn option) \<Rightarrow> migration_call \<Rightarrow> unit migration_step" where
  "calls A c = (\<lambda>tr. (case A c of None \<Rightarrow> Inr () | Some e \<Rightarrow> Inl e, tr @ [c]))"

definition database_dsn :: "string option \<Rightarrow> exn + settings \<Rightarrow> exn + string" where
  \<comment> \<open>the environment variable first, the validated settings second\<close>
  "database_dsn override loaded = (case override of
      Some dsn \<Rightarrow> if dsn \<noteq> [] then Inr dsn else map_sum id (\<lambda>s. postgres_dsn (cfg_postgres s)) loaded
    | None \<Rightarrow> map_sum id (\<lambda>s. postgres_dsn (cfg_postgres s)) loaded)"

definition begin_transaction :: "(migration_call \<Rightarrow> exn option) \<Rightarrow> unit migration_step \<Rightarrow> unit migration_step" where
  \<comment> \<open>\<open>with context.begin_transaction()\<close>\<close>
  "begin_transaction A body = thenM (calls A BeginTransaction)
     (thenM (catchM body (\<lambda>e. Some (thenM (calls A Rollback) (throw e)))) (calls A Commit))"

definition run_migrations_offline ::
  "(migration_call \<Rightarrow> exn option) \<Rightarrow> exn + string \<Rightarrow> unit migration_step" where
  "run_migrations_offline A dsn = bindM (liftE dsn) (\<lambda>url.
     thenM (calls A (ConfigureOffline url)) (begin_transaction A (calls A RunMigrations)))"

definition do_run_migrations :: "(migration_call \<Rightarrow> exn option) \<Rightarrow> unit migration_step" where
  \<comment> \<open>\<open>ConfigureOnline\<close> carries \<open>transaction_per_migration\<close>\<close>
  "do_run_migrations A = thenM (calls A (ConfigureOnline False))
     (begin_transaction A (thenM (calls A (AdvisoryLock ''tgshop_migrations'')) (calls A RunMigrations)))"

definition run_migrations_online ::
  "(migration_call \<Rightarrow> exn option) \<Rightarrow> exn + string \<Rightarrow> unit migration_step" where
  "run_migrations_online A dsn = bindM (liftE dsn) (\<lambda>url.
     thenM (calls A (CreateEngine url))
       (finallyM (thenM (calls A Connect) (finallyM (do_run_migrations A) (calls A CloseConnection)))
          (calls A DisposeEngine)))"

definition env_main ::
  "(migration_call \<Rightarrow> exn option) \<Rightarrow> bool \<Rightarrow> string option \<Rightarrow> exn + settings \<Rightarrow> unit migration_step" where
  \<comment> \<open>the last lines of the file\<close>
  "env_main A offline override loaded =
     (if offline then run_migrations_offline A (database_dsn override loaded)
      else run_migrations_online A (database_dsn override loaded))"

lemma calls_run: "calls A c tr = (case A c of None \<Rightarrow> (Inr (), tr @ [c]) | Some e \<Rightarrow> (Inl e, tr @ [c]))"
  by (simp add: calls_def split: option.split)

lemmas env_runs = env_main_def run_migrations_online_def run_migrations_offline_def do_run_migrations_def
  begin_transaction_def calls_run bindM_run thenM_run finallyM_run catchM_run

definition locked_run :: "migration_call list" where
  "locked_run = [ConfigureOnline False, BeginTransaction, AdvisoryLock ''tgshop_migrations'', RunMigrations]"

text \<open>
  Online, the migrations run in one transaction that has taken the advisory lock first, and the
  engine is disposed of whatever fails once it exists; offline, nothing connects to a database.
\<close>

lemma online_takes_the_lock_first:
  assumes "snd (env_main A False override loaded []) = tr" and "RunMigrations \<in> set tr"
  shows "\<exists>url rest. tr = CreateEngine url # Connect # locked_run @ rest \<and> set rest \<subseteq> {Commit, Rollback, CloseConnection, DisposeEngine}"
  using assms by (auto simp: env_runs locked_run_def split: sum.splits option.splits)

lemma online_disposes:
  assumes "env_main A False override loaded [] = (r, tr)" and "A (CreateEngine url) = None"
    and "database_dsn override loaded = Inr url"
  shows "last tr = DisposeEngine \<and> count_list tr DisposeEngine = 1 \<and> count_list tr Connect = 1"
  using assms by (auto simp: env_runs split: sum.splits option.splits)

lemma offline_connects_to_nothing:
  assumes "env_main A True override loaded [] = (r, tr)"
  shows "set tr \<inter> {Connect, AdvisoryLock x} = {} \<and> (\<forall>url. CreateEngine url \<notin> set tr)"
  using assms by (auto simp: env_runs split: sum.splits option.splits)

lemma online_success:
  assumes "env_main A False override loaded [] = (Inr (), tr)"
  shows "\<exists>url. database_dsn override loaded = Inr url
     \<and> tr = CreateEngine url # Connect # locked_run @ [Commit, CloseConnection, DisposeEngine]"
  using assms by (auto simp: env_runs locked_run_def split: sum.splits option.splits)

subsection \<open>The schema export\<close>

definition openapi_placeholder :: settings where
  "openapi_placeholder = \<lparr>
     cfg_app = \<lparr>app_name = ''Telegram Digital Shop'', app_environment = LOCAL, app_debug = False,
        app_log_level = INFO, app_log_format = CONSOLE_FORMAT, app_api_prefix = ''/api/v1'',
        app_docs_enabled = True, app_host = ''0.0.0.0'', app_port = 8000\<rparr>,
     cfg_postgres = \<lparr>pg_host = ''postgres'', pg_port = 5432, pg_user = ''schema'', pg_password = ''schema'',
        pg_db = ''schema'', pg_pool_size = 10, pg_max_overflow = 10, pg_pool_timeout = 30,
        pg_pool_recycle = 1800, pg_echo = False\<rparr>,
     cfg_redis = \<lparr>rs_host = ''redis'', rs_port = 6379, rs_db = 0, rs_password = None,
        rs_max_connections = 20, rs_socket_timeout = 5, rs_lock_ttl_seconds = 45,
        rs_lock_wait_seconds = 0\<rparr>,
     cfg_telegram = \<lparr>tg_bot_token = ''123456789:AAHschema-only-token_for_openapi_export01'',
        tg_bot_username = ''SchemaBot'', tg_use_webhook = False, tg_webhook_base_url = None,
        tg_webhook_path = ''/webhook/telegram'', tg_webhook_secret = ''schema-only-webhook-secret'',
        tg_drop_pending_updates = True\<rparr>,
     cfg_cryptobot = \<lparr>cb_api_token = ''1:schema'', cb_network = MAINNET, cb_asset = ''USDT'',
        cb_invoice_ttl_seconds = 1800, cb_request_timeout = 15, cb_webhook_path = ''/webhook/cryptobot''\<rparr>,
     cfg_bot = \<lparr>bot_webhook_host = ''0.0.0.0'', bot_webhook_port = 8081, bot_throttle_seconds = 3 / 2,
        bot_reconciliation_interval_seconds = 60, bot_reconciliation_batch_size = 50,
        bot_housekeeping_interval_seconds = 300\<rparr>,
     cfg_delivery = default_delivery,
     cfg_security = \<lparr>sec_jwt_secret = replicate 48 (CHR ''s''),
        sec_access_token_ttl_minutes = 15, sec_refresh_token_ttl_days = 14,
        sec_admin_username = ''schema'', sec_admin_password = ''schema-password'',
        sec_login_rate_limit = 10, sec_login_rate_window_seconds = 300, sec_cookie_secure = True,
        sec_cookie_name = ''tgshop_refresh'', sec_cors_origins = []\<rparr>\<rparr>"

text \<open>The export cannot fail on its own settings: the placeholders pass every validator unchanged.\<close>

lemma openapi_placeholder_is_valid: "get_settings openapi_placeholder = Inr openapi_placeholder"
  by code_simp

end
