(* ===== verification/Mappers.thy ===== *)
theory Mappers
  imports Domain
begin

section \<open>Rows of the ORM and entities\<close>

text \<open>
  \<^verbatim>\<open>infrastructure/db/mappers.py\<close>: from the mapped classes of \<^verbatim>\<open>models.py\<close> to the entities of the domain. The
  mapping copies every column under its own name and loses none, which is why the tables of the theory
  \<open>Schema\<close> can hold the entities themselves.
\<close>

record orm_product =
  om_id :: uuid
  om_slug :: string
  om_title :: string
  om_description :: string
  om_photo_file_id :: "string option"
  om_delivery_url :: string
  om_price_stars :: "int option"
  om_price_usdt :: "rat option"
  om_is_active :: bool
  om_created_at :: datetime
  om_updated_at :: datetime

record orm_user =
  ou_telegram_id :: int
  ou_username :: "string option"
  ou_first_name :: "string option"
  ou_language_code :: "string option"
  ou_created_at :: datetime
  ou_last_seen_at :: datetime

record orm_purchase =
  op_id :: uuid
  op_user_id :: int
  op_product_id :: uuid
  op_provider :: payment_provider
  op_status :: purchase_status
  op_amount :: rat
  op_currency :: currency_t
  op_external_id :: string
  op_telegram_charge_id :: "string option"
  op_delivered_url :: "string option"
  op_created_at :: datetime
  op_paid_at :: "datetime option"
  op_delivered_at :: "datetime option"

definition to_product :: "orm_product \<Rightarrow> product" where
  "to_product model =
     \<lparr>pr_id = om_id model, pr_slug = om_slug model, pr_title = om_title model,
      pr_description = om_description model, pr_photo_file_id = om_photo_file_id model,
      pr_delivery_url = om_delivery_url model, pr_price_stars = om_price_stars model,
      pr_price_usdt = om_price_usdt model, pr_is_active = om_is_active model,
      pr_created_at = om_created_at model, pr_updated_at = om_updated_at model\<rparr>"

definition to_user :: "orm_user \<Rightarrow> user" where
  "to_user model =
     \<lparr>us_telegram_id = ou_telegram_id model, us_username = ou_username model,
      us_first_name = ou_first_name model, us_language_code = ou_language_code model,
      us_created_at = ou_created_at model, us_last_seen_at = ou_last_seen_at model\<rparr>"

definition to_purchase :: "orm_purchase \<Rightarrow> purchase" where
  "to_purchase model =
     \<lparr>pu_id = op_id model, pu_user_id = op_user_id model, pu_product_id = op_product_id model,
      pu_provider = op_provider model, pu_status = op_status model, pu_amount = op_amount model,
      pu_currency = op_currency model, pu_external_id = op_external_id model,
      pu_telegram_charge_id = op_telegram_charge_id model, pu_delivered_url = op_delivered_url model,
      pu_created_at = op_created_at model, pu_paid_at = op_paid_at model,
      pu_delivered_at = op_delivered_at model\<rparr>"

definition to_record :: "orm_purchase \<Rightarrow> orm_user \<Rightarrow> orm_product \<Rightarrow> purchase_record" where
  "to_record p u q = \<lparr>rec_purchase = to_purchase p, rec_user = to_user u, rec_product = to_product q\<rparr>"

definition row_of_product :: "product \<Rightarrow> orm_product" where
  "row_of_product x =
     \<lparr>om_id = pr_id x, om_slug = pr_slug x, om_title = pr_title x, om_description =
      pr_description x, om_photo_file_id = pr_photo_file_id x, om_delivery_url =
      pr_delivery_url x, om_price_stars = pr_price_stars x, om_price_usdt = pr_price_usdt x,
      om_is_active = pr_is_active x, om_created_at = pr_created_at x, om_updated_at =
      pr_updated_at x\<rparr>"

definition row_of_user :: "user \<Rightarrow> orm_user" where
  "row_of_user x =
     \<lparr>ou_telegram_id = us_telegram_id x, ou_username = us_username x, ou_first_name =
      us_first_name x, ou_language_code = us_language_code x, ou_created_at = us_created_at x,
      ou_last_seen_at = us_last_seen_at x\<rparr>"

definition row_of_purchase :: "purchase \<Rightarrow> orm_purchase" where
  "row_of_purchase x =
     \<lparr>op_id = pu_id x, op_user_id = pu_user_id x, op_product_id = pu_product_id x, op_provider
      = pu_provider x, op_status = pu_status x, op_amount = pu_amount x, op_currency =
      pu_currency x, op_external_id = pu_external_id x, op_telegram_charge_id =
      pu_telegram_charge_id x, op_delivered_url = pu_delivered_url x, op_created_at =
      pu_created_at x, op_paid_at = pu_paid_at x, op_delivered_at = pu_delivered_at x\<rparr>"

text \<open>No column is lost and no entity is out of reach: rows and entities correspond one to one.\<close>

lemma mappers_invert:
  "to_product (row_of_product x) = x" "row_of_product (to_product m) = m"
  "to_user (row_of_user u) = u" "row_of_user (to_user n) = n"
  "to_purchase (row_of_purchase p) = p" "row_of_purchase (to_purchase k) = k"
  by (simp_all add: to_product_def row_of_product_def to_user_def row_of_user_def to_purchase_def row_of_purchase_def)

end
