(* ===== verification/BotRouting.thy ===== *)
theory BotRouting
  imports System
begin

section \<open>Which handler an update reaches\<close>

text \<open>
  The routers of \<^verbatim>\<open>bot/handlers/start.py\<close> and \<^verbatim>\<open>bot/handlers/payments.py\<close> in the order
  \<^verbatim>\<open>bot/factory.py\<close> includes them: an update goes to the first handler whose filters all accept it, and to
  none when there is none. The filters of aiogram that parse are parameters: \<open>CommandStart\<close> with its
  \<open>deep_link\<close> argument, and the codec of \<open>CallbackData\<close>. The \<open>bot_update\<close> of the theory \<open>Bot\<close> is what a
  handler gets.
\<close>

subsection \<open>Updates\<close>

record tg_user =
  tu_id :: int
  tu_username :: "string option"
  tu_first_name :: string
  tu_language_code :: "string option"

record tg_message =
  tm_chat_id :: int
  tm_chat_type :: string
  tm_from_user :: tg_user
  tm_text :: "string option"
  tm_successful_payment :: "(string \<times> string) option"
  tm_refunded_payment :: "string option"

datatype tg_update =
  TgMessage tg_message
| TgCallbackQuery tg_user "string option"
| TgPreCheckoutQuery string
| TgOther

record aiogram =
  ag_command_start :: "bool \<Rightarrow> string \<Rightarrow> string option option"
  ag_unpack :: "string \<Rightarrow> pay_callback option"

subsection \<open>The routers\<close>

definition profile_of :: "tg_user \<Rightarrow> user_draft" where
  \<comment> \<open>\<open>_profile\<close>\<close>
  "profile_of user = \<lparr>ud_telegram_id = tu_id user, ud_username = tu_username user,
     ud_first_name = Some (tu_first_name user), ud_language_code = tu_language_code user\<rparr>"

definition start_router :: "aiogram \<Rightarrow> (tg_message \<Rightarrow> bot_update option) list" where
  "start_router G =
     (let private = (\<lambda>m. tm_chat_type m = ''private'');
          command = (\<lambda>deep m. case tm_text m of None \<Rightarrow> None | Some t \<Rightarrow> ag_command_start G deep t) in
      [\<lambda>m. case command False m of
          Some _ \<Rightarrow> if private m then Some (StartPlain (tm_chat_id m) (tu_id (tm_from_user m))) else None
        | None \<Rightarrow> None,
       \<lambda>m. case command True m of
          Some args \<Rightarrow> if private m then Some (StartDeepLink (tm_chat_id m) (profile_of (tm_from_user m)) args) else None
        | None \<Rightarrow> None])"

definition payments_router :: "(tg_message \<Rightarrow> bot_update option) list" where
  "payments_router =
     [\<lambda>m. map_option (\<lambda>(inv_id, charge_id).
          SuccessfulPayment (tm_chat_id m) (tu_id (tm_from_user m)) inv_id charge_id) (tm_successful_payment m),
      \<lambda>m. map_option (RefundedPayment (tm_chat_id m) (tu_id (tm_from_user m))) (tm_refunded_payment m)]"

fun first_accepting :: "('m \<Rightarrow> 'u option) list \<Rightarrow> 'm \<Rightarrow> 'u option" where
  "first_accepting [] m = None"
| "first_accepting (h # hs) m = (case h m of Some u \<Rightarrow> Some u | None \<Rightarrow> first_accepting hs m)"

fun route_update :: "aiogram \<Rightarrow> tg_update \<Rightarrow> bot_update option" where
  "route_update G (TgMessage m) = first_accepting (start_router G @ payments_router) m"
| "route_update G (TgCallbackQuery user data) =
     (case data of None \<Rightarrow> None | Some d \<Rightarrow> map_option (PayPressed (tu_id user)) (ag_unpack G d))"
| "route_update G (TgPreCheckoutQuery inv_id) = Some (PreCheckout inv_id)"
| "route_update G TgOther = None"

definition handle_telegram :: "env \<Rightarrow> aiogram \<Rightarrow> tg_update \<Rightarrow> unit action" where
  "handle_telegram E G upd = (case route_update G upd of None \<Rightarrow> ret () | Some u \<Rightarrow> handle_update E u)"

subsection \<open>What they accept\<close>

lemma first_accepting_append:
  "first_accepting (hs @ gs) m = (case first_accepting hs m of Some u \<Rightarrow> Some u | None \<Rightarrow> first_accepting gs m)"
  by (induction hs) (auto split: option.split)

text \<open>Groups get no answer to a command.\<close>

lemma commands_are_private:
  assumes "tm_chat_type m \<noteq> ''private''"
  shows "first_accepting (start_router G) m = None"
  using assms by (simp add: start_router_def Let_def split: option.split)

text \<open>A service message (it has no text) reaches the handler of its payment, in any chat.\<close>

lemma payments_are_routed:
  assumes "tm_text m = None"
  shows "route_update G (TgMessage m) = (case tm_successful_payment m of
      Some (inv_id, charge_id) \<Rightarrow> Some (SuccessfulPayment (tm_chat_id m) (tu_id (tm_from_user m)) inv_id charge_id)
    | None \<Rightarrow> map_option (RefundedPayment (tm_chat_id m) (tu_id (tm_from_user m))) (tm_refunded_payment m))"
  using assms by (simp add: start_router_def payments_router_def Let_def split: option.split prod.split)

text \<open>
  The first handler sees every command \<open>deep_link=False\<close> accepts. A deep link therefore opens a card only if that
  filter refuses a command that has arguments; where it accepts it, every link ends in the same
  text.
\<close>

lemma deep_link_is_routed:
  assumes "tm_chat_type m = ''private''" and "tm_text m = Some t" and "ag_command_start G True t = Some args"
  shows "route_update G (TgMessage m) = Some (case ag_command_start G False t of
      None \<Rightarrow> StartDeepLink (tm_chat_id m) (profile_of (tm_from_user m)) args
    | Some _ \<Rightarrow> StartPlain (tm_chat_id m) (tu_id (tm_from_user m)))"
  using assms by (simp add: start_router_def Let_def split: option.split)

text \<open>A button of a card starts the checkout of the card's product by the rail it names, whatever the codec is.\<close>

lemma buttons_lead_to_checkout:
  assumes "\<And>cb. ag_unpack G (pack cb) = Some cb" and "(label, cb) \<in> set (payment_keyboard crd)"
  shows "route_update G (TgCallbackQuery user (Some (pack cb))) = Some (PayPressed (tu_id user) cb)
     \<and> cbk_product_id cb = pr_id (card_product crd) \<and> label = button_label_of (cbk_provider cb)
     \<and> cbk_provider cb \<in> opt_provider ` set (card_options crd)"
  using assms by (auto simp: payment_keyboard_def)

lemma unrouted_updates_do_nothing: "route_update G upd = None \<Longrightarrow> handle_telegram E G upd w = (Inr (), w)"
  by (simp add: handle_telegram_def)

text \<open>Whatever arrives from Telegram, its effect on the database is a sequence of repository operations.\<close>

lemma telegram_moves_by_repository_steps: "repo_step\<^sup>*\<^sup>* (db w) (db (snd (handle_telegram E G upd w)))"
  using stepwise.entry_moves [of w E "BotUpdate u" for u]
  by (auto simp: handle_telegram_def split: option.split)

end
